(* ===== verification/Prelude.thy ===== *)
theory Prelude
  imports Main "HOL-Library.List_Lexorder" "HOL-Library.Char_ord" "HOL-Library.Product_Lexorder"
begin

text \<open>
  What every component of the development shares.

  \<^item> \<open>cmd\<close>: a store operation, a function from a state to an error or a value and the next
    state. An operation that raises returns no state at all, which is what the rollback of
    \<open>ControlStore._transaction\<close> does: after an exception the database is the one before.
  \<^item> \<open>wp\<close>: the weakest precondition of an operation for a postcondition on its successful
    outcomes. Each primitive has one rewrite rule in the collection \<open>wp_rules\<close>, so that the
    effect of a whole operation is computed by \<open>simp add: wp_rules\<close>.
  \<^item> \<open>preserves\<close>: an operation keeps a predicate of the state. Its rules are in \<open>preserves\<close>,
    one for each way of composing operations.
  \<^item> tables: a table is the list of its rows in the order of insertion; \<open>find_row\<close>,
    \<open>update_where\<close> and \<open>insert_row\<close> are \<open>SELECT\<close> by key, \<open>UPDATE ... WHERE\<close> and \<open>INSERT\<close>.
  \<^item> text: the functions on Python strings the store uses (a string is the list of its code
    points, the model has those below 256), and the order of the time stamps as texts.
\<close>

section \<open>Operations on a state that may raise\<close>

type_synonym ('s, 'e, 'a) cmd = "'s \<Rightarrow> 'e + ('a \<times> 's)"

definition ret :: "'a \<Rightarrow> ('s, 'e, 'a) cmd" where
  "ret x s = Inr (x, s)"

definition raise :: "'e \<Rightarrow> ('s, 'e, 'a) cmd" where
  "raise e s = Inl e"

definition seq :: "('s, 'e, 'a) cmd \<Rightarrow> ('a \<Rightarrow> ('s, 'e, 'b) cmd) \<Rightarrow> ('s, 'e, 'b) cmd" where
  "seq m f s = (case m s of Inl e \<Rightarrow> Inl e | Inr (x, s') \<Rightarrow> f x s')"

definition guard :: "bool \<Rightarrow> 'e \<Rightarrow> ('s, 'e, unit) cmd" where
  "guard b e = (if b then ret () else raise e)"

definition gets :: "('s \<Rightarrow> 'a) \<Rightarrow> ('s, 'e, 'a) cmd" where
  "gets f s = Inr (f s, s)"

definition modify :: "('s \<Rightarrow> 's) \<Rightarrow> ('s, 'e, unit) cmd" where
  "modify f s = Inr ((), f s)"

definition lift_result :: "'e + 'a \<Rightarrow> ('s, 'e, 'a) cmd" where
  "lift_result r = (case r of Inl e \<Rightarrow> raise e | Inr x \<Rightarrow> ret x)"

fun for_each :: "('x \<Rightarrow> ('s, 'e, 'a) cmd) \<Rightarrow> 'x list \<Rightarrow> ('s, 'e, 'a list) cmd" where
  "for_each f [] = ret []"
| "for_each f (x # xs) = seq (f x) (\<lambda>y. seq (for_each f xs) (\<lambda>ys. ret (y # ys)))"

lemmas cmd_defs = ret_def raise_def seq_def guard_def gets_def modify_def lift_result_def

subsection \<open>Weakest preconditions\<close>

definition wp :: "('s, 'e, 'a) cmd \<Rightarrow> ('a \<Rightarrow> 's \<Rightarrow> bool) \<Rightarrow> 's \<Rightarrow> bool" where
  "wp m Q s = (case m s of Inl e \<Rightarrow> True | Inr (x, s') \<Rightarrow> Q x s')"

named_theorems wp_rules

lemma wp_ret [wp_rules]: "wp (ret x) Q s = Q x s"
  by (simp add: wp_def ret_def)

lemma wp_raise [wp_rules]: "wp (raise e) Q s"
  by (simp add: wp_def raise_def)

lemma wp_seq [wp_rules]: "wp (seq m f) Q s = wp m (\<lambda>x. wp (f x) Q) s"
  by (simp add: wp_def seq_def split: sum.splits prod.splits)

lemma wp_guard [wp_rules]: "wp (guard b e) Q s = (b \<longrightarrow> Q () s)"
  by (simp add: guard_def wp_ret wp_raise)

lemma wp_gets [wp_rules]: "wp (gets f) Q s = Q (f s) s"
  by (simp add: wp_def gets_def)

lemma wp_modify [wp_rules]: "wp (modify f) Q s = Q () (f s)"
  by (simp add: wp_def modify_def)

lemma wp_lift_result [wp_rules]: "wp (lift_result r) Q s = (\<forall>x. r = Inr x \<longrightarrow> Q x s)"
  by (cases r) (simp_all add: lift_result_def wp_ret wp_raise)

lemma wp_if [wp_rules]: "wp (if b then m else n) Q s = (if b then wp m Q s else wp n Q s)"
  by simp

lemma wp_option [wp_rules]:
  "wp (case x of None \<Rightarrow> m | Some y \<Rightarrow> f y) Q s
     = (case x of None \<Rightarrow> wp m Q s | Some y \<Rightarrow> wp (f y) Q s)"
  by (cases x) simp_all

lemma wp_prod [wp_rules]:
  "wp (case p of (a, b) \<Rightarrow> f a b) Q s = (case p of (a, b) \<Rightarrow> wp (f a b) Q s)"
  by (cases p) simp

lemma wp_Let [wp_rules]: "wp (let x = v in f x) Q s = (let x = v in wp (f x) Q s)"
  by simp

lemma wp_prodI: "(\<And>a b. p = (a, b) \<Longrightarrow> wp (f a b) Q s) \<Longrightarrow> wp (case p of (a, b) \<Rightarrow> f a b) Q s"
  by (cases p) simp

lemma wp_optionI:
  "(x = None \<Longrightarrow> wp m Q s) \<Longrightarrow> (\<And>y. x = Some y \<Longrightarrow> wp (f y) Q s)
     \<Longrightarrow> wp (case x of None \<Rightarrow> m | Some y \<Rightarrow> f y) Q s"
  by (cases x) simp_all

lemma wpD: "wp m Q s \<Longrightarrow> m s = Inr (x, s') \<Longrightarrow> Q x s'"
  by (simp add: wp_def)

lemma wpI: "(\<And>x s'. m s = Inr (x, s') \<Longrightarrow> Q x s') \<Longrightarrow> wp m Q s"
  by (simp add: wp_def split: sum.split prod.split)

lemma wp_mono: "wp m P s \<Longrightarrow> (\<And>x s'. P x s' \<Longrightarrow> Q x s') \<Longrightarrow> wp m Q s"
  by (simp add: wp_def split: sum.splits prod.splits)

lemma wp_conj: "wp m (\<lambda>x s'. P x s' \<and> Q x s') s \<longleftrightarrow> wp m P s \<and> wp m Q s"
  by (simp add: wp_def split: sum.splits prod.splits)

lemma seq_Inr:
  "seq m f s = Inr (y, t) \<longleftrightarrow> (\<exists>x s'. m s = Inr (x, s') \<and> f x s' = Inr (y, t))"
  by (simp add: seq_def split: sum.splits prod.splits)

text \<open>The state an operation that returns leads to.\<close>

definition leads :: "('s, 'e, 'a) cmd \<Rightarrow> 's \<Rightarrow> 's \<Rightarrow> bool" where
  "leads m s s' \<longleftrightarrow> (\<exists>x. m s = Inr (x, s'))"

lemma leadsI: "m s = Inr (x, s') \<Longrightarrow> leads m s s'"
  unfolding leads_def by blast

definition succeeds :: "('s, 'e, 'a) cmd \<Rightarrow> 's \<Rightarrow> bool" where
  "succeeds m s = (case m s of Inl e \<Rightarrow> False | Inr _ \<Rightarrow> True)"

definition state_after :: "('s, 'e, 'a) cmd \<Rightarrow> 's \<Rightarrow> 's" where
  "state_after m s = (case m s of Inl e \<Rightarrow> s | Inr (x, s') \<Rightarrow> s')"

definition answer :: "('s, 'e, 'a) cmd \<Rightarrow> 's \<Rightarrow> 'a option" where
  "answer m s = (case m s of Inl e \<Rightarrow> None | Inr (x, s') \<Rightarrow> Some x)"

lemma leads_after: "succeeds m s \<Longrightarrow> leads m s (state_after m s)"
  by (auto simp: succeeds_def leads_def state_after_def split: sum.splits)

lemma answer_after: "answer m s = Some x \<Longrightarrow> m s = Inr (x, state_after m s)"
  by (auto simp: answer_def state_after_def split: sum.splits)

subsection \<open>Operations that keep a predicate\<close>

definition preserves :: "('s \<Rightarrow> bool) \<Rightarrow> ('s, 'e, 'a) cmd \<Rightarrow> bool" where
  "preserves I m \<longleftrightarrow> (\<forall>s. I s \<longrightarrow> wp m (\<lambda>_. I) s)"

named_theorems keeps

lemma preservesI: "(\<And>s. I s \<Longrightarrow> wp m (\<lambda>_. I) s) \<Longrightarrow> preserves I m"
  by (simp add: preserves_def)

lemma preservesD: "preserves I m \<Longrightarrow> I s \<Longrightarrow> wp m (\<lambda>_. I) s"
  by (simp add: preserves_def)

lemma preserves_Inr: "preserves I m \<Longrightarrow> I s \<Longrightarrow> m s = Inr (x, s') \<Longrightarrow> I s'"
  by (drule (1) preservesD) (drule (1) wpD)

lemma preserves_leads: "preserves I m \<Longrightarrow> I s \<Longrightarrow> leads m s s' \<Longrightarrow> I s'"
  unfolding leads_def by (blast dest: preserves_Inr)

lemma preserves_ret [keeps]: "preserves I (ret x)"
  by (simp add: preserves_def wp_rules)

lemma preserves_raise [keeps]: "preserves I (raise e)"
  by (simp add: preserves_def wp_rules)

lemma preserves_guard [keeps]: "preserves I (guard b e)"
  by (simp add: preserves_def wp_rules)

lemma preserves_gets [keeps]: "preserves I (gets f)"
  by (simp add: preserves_def wp_rules)

lemma preserves_lift_result [keeps]: "preserves I (lift_result r)"
  by (simp add: preserves_def wp_rules)

lemma preserves_seq [keeps]:
  assumes "preserves I m" and "\<And>x. preserves I (f x)"
  shows "preserves I (seq m f)"
proof (rule preservesI)
  fix s assume "I s"
  with assms(1) have "wp m (\<lambda>_. I) s" by (rule preservesD)
  then have "wp m (\<lambda>x. wp (f x) (\<lambda>_. I)) s"
    by (rule wp_mono) (use assms(2) in \<open>simp add: preserves_def\<close>)
  then show "wp (seq m f) (\<lambda>_. I) s" by (simp add: wp_rules)
qed

text \<open>The same when the continuation relies on what the first operation returned.\<close>

lemma preserves_seq_know:
  assumes "\<And>s. I s \<Longrightarrow> wp m (\<lambda>x s'. K x \<and> I s') s" and "\<And>x. K x \<Longrightarrow> preserves I (f x)"
  shows "preserves I (seq m f)"
proof (rule preservesI)
  fix s assume "I s"
  then have "wp m (\<lambda>x s'. K x \<and> I s') s" by (rule assms(1))
  then have "wp m (\<lambda>x. wp (f x) (\<lambda>_. I)) s"
    by (rule wp_mono) (use assms(2) in \<open>simp add: preserves_def\<close>)
  then show "wp (seq m f) (\<lambda>_. I) s" by (simp add: wp_rules)
qed

lemma wp_seq_keeps:
  assumes "wp m (\<lambda>_. I) s" and "\<And>x. preserves I (f x)"
  shows "wp (seq m f) (\<lambda>_. I) s"
proof -
  from assms(1) have "wp m (\<lambda>x. wp (f x) (\<lambda>_. I)) s"
    by (rule wp_mono) (use assms(2) in \<open>simp add: preserves_def\<close>)
  then show ?thesis by (simp add: wp_rules)
qed

text \<open>An operation that keeps every predicate changes nothing.\<close>

lemma wp_seq_pure:
  assumes "\<And>I. preserves I m" and "\<And>x. wp (f x) Q s"
  shows "wp (seq m f) Q s"
proof -
  have "wp m (\<lambda>_ s'. s' = s) s" by (rule preservesD[OF assms(1)]) simp
  then show ?thesis unfolding wp_seq by (rule wp_mono) (use assms(2) in simp)
qed

lemma preserves_if [keeps]:
  "(b \<Longrightarrow> preserves I m) \<Longrightarrow> (\<not> b \<Longrightarrow> preserves I n) \<Longrightarrow> preserves I (if b then m else n)"
  by simp

lemma preserves_option [keeps]:
  "(x = None \<Longrightarrow> preserves I m) \<Longrightarrow> (\<And>y. x = Some y \<Longrightarrow> preserves I (f y))
     \<Longrightarrow> preserves I (case x of None \<Rightarrow> m | Some y \<Rightarrow> f y)"
  by (cases x) simp_all

lemma preserves_prod [keeps]:
  "(\<And>a b. p = (a, b) \<Longrightarrow> preserves I (f a b)) \<Longrightarrow> preserves I (case p of (a, b) \<Rightarrow> f a b)"
  by (cases p) simp

lemma preserves_for_each [keeps]:
  "(\<And>x. x \<in> set xs \<Longrightarrow> preserves I (f x)) \<Longrightarrow> preserves I (for_each f xs)"
  by (induction xs) (auto intro!: keeps)

lemma preserves_modify: "(\<And>s. I s \<Longrightarrow> I (f s)) \<Longrightarrow> preserves I (modify f)"
  by (simp add: preserves_def wp_rules)

lemma preserves_conj:
  "preserves I m \<Longrightarrow> preserves J m \<Longrightarrow> preserves (\<lambda>s. I s \<and> J s) m"
  by (simp add: preserves_def wp_conj)

lemma for_each_result:
  "for_each f xs s = Inr (ys, s') \<Longrightarrow> length ys = length xs"
  by (induction xs arbitrary: s ys) (auto simp: ret_def seq_Inr)

subsection \<open>From one predicate to another\<close>

definition hoare :: "('s \<Rightarrow> bool) \<Rightarrow> ('s, 'e, 'a) cmd \<Rightarrow> ('s \<Rightarrow> bool) \<Rightarrow> bool" where
  "hoare P m Q \<longleftrightarrow> (\<forall>s. P s \<longrightarrow> wp m (\<lambda>_. Q) s)"

lemma hoareI: "(\<And>s. P s \<Longrightarrow> wp m (\<lambda>_. Q) s) \<Longrightarrow> hoare P m Q"
  by (simp add: hoare_def)

lemma hoareD: "hoare P m Q \<Longrightarrow> P s \<Longrightarrow> wp m (\<lambda>_. Q) s"
  by (simp add: hoare_def)

lemma hoare_seq:
  assumes "hoare P m R" and "\<And>x. hoare R (f x) Q"
  shows "hoare P (seq m f) Q"
proof (rule hoareI)
  fix s assume "P s"
  with assms(1) have "wp m (\<lambda>_. R) s" by (rule hoareD)
  then show "wp (seq m f) (\<lambda>_. Q) s" unfolding wp_seq
    by (rule wp_mono) (rule hoareD[OF assms(2)])
qed

text \<open>A statement that keeps the precondition is passed over (\<open>hoare_skip\<close>); from a state that has the
  postcondition already, the rest has to keep it (\<open>hoare_rest\<close>); what a query returned may be used
  (\<open>hoare_know\<close>).\<close>

lemma hoare_skip: "preserves P m \<Longrightarrow> (\<And>x. hoare P (f x) Q) \<Longrightarrow> hoare P (seq m f) Q"
  by (rule hoare_seq[of P m P]) (auto simp: hoare_def preserves_def)

lemma hoare_rest: "preserves P m \<Longrightarrow> hoare P m P"
  by (simp add: hoare_def preserves_def)

lemma hoare_know:
  assumes "\<And>s. P s \<Longrightarrow> wp m (\<lambda>x s'. K x \<and> P s') s" and "\<And>x. K x \<Longrightarrow> hoare P (f x) Q"
  shows "hoare P (seq m f) Q"
proof (rule hoareI)
  fix s assume "P s"
  then have "wp m (\<lambda>x s'. K x \<and> P s') s" by (rule assms(1))
  then show "wp (seq m f) (\<lambda>_. Q) s" unfolding wp_seq
    by (rule wp_mono) (use assms(2) in \<open>auto simp: hoare_def\<close>)
qed

lemma hoare_preserves: "hoare P m P \<Longrightarrow> preserves P m"
  by (simp add: hoare_def preserves_def)

lemma hoare_pre: "(\<And>s. P s \<Longrightarrow> R s) \<Longrightarrow> hoare R m Q \<Longrightarrow> hoare P m Q"
  by (simp add: hoare_def)

lemma hoare_raise: "hoare P (raise e) Q"
  by (simp add: hoare_def wp_rules)

lemma hoare_if: "(b \<Longrightarrow> hoare P m Q) \<Longrightarrow> (\<not> b \<Longrightarrow> hoare P n Q) \<Longrightarrow> hoare P (if b then m else n) Q"
  by simp

lemma hoare_each: "(\<And>v. hoare (\<lambda>s. P s \<and> view s = v) m Q) \<Longrightarrow> hoare P m Q"
  by (simp add: hoare_def)

text \<open>What the value an operation returns satisfies, from whatever state it starts.\<close>

definition yields :: "('a \<Rightarrow> bool) \<Rightarrow> ('s, 'e, 'a) cmd \<Rightarrow> bool" where
  "yields K m \<longleftrightarrow> (\<forall>s. wp m (\<lambda>x _. K x) s)"

lemma yields_ret: "K x \<Longrightarrow> yields K (ret x)"
  by (simp add: yields_def wp_rules)

lemma yields_raise: "yields K (raise e)"
  by (simp add: yields_def wp_rules)

lemma yields_bind:
  assumes "yields L m" and "\<And>x. L x \<Longrightarrow> yields K (f x)"
  shows "yields K (seq m f)"
  unfolding yields_def wp_seq
proof
  fix s
  have "wp m (\<lambda>x _. L x) s" using assms(1) by (simp add: yields_def)
  then show "wp m (\<lambda>x. wp (f x) (\<lambda>x _. K x)) s"
    by (rule wp_mono) (use assms(2) in \<open>simp add: yields_def\<close>)
qed

lemma yields_any: "yields (\<lambda>_. True) m"
  by (simp add: yields_def wp_def split: sum.split prod.split)

lemma yields_seq: "(\<And>x. yields K (f x)) \<Longrightarrow> yields K (seq m f)"
  by (rule yields_bind[OF yields_any])

lemma yields_guard: "(b \<Longrightarrow> yields K (f ())) \<Longrightarrow> yields K (seq (guard b e) f)"
  by (simp add: yields_def wp_rules)

lemma hoare_yields:
  assumes "yields K m" and "preserves P m" and "\<And>x. K x \<Longrightarrow> hoare P (f x) Q"
  shows "hoare P (seq m f) Q"
proof (rule hoare_know[OF _ assms(3)])
  fix s assume "P s"
  with assms(1,2) show "wp m (\<lambda>x s'. K x \<and> P s') s"
    by (simp add: wp_conj yields_def preserves_def)
qed

section \<open>Tables\<close>

definition find_row :: "('r \<Rightarrow> 'k) \<Rightarrow> 'k \<Rightarrow> 'r list \<Rightarrow> 'r option" where
  "find_row key k rows = find (\<lambda>r. key r = k) rows"

definition update_where :: "('r \<Rightarrow> bool) \<Rightarrow> ('r \<Rightarrow> 'r) \<Rightarrow> 'r list \<Rightarrow> 'r list" where
  "update_where P f rows = map (\<lambda>r. if P r then f r else r) rows"

definition row_count :: "('r \<Rightarrow> bool) \<Rightarrow> 'r list \<Rightarrow> nat" where
  "row_count P rows = length (filter P rows)"

lemma find_row_Nil [simp]: "find_row key k [] = None"
  by (simp add: find_row_def)

lemma find_row_Cons [simp]:
  "find_row key k (r # rows) = (if key r = k then Some r else find_row key k rows)"
  by (simp add: find_row_def)

lemma find_row_SomeD: "find_row key k rows = Some r \<Longrightarrow> r \<in> set rows \<and> key r = k"
  by (auto simp: find_row_def find_Some_iff)

lemma find_row_None_iff: "find_row key k rows = None \<longleftrightarrow> k \<notin> key ` set rows"
  by (auto simp: find_row_def find_None_iff)

lemma find_row_append:
  "find_row key k (xs @ ys)
     = (case find_row key k xs of None \<Rightarrow> find_row key k ys | Some r \<Rightarrow> Some r)"
  by (induction xs) auto

lemma find_row_last:
  "k \<notin> key ` set rows \<Longrightarrow> key r = k \<Longrightarrow> find_row key k (rows @ [r]) = Some r"
  by (induction rows) auto

lemma find_row_unique:
  "distinct (map key rows) \<Longrightarrow> r \<in> set rows \<Longrightarrow> find_row key (key r) rows = Some r"
  by (induction rows) force+

lemma find_row_eq_iff:
  "distinct (map key rows) \<Longrightarrow> find_row key k rows = Some r \<longleftrightarrow> r \<in> set rows \<and> key r = k"
  using find_row_SomeD find_row_unique by metis

lemma update_where_Nil [simp]: "update_where P f [] = []"
  by (simp add: update_where_def)

lemma update_where_Cons [simp]:
  "update_where P f (r # rows) = (if P r then f r else r) # update_where P f rows"
  by (simp add: update_where_def)

lemma update_where_append [simp]:
  "update_where P f (xs @ ys) = update_where P f xs @ update_where P f ys"
  by (simp add: update_where_def)

lemma length_update_where [simp]: "length (update_where P f rows) = length rows"
  by (simp add: update_where_def)

lemma set_update_where: "set (update_where P f rows) = (\<lambda>r. if P r then f r else r) ` set rows"
  by (simp add: update_where_def)

lemma in_update_where:
  "x \<in> set (update_where P f rows) \<longleftrightarrow>
     (\<exists>r \<in> set rows. x = (if P r then f r else r))"
  by (auto simp: set_update_where)

lemma map_update_where:
  "(\<And>r. P r \<Longrightarrow> g (f r) = g r) \<Longrightarrow> map g (update_where P f rows) = map g rows"
  by (simp add: update_where_def)

lemma find_row_update_where:
  assumes "\<And>r. key (f r) = key r"
  shows "find_row key k (update_where P f rows)
       = map_option (\<lambda>r. if P r then f r else r) (find_row key k rows)"
  using assms by (induction rows) auto

lemma update_where_None: "(\<And>r. r \<in> set rows \<Longrightarrow> \<not> P r) \<Longrightarrow> update_where P f rows = rows"
  by (simp add: update_where_def map_idI)

lemma row_count_Nil [simp]: "row_count P [] = 0"
  by (simp add: row_count_def)

lemma row_count_Cons [simp]:
  "row_count P (r # rows) = (if P r then Suc (row_count P rows) else row_count P rows)"
  by (simp add: row_count_def)

lemma row_count_zero: "row_count P rows = 0 \<longleftrightarrow> (\<forall>r \<in> set rows. \<not> P r)"
  by (simp add: row_count_def filter_empty_conv)

lemma row_count_one:
  assumes "distinct (map key rows)" and "r \<in> set rows" and "P r"
    and "\<And>x. P x \<Longrightarrow> key x = key r"
  shows "row_count P rows = 1"
  using assms
proof (induction rows)
  case Nil
  then show ?case by simp
next
  case (Cons a rows)
  show ?case
  proof (cases "a = r")
    case True
    have "\<not> P x" if "x \<in> set rows" for x
    proof
      assume "P x"
      with Cons.prems(4) True have "key x = key a" by simp
      with that Cons.prems(1) show False by (metis distinct.simps(2) image_eqI list.set_map list.simps(9))
    qed
    then have "row_count P rows = 0" by (simp add: row_count_zero)
    with True Cons.prems(3) show ?thesis by simp
  next
    case False
    with Cons.prems(2) have r: "r \<in> set rows" by simp
    have "\<not> P a"
    proof
      assume "P a"
      with Cons.prems(4) have "key a = key r" by blast
      with r Cons.prems(1) show False by (metis distinct.simps(2) image_eqI list.set_map list.simps(9))
    qed
    with Cons.IH [OF _ r Cons.prems(3,4)] Cons.prems(1) show ?thesis by simp
  qed
qed


subsection \<open>Rows that evolve\<close>

text \<open>\<open>rows_evolve R xs ys\<close>: the table \<open>ys\<close> has every row of \<open>xs\<close>, at its place and in the relation \<open>R\<close>
  to what it was, and possibly new rows after them.\<close>

definition rows_evolve :: "('r \<Rightarrow> 'r \<Rightarrow> bool) \<Rightarrow> 'r list \<Rightarrow> 'r list \<Rightarrow> bool" where
  "rows_evolve R xs ys \<longleftrightarrow> (\<exists>zs ws. ys = zs @ ws \<and> list_all2 R xs zs)"

lemma rows_evolveI: "ys = zs @ ws \<Longrightarrow> list_all2 R xs zs \<Longrightarrow> rows_evolve R xs ys"
  unfolding rows_evolve_def by blast

lemma rows_evolve_refl: "(\<And>r. R r r) \<Longrightarrow> rows_evolve R xs xs"
  by (rule rows_evolveI[of xs xs "[]"]) (auto intro: list_all2_refl)

lemma rows_evolve_append: "rows_evolve R xs ys \<Longrightarrow> rows_evolve R xs (ys @ zs)"
  unfolding rows_evolve_def by (metis append.assoc)

lemma rows_evolve_map: "(\<And>r. r \<in> set xs \<Longrightarrow> R r (g r)) \<Longrightarrow> rows_evolve R xs (map g xs)"
  by (rule rows_evolveI[of _ "map g xs" "[]"]) (auto simp: list.rel_map intro: list.rel_refl_strong)

lemma rows_evolve_update_where:
  "(\<And>r. r \<in> set xs \<Longrightarrow> P r \<Longrightarrow> R r (f r)) \<Longrightarrow> (\<And>r. R r r) \<Longrightarrow> rows_evolve R xs (update_where P f xs)"
  by (auto simp: update_where_def intro!: rows_evolve_map)

lemma rows_evolve_trans:
  assumes "rows_evolve R xs ys" and "rows_evolve S ys zs"
  shows "rows_evolve (R OO S) xs zs"
proof -
  from assms obtain a b c d where *: "ys = a @ b" "list_all2 R xs a" "zs = c @ d" "list_all2 S ys c"
    by (auto simp: rows_evolve_def)
  from *(1,4) obtain c1 c2 where "c = c1 @ c2" "list_all2 S a c1"
    by (auto simp: list_all2_append1)
  with * have "zs = c1 @ (c2 @ d)" "list_all2 (R OO S) xs c1"
    by (auto intro: list_all2_trans[of R S "R OO S"])
  then show ?thesis by (auto simp: rows_evolve_def)
qed

lemma rows_evolve_mono: "rows_evolve R xs ys \<Longrightarrow> (\<And>a b. R a b \<Longrightarrow> S a b) \<Longrightarrow> rows_evolve S xs ys"
  by (auto simp: rows_evolve_def intro: list_all2_mono)

lemma list_all2_in: "list_all2 R xs ys \<Longrightarrow> x \<in> set xs \<Longrightarrow> \<exists>y \<in> set ys. R x y"
  by (induction rule: list_all2_induct) auto

lemma rows_evolve_in: "rows_evolve R xs ys \<Longrightarrow> x \<in> set xs \<Longrightarrow> \<exists>y \<in> set ys. R x y"
  unfolding rows_evolve_def by (fastforce dest: list_all2_in)

subsection \<open>Statements\<close>

definition sql_update ::
    "('s \<Rightarrow> 'r list) \<Rightarrow> (('r list \<Rightarrow> 'r list) \<Rightarrow> 's \<Rightarrow> 's) \<Rightarrow> ('r \<Rightarrow> bool) \<Rightarrow> ('r \<Rightarrow> 'r)
      \<Rightarrow> ('s, 'e, nat) cmd" where
  "sql_update sel upd P f s = Inr (row_count P (sel s), upd (update_where P f) s)"

definition sql_insert ::
    "'e \<Rightarrow> ('s \<Rightarrow> 'r list) \<Rightarrow> (('r list \<Rightarrow> 'r list) \<Rightarrow> 's \<Rightarrow> 's) \<Rightarrow> ('r \<Rightarrow> 'k) \<Rightarrow> 'r
      \<Rightarrow> ('s, 'e, unit) cmd" where
  "sql_insert e sel upd key row s =
     (if key row \<in> set (map key (sel s)) then Inl e else Inr ((), upd (\<lambda>rows. rows @ [row]) s))"

definition fetch :: "'e \<Rightarrow> ('s \<Rightarrow> 'r list) \<Rightarrow> ('r \<Rightarrow> 'k) \<Rightarrow> 'k \<Rightarrow> ('s, 'e, 'r) cmd" where
  "fetch e sel key k s = (case find_row key k (sel s) of None \<Rightarrow> Inl e | Some r \<Rightarrow> Inr (r, s))"

lemmas sql_defs = sql_update_def sql_insert_def fetch_def

lemma wp_sql_update [wp_rules]:
  "wp (sql_update sel upd P f) Q s = Q (row_count P (sel s)) (upd (update_where P f) s)"
  by (simp add: wp_def sql_update_def)

lemma wp_sql_insert [wp_rules]:
  "wp (sql_insert e sel upd key row) Q s
     = (key row \<notin> key ` set (sel s) \<longrightarrow> Q () (upd (\<lambda>rows. rows @ [row]) s))"
  by (simp add: wp_def sql_insert_def)

lemma wp_fetch [wp_rules]:
  "wp (fetch e sel key k) Q s = (\<forall>r. find_row key k (sel s) = Some r \<longrightarrow> Q r s)"
  by (simp add: wp_def fetch_def split: option.splits)

lemma preserves_fetch [keeps]: "preserves I (fetch e sel key k)"
  by (simp add: preserves_def wp_rules)

lemma preserves_sql_update:
  "(\<And>s. I s \<Longrightarrow> I (upd (update_where P f) s)) \<Longrightarrow> preserves I (sql_update sel upd P f)"
  by (simp add: preserves_def wp_rules)

lemma preserves_sql_insert:
  "(\<And>s. I s \<Longrightarrow> key row \<notin> key ` set (sel s) \<Longrightarrow> I (upd (\<lambda>rows. rows @ [row]) s))
     \<Longrightarrow> preserves I (sql_insert e sel upd key row)"
  by (simp add: preserves_def wp_rules)

subsection \<open>Ordered selections\<close>

text \<open>\<open>SELECT ... WHERE P ORDER BY key\<close>, and the first and the last row of it.\<close>

definition select_by :: "('r \<Rightarrow> 'k::linorder) \<Rightarrow> ('r \<Rightarrow> bool) \<Rightarrow> 'r list \<Rightarrow> 'r list" where
  "select_by key P rows = sort_key key (filter P rows)"

definition first_by :: "('r \<Rightarrow> 'k::linorder) \<Rightarrow> ('r \<Rightarrow> bool) \<Rightarrow> 'r list \<Rightarrow> 'r option" where
  "first_by key P rows = (case select_by key P rows of [] \<Rightarrow> None | r # rs \<Rightarrow> Some r)"

definition last_by :: "('r \<Rightarrow> 'k::linorder) \<Rightarrow> ('r \<Rightarrow> bool) \<Rightarrow> 'r list \<Rightarrow> 'r option" where
  "last_by key P rows = (case select_by key P rows of [] \<Rightarrow> None | r # rs \<Rightarrow> Some (last (r # rs)))"

lemma set_select_by [simp]: "set (select_by key P rows) = {r \<in> set rows. P r}"
  by (simp add: select_by_def)

lemma sorted_select_by: "sorted (map key (select_by key P rows))"
  by (simp add: select_by_def)

lemma select_by_Nil_iff: "select_by key P rows = [] \<longleftrightarrow> (\<forall>r \<in> set rows. \<not> P r)"
  by (metis (mono_tags, lifting) empty_filter_conv filter_sort select_by_def sort_key_simps(1)
      set_sort length_0_conv length_sort)

lemma first_by_Some: "first_by key P rows = Some r \<Longrightarrow> r \<in> set rows \<and> P r"
proof -
  assume "first_by key P rows = Some r"
  then have "r \<in> set (select_by key P rows)"
    by (auto simp: first_by_def simp del: set_select_by split: list.splits)
  then show ?thesis by simp
qed

lemma first_by_None: "first_by key P rows = None \<longleftrightarrow> (\<forall>r \<in> set rows. \<not> P r)"
  by (auto simp: first_by_def select_by_Nil_iff split: list.splits)
    (metis list.distinct(1) select_by_Nil_iff)

text \<open>Reading an ordered selection on from one of its rows (a keyset cursor).\<close>

lemma filter_after_nth:
  fixes key :: "'r \<Rightarrow> 'k::linorder"
  assumes "sorted (map key xs)" and "distinct (map key xs)" and "j < length xs"
  shows "filter (\<lambda>x. key (xs ! j) < key x) xs = drop (Suc j) xs"
  using assms
proof (induction xs arbitrary: j)
  case (Cons x xs)
  show ?case
  proof (cases j)
    case 0
    have "key x < key y" if "y \<in> set xs" for y
      using that Cons.prems(1,2) by (auto simp: order_less_le)
    then show ?thesis using 0 by simp
  next
    case (Suc i)
    then have "\<not> key (xs ! i) < key x" using Cons.prems by (auto simp: not_less)
    with Suc Cons show ?thesis by simp
  qed
qed simp

lemma select_by_filter: "select_by key (\<lambda>r. P r \<and> Q r) rows = filter Q (select_by key P rows)"
  by (simp add: select_by_def filter_sort filter_filter)

lemma distinct_select_by: "distinct (map g rows) \<Longrightarrow> distinct (map g (select_by key P rows))"
proof -
  assume "distinct (map g rows)"
  then have "distinct (filter P rows)" "inj_on g (set (filter P rows))"
    by (auto simp: distinct_map intro: inj_on_subset)
  then show ?thesis by (simp add: distinct_map select_by_def)
qed

section \<open>Text\<close>

definition code :: "char \<Rightarrow> int" where
  "code c = of_char c"

text \<open>\<open>str.isspace\<close> on the code points below 256.\<close>

definition is_space :: "char \<Rightarrow> bool" where
  "is_space c = (let n = code c in (9 \<le> n \<and> n \<le> 13) \<or> (28 \<le> n \<and> n \<le> 32) \<or> n = 133 \<or> n = 160)"

definition strip :: "string \<Rightarrow> string" where
  "strip s = rev (dropWhile is_space (rev (dropWhile is_space s)))"

text \<open>\<open>str.lower\<close> on the code points below 256: none of them changes the length of the text.\<close>

definition lower_char :: "char \<Rightarrow> char" where
  "lower_char c = (let n = code c in
     if (65 \<le> n \<and> n \<le> 90) \<or> (192 \<le> n \<and> n \<le> 222 \<and> n \<noteq> 215) then char_of (n + 32) else c)"

definition lower :: "string \<Rightarrow> string" where
  "lower s = map lower_char s"

definition is_lower_alpha :: "char \<Rightarrow> bool" where
  "is_lower_alpha c = (97 \<le> code c \<and> code c \<le> 122)"

definition is_upper_alpha :: "char \<Rightarrow> bool" where
  "is_upper_alpha c = (65 \<le> code c \<and> code c \<le> 90)"

definition is_digit :: "char \<Rightarrow> bool" where
  "is_digit c = (48 \<le> code c \<and> code c \<le> 57)"

definition is_hex :: "char \<Rightarrow> bool" where
  "is_hex c = (is_digit c \<or> (97 \<le> code c \<and> code c \<le> 102))"

text \<open>\<open>re.fullmatch\<close> of one character class with a repetition count.\<close>

definition full_class :: "(char \<Rightarrow> bool) \<Rightarrow> int \<Rightarrow> int \<Rightarrow> string \<Rightarrow> bool" where
  "full_class P lo hi s = (lo \<le> int (length s) \<and> int (length s) \<le> hi \<and> list_all P s)"

text \<open>\<open>str.partition\<close> and \<open>str.rpartition\<close> on a separator of one character: the text before,
  the separator found (empty when there is none) and the text after.\<close>

definition partition_at :: "char \<Rightarrow> string \<Rightarrow> string \<times> string \<times> string" where
  "partition_at c s = (let pre = takeWhile (\<lambda>x. x \<noteq> c) s in
     if c \<in> set s then (pre, [c], drop (Suc (length pre)) s) else (s, [], []))"

definition rpartition_at :: "char \<Rightarrow> string \<Rightarrow> string \<times> string \<times> string" where
  "rpartition_at c s = (let post = rev (takeWhile (\<lambda>x. x \<noteq> c) (rev s)) in
     if c \<in> set s then (take (length s - Suc (length post)) s, [c], post) else ([], [], s))"

lemma length_lower [simp]: "length (lower s) = length s"
  by (simp add: lower_def)

lemma code_bounds: "0 \<le> code c" "code c < 256"
proof -
  have "code c mod 256 = code c" by (simp add: code_def)
  then show "0 \<le> code c" "code c < 256" by presburger+
qed

lemma strip_idem [simp]: "strip (strip s) = strip s"
proof -
  let ?a = "dropWhile is_space s"
  let ?b = "rev (dropWhile is_space (rev ?a))"
  have "?a = ?b @ rev (takeWhile is_space (rev ?a))"
    by (metis rev_append rev_rev_ident takeWhile_dropWhile_id)
  then have "?b = [] \<or> \<not> is_space (hd ?b)"
    by (metis append_is_Nil_conv hd_append2 hd_dropWhile)
  then have "dropWhile is_space ?b = ?b"
    by (metis dropWhile.simps(1) dropWhile_eq_self_iff)
  then show ?thesis by (simp add: strip_def)
qed

lemma lower_char_idem [simp]: "lower_char (lower_char c) = lower_char c"
  using code_bounds[of c] by (auto simp: lower_char_def Let_def code_def)

lemma lower_idem [simp]: "lower (lower s) = lower s"
  by (simp add: lower_def)

lemma lower_append [simp]: "lower (s @ t) = lower s @ lower t"
  by (simp add: lower_def)

lemma lower_Cons [simp]: "lower (c # s) = lower_char c # lower s"
  by (simp add: lower_def)

lemma takeWhile_first:
  "c \<in> set s \<Longrightarrow> takeWhile (\<lambda>x. x \<noteq> c) s @ c # drop (Suc (length (takeWhile (\<lambda>x. x \<noteq> c) s))) s = s"
  by (induction s) auto

lemma partition_at_concat: "partition_at c s = (a, sep, b) \<Longrightarrow> a @ sep @ b = s"
  by (auto simp: partition_at_def Let_def takeWhile_first split: if_splits)

lemma rpartition_at_concat: "rpartition_at c s = (a, sep, b) \<Longrightarrow> a @ sep @ b = s"
proof -
  assume *: "rpartition_at c s = (a, sep, b)"
  let ?p = "takeWhile (\<lambda>x. x \<noteq> c) (rev s)"
  have "take (length s - Suc (length ?p)) s @ c # rev ?p = s" if "c \<in> set s"
  proof -
    have "rev (?p @ c # drop (Suc (length ?p)) (rev s)) = rev (rev s)"
      using that by (subst takeWhile_first) auto
    then show ?thesis by (simp add: rev_drop)
  qed
  then show ?thesis
    using * by (auto simp: rpartition_at_def Let_def split: if_splits)
qed

section \<open>Time stamps as texts\<close>

text \<open>
  The store keeps an instant as the text of \<open>_format_time\<close>: \<open>datetime.isoformat\<close>, with
  \<open>+00:00\<close> replaced by \<open>Z\<close>. \<open>isoformat\<close> leaves the fraction out when the microsecond is 0, so
  within one second the text without a fraction (\<open>...:05Z\<close>) follows every text with one
  (\<open>...:05.000001Z\<close>): the full stop precedes \<open>Z\<close>. Across seconds the texts are ordered as the
  instants are, for the years 1000 to 9999. An instant of the model is its number of
  microseconds, and \<open>text_key\<close> an integer ordered as the texts are.
\<close>

type_synonym instant = int

definition text_key :: "instant \<Rightarrow> int" where
  "text_key t = (t div 1000000) * 1000001
     + (if t mod 1000000 = 0 then 1000000 else t mod 1000000)"

definition text_le :: "instant \<Rightarrow> instant \<Rightarrow> bool" where
  "text_le a b = (text_key a \<le> text_key b)"

definition seconds :: "int \<Rightarrow> instant" where
  "seconds n = n * 1000000"

lemma text_key_cases:
  obtains q r w where "t = 1000000 * q + r" and "0 \<le> r" and "r < 1000000"
    and "text_key t = q * 1000001 + w" and "w = (if r = 0 then 1000000 else r)"
proof
  show "t = 1000000 * (t div 1000000) + t mod 1000000" by simp
qed (auto simp: text_key_def)

lemma text_key_inj: "text_key a = text_key b \<longleftrightarrow> a = b"
proof
  assume *: "text_key a = text_key b"
  obtain q r w where a: "a = 1000000 * q + r" "0 \<le> r" "r < 1000000"
    "text_key a = q * 1000001 + w" "w = (if r = 0 then 1000000 else r)" by (rule text_key_cases)
  obtain q' r' w' where b: "b = 1000000 * q' + r'" "0 \<le> r'" "r' < 1000000"
    "text_key b = q' * 1000001 + w'" "w' = (if r' = 0 then 1000000 else r')" by (rule text_key_cases)
  have "q = q'" using a b * by (cases q q' rule: linorder_cases) (auto split: if_splits)
  with a b * show "a = b" by (auto split: if_splits)
qed simp

lemma text_le_second_later:
  assumes "a + 1000000 \<le> b"
  shows "text_le a b"
proof -
  obtain q r w where a: "a = 1000000 * q + r" "0 \<le> r" "r < 1000000"
    "text_key a = q * 1000001 + w" "w = (if r = 0 then 1000000 else r)" by (rule text_key_cases)
  obtain q' r' w' where b: "b = 1000000 * q' + r'" "0 \<le> r'" "r' < 1000000"
    "text_key b = q' * 1000001 + w'" "w' = (if r' = 0 then 1000000 else r')" by (rule text_key_cases)
  have "q < q'"
  proof (rule ccontr)
    assume "\<not> q < q'"
    then have "1000000 * q' \<le> 1000000 * q" by simp
    with a(2) b(3) assms[unfolded a(1) b(1)] show False by linarith
  qed
  then have "q * 1000001 + 1000001 \<le> q' * 1000001" by linarith
  moreover have "w \<le> 1000000" "1 \<le> w'" using a(2,3,5) b(2,3,5) by (auto split: if_splits)
  ultimately show ?thesis unfolding text_le_def a(4) b(4) by linarith
qed

lemma text_le_before:
  assumes "text_le a b"
  shows "a < b + 1000000"
proof (rule ccontr)
  assume "\<not> a < b + 1000000"
  then have "text_le b a" by (simp add: text_le_second_later)
  with assms have "text_key a = text_key b" by (simp add: text_le_def)
  then have "a = b" by (simp add: text_key_inj)
  with \<open>\<not> a < b + 1000000\<close> show False by simp
qed

lemma text_le_refl [simp]: "text_le a a"
  by (simp add: text_le_def)

lemma text_le_trans: "text_le a b \<Longrightarrow> text_le b c \<Longrightarrow> text_le a c"
  by (simp add: text_le_def)

lemma not_text_le_iff: "\<not> text_le a b \<longleftrightarrow> text_le b a \<and> a \<noteq> b"
  by (auto simp: text_le_def text_key_inj dest: order_antisym)

end
