(* ===== verification/Control_Schema.thy ===== *)
theory Control_Schema
  imports Prelude
begin

text \<open>
  The data of the Control store: the JSON values it stores, the errors it raises
  (\<open>control/errors.py\<close>), the rows of its tables (\<open>control/schema.py\<close>) and the store itself.

  A \<open>TEXT\<close> column with a fixed vocabulary is a datatype, a nullable column an option, an instant
  column an \<open>instant\<close> (its order as a text is \<open>text_le\<close>). The tables of the source, artifact and
  workflow components have the columns the modelled operations read or write.

  The tables that only one component writes stand together in a record of their own: \<open>flow\<close> those of the
  execution of workflows, \<open>mail\<close> those of the transports' commands, \<open>library\<close> those of sources and artifacts
  that the execution of workflows reads.

  The first fields of \<open>store\<close> are what a \<open>ControlStore\<close> object is given from outside: its clock
  and its id factory (with the number of readings taken so far), SHA-256 over the canonical JSON
  text of a request, and the checks \<open>urllib.parse.urlsplit\<close> makes on a network location with
  characters outside ASCII or with brackets.
\<close>

section \<open>JSON values and errors\<close>

text \<open>\<open>JTime\<close> is the string \<open>_format_time\<close> gives for an instant.\<close>

datatype json = JNull | JBool bool | JInt int | JStr string | JTime instant
  | JArr "json list" | JObj "(string \<times> json) list"

fun jget :: "string \<Rightarrow> json \<Rightarrow> json option" where
  "jget k (JObj kvs) = map_of kvs k"
| "jget k _ = None"

definition jstr_opt :: "string option \<Rightarrow> json" where
  "jstr_opt x = (case x of None \<Rightarrow> JNull | Some s \<Rightarrow> JStr s)"

definition jtime_opt :: "instant option \<Rightarrow> json" where
  "jtime_opt x = (case x of None \<Rightarrow> JNull | Some t \<Rightarrow> JTime t)"

definition jint_opt :: "int option \<Rightarrow> json" where
  "jint_opt x = (case x of None \<Rightarrow> JNull | Some n \<Rightarrow> JInt n)"

definition jstrs :: "string list \<Rightarrow> json" where
  "jstrs xs = JArr (map JStr xs)"

datatype control_error =
    NotFound string string
  | IdempotencyConflict
  | RevisionConflict json
  | ThreadActiveRun json
  | ThreadArchived json
  | InvalidTransition string string
  | MachineRunRefused string string
  | CaptureConflict json
  | TransportBindingConflict json
  | ValueError string
  | TypeError string
  | RuntimeError string
  | IntegrityError

record command_result =
  cr_value :: json
  cr_status_code :: int
  cr_replayed :: bool

section \<open>Workspaces, threads, messages, runs and attempts\<close>

record workspace =
  ws_id :: string
  ws_title :: string
  ws_revision :: int
  ws_created_at :: instant
  ws_updated_at :: instant

record "thread" =
  th_id :: string
  th_workspace_id :: string
  th_title :: string
  th_status :: string
  th_active_run_id :: "string option"
  th_revision :: int
  th_created_at :: instant
  th_updated_at :: instant
  th_archived_at :: "instant option"

record message =
  ms_id :: string
  ms_thread_id :: string
  ms_role :: string
  ms_content :: string
  ms_position :: int
  ms_created_at :: instant

datatype run_state =
    R_queued | R_starting | R_running | R_waiting_for_decision | R_pause_requested | R_paused
  | R_resuming | R_cancel_requested | R_failed | R_retrying | R_completed | R_canceled

fun run_state_name :: "run_state \<Rightarrow> string" where
  "run_state_name R_queued = ''queued''"
| "run_state_name R_starting = ''starting''"
| "run_state_name R_running = ''running''"
| "run_state_name R_waiting_for_decision = ''waiting_for_decision''"
| "run_state_name R_pause_requested = ''pause_requested''"
| "run_state_name R_paused = ''paused''"
| "run_state_name R_resuming = ''resuming''"
| "run_state_name R_cancel_requested = ''cancel_requested''"
| "run_state_name R_failed = ''failed''"
| "run_state_name R_retrying = ''retrying''"
| "run_state_name R_completed = ''completed''"
| "run_state_name R_canceled = ''canceled''"

record run =
  rn_id :: string
  rn_thread_id :: string
  rn_state :: run_state
  rn_active_attempt_id :: "string option"
  rn_stage :: "string option"
  rn_latest_sequence :: int
  rn_revision :: int
  rn_created_at :: instant
  rn_updated_at :: instant

record attempt =
  at_id :: string
  at_run_id :: string
  at_number :: int
  at_state :: run_state
  at_runtime_binding_id :: "string option"
  at_runtime_release_id :: "string option"
  at_checkpoint_uri :: "string option"
  at_source_attempt_id :: "string option"
  at_source_checkpoint_uri :: "string option"
  at_started_at :: "instant option"
  at_finished_at :: "instant option"
  at_state_generation_id :: "string option"
  at_dispatch_owner :: "string option"
  at_dispatch_expires_at :: "instant option"
  at_runtime_identity_version :: int
  at_runtime_slot_id :: "string option"
  at_runtime_artifact_digest :: "string option"
  at_runtime_worker_protocol :: "string option"

record runtime_binding =
  rb_id :: string
  rb_thread_id :: string
  rb_adapter_id :: string
  rb_runtime_session_ref :: string
  rb_generation :: int
  rb_adapter_version :: string
  rb_parent_ref :: "string option"
  rb_created_at :: instant
  rb_updated_at :: instant

text \<open>The cursor of an event is its position in the table; \<open>schema_version\<close> is 1 and
  \<open>durability\<close> is \<open>durable\<close> in every row.\<close>

record run_event =
  ev_id :: string
  ev_run_id :: string
  ev_attempt_id :: "string option"
  ev_sequence :: int
  ev_type :: string
  ev_occurred_at :: instant
  ev_causation_id :: "string option"
  ev_payload :: json

section \<open>Decisions, runtime actions, pin releases and recovery commands\<close>

datatype decision_state = D_pending | D_resolved | D_expired

fun decision_state_name :: "decision_state \<Rightarrow> string" where
  "decision_state_name D_pending = ''pending''"
| "decision_state_name D_resolved = ''resolved''"
| "decision_state_name D_expired = ''expired''"

record decision =
  de_id :: string
  de_run_id :: string
  de_attempt_id :: string
  de_kind :: string
  de_prompt :: string
  de_options :: json
  de_state :: decision_state
  de_resolution :: "json option"
  de_revision :: int
  de_created_at :: instant
  de_resolved_at :: "instant option"
  de_runtime_decision_ref :: "string option"
  de_runtime_decision_revision :: "int option"

datatype action_state = A_pending | A_acked | A_failed

fun action_state_name :: "action_state \<Rightarrow> string" where
  "action_state_name A_pending = ''pending''"
| "action_state_name A_acked = ''acked''"
| "action_state_name A_failed = ''failed''"

datatype outcome_state = O_ready | O_outcome_unknown | O_reconcile

fun outcome_state_name :: "outcome_state \<Rightarrow> string" where
  "outcome_state_name O_ready = ''ready''"
| "outcome_state_name O_outcome_unknown = ''outcome_unknown''"
| "outcome_state_name O_reconcile = ''reconcile''"

record runtime_action =
  ra_id :: string
  ra_run_id :: string
  ra_attempt_id :: string
  ra_runtime_binding_id :: string
  ra_runtime_release_id :: string
  ra_kind :: string
  ra_payload :: json
  ra_state :: action_state
  ra_created_at :: instant
  ra_acknowledged_at :: "instant option"
  ra_claim_owner :: "string option"
  ra_claim_expires_at :: "instant option"
  ra_failure_category :: "string option"
  ra_claim_epoch :: int
  ra_outcome_state :: outcome_state

record pin_release =
  pr_id :: string
  pr_run_id :: string
  pr_attempt_id :: string
  pr_runtime_release_id :: string
  pr_state_generation_id :: string
  pr_state :: action_state
  pr_claim_owner :: "string option"
  pr_claim_epoch :: int
  pr_claim_expires_at :: "instant option"
  pr_failure_category :: "string option"
  pr_created_at :: instant
  pr_acknowledged_at :: "instant option"
  pr_runtime_slot_id :: "string option"
  pr_runtime_artifact_digest :: "string option"
  pr_runtime_worker_protocol :: "string option"
  pr_runtime_identity_version :: int

datatype recovery_state = V_pending | V_completed | V_failed | V_manual_required

fun recovery_state_name :: "recovery_state \<Rightarrow> string" where
  "recovery_state_name V_pending = ''pending''"
| "recovery_state_name V_completed = ''completed''"
| "recovery_state_name V_failed = ''failed''"
| "recovery_state_name V_manual_required = ''manual_required''"

record recovery_command =
  rc_id :: string
  rc_run_id :: string
  rc_attempt_id :: string
  rc_runtime_binding_id :: "string option"
  rc_runtime_release_id :: "string option"
  rc_state_generation_id :: "string option"
  rc_kind :: string
  rc_state :: recovery_state
  rc_claim_owner :: "string option"
  rc_claim_epoch :: int
  rc_claim_expires_at :: "instant option"
  rc_result :: "json option"
  rc_created_at :: instant
  rc_completed_at :: "instant option"
  rc_runtime_slot_id :: "string option"
  rc_runtime_artifact_digest :: "string option"
  rc_runtime_worker_protocol :: "string option"
  rc_runtime_identity_version :: int

record inbox_row =
  ib_attempt_id :: string
  ib_adapter_event_id :: string
  ib_payload_hash :: string
  ib_status_code :: int
  ib_response :: json
  ib_received_at :: instant
  ib_adapter_event_sequence :: int

section \<open>Receipts and the audit trail\<close>

record receipt =
  rt_actor_id :: string
  rt_operation :: string
  rt_idempotency_key :: string
  rt_request_hash :: string
  rt_status_code :: int
  rt_response :: json
  rt_created_at :: instant

record audit_row =
  au_id :: string
  au_aggregate_type :: string
  au_aggregate_id :: string
  au_type :: string
  au_occurred_at :: instant
  au_payload :: json

section \<open>Captures\<close>

datatype capture_state =
  C_pending | C_approved | C_claimed | C_uncertain | C_consumed | C_dismissed | C_failed

fun capture_state_name :: "capture_state \<Rightarrow> string" where
  "capture_state_name C_pending = ''pending''"
| "capture_state_name C_approved = ''approved''"
| "capture_state_name C_claimed = ''claimed''"
| "capture_state_name C_uncertain = ''uncertain''"
| "capture_state_name C_consumed = ''consumed''"
| "capture_state_name C_dismissed = ''dismissed''"
| "capture_state_name C_failed = ''failed''"

record capture =
  ca_id :: string
  ca_capture_key :: string
  ca_payload :: string
  ca_kind :: string
  ca_note :: string
  ca_state :: capture_state
  ca_claim_owner :: "string option"
  ca_claim_epoch :: int
  ca_claim_expires_at :: "instant option"
  ca_known_source_id :: "string option"
  ca_consumed_source_ids :: "string list option"
  ca_failure_category :: "string option"
  ca_revision :: int
  ca_created_at :: instant
  ca_updated_at :: instant

section \<open>Sources, artifacts and workflows, as far as runs touch them\<close>

record source_alias =
  sa_id :: string
  sa_source_id :: string
  sa_normalized_value :: string

datatype intent_state = I_pending | I_resolved | I_canceled

record source_intent =
  si_id :: string
  si_run_id :: string
  si_state :: intent_state
  si_decision_id :: "string option"
  si_revision :: int
  si_created_at :: instant
  si_updated_at :: instant

datatype waiter_state = N_waiting | N_bound | N_canceled

record import_waiter =
  iw_id :: string
  iw_action_id :: string
  iw_run_id :: string
  iw_resolution_id :: string
  iw_state :: waiter_state
  iw_created_at :: instant
  iw_completed_at :: "instant option"

datatype import_state = T_pending | T_completed | T_failed | T_canceled

record import_action =
  ia_id :: string
  ia_run_id :: string
  ia_resolution_id :: string
  ia_state :: import_state
  ia_claim_owner :: "string option"
  ia_claim_epoch :: int
  ia_claim_expires_at :: "instant option"
  ia_completed_at :: "instant option"

datatype version_state = P_pending_materialization | P_committed | P_failed

record artifact_version =
  av_id :: string
  av_run_id :: string
  av_attempt_id :: string
  av_state :: version_state

datatype materialization_state = M_pending | M_claimed | M_materialized | M_completed | M_failed

record materialization_action =
  ma_id :: string
  ma_artifact_version_id :: string
  ma_state :: materialization_state
  ma_claim_owner :: "string option"
  ma_claim_epoch :: int
  ma_claim_expires_at :: "instant option"
  ma_failure_category :: "string option"
  ma_created_at :: instant
  ma_completed_at :: "instant option"

datatype workflow_state = W_running | W_waiting | W_completed | W_failed | W_manual_recovery

record workflow_instance =
  wf_id :: string
  wf_run_id :: string
  wf_definition_id :: string
  wf_definition_version :: int
  wf_definition_sealed :: bool
  wf_state :: workflow_state
  wf_current_stage_key :: "string option"
  wf_revision :: int
  wf_created_at :: instant
  wf_updated_at :: instant

datatype stage_state =
  S_pending | S_ready | S_active | S_waiting | S_completed | S_failed | S_manual_recovery

fun stage_state_name :: "stage_state \<Rightarrow> string" where
  "stage_state_name S_pending = ''pending''"
| "stage_state_name S_ready = ''ready''"
| "stage_state_name S_active = ''active''"
| "stage_state_name S_waiting = ''waiting''"
| "stage_state_name S_completed = ''completed''"
| "stage_state_name S_failed = ''failed''"
| "stage_state_name S_manual_recovery = ''manual_recovery''"

record stage_instance =
  sg_id :: string
  sg_workflow_id :: string
  sg_stage_key :: string
  sg_position :: int
  sg_effect :: string
  sg_checkpoint_enabled :: bool
  sg_input_hash :: "string option"
  sg_state :: stage_state
  sg_attempt :: int
  sg_revision :: int
  sg_started_at :: "instant option"
  sg_completed_at :: "instant option"

text \<open>A row of one of the three requirement tables: the stage, what it requires (a stage id, an
  effect kind or a result kind) and the position in the definition.\<close>

record stage_requirement =
  sr_workflow_id :: string
  sr_stage_id :: string
  sr_value :: string
  sr_position :: int

datatype ref_state = F_pending | F_resolved

record workflow_decision_ref =
  wd_id :: string
  wd_workflow_id :: string
  wd_stage_id :: string
  wd_decision_id :: string
  wd_expected_revision :: int
  wd_resolved_revision :: "int option"
  wd_selected_choice :: "string option"
  wd_state :: ref_state
  wd_created_at :: instant
  wd_resolved_at :: "instant option"

text \<open>An effect of a stage: the request that is to be carried out, its claims and what became of it.\<close>

datatype effect_state =
  E_pending | E_claimed | E_outcome_unknown | E_reconciling | E_completed | E_failed | E_manual_required

fun effect_state_name :: "effect_state \<Rightarrow> string" where
  "effect_state_name E_pending = ''pending''"
| "effect_state_name E_claimed = ''claimed''"
| "effect_state_name E_outcome_unknown = ''outcome_unknown''"
| "effect_state_name E_reconciling = ''reconciling''"
| "effect_state_name E_completed = ''completed''"
| "effect_state_name E_failed = ''failed''"
| "effect_state_name E_manual_required = ''manual_required''"

record workflow_effect =
  wx_id :: string
  wx_operation_id :: string
  wx_workflow_id :: string
  wx_stage_id :: string
  wx_effect_class :: string
  wx_effect_kind :: string
  wx_effect_key :: string
  wx_request_hash :: string
  wx_request :: json
  wx_state :: effect_state
  wx_claim_owner :: "string option"
  wx_claim_epoch :: int
  wx_delivery_epoch :: int
  wx_claim_expires_at :: "instant option"
  wx_result_identity :: "string option"
  wx_receipt :: "json option"
  wx_failure_category :: "string option"
  wx_created_at :: instant
  wx_completed_at :: "instant option"

record stage_reference =
  wr_id :: string
  wr_workflow_id :: string
  wr_stage_id :: string
  wr_reference_kind :: string
  wr_reference_id :: string
  wr_identity_hash :: string
  wr_metadata :: json
  wr_created_at :: instant

record workflow_checkpoint =
  wk_id :: string
  wk_workflow_id :: string
  wk_stage_id :: string
  wk_workflow_revision :: int
  wk_state_hash :: string
  wk_state :: json
  wk_references_hash :: string
  wk_created_at :: instant

record flow_tables =
  workflow_effect_commands :: "workflow_effect list"
  workflow_stage_references :: "stage_reference list"
  workflow_checkpoints :: "workflow_checkpoint list"

section \<open>Transports\<close>

record transport_binding =
  tb_id :: string
  tb_transport :: string
  tb_external_scope :: string
  tb_thread_id :: string
  tb_revision :: int
  tb_created_at :: instant
  tb_updated_at :: instant

record command_response =
  cp_ok :: bool
  cp_category :: string
  cp_action :: string
  cp_response_text :: string
  cp_mutated :: bool
  cp_replayed :: bool
  cp_retryable :: bool
  cp_retry_after_ms :: "int option"
  cp_state :: "string option"
  cp_revision :: "int option"

record command_receipt =
  cc_transport :: string
  cc_command_key :: string
  cc_request_hash :: string
  cc_response :: json
  cc_created_at :: instant

record mail_tables =
  transport_bindings :: "transport_binding list"
  transport_command_receipts :: "command_receipt list"

section \<open>Sources and artifacts that workflows refer to\<close>

record source_resolution =
  sx_id :: string
  sx_intent_id :: string

record source_binding =
  sb_id :: string
  sb_run_id :: string
  sb_source_id :: string

record artifact_snapshot =
  as_id :: string
  as_workspace_id :: string
  as_committed :: bool

record snapshot_member =
  am_snapshot_id :: string
  am_artifact_version_id :: string

record library_tables =
  source_resolutions :: "source_resolution list"
  run_source_bindings :: "source_binding list"
  artifact_snapshots :: "artifact_snapshot list"
  artifact_snapshot_members :: "snapshot_member list"

section \<open>The operator's gates\<close>

record release_approval =
  rl_id :: string
  rl_decision :: string
  rl_release_id :: string
  rl_manifest_sha256 :: string
  rl_actor_id :: string
  rl_decided_at :: instant

record runtime_activation =
  rv_id :: string
  rv_decision :: string
  rv_mode :: "string option"
  rv_expires_at :: "instant option"
  rv_actor_id :: string
  rv_decided_at :: instant

record transport_activation =
  tv_id :: string
  tv_transport :: string
  tv_decision :: string
  tv_scope :: "string option"
  tv_expires_at :: "instant option"
  tv_actor_id :: string
  tv_decided_at :: instant

section \<open>The store\<close>

record store =
  st_clock :: "nat \<Rightarrow> instant"
  st_ticks :: nat
  st_id_factory :: "string \<Rightarrow> nat \<Rightarrow> string"
  st_ids :: nat
  st_sha256_json :: "json \<Rightarrow> string"
  st_netloc_ok :: "string \<Rightarrow> bool"
  workspaces :: "workspace list"
  threads :: "thread list"
  messages :: "message list"
  runs :: "run list"
  attempts :: "attempt list"
  runtime_bindings :: "runtime_binding list"
  run_events :: "run_event list"
  decisions :: "decision list"
  runtime_actions :: "runtime_action list"
  runtime_pin_releases :: "pin_release list"
  runtime_recovery_commands :: "recovery_command list"
  runtime_event_inbox :: "inbox_row list"
  idempotency_receipts :: "receipt list"
  control_audit :: "audit_row list"
  captures :: "capture list"
  sources :: "string list"
  source_aliases :: "source_alias list"
  source_intents :: "source_intent list"
  source_import_waiters :: "import_waiter list"
  source_import_actions :: "import_action list"
  artifact_versions :: "artifact_version list"
  artifact_materialization_actions :: "materialization_action list"
  workflow_instances :: "workflow_instance list"
  workflow_stage_instances :: "stage_instance list"
  workflow_stage_dependencies :: "stage_requirement list"
  workflow_stage_receipt_requirements :: "stage_requirement list"
  workflow_stage_result_requirements :: "stage_requirement list"
  workflow_decision_refs :: "workflow_decision_ref list"
  runtime_release_approvals :: "release_approval list"
  runtime_activation_decisions :: "runtime_activation list"
  transport_activation_decisions :: "transport_activation list"
  flow :: flow_tables
  mail :: mail_tables
  library :: library_tables

type_synonym 'a op = "(store, control_error, 'a) cmd"

definition empty_flow :: flow_tables where
  "empty_flow = \<lparr>workflow_effect_commands = [], workflow_stage_references = [], workflow_checkpoints = []\<rparr>"

definition empty_mail :: mail_tables where
  "empty_mail = \<lparr>transport_bindings = [], transport_command_receipts = []\<rparr>"

definition empty_library :: library_tables where
  "empty_library = \<lparr>source_resolutions = [], run_source_bindings = [], artifact_snapshots = [],
     artifact_snapshot_members = []\<rparr>"

text \<open>A store as \<open>initialize\<close> leaves it: the migrations create the tables empty.\<close>

definition empty_store ::
    "(nat \<Rightarrow> instant) \<Rightarrow> (string \<Rightarrow> nat \<Rightarrow> string) \<Rightarrow> (json \<Rightarrow> string) \<Rightarrow> (string \<Rightarrow> bool) \<Rightarrow> store" where
  "empty_store clk ids sha ok =
     \<lparr>st_clock = clk, st_ticks = 0, st_id_factory = ids, st_ids = 0, st_sha256_json = sha,
      st_netloc_ok = ok, workspaces = [], threads = [], messages = [], runs = [], attempts = [],
      runtime_bindings = [], run_events = [], decisions = [], runtime_actions = [],
      runtime_pin_releases = [], runtime_recovery_commands = [], runtime_event_inbox = [],
      idempotency_receipts = [], control_audit = [], captures = [], sources = [],
      source_aliases = [], source_intents = [], source_import_waiters = [],
      source_import_actions = [], artifact_versions = [], artifact_materialization_actions = [],
      workflow_instances = [], workflow_stage_instances = [], workflow_stage_dependencies = [],
      workflow_stage_receipt_requirements = [], workflow_stage_result_requirements = [],
      workflow_decision_refs = [], runtime_release_approvals = [],
      runtime_activation_decisions = [], transport_activation_decisions = [],
      flow = empty_flow, mail = empty_mail, library = empty_library\<rparr>"

end
