(* ===== verification/Control_Core.thy ===== *)
theory Control_Core
  imports Control_Schema
begin

text \<open>
  What every command of the Control store is made of: readings of the clock and of the id factory,
  validation of texts and revisions, the lookup of a row by its id, the audit trail, the event log of a
  run, and the idempotency receipts. \<open>command\<close> is the shape all commands share: replay the receipt of
  the key if there is one, otherwise run the body and file a receipt for its response.

  The main facts: a command that committed is replayed, with the same response and no effect
  (\<open>command_replay\<close>), a key is never reused for another request (\<open>command_conflict\<close>), and the locale
  \<open>bookkeeping\<close> collects what a predicate of the store has to ignore to be kept by receipts, audit rows
  and clock readings.
\<close>

section \<open>Clock, ids, validation\<close>

definition utc_now :: "instant op" where
  "utc_now s = Inr (st_clock s (st_ticks s), s\<lparr>st_ticks := Suc (st_ticks s)\<rparr>)"

definition new_id :: "string \<Rightarrow> string op" where
  "new_id kind s = Inr (st_id_factory s kind (st_ids s), s\<lparr>st_ids := Suc (st_ids s)\<rparr>)"

definition required_text :: "string \<Rightarrow> string \<Rightarrow> int \<Rightarrow> string op" where
  "required_text value name maximum =
     (if strip value = [] \<or> maximum < int (length value) then raise (ValueError (name @ '' is invalid''))
      else ret (strip value))"

definition required_text_opt :: "string option \<Rightarrow> string \<Rightarrow> int \<Rightarrow> string op" where
  "required_text_opt value name maximum =
     (case value of None \<Rightarrow> raise (ValueError (name @ '' is invalid''))
      | Some text \<Rightarrow> required_text text name maximum)"

definition key_char :: "char \<Rightarrow> bool" where
  "key_char c = (is_upper_alpha c \<or> is_lower_alpha c \<or> is_digit c \<or> c = CHR ''_'' \<or> c = CHR ''-'')"

definition valid_key :: "string \<Rightarrow> bool" where
  "valid_key key = full_class key_char 16 128 key"

definition validate_key :: "string \<Rightarrow> unit op" where
  "validate_key key =
     guard (valid_key key) (ValueError ''idempotency key must be 16-128 URL-safe characters'')"

definition expect_revision :: "int \<Rightarrow> json \<Rightarrow> int \<Rightarrow> unit op" where
  "expect_revision revision resource expected =
     (if expected < 0 then raise (ValueError ''expected_revision must be a non-negative integer'')
      else guard (revision = expected) (RevisionConflict resource))"

definition valid_digest :: "string \<Rightarrow> bool" where
  "valid_digest s = full_class is_hex 64 64 s"

section \<open>Dictionaries\<close>

text \<open>Assignment to a key of a dictionary, and \<open>dict.update\<close>.\<close>

fun dict_set :: "string \<Rightarrow> json \<Rightarrow> (string \<times> json) list \<Rightarrow> (string \<times> json) list" where
  "dict_set k v [] = [(k, v)]"
| "dict_set k v ((k', v') # kvs) = (if k' = k then (k, v) # kvs else (k', v') # dict_set k v kvs)"

definition dict_update :: "(string \<times> json) list \<Rightarrow> (string \<times> json) list \<Rightarrow> (string \<times> json) list" where
  "dict_update d e = fold (\<lambda>(k, v). dict_set k v) e d"

fun jset :: "string \<Rightarrow> json \<Rightarrow> json \<Rightarrow> json" where
  "jset k v (JObj kvs) = JObj (dict_set k v kvs)"
| "jset k v j = j"

lemma map_of_dict_set: "map_of (dict_set k v kvs) = (map_of kvs)(k \<mapsto> v)"
  by (induction kvs) auto

lemma jget_jset: "jget k (jset k' v (JObj kvs)) = (if k = k' then Some v else jget k (JObj kvs))"
  by (simp add: map_of_dict_set)

section \<open>Rows as responses\<close>

definition workspace_json :: "workspace \<Rightarrow> json" where
  "workspace_json w = JObj [(''id'', JStr (ws_id w)), (''title'', JStr (ws_title w)),
     (''revision'', JInt (ws_revision w)), (''created_at'', JTime (ws_created_at w)),
     (''updated_at'', JTime (ws_updated_at w))]"

definition thread_json :: "thread \<Rightarrow> json" where
  "thread_json t = JObj [(''id'', JStr (th_id t)), (''workspace_id'', JStr (th_workspace_id t)),
     (''title'', JStr (th_title t)), (''status'', JStr (th_status t)),
     (''active_run_id'', jstr_opt (th_active_run_id t)), (''revision'', JInt (th_revision t)),
     (''created_at'', JTime (th_created_at t)), (''updated_at'', JTime (th_updated_at t)),
     (''archived_at'', jtime_opt (th_archived_at t))]"

definition message_json :: "message \<Rightarrow> json" where
  "message_json m = JObj [(''id'', JStr (ms_id m)), (''thread_id'', JStr (ms_thread_id m)),
     (''role'', JStr (ms_role m)), (''content'', JStr (ms_content m)),
     (''position'', JInt (ms_position m)), (''created_at'', JTime (ms_created_at m))]"

definition run_json :: "run \<Rightarrow> json" where
  "run_json r = JObj [(''id'', JStr (rn_id r)), (''thread_id'', JStr (rn_thread_id r)),
     (''state'', JStr (run_state_name (rn_state r))),
     (''active_attempt_id'', jstr_opt (rn_active_attempt_id r)), (''stage'', jstr_opt (rn_stage r)),
     (''latest_sequence'', JInt (rn_latest_sequence r)), (''revision'', JInt (rn_revision r)),
     (''created_at'', JTime (rn_created_at r)), (''updated_at'', JTime (rn_updated_at r))]"

definition attempt_json :: "attempt \<Rightarrow> json" where
  "attempt_json a = JObj [(''id'', JStr (at_id a)), (''run_id'', JStr (at_run_id a)),
     (''number'', JInt (at_number a)), (''state'', JStr (run_state_name (at_state a))),
     (''runtime_binding_id'', jstr_opt (at_runtime_binding_id a)),
     (''runtime_release_id'', jstr_opt (at_runtime_release_id a)),
     (''checkpoint_uri'', jstr_opt (at_checkpoint_uri a)),
     (''source_attempt_id'', jstr_opt (at_source_attempt_id a)),
     (''source_checkpoint_uri'', jstr_opt (at_source_checkpoint_uri a)),
     (''started_at'', jtime_opt (at_started_at a)), (''finished_at'', jtime_opt (at_finished_at a)),
     (''state_generation_id'', jstr_opt (at_state_generation_id a)),
     (''dispatch_owner'', jstr_opt (at_dispatch_owner a)),
     (''dispatch_expires_at'', jtime_opt (at_dispatch_expires_at a)),
     (''runtime_identity_version'', JInt (at_runtime_identity_version a)),
     (''runtime_slot_id'', jstr_opt (at_runtime_slot_id a)),
     (''runtime_artifact_digest'', jstr_opt (at_runtime_artifact_digest a)),
     (''runtime_worker_protocol'', jstr_opt (at_runtime_worker_protocol a))]"

definition runtime_binding_json :: "runtime_binding \<Rightarrow> json" where
  "runtime_binding_json b = JObj [(''id'', JStr (rb_id b)), (''thread_id'', JStr (rb_thread_id b)),
     (''adapter_id'', JStr (rb_adapter_id b)),
     (''runtime_session_ref'', JStr (rb_runtime_session_ref b)),
     (''generation'', JInt (rb_generation b)), (''adapter_version'', JStr (rb_adapter_version b)),
     (''parent_ref'', jstr_opt (rb_parent_ref b)), (''created_at'', JTime (rb_created_at b)),
     (''updated_at'', JTime (rb_updated_at b))]"

definition decision_json :: "decision \<Rightarrow> json" where
  "decision_json d = JObj [(''id'', JStr (de_id d)), (''run_id'', JStr (de_run_id d)),
     (''attempt_id'', JStr (de_attempt_id d)), (''kind'', JStr (de_kind d)),
     (''prompt'', JStr (de_prompt d)), (''state'', JStr (decision_state_name (de_state d))),
     (''revision'', JInt (de_revision d)), (''created_at'', JTime (de_created_at d)),
     (''resolved_at'', jtime_opt (de_resolved_at d)), (''options'', de_options d),
     (''resolution'', case de_resolution d of None \<Rightarrow> JNull | Some j \<Rightarrow> j)]"

definition runtime_action_json :: "runtime_action \<Rightarrow> json" where
  "runtime_action_json a = JObj [(''id'', JStr (ra_id a)), (''run_id'', JStr (ra_run_id a)),
     (''attempt_id'', JStr (ra_attempt_id a)),
     (''runtime_binding_id'', JStr (ra_runtime_binding_id a)),
     (''runtime_release_id'', JStr (ra_runtime_release_id a)), (''kind'', JStr (ra_kind a)),
     (''state'', JStr (action_state_name (ra_state a))), (''created_at'', JTime (ra_created_at a)),
     (''acknowledged_at'', jtime_opt (ra_acknowledged_at a)),
     (''claim_owner'', jstr_opt (ra_claim_owner a)),
     (''claim_expires_at'', jtime_opt (ra_claim_expires_at a)),
     (''failure_category'', jstr_opt (ra_failure_category a)),
     (''claim_epoch'', JInt (ra_claim_epoch a)),
     (''outcome_state'', JStr (outcome_state_name (ra_outcome_state a))),
     (''payload'', ra_payload a)]"

definition pin_release_json :: "pin_release \<Rightarrow> json" where
  "pin_release_json p = JObj [(''id'', JStr (pr_id p)), (''run_id'', JStr (pr_run_id p)),
     (''attempt_id'', JStr (pr_attempt_id p)),
     (''runtime_release_id'', JStr (pr_runtime_release_id p)),
     (''state_generation_id'', JStr (pr_state_generation_id p)),
     (''state'', JStr (action_state_name (pr_state p))),
     (''claim_owner'', jstr_opt (pr_claim_owner p)), (''claim_epoch'', JInt (pr_claim_epoch p)),
     (''claim_expires_at'', jtime_opt (pr_claim_expires_at p)),
     (''failure_category'', jstr_opt (pr_failure_category p)),
     (''created_at'', JTime (pr_created_at p)),
     (''acknowledged_at'', jtime_opt (pr_acknowledged_at p)),
     (''runtime_slot_id'', jstr_opt (pr_runtime_slot_id p)),
     (''runtime_artifact_digest'', jstr_opt (pr_runtime_artifact_digest p)),
     (''runtime_worker_protocol'', jstr_opt (pr_runtime_worker_protocol p)),
     (''runtime_identity_version'', JInt (pr_runtime_identity_version p))]"

definition recovery_command_json :: "recovery_command \<Rightarrow> json" where
  "recovery_command_json c = JObj [(''id'', JStr (rc_id c)), (''run_id'', JStr (rc_run_id c)),
     (''attempt_id'', JStr (rc_attempt_id c)),
     (''runtime_binding_id'', jstr_opt (rc_runtime_binding_id c)),
     (''runtime_release_id'', jstr_opt (rc_runtime_release_id c)),
     (''state_generation_id'', jstr_opt (rc_state_generation_id c)), (''kind'', JStr (rc_kind c)),
     (''state'', JStr (recovery_state_name (rc_state c))),
     (''claim_owner'', jstr_opt (rc_claim_owner c)), (''claim_epoch'', JInt (rc_claim_epoch c)),
     (''claim_expires_at'', jtime_opt (rc_claim_expires_at c)),
     (''created_at'', JTime (rc_created_at c)), (''completed_at'', jtime_opt (rc_completed_at c)),
     (''runtime_slot_id'', jstr_opt (rc_runtime_slot_id c)),
     (''runtime_artifact_digest'', jstr_opt (rc_runtime_artifact_digest c)),
     (''runtime_worker_protocol'', jstr_opt (rc_runtime_worker_protocol c)),
     (''runtime_identity_version'', JInt (rc_runtime_identity_version c)),
     (''result'', case rc_result c of None \<Rightarrow> JNull | Some j \<Rightarrow> j)]"

definition capture_json :: "capture \<Rightarrow> json" where
  "capture_json c = JObj [(''id'', JStr (ca_id c)), (''capture_key'', JStr (ca_capture_key c)),
     (''payload'', JStr (ca_payload c)), (''kind'', JStr (ca_kind c)), (''note'', JStr (ca_note c)),
     (''state'', JStr (capture_state_name (ca_state c))),
     (''claim_owner'', jstr_opt (ca_claim_owner c)), (''claim_epoch'', JInt (ca_claim_epoch c)),
     (''claim_expires_at'', jtime_opt (ca_claim_expires_at c)),
     (''known_source_id'', jstr_opt (ca_known_source_id c)),
     (''consumed_source_ids'',
        case ca_consumed_source_ids c of None \<Rightarrow> JNull | Some ids \<Rightarrow> jstrs ids),
     (''failure_category'', jstr_opt (ca_failure_category c)),
     (''revision'', JInt (ca_revision c)), (''created_at'', JTime (ca_created_at c)),
     (''updated_at'', JTime (ca_updated_at c))]"

section \<open>Rows by id\<close>

definition get_workspace :: "string \<Rightarrow> workspace op" where
  "get_workspace i = fetch (NotFound ''workspace'' i) workspaces ws_id i"

definition get_thread :: "string \<Rightarrow> thread op" where
  "get_thread i = fetch (NotFound ''thread'' i) threads th_id i"

definition get_message :: "string \<Rightarrow> message op" where
  "get_message i = fetch (NotFound ''message'' i) messages ms_id i"

definition get_run :: "string \<Rightarrow> run op" where
  "get_run i = fetch (NotFound ''run'' i) runs rn_id i"

definition get_attempt :: "string \<Rightarrow> attempt op" where
  "get_attempt i = fetch (NotFound ''attempt'' i) attempts at_id i"

definition get_runtime_binding :: "string \<Rightarrow> runtime_binding op" where
  "get_runtime_binding i = fetch (NotFound ''runtime binding'' i) runtime_bindings rb_id i"

definition get_decision :: "string \<Rightarrow> decision op" where
  "get_decision i = fetch (NotFound ''decision'' i) decisions de_id i"

definition get_runtime_action :: "string \<Rightarrow> runtime_action op" where
  "get_runtime_action i = fetch (NotFound ''runtime action'' i) runtime_actions ra_id i"

definition get_pin_release :: "string \<Rightarrow> pin_release op" where
  "get_pin_release i = fetch (NotFound ''pin release'' i) runtime_pin_releases pr_id i"

definition get_recovery_command :: "string \<Rightarrow> recovery_command op" where
  "get_recovery_command i =
     fetch (NotFound ''runtime recovery command'' i) runtime_recovery_commands rc_id i"

definition get_capture :: "string \<Rightarrow> capture op" where
  "get_capture i = fetch (NotFound ''capture'' i) captures ca_id i"

lemmas getter_defs = get_workspace_def get_thread_def get_message_def get_run_def get_attempt_def
  get_runtime_binding_def get_decision_def get_runtime_action_def get_pin_release_def
  get_recovery_command_def get_capture_def

section \<open>Audit trail and event log\<close>

definition audit :: "string \<Rightarrow> string \<Rightarrow> string \<Rightarrow> json \<Rightarrow> unit op" where
  "audit aggregate_type aggregate_id event_type payload =
     seq (new_id ''audit'') (\<lambda>audit_id.
     seq utc_now (\<lambda>now.
     sql_insert IntegrityError control_audit control_audit_update au_id
       \<lparr>au_id = audit_id, au_aggregate_type = aggregate_type, au_aggregate_id = aggregate_id,
        au_type = event_type, au_occurred_at = now, au_payload = payload\<rparr>))"

definition insert_event ::
    "string \<Rightarrow> string option \<Rightarrow> string \<Rightarrow> json \<Rightarrow> string option \<Rightarrow> run_event op" where
  "insert_event run_id attempt_id event_type payload causation_id =
     seq (get_run run_id) (\<lambda>run.
     let sequence = rn_latest_sequence run + 1 in
     seq utc_now (\<lambda>now.
     seq (new_id ''event'') (\<lambda>event_id.
     let event = \<lparr>ev_id = event_id, ev_run_id = run_id, ev_attempt_id = attempt_id,
       ev_sequence = sequence, ev_type = event_type, ev_occurred_at = now,
       ev_causation_id = causation_id, ev_payload = payload\<rparr> in
     seq (gets (\<lambda>s. (run_id, sequence) \<notin> set (map (\<lambda>e. (ev_run_id e, ev_sequence e)) (run_events s))))
       (\<lambda>fresh.
     seq (guard fresh IntegrityError) (\<lambda>_.
     seq (sql_insert IntegrityError run_events run_events_update ev_id event) (\<lambda>_.
     seq (sql_update runs runs_update (\<lambda>r. rn_id r = run_id)
            (\<lambda>r. r\<lparr>rn_latest_sequence := sequence\<rparr>)) (\<lambda>_.
     ret event)))))))"

section \<open>Receipts\<close>

definition receipt_key :: "receipt \<Rightarrow> string \<times> string \<times> string" where
  "receipt_key r = (rt_actor_id r, rt_operation r, rt_idempotency_key r)"

lemma receipt_key_fields [simp]:
  "receipt_key \<lparr>rt_actor_id = a, rt_operation = p, rt_idempotency_key = k, rt_request_hash = h,
     rt_status_code = c, rt_response = v, rt_created_at = t\<rparr> = (a, p, k)"
  by (simp add: receipt_key_def)

definition request_hash :: "json \<Rightarrow> store \<Rightarrow> string" where
  "request_hash request s = st_sha256_json s request"

definition find_receipt ::
    "string \<Rightarrow> string \<Rightarrow> string \<Rightarrow> json \<Rightarrow> command_result option op" where
  "find_receipt actor_id operation key request =
     seq (validate_key key) (\<lambda>_.
     seq (gets (request_hash request)) (\<lambda>hash.
     seq (gets (\<lambda>s. find_row receipt_key (actor_id, operation, key) (idempotency_receipts s)))
       (\<lambda>row. case row of
          None \<Rightarrow> ret None
        | Some r \<Rightarrow>
            if rt_request_hash r \<noteq> hash then raise IdempotencyConflict
            else ret (Some \<lparr>cr_value = rt_response r, cr_status_code = rt_status_code r,
                            cr_replayed = True\<rparr>))))"

definition save_receipt ::
    "string \<Rightarrow> string \<Rightarrow> string \<Rightarrow> json \<Rightarrow> json \<Rightarrow> int \<Rightarrow> command_result op" where
  "save_receipt actor_id operation key request response status_code =
     seq (gets (request_hash request)) (\<lambda>hash.
     seq utc_now (\<lambda>now.
     seq (sql_insert IntegrityError idempotency_receipts idempotency_receipts_update receipt_key
       \<lparr>rt_actor_id = actor_id, rt_operation = operation, rt_idempotency_key = key,
        rt_request_hash = hash, rt_status_code = status_code, rt_response = response,
        rt_created_at = now\<rparr>) (\<lambda>_.
     ret \<lparr>cr_value = response, cr_status_code = status_code, cr_replayed = False\<rparr>)))"

definition replay_command ::
    "string \<Rightarrow> string \<Rightarrow> string \<Rightarrow> json \<Rightarrow> command_result option op" where
  "replay_command actor_id operation key request = find_receipt actor_id operation key request"

text \<open>The transaction of a command: \<open>_receipt\<close>, the body, \<open>_save_receipt\<close>.\<close>

definition command ::
    "string \<Rightarrow> string \<Rightarrow> string \<Rightarrow> json \<Rightarrow> int \<Rightarrow> json op \<Rightarrow> command_result op" where
  "command actor_id operation key request status_code body =
     seq (find_receipt actor_id operation key request) (\<lambda>replay. case replay of
       Some result \<Rightarrow> ret result
     | None \<Rightarrow> seq body (\<lambda>value.
         save_receipt actor_id operation key request value status_code))"

text \<open>The commands that hand out a lease check, before they replay a receipt, that the lease it
  describes still stands.\<close>

definition command_checked ::
    "string \<Rightarrow> string \<Rightarrow> string \<Rightarrow> json \<Rightarrow> int \<Rightarrow> (command_result \<Rightarrow> bool op) \<Rightarrow> control_error \<Rightarrow> json op
      \<Rightarrow> command_result op" where
  "command_checked actor_id operation key request status_code current stale body =
     seq (find_receipt actor_id operation key request) (\<lambda>replay. case replay of
       Some result \<Rightarrow> seq (current result) (\<lambda>ok. if ok then ret result else raise stale)
     | None \<Rightarrow> seq body (\<lambda>value.
         save_receipt actor_id operation key request value status_code))"

subsection \<open>Weakest preconditions\<close>

lemma wp_utc_now [wp_rules]:
  "wp utc_now Q s = Q (st_clock s (st_ticks s)) (s\<lparr>st_ticks := Suc (st_ticks s)\<rparr>)"
  by (simp add: wp_def utc_now_def)

lemma wp_new_id [wp_rules]:
  "wp (new_id kind) Q s = Q (st_id_factory s kind (st_ids s)) (s\<lparr>st_ids := Suc (st_ids s)\<rparr>)"
  by (simp add: wp_def new_id_def)

lemma wp_required_text [wp_rules]:
  "wp (required_text value name n) Q s
     = (strip value \<noteq> [] \<and> int (length value) \<le> n \<longrightarrow> Q (strip value) s)"
  by (simp add: required_text_def wp_rules)

lemma wp_required_text_opt [wp_rules]:
  "wp (required_text_opt value name n) Q s
     = (\<forall>v. value = Some v \<and> strip v \<noteq> [] \<and> int (length v) \<le> n \<longrightarrow> Q (strip v) s)"
  by (cases "value") (auto simp: required_text_opt_def wp_rules)

lemma wp_expect_revision [wp_rules]:
  "wp (expect_revision r j e) Q s = (0 \<le> e \<and> r = e \<longrightarrow> Q () s)"
  by (auto simp: expect_revision_def wp_rules)

lemma wp_find_receipt [wp_rules]:
  "wp (find_receipt actor oper key req) Q s
     = (valid_key key \<longrightarrow>
         (case find_row receipt_key (actor, oper, key) (idempotency_receipts s) of
            None \<Rightarrow> Q None s
          | Some r \<Rightarrow> rt_request_hash r = request_hash req s \<longrightarrow>
              Q (Some \<lparr>cr_value = rt_response r, cr_status_code = rt_status_code r,
                       cr_replayed = True\<rparr>) s))"
  by (auto simp: find_receipt_def validate_key_def wp_rules split: option.splits)

lemma wp_command:
  "wp (command actor oper key req st body) Q s
     = (valid_key key \<longrightarrow>
         (case find_row receipt_key (actor, oper, key) (idempotency_receipts s) of
            None \<Rightarrow> wp body (\<lambda>v. wp (save_receipt actor oper key req v st) Q) s
          | Some r \<Rightarrow> rt_request_hash r = request_hash req s \<longrightarrow>
              Q \<lparr>cr_value = rt_response r, cr_status_code = rt_status_code r, cr_replayed = True\<rparr> s))"
  by (simp add: command_def wp_rules split: option.splits)

subsection \<open>Replay\<close>

text \<open>A command that committed finds its own receipt: the second time it answers with the
  response of the first, and changes nothing. This is what \<open>command\<close> gives every command built
  from it, whatever its body does.\<close>

lemma save_receipt_find:
  assumes "save_receipt actor oper key req v st s = Inr (r, s')"
  shows "find_row receipt_key (actor, oper, key) (idempotency_receipts s')
           = Some \<lparr>rt_actor_id = actor, rt_operation = oper, rt_idempotency_key = key,
                   rt_request_hash = request_hash req s', rt_status_code = st, rt_response = v,
                   rt_created_at = st_clock s (st_ticks s)\<rparr>
       \<and> r = \<lparr>cr_value = v, cr_status_code = st, cr_replayed = False\<rparr>"
proof -
  have "wp (save_receipt actor oper key req v st)
    (\<lambda>r s'. find_row receipt_key (actor, oper, key) (idempotency_receipts s')
           = Some \<lparr>rt_actor_id = actor, rt_operation = oper, rt_idempotency_key = key,
                   rt_request_hash = request_hash req s', rt_status_code = st, rt_response = v,
                   rt_created_at = st_clock s (st_ticks s)\<rparr>
       \<and> r = \<lparr>cr_value = v, cr_status_code = st, cr_replayed = False\<rparr>) s"
    by (auto simp: save_receipt_def wp_rules request_hash_def intro: find_row_last)
  with assms show ?thesis by (blast dest: wpD)
qed

lemma command_replay:
  assumes "command actor oper key req st body s = Inr (r, s')"
  shows "command actor oper key req st body s' = Inr (r\<lparr>cr_replayed := True\<rparr>, s')"
proof -
  from assms have key: "valid_key key"
    by (auto simp: command_def find_receipt_def validate_key_def guard_def cmd_defs split: if_splits)
  consider (hit) row where "find_row receipt_key (actor, oper, key) (idempotency_receipts s) = Some row"
    | (miss) "find_row receipt_key (actor, oper, key) (idempotency_receipts s) = None"
    by (cases "find_row receipt_key (actor, oper, key) (idempotency_receipts s)") auto
  then show ?thesis
  proof cases
    case hit
    with assms key show ?thesis
      by (auto simp: command_def find_receipt_def validate_key_def cmd_defs split: if_splits)
  next
    case miss
    with assms key obtain v s1 where "body s = Inr (v, s1)"
      and *: "save_receipt actor oper key req v st s1 = Inr (r, s')"
      by (auto simp: command_def find_receipt_def validate_key_def cmd_defs
          split: if_splits sum.splits)
    from save_receipt_find [OF *] key show ?thesis
      by (simp add: command_def find_receipt_def validate_key_def cmd_defs)
  qed
qed

lemma command_conflict:
  assumes "find_row receipt_key (actor, oper, key) (idempotency_receipts s) = Some row"
    and "rt_request_hash row \<noteq> request_hash req s" and "valid_key key"
  shows "command actor oper key req st body s = Inl IdempotencyConflict"
  using assms by (simp add: command_def find_receipt_def validate_key_def cmd_defs)

text \<open>A command whose body refuses can only answer with an earlier receipt.\<close>

lemma command_refused:
  "wp body (\<lambda>_ _. False) s \<Longrightarrow> wp (command a p k req st body) (\<lambda>r s'. cr_replayed r \<and> s' = s) s"
  by (auto simp: wp_command split: option.splits elim: wp_mono)

section \<open>What receipts, audit rows and readings leave alone\<close>

lemma preserves_required_text [keeps]: "preserves I (required_text v n m)"
  by (simp add: preserves_def wp_rules)

lemma preserves_required_text_opt [keeps]: "preserves I (required_text_opt v n m)"
  by (simp add: preserves_def wp_rules)

lemma preserves_expect_revision [keeps]: "preserves I (expect_revision r j e)"
  by (simp add: preserves_def wp_rules)

lemma preserves_find_receipt [keeps]: "preserves I (find_receipt a p k r)"
  by (simp add: preserves_def wp_rules split: option.splits)

lemma preserves_getters [keeps]:
  "preserves I (get_workspace i)" "preserves I (get_thread i)" "preserves I (get_message i)"
  "preserves I (get_run i)" "preserves I (get_attempt i)" "preserves I (get_runtime_binding i)"
  "preserves I (get_decision i)" "preserves I (get_runtime_action i)" "preserves I (get_pin_release i)"
  "preserves I (get_recovery_command i)" "preserves I (get_capture i)"
  by (simp_all add: getter_defs preserves_fetch)

text \<open>A predicate of the store that new receipts, new audit rows and the readings of the clock and of the
  id factory keep is kept by a command whose body keeps it.\<close>

locale bookkeeping =
  fixes I :: "store \<Rightarrow> bool"
  assumes I_ticks: "I s \<Longrightarrow> I (s\<lparr>st_ticks := n\<rparr>)"
    and I_ids: "I s \<Longrightarrow> I (s\<lparr>st_ids := n\<rparr>)"
    and I_receipt: "receipt_key x1 \<notin> receipt_key ` set (idempotency_receipts s) \<Longrightarrow> I s
       \<Longrightarrow> I (idempotency_receipts_update (\<lambda>rs. rs @ [x1]) s)"
    and I_audit: "I s \<Longrightarrow> I (control_audit_update (\<lambda>rs. rs @ [x2]) s)"
begin

lemma keeps_utc_now [keeps]: "preserves I utc_now"
  by (simp add: preserves_def wp_rules I_ticks)

lemma keeps_new_id [keeps]: "preserves I (new_id k)"
  by (simp add: preserves_def wp_rules I_ids)

lemma keeps_audit_insert [keeps]:
  "preserves I (sql_insert e control_audit control_audit_update key row)"
  by (rule preserves_sql_insert) (rule I_audit)

lemma keeps_receipt_insert [keeps]:
  "preserves I (sql_insert e idempotency_receipts idempotency_receipts_update receipt_key row)"
  by (rule preserves_sql_insert) (rule I_receipt)

lemma keeps_audit [keeps]: "preserves I (audit t i e p)"
  unfolding audit_def by (intro keeps)

lemma keeps_save_receipt [keeps]: "preserves I (save_receipt a p k r v st)"
  unfolding save_receipt_def by (intro keeps)

lemma keeps_command [keeps]: "preserves I body \<Longrightarrow> preserves I (command a p k r st body)"
  unfolding command_def by (intro keeps)

lemma keeps_command_checked [keeps]:
  "(\<And>x. preserves I (current x)) \<Longrightarrow> preserves I body
     \<Longrightarrow> preserves I (command_checked a p k r st current stale body)"
  unfolding command_checked_def by (intro keeps)

end

section \<open>A sample store\<close>

text \<open>A clock that advances a second and a half at every reading, ids that count, and a digest that
  takes all requests for equal: what the examples of the components run on.\<close>

definition demo_ids :: "string \<Rightarrow> nat \<Rightarrow> string" where
  "demo_ids kind n = kind @ ''_'' @ replicate n (CHR ''0'')"

definition demo_store :: store where
  "demo_store = empty_store (\<lambda>n. int n * 1500000) demo_ids (\<lambda>_. ''digest'') (\<lambda>_. True)"

definition demo_key :: string where
  "demo_key = ''demo-key-00000001''"

end
