(* ===== verification/Control_Workflow.thy ===== *)
theory Control_Workflow
  imports Control_Core
begin

text \<open>
  Workflow definitions and their installation on a run: \<open>StageDefinition\<close> and \<open>WorkflowDefinition\<close> of
  \<open>workflows/models.py\<close>, \<open>ControlStore.install_workflow\<close> and the readers of a stored workflow, with the
  triggers of \<open>control/schema.py\<close> that guard the definition tables (an abort is \<open>IntegrityError\<close>).

  \<open>valid_stage\<close> and \<open>valid_workflow\<close> are what the constructors of the two classes let through: a definition
  object that exists satisfies them.
\<close>

section \<open>Definitions\<close>

record stage_definition =
  sd_key :: string
  sd_effect :: string
  sd_dependencies :: "string list"
  sd_required_receipts :: "string list"
  sd_required_results :: "string list"
  sd_checkpoint :: bool

record workflow_definition =
  wn_definition_id :: string
  wn_version :: int
  wn_stages :: "stage_definition list"

definition identifier_char :: "char \<Rightarrow> bool" where
  "identifier_char c = (is_lower_alpha c \<or> is_digit c \<or> c = CHR ''_'' \<or> c = CHR ''.'' \<or> c = CHR '':''
     \<or> c = CHR ''-'')"

definition is_identifier :: "string \<Rightarrow> bool" where
  "is_identifier s = (s \<noteq> [] \<and> (is_lower_alpha (hd s) \<or> is_digit (hd s)) \<and> full_class identifier_char 0 127 (tl s))"

definition identifiers :: "bool \<Rightarrow> string list \<Rightarrow> bool" where
  "identifiers canonical_order values = (list_all is_identifier values \<and> distinct values
     \<and> (canonical_order \<longrightarrow> sorted values))"

definition mutating_effects :: "string list" where
  "mutating_effects = [''engine_mutation'', ''runtime'', ''artifact'']"

definition stage_effects :: "string list" where
  "stage_effects = [''control'', ''decision'', ''engine_query''] @ mutating_effects"

definition valid_stage :: "stage_definition \<Rightarrow> bool" where
  "valid_stage d = (is_identifier (sd_key d) \<and> sd_effect d \<in> set stage_effects
     \<and> identifiers False (sd_dependencies d) \<and> identifiers True (sd_required_receipts d)
     \<and> identifiers True (sd_required_results d)
     \<and> (if sd_effect d \<in> set mutating_effects
        then sd_required_receipts d \<noteq> [] \<and> sd_required_results d = []
        else if sd_effect d = ''engine_query''
        then sd_required_results d \<noteq> [] \<and> sd_required_receipts d = []
        else sd_required_receipts d = [] \<and> sd_required_results d = []))"

fun precede :: "string list \<Rightarrow> stage_definition list \<Rightarrow> bool" where
  "precede known [] = True"
| "precede known (d # ds) =
     (list_all (\<lambda>k. k \<in> set known) (sd_dependencies d) \<and> precede (sd_key d # known) ds)"

definition valid_workflow :: "workflow_definition \<Rightarrow> bool" where
  "valid_workflow w = (is_identifier (wn_definition_id w) \<and> 1 \<le> wn_version w \<and> wn_stages w \<noteq> []
     \<and> list_all valid_stage (wn_stages w) \<and> distinct (map sd_key (wn_stages w))
     \<and> precede [] (wn_stages w))"

type_synonym stage_signature = "string \<times> string \<times> string list \<times> string list \<times> string list \<times> bool"

definition stage_signature_of :: "stage_definition \<Rightarrow> stage_signature" where
  "stage_signature_of d = (sd_key d, sd_effect d, sd_dependencies d, sd_required_receipts d,
     sd_required_results d, sd_checkpoint d)"

definition definition_signature :: "workflow_definition \<Rightarrow> string \<times> int \<times> stage_signature list" where
  "definition_signature w = (wn_definition_id w, wn_version w, map stage_signature_of (wn_stages w))"

section \<open>Stored workflows\<close>

definition get_workflow_row :: "string \<Rightarrow> workflow_instance op" where
  "get_workflow_row i = fetch (NotFound ''workflow'' i) workflow_instances wf_id i"

definition workflow_stage_rows :: "string \<Rightarrow> store \<Rightarrow> stage_instance list" where
  "workflow_stage_rows workflow_id s =
     select_by sg_position (\<lambda>g. sg_workflow_id g = workflow_id) (workflow_stage_instances s)"

text \<open>The dependencies of a stage: the keys of the stages its edges name (a join on the stage id).\<close>

definition stage_dependencies :: "string \<Rightarrow> store \<Rightarrow> string list" where
  "stage_dependencies stage_id s = concat (map
     (\<lambda>e. map sg_stage_key (filter (\<lambda>g. sg_id g = sr_value e) (workflow_stage_instances s)))
     (select_by sr_position (\<lambda>e. sr_stage_id e = stage_id) (workflow_stage_dependencies s)))"

definition stage_required_receipts :: "string \<Rightarrow> store \<Rightarrow> string list" where
  "stage_required_receipts stage_id s = map sr_value
     (select_by sr_position (\<lambda>e. sr_stage_id e = stage_id) (workflow_stage_receipt_requirements s))"

definition stage_required_results :: "string \<Rightarrow> store \<Rightarrow> string list" where
  "stage_required_results stage_id s = map sr_value
     (select_by sr_position (\<lambda>e. sr_stage_id e = stage_id) (workflow_stage_result_requirements s))"

definition stored_stage_signature :: "store \<Rightarrow> stage_instance \<Rightarrow> stage_signature" where
  "stored_stage_signature s g = (sg_stage_key g, sg_effect g, stage_dependencies (sg_id g) s,
     stage_required_receipts (sg_id g) s, stage_required_results (sg_id g) s, sg_checkpoint_enabled g)"

definition workflow_definition_signature ::
    "workflow_instance \<Rightarrow> store \<Rightarrow> string \<times> int \<times> stage_signature list" where
  "workflow_definition_signature w s = (wf_definition_id w, wf_definition_version w,
     map (stored_stage_signature s) (workflow_stage_rows (wf_id w) s))"

section \<open>Installation\<close>

definition workflow_fenced_run_states :: "run_state list" where
  "workflow_fenced_run_states = [R_completed, R_failed, R_canceled, R_cancel_requested]"

definition expect_workflow_run_open :: "run \<Rightarrow> unit op" where
  "expect_workflow_run_open run = guard (rn_state run \<notin> set workflow_fenced_run_states)
     (InvalidTransition (run_state_name (rn_state run)) ''workflow_active'')"

definition unsealed :: "string \<Rightarrow> store \<Rightarrow> bool" where
  "unsealed workflow_id s = list_ex (\<lambda>w. wf_id w = workflow_id \<and> \<not> wf_definition_sealed w)
     (workflow_instances s)"

text \<open>The insertions with the triggers that guard them.\<close>

definition insert_workflow_row :: "workflow_instance \<Rightarrow> unit op" where
  "insert_workflow_row w =
     seq (gets (\<lambda>s. list_ex (\<lambda>x. wf_id x = wf_id w \<or> wf_run_id x = wf_run_id w) (workflow_instances s)))
       (\<lambda>taken.
     seq (guard (\<not> taken) IntegrityError) (\<lambda>_.
     modify (workflow_instances_update (\<lambda>ws. ws @ [w]))))"

definition insert_stage_row :: "stage_instance \<Rightarrow> unit op" where
  "insert_stage_row g =
     seq (gets (\<lambda>s. unsealed (sg_workflow_id g) s
        \<and> \<not> list_ex (\<lambda>x. sg_id x = sg_id g \<or> (sg_workflow_id x = sg_workflow_id g
              \<and> (sg_stage_key x = sg_stage_key g \<or> sg_position x = sg_position g)))
            (workflow_stage_instances s))) (\<lambda>ok_row.
     seq (guard ok_row IntegrityError) (\<lambda>_.
     modify (workflow_stage_instances_update (\<lambda>gs. gs @ [g]))))"

definition requirement_free :: "stage_requirement \<Rightarrow> stage_requirement list \<Rightarrow> bool" where
  "requirement_free r rows = (\<not> list_ex (\<lambda>x. sr_stage_id x = sr_stage_id r
     \<and> (sr_value x = sr_value r \<or> sr_position x = sr_position r)) rows)"

definition insert_receipt_requirement :: "stage_requirement \<Rightarrow> unit op" where
  "insert_receipt_requirement r =
     seq (gets (\<lambda>s. unsealed (sr_workflow_id r) s
        \<and> list_ex (\<lambda>g. sg_workflow_id g = sr_workflow_id r \<and> sg_id g = sr_stage_id r
              \<and> sg_effect g \<in> set mutating_effects) (workflow_stage_instances s)
        \<and> requirement_free r (workflow_stage_receipt_requirements s))) (\<lambda>ok_row.
     seq (guard ok_row IntegrityError) (\<lambda>_.
     modify (workflow_stage_receipt_requirements_update (\<lambda>rs. rs @ [r]))))"

definition insert_result_requirement :: "stage_requirement \<Rightarrow> unit op" where
  "insert_result_requirement r =
     seq (gets (\<lambda>s. unsealed (sr_workflow_id r) s
        \<and> list_ex (\<lambda>g. sg_workflow_id g = sr_workflow_id r \<and> sg_id g = sr_stage_id r
              \<and> sg_effect g = ''engine_query'') (workflow_stage_instances s)
        \<and> requirement_free r (workflow_stage_result_requirements s))) (\<lambda>ok_row.
     seq (guard ok_row IntegrityError) (\<lambda>_.
     modify (workflow_stage_result_requirements_update (\<lambda>rs. rs @ [r]))))"

definition insert_dependency :: "stage_requirement \<Rightarrow> unit op" where
  "insert_dependency r =
     seq (gets (\<lambda>s. unsealed (sr_workflow_id r) s
        \<and> list_ex (\<lambda>g. sg_workflow_id g = sr_workflow_id r \<and> sg_id g = sr_stage_id r
              \<and> list_ex (\<lambda>d. sg_workflow_id d = sr_workflow_id r \<and> sg_id d = sr_value r
                    \<and> sg_position d < sg_position g) (workflow_stage_instances s))
            (workflow_stage_instances s)
        \<and> requirement_free r (workflow_stage_dependencies s))) (\<lambda>ok_row.
     seq (guard ok_row IntegrityError) (\<lambda>_.
     modify (workflow_stage_dependencies_update (\<lambda>rs. rs @ [r]))))"

text \<open>The trigger on the seal: the definition is complete.\<close>

definition stage_complete :: "store \<Rightarrow> stage_instance \<Rightarrow> bool" where
  "stage_complete s g =
     (let receipts = list_ex (\<lambda>r. sr_workflow_id r = sg_workflow_id g \<and> sr_stage_id r = sg_id g)
            (workflow_stage_receipt_requirements s);
          results = list_ex (\<lambda>r. sr_workflow_id r = sg_workflow_id g \<and> sr_stage_id r = sg_id g)
            (workflow_stage_result_requirements s)
      in (sg_effect g \<in> set mutating_effects \<longrightarrow> receipts \<and> \<not> results)
         \<and> (sg_effect g = ''engine_query'' \<longrightarrow> results \<and> \<not> receipts)
         \<and> (sg_effect g \<in> {''control'', ''decision''} \<longrightarrow> \<not> receipts \<and> \<not> results))"

definition definition_complete :: "workflow_instance \<Rightarrow> store \<Rightarrow> bool" where
  "definition_complete w s =
     ((case wf_current_stage_key w of None \<Rightarrow> False
       | Some key \<Rightarrow> list_ex (\<lambda>g. sg_workflow_id g = wf_id w \<and> sg_stage_key g = key \<and> sg_state g = S_ready)
           (workflow_stage_instances s))
      \<and> list_all (\<lambda>g. sg_workflow_id g = wf_id w \<longrightarrow> stage_complete s g) (workflow_stage_instances s))"

definition seal_workflow :: "string \<Rightarrow> unit op" where
  "seal_workflow workflow_id =
     seq (gets (\<lambda>s. list_all (\<lambda>w. wf_id w = workflow_id \<and> \<not> wf_definition_sealed w \<longrightarrow> definition_complete w s)
            (workflow_instances s))) (\<lambda>complete.
     seq (guard complete IntegrityError) (\<lambda>_.
     seq (sql_update workflow_instances workflow_instances_update
            (\<lambda>w. wf_id w = workflow_id \<and> \<not> wf_definition_sealed w) (\<lambda>w. w\<lparr>wf_definition_sealed := True\<rparr>))
       (\<lambda>_. ret ())))"

text \<open>The loop over the stages, with their ids by key, and the loop over their dependencies.\<close>

fun install_requirements ::
    "(stage_requirement \<Rightarrow> unit op) \<Rightarrow> string \<Rightarrow> string \<Rightarrow> int \<Rightarrow> string list \<Rightarrow> unit op" where
  "install_requirements ins workflow_id stage_id position [] = ret ()"
| "install_requirements ins workflow_id stage_id position (kind # kinds) =
     seq (ins \<lparr>sr_workflow_id = workflow_id, sr_stage_id = stage_id, sr_value = kind, sr_position = position\<rparr>)
       (\<lambda>_. install_requirements ins workflow_id stage_id (position + 1) kinds)"

fun install_stages ::
    "string \<Rightarrow> int \<Rightarrow> stage_definition list \<Rightarrow> (string \<times> string) list op" where
  "install_stages workflow_id position [] = ret []"
| "install_stages workflow_id position (stage # stages) =
     seq (new_id ''workflow_stage'') (\<lambda>stage_id.
     seq (insert_stage_row \<lparr>sg_id = stage_id, sg_workflow_id = workflow_id, sg_stage_key = sd_key stage,
            sg_position = position, sg_effect = sd_effect stage, sg_checkpoint_enabled = sd_checkpoint stage,
            sg_input_hash = None, sg_state = (if sd_dependencies stage = [] then S_ready else S_pending),
            sg_attempt = 0, sg_revision = 0, sg_started_at = None, sg_completed_at = None\<rparr>) (\<lambda>_.
     seq (install_requirements insert_receipt_requirement workflow_id stage_id 0 (sd_required_receipts stage))
       (\<lambda>_.
     seq (install_requirements insert_result_requirement workflow_id stage_id 0 (sd_required_results stage))
       (\<lambda>_.
     seq (install_stages workflow_id (position + 1) stages) (\<lambda>ids.
     ret ((sd_key stage, stage_id) # ids))))))"

fun install_dependencies ::
    "string \<Rightarrow> (string \<times> string) list \<Rightarrow> string \<Rightarrow> int \<Rightarrow> string list \<Rightarrow> unit op" where
  "install_dependencies workflow_id stage_ids stage_id position [] = ret ()"
| "install_dependencies workflow_id stage_ids stage_id position (key # keys) =
     (case map_of stage_ids key of
        None \<Rightarrow> raise (RuntimeError ''KeyError'')
      | Some dependency_id \<Rightarrow>
          seq (insert_dependency \<lparr>sr_workflow_id = workflow_id, sr_stage_id = stage_id,
                 sr_value = dependency_id, sr_position = position\<rparr>) (\<lambda>_.
          install_dependencies workflow_id stage_ids stage_id (position + 1) keys))"

definition install_edges :: "string \<Rightarrow> (string \<times> string) list \<Rightarrow> stage_definition list \<Rightarrow> unit op" where
  "install_edges workflow_id stage_ids stages =
     seq (for_each (\<lambda>stage. case map_of stage_ids (sd_key stage) of
            None \<Rightarrow> raise (RuntimeError ''KeyError'')
          | Some stage_id \<Rightarrow>
              install_dependencies workflow_id stage_ids stage_id 0 (sd_dependencies stage)) stages)
       (\<lambda>_. ret ())"

definition install_workflow :: "string \<Rightarrow> workflow_definition \<Rightarrow> workflow_instance op" where
  "install_workflow run_id d =
     seq (get_run run_id) (\<lambda>run.
     seq (gets (\<lambda>s. find_row wf_run_id run_id (workflow_instances s))) (\<lambda>existing. case existing of
       Some w \<Rightarrow>
         seq (gets (workflow_definition_signature w)) (\<lambda>signature.
         seq (guard (signature = definition_signature d)
                (InvalidTransition ''definition_drift'' ''workflow_replay'')) (\<lambda>_.
         ret w))
     | None \<Rightarrow>
         seq (expect_workflow_run_open run) (\<lambda>_.
         seq (new_id ''workflow'') (\<lambda>workflow_id.
         seq utc_now (\<lambda>now.
         (case find (\<lambda>stage. sd_dependencies stage = []) (wn_stages d) of
            None \<Rightarrow> raise (RuntimeError ''StopIteration'')
          | Some first_ready \<Rightarrow>
              seq (insert_workflow_row \<lparr>wf_id = workflow_id, wf_run_id = run_id,
                     wf_definition_id = wn_definition_id d, wf_definition_version = wn_version d,
                     wf_definition_sealed = False, wf_state = W_running,
                     wf_current_stage_key = Some (sd_key first_ready), wf_revision = 0,
                     wf_created_at = now, wf_updated_at = now\<rparr>) (\<lambda>_.
              seq (install_stages workflow_id 0 (wn_stages d)) (\<lambda>stage_ids.
              seq (install_edges workflow_id stage_ids (wn_stages d)) (\<lambda>_.
              seq (seal_workflow workflow_id) (\<lambda>_.
              get_workflow_row workflow_id))))))))))"

section \<open>What installation leaves alone\<close>

locale workflow_frame = bookkeeping +
  assumes I_workflows: "I s \<Longrightarrow> I (workflow_instances_update f1 s)"
    and I_stages: "I s \<Longrightarrow> I (workflow_stage_instances_update f2 s)"
    and I_edges: "I s \<Longrightarrow> I (workflow_stage_dependencies_update f3 s)"
    and I_receipt_requirements: "I s \<Longrightarrow> I (workflow_stage_receipt_requirements_update f4 s)"
    and I_result_requirements: "I s \<Longrightarrow> I (workflow_stage_result_requirements_update f5 s)"
begin

lemmas workflow_tables = I_workflows I_stages I_edges I_receipt_requirements I_result_requirements

lemma keeps_workflow_inserts [keeps]:
  "preserves I (insert_workflow_row w)" "preserves I (insert_stage_row g)"
  "preserves I (insert_receipt_requirement r)" "preserves I (insert_result_requirement r)"
  "preserves I (insert_dependency r)"
  unfolding insert_workflow_row_def insert_stage_row_def insert_receipt_requirement_def
    insert_result_requirement_def insert_dependency_def
  by (auto intro!: keeps preserves_modify intro: workflow_tables)

lemma keeps_install_requirements:
  "(\<And>r. preserves I (ins r)) \<Longrightarrow> preserves I (install_requirements ins w g n kinds)"
  by (induction kinds arbitrary: n) (auto intro!: keeps)

lemma keeps_install_stages [keeps]: "preserves I (install_stages w n stages)"
  by (induction stages arbitrary: n) (auto intro!: keeps keeps_install_requirements)

lemma keeps_install_dependencies [keeps]: "preserves I (install_dependencies w ids g n keys)"
  by (induction keys arbitrary: n) (auto intro!: keeps split: option.split)

lemma keeps_install_edges [keeps]: "preserves I (install_edges w ids stages)"
  unfolding install_edges_def by (intro keeps)

lemma keeps_seal_workflow [keeps]: "preserves I (seal_workflow w)"
  unfolding seal_workflow_def by (intro keeps preserves_sql_update I_workflows)

lemma keeps_install_workflow [keeps]: "preserves I (install_workflow r d)"
  unfolding install_workflow_def expect_workflow_run_open_def get_workflow_row_def by (intro keeps)

end

end
