(* ===== verification/Control_Leases.thy ===== *)
theory Control_Leases
  imports Control_Core
begin

text \<open>
  How the rows of the work tables may change: the contract of leases and of settled work.

  Runtime actions, pin releases and recovery commands are handed out to workers under a lease: an owner,
  an expiry and an epoch that every claim raises. A settled row (acknowledged, failed, completed,
  resolved, expired) is final, with the one exception of a failed pin release, which may be retried.
  \<open>action_step\<close>, \<open>pin_step\<close>, \<open>recovery_step\<close> and \<open>decision_step\<close> say what one statement may do to a row;
  every statement of the operations is shown to respect them, so a token (owner, epoch) that has been
  overtaken stays invalid in whatever happens later (\<open>overtaken_token\<close>).
\<close>

section \<open>Leases\<close>

type_synonym lease = "string option \<times> int"

text \<open>A lease stays, is given back, or is handed out anew with the next epoch.\<close>

fun lease_step :: "lease \<Rightarrow> lease \<Rightarrow> bool" where
  "lease_step (w, e) (w', e') \<longleftrightarrow> (e' = e \<and> (w' = w \<or> w' = None)) \<or> e' = e + 1"

definition overtaken :: "string \<Rightarrow> int \<Rightarrow> lease \<Rightarrow> bool" where
  "overtaken w e l \<longleftrightarrow> e \<le> snd l \<and> l \<noteq> (Some w, e)"

lemma overtaken_step: "lease_step l l' \<Longrightarrow> overtaken w e l \<Longrightarrow> overtaken w e l'"
  by (cases l; cases l') (auto simp: overtaken_def)

text \<open>A table whose rows carry leases.\<close>

locale leased_table =
  fixes sel :: "store \<Rightarrow> 'r list" and upd :: "('r list \<Rightarrow> 'r list) \<Rightarrow> store \<Rightarrow> store"
    and key :: "'r \<Rightarrow> string" and lease :: "'r \<Rightarrow> lease" and step :: "'r \<Rightarrow> 'r \<Rightarrow> bool"
  assumes sel_upd: "sel (upd f s) = f (sel s)"
    and step_key: "step r r' \<Longrightarrow> key r' = key r"
    and step_lease: "step r r' \<Longrightarrow> lease_step (lease r) (lease r')"
begin

definition evolved :: "'r list \<Rightarrow> store \<Rightarrow> bool" where
  "evolved old s \<longleftrightarrow> rows_evolve step\<^sup>*\<^sup>* old (sel s) \<and> distinct (map key (sel s))"

lemma steps_key: "step\<^sup>*\<^sup>* r r' \<Longrightarrow> key r' = key r"
  by (induction rule: rtranclp_induct) (auto dest: step_key)

lemma steps_overtaken: "step\<^sup>*\<^sup>* r r' \<Longrightarrow> overtaken w e (lease r) \<Longrightarrow> overtaken w e (lease r')"
  by (induction rule: rtranclp_induct) (auto dest: step_lease overtaken_step)

lemma evolved_refl: "distinct (map key (sel s)) \<Longrightarrow> evolved (sel s) s"
  unfolding evolved_def by (simp add: rows_evolve_refl)

lemma evolved_distinct: "evolved old s \<Longrightarrow> distinct (map key (sel s))"
  by (simp add: evolved_def)

lemma evolved_update:
  assumes "\<And>r. Q r \<Longrightarrow> step r (f r)" and "evolved old s"
  shows "evolved old (upd (update_where Q f) s)"
proof -
  have "rows_evolve step\<^sup>*\<^sup>* (sel s) (update_where Q f (sel s))"
    by (rule rows_evolve_update_where) (use assms(1) in auto)
  with assms(2) have "rows_evolve (step\<^sup>*\<^sup>* OO step\<^sup>*\<^sup>*) old (update_where Q f (sel s))"
    unfolding evolved_def by (blast intro: rows_evolve_trans)
  then have "rows_evolve step\<^sup>*\<^sup>* old (update_where Q f (sel s))" by (rule rows_evolve_mono) auto
  moreover have "map key (update_where Q f (sel s)) = map key (sel s)"
    by (rule map_update_where) (use assms(1) step_key in blast)
  ultimately show ?thesis using assms(2) unfolding evolved_def sel_upd by simp
qed

lemma evolved_update_rows:
  assumes "distinct (map key (sel s)) \<Longrightarrow> \<forall>r \<in> set (sel s). Q r \<longrightarrow> step r (f r)" and "evolved old s"
  shows "evolved old (upd (update_where Q f) s)"
proof -
  have "\<forall>r \<in> set (sel s). Q r \<longrightarrow> step r (f r)" using assms by (simp add: evolved_distinct)
  then have "update_where Q f (sel s) = update_where (\<lambda>r. Q r \<and> step r (f r)) f (sel s)"
    by (auto simp: update_where_def)
  moreover have "evolved old (upd (update_where (\<lambda>r. Q r \<and> step r (f r)) f) s)"
    by (rule evolved_update[OF _ assms(2)]) simp
  ultimately show ?thesis unfolding evolved_def sel_upd by simp
qed

lemma evolved_insert:
  "key r \<notin> key ` set (sel s) \<Longrightarrow> evolved old s \<Longrightarrow> evolved old (upd (\<lambda>rs. rs @ [r]) s)"
  unfolding evolved_def sel_upd by (simp add: rows_evolve_append)

text \<open>A token that a row has overtaken is not the lease of that row at any later time.\<close>

lemma evolved_row:
  assumes "evolved (sel s) s'" and "r \<in> set (sel s)" and "r' \<in> set (sel s')" and "key r' = key r"
  shows "step\<^sup>*\<^sup>* r r'"
proof -
  obtain r2 where r2: "r2 \<in> set (sel s')" "step\<^sup>*\<^sup>* r r2"
    using rows_evolve_in[OF conjunct1[OF assms(1)[unfolded evolved_def]] assms(2)] by blast
  moreover have "inj_on key (set (sel s'))" using assms(1) by (simp add: evolved_def distinct_map)
  ultimately have "r2 = r'" using assms(3,4) steps_key[OF r2(2)] by (metis inj_onD)
  with r2 show ?thesis by simp
qed

lemma overtaken_token:
  assumes "evolved (sel s) s'" and "r \<in> set (sel s)" and "r' \<in> set (sel s')" and "key r' = key r"
    and "overtaken w e (lease r)"
  shows "lease r' \<noteq> (Some w, e)"
  using steps_overtaken[OF evolved_row[OF assms(1-4)] assms(5)] by (simp add: overtaken_def)

end

section \<open>What a statement may do to a row\<close>

definition action_identity ::
    "runtime_action \<Rightarrow> string \<times> string \<times> string \<times> string \<times> string \<times> string \<times> json \<times> instant" where
  "action_identity a = (ra_id a, ra_run_id a, ra_attempt_id a, ra_runtime_binding_id a,
     ra_runtime_release_id a, ra_kind a, ra_payload a, ra_created_at a)"

definition action_lease :: "runtime_action \<Rightarrow> lease" where
  "action_lease a = (ra_claim_owner a, ra_claim_epoch a)"

definition action_step :: "runtime_action \<Rightarrow> runtime_action \<Rightarrow> bool" where
  "action_step a b \<longleftrightarrow> ra_state a = A_pending \<and> action_identity b = action_identity a
     \<and> lease_step (action_lease a) (action_lease b)
     \<and> (ra_state b \<noteq> A_pending \<longrightarrow> ra_claim_owner b = None)"

definition pin_identity :: "pin_release \<Rightarrow> string \<times> string \<times> string \<times> string \<times> string \<times> instant" where
  "pin_identity p = (pr_id p, pr_run_id p, pr_attempt_id p, pr_runtime_release_id p,
     pr_state_generation_id p, pr_created_at p)"

definition pin_lease :: "pin_release \<Rightarrow> lease" where
  "pin_lease p = (pr_claim_owner p, pr_claim_epoch p)"

definition pin_step :: "pin_release \<Rightarrow> pin_release \<Rightarrow> bool" where
  "pin_step p q \<longleftrightarrow> pin_identity q = pin_identity p \<and> lease_step (pin_lease p) (pin_lease q)
     \<and> (pr_state p = A_pending \<or> pr_state p = A_failed \<and> pr_state q = A_pending)
     \<and> (pr_state q \<noteq> A_pending \<longrightarrow> pr_claim_owner q = None)"

definition recovery_identity :: "recovery_command \<Rightarrow> string \<times> string \<times> string \<times> string \<times> instant" where
  "recovery_identity c = (rc_id c, rc_run_id c, rc_attempt_id c, rc_kind c, rc_created_at c)"

definition recovery_lease :: "recovery_command \<Rightarrow> lease" where
  "recovery_lease c = (rc_claim_owner c, rc_claim_epoch c)"

definition recovery_step :: "recovery_command \<Rightarrow> recovery_command \<Rightarrow> bool" where
  "recovery_step c d \<longleftrightarrow> rc_state c = V_pending \<and> recovery_identity d = recovery_identity c
     \<and> lease_step (recovery_lease c) (recovery_lease d)
     \<and> (rc_state d \<noteq> V_pending \<longrightarrow> rc_claim_owner d = None)"

definition decision_step :: "decision \<Rightarrow> decision \<Rightarrow> bool" where
  "decision_step d d' \<longleftrightarrow> de_state d = D_pending \<and> de_state d' \<noteq> D_pending
     \<and> de_revision d' = de_revision d + 1 \<and> de_resolved_at d' \<noteq> None
     \<and> (de_id d', de_run_id d', de_attempt_id d', de_kind d', de_prompt d', de_options d', de_created_at d')
       = (de_id d, de_run_id d, de_attempt_id d, de_kind d, de_prompt d, de_options d, de_created_at d)"

text \<open>Effects of workflows: the transitions of their states, with the claims that raise both epochs.\<close>

definition effect_terminal :: "effect_state \<Rightarrow> bool" where
  "effect_terminal x \<longleftrightarrow> x \<in> {E_completed, E_failed, E_manual_required}"

definition effect_moves :: "(effect_state \<times> effect_state) set" where
  "effect_moves = {(E_pending, E_claimed), (E_pending, E_failed), (E_claimed, E_outcome_unknown),
     (E_claimed, E_completed), (E_claimed, E_failed), (E_outcome_unknown, E_reconciling),
     (E_reconciling, E_reconciling), (E_reconciling, E_pending), (E_reconciling, E_completed),
     (E_reconciling, E_manual_required), (E_reconciling, E_failed)}"

definition effect_identity ::
    "workflow_effect \<Rightarrow> string \<times> string \<times> string \<times> string \<times> string \<times> string \<times> string \<times> string \<times> json \<times> instant" where
  "effect_identity x = (wx_id x, wx_operation_id x, wx_workflow_id x, wx_stage_id x, wx_effect_class x,
     wx_effect_kind x, wx_effect_key x, wx_request_hash x, wx_request x, wx_created_at x)"

definition effect_lease :: "workflow_effect \<Rightarrow> lease" where
  "effect_lease x = (wx_claim_owner x, wx_claim_epoch x)"

text \<open>The \<open>CHECK\<close> clause of the table.\<close>

definition effect_row_ok :: "workflow_effect \<Rightarrow> bool" where
  "effect_row_ok x \<longleftrightarrow> (wx_claim_owner x \<noteq> None \<longleftrightarrow> wx_state x \<in> {E_claimed, E_reconciling})
     \<and> (wx_claim_expires_at x \<noteq> None \<longleftrightarrow> wx_state x \<in> {E_claimed, E_reconciling})
     \<and> (wx_result_identity x \<noteq> None \<longleftrightarrow> wx_state x = E_completed)
     \<and> (wx_receipt x \<noteq> None \<longleftrightarrow> wx_state x = E_completed)
     \<and> (wx_failure_category x \<noteq> None \<longleftrightarrow> wx_state x \<in> {E_failed, E_manual_required})
     \<and> (wx_completed_at x \<noteq> None \<longleftrightarrow> effect_terminal (wx_state x))"

definition effect_step :: "workflow_effect \<Rightarrow> workflow_effect \<Rightarrow> bool" where
  "effect_step x y \<longleftrightarrow> effect_identity y = effect_identity x
     \<and> ((wx_state x, wx_state y) \<in> effect_moves
        \<or> wx_effect_class x = ''query'' \<and> wx_state x = E_claimed \<and> wx_state y = E_claimed)
     \<and> (if wx_state y \<in> {E_claimed, E_reconciling}
        then wx_claim_epoch y = wx_claim_epoch x + 1 \<and> wx_delivery_epoch y = wx_delivery_epoch x + 1
        else wx_claim_owner y = None \<and> wx_claim_epoch y = wx_claim_epoch x
          \<and> wx_delivery_epoch y = wx_delivery_epoch x)
     \<and> (effect_row_ok x \<longrightarrow> effect_row_ok y)"

text \<open>All steps but the one that makes an effect pending again.\<close>

definition onward :: "workflow_effect \<Rightarrow> workflow_effect \<Rightarrow> bool" where
  "onward x y \<longleftrightarrow> effect_step x y \<and> \<not> (wx_state x = E_reconciling \<and> wx_state y = E_pending)"

definition fresh_effect :: "workflow_effect \<Rightarrow> bool" where
  "fresh_effect x \<longleftrightarrow> wx_state x = E_pending \<and> wx_claim_epoch x = 0 \<and> wx_delivery_epoch x = 0 \<and> effect_row_ok x"

definition effects :: "store \<Rightarrow> workflow_effect list" where
  "effects s = workflow_effect_commands (flow s)"

definition effects_update :: "(workflow_effect list \<Rightarrow> workflow_effect list) \<Rightarrow> store \<Rightarrow> store" where
  "effects_update f s = flow_update (workflow_effect_commands_update f) s"

lemma effects_update_elsewhere [simp]:
  "st_clock (effects_update f s) = st_clock s" "st_ticks (effects_update f s) = st_ticks s"
  "st_id_factory (effects_update f s) = st_id_factory s" "st_ids (effects_update f s) = st_ids s"
  "st_sha256_json (effects_update f s) = st_sha256_json s" "st_netloc_ok (effects_update f s) = st_netloc_ok s"
  "workspaces (effects_update f s) = workspaces s" "threads (effects_update f s) = threads s"
  "messages (effects_update f s) = messages s" "runs (effects_update f s) = runs s"
  "attempts (effects_update f s) = attempts s" "runtime_bindings (effects_update f s) = runtime_bindings s"
  "run_events (effects_update f s) = run_events s" "decisions (effects_update f s) = decisions s"
  "runtime_actions (effects_update f s) = runtime_actions s"
  "runtime_pin_releases (effects_update f s) = runtime_pin_releases s"
  "runtime_recovery_commands (effects_update f s) = runtime_recovery_commands s"
  "runtime_event_inbox (effects_update f s) = runtime_event_inbox s"
  "idempotency_receipts (effects_update f s) = idempotency_receipts s"
  "control_audit (effects_update f s) = control_audit s" "captures (effects_update f s) = captures s"
  "sources (effects_update f s) = sources s" "source_aliases (effects_update f s) = source_aliases s"
  "source_intents (effects_update f s) = source_intents s"
  "source_import_waiters (effects_update f s) = source_import_waiters s"
  "source_import_actions (effects_update f s) = source_import_actions s"
  "artifact_versions (effects_update f s) = artifact_versions s"
  "artifact_materialization_actions (effects_update f s) = artifact_materialization_actions s"
  "workflow_instances (effects_update f s) = workflow_instances s"
  "workflow_stage_instances (effects_update f s) = workflow_stage_instances s"
  "workflow_stage_dependencies (effects_update f s) = workflow_stage_dependencies s"
  "workflow_stage_receipt_requirements (effects_update f s) = workflow_stage_receipt_requirements s"
  "workflow_stage_result_requirements (effects_update f s) = workflow_stage_result_requirements s"
  "workflow_decision_refs (effects_update f s) = workflow_decision_refs s"
  "runtime_release_approvals (effects_update f s) = runtime_release_approvals s"
  "runtime_activation_decisions (effects_update f s) = runtime_activation_decisions s"
  "transport_activation_decisions (effects_update f s) = transport_activation_decisions s"
  "mail (effects_update f s) = mail s" "library (effects_update f s) = library s"
  by (simp_all add: effects_update_def)

lemma effects_elsewhere [simp]:
  "effects (st_clock_update f1 s) = effects s" "effects (st_ticks_update f2 s) = effects s"
  "effects (st_id_factory_update f3 s) = effects s" "effects (st_ids_update f4 s) = effects s"
  "effects (st_sha256_json_update f5 s) = effects s" "effects (st_netloc_ok_update f6 s) = effects s"
  "effects (workspaces_update f7 s) = effects s" "effects (threads_update f8 s) = effects s"
  "effects (messages_update f9 s) = effects s" "effects (runs_update f10 s) = effects s"
  "effects (attempts_update f11 s) = effects s" "effects (runtime_bindings_update f12 s) = effects s"
  "effects (run_events_update f13 s) = effects s" "effects (decisions_update f14 s) = effects s"
  "effects (runtime_actions_update f15 s) = effects s" "effects (runtime_pin_releases_update f16 s) = effects s"
  "effects (runtime_recovery_commands_update f17 s) = effects s"
  "effects (runtime_event_inbox_update f18 s) = effects s" "effects (idempotency_receipts_update f19 s) = effects s"
  "effects (control_audit_update f20 s) = effects s" "effects (captures_update f21 s) = effects s"
  "effects (sources_update f22 s) = effects s" "effects (source_aliases_update f23 s) = effects s"
  "effects (source_intents_update f24 s) = effects s" "effects (source_import_waiters_update f25 s) = effects s"
  "effects (source_import_actions_update f26 s) = effects s" "effects (artifact_versions_update f27 s) = effects s"
  "effects (artifact_materialization_actions_update f28 s) = effects s"
  "effects (workflow_instances_update f29 s) = effects s" "effects (workflow_stage_instances_update f30 s) = effects s"
  "effects (workflow_stage_dependencies_update f31 s) = effects s"
  "effects (workflow_stage_receipt_requirements_update f32 s) = effects s"
  "effects (workflow_stage_result_requirements_update f33 s) = effects s"
  "effects (workflow_decision_refs_update f34 s) = effects s"
  "effects (runtime_release_approvals_update f35 s) = effects s"
  "effects (runtime_activation_decisions_update f36 s) = effects s"
  "effects (transport_activation_decisions_update f37 s) = effects s" "effects (mail_update f38 s) = effects s"
  "effects (library_update f39 s) = effects s"
  by (simp_all add: effects_def)

lemma effects_effects_update [simp]: "effects (effects_update f s) = f (effects s)"
  by (simp add: effects_def effects_update_def)

lemma effects_beside [simp]:
  "effects (flow_update (workflow_stage_references_update g) s) = effects s"
  "effects (flow_update (workflow_checkpoints_update h) s) = effects s"
  by (simp_all add: effects_def)

lemmas row_step_defs = action_step_def action_identity_def action_lease_def pin_step_def pin_identity_def
  pin_lease_def recovery_step_def recovery_identity_def recovery_lease_def decision_step_def

interpretation acts: leased_table runtime_actions runtime_actions_update ra_id action_lease action_step
  by unfold_locales (auto simp: action_step_def action_identity_def)

interpretation pins: leased_table runtime_pin_releases runtime_pin_releases_update pr_id pin_lease pin_step
  by unfold_locales (auto simp: pin_step_def pin_identity_def)

interpretation recs: leased_table runtime_recovery_commands runtime_recovery_commands_update rc_id
    recovery_lease recovery_step
  by unfold_locales (auto simp: recovery_step_def recovery_identity_def)

interpretation effs: leased_table effects effects_update wx_id effect_lease effect_step
  by unfold_locales
    (auto simp: effects_def effects_update_def effect_step_def effect_identity_def effect_lease_def split: if_splits)

text \<open>Decisions carry no lease.\<close>

interpretation decs: leased_table decisions decisions_update de_id "\<lambda>_. (None, 0)" decision_step
  by unfold_locales (auto simp: decision_step_def)

text \<open>Settled rows are final.\<close>

lemma settled_action_final: "action_step\<^sup>*\<^sup>* a b \<Longrightarrow> ra_state a \<noteq> A_pending \<Longrightarrow> b = a"
  by (erule converse_rtranclpE) (auto simp: action_step_def)

lemma settled_recovery_final: "recovery_step\<^sup>*\<^sup>* a b \<Longrightarrow> rc_state a \<noteq> V_pending \<Longrightarrow> b = a"
  by (erule converse_rtranclpE) (auto simp: recovery_step_def)

lemma acked_pin_final: "pin_step\<^sup>*\<^sup>* p q \<Longrightarrow> pr_state p = A_acked \<Longrightarrow> q = p"
  by (erule converse_rtranclpE) (auto simp: pin_step_def)

lemma settled_effect_final: "effect_step\<^sup>*\<^sup>* x y \<Longrightarrow> effect_terminal (wx_state x) \<Longrightarrow> y = x"
  by (erule converse_rtranclpE) (auto simp: effect_step_def effect_moves_def effect_terminal_def)

lemma settled_decision_final: "decision_step\<^sup>*\<^sup>* d e \<Longrightarrow> de_state d \<noteq> D_pending \<Longrightarrow> e = d"
  by (erule converse_rtranclpE) (auto simp: decision_step_def)

end
