(* ===== verification/Control_Threads.thy ===== *)
theory Control_Threads
  imports Control_Workflow Control_Leases
begin

text \<open>
  Workspaces, threads, messages and the creation of a run: \<open>ControlStore.create_workspace\<close>,
  \<open>create_thread\<close>, \<open>rename_workspace\<close>, \<open>rename_thread\<close>, \<open>archive_thread\<close>, \<open>unarchive_thread\<close>,
  \<open>append_message\<close> and \<open>create_run\<close>.

  The table of runs has the partial unique index \<open>runs_one_active_per_thread_idx\<close> (one run of a thread
  outside the terminal states): \<open>insert_run\<close> and \<open>update_runs\<close> raise \<open>IntegrityError\<close> when a statement
  would break it. The invariant \<open>thread_inv\<close> says that a thread names as its active run exactly its live
  run; under it the index is never what refuses an operation.
\<close>

section \<open>Live runs\<close>

definition terminal_run_states :: "run_state list" where
  "terminal_run_states = [R_completed, R_failed, R_canceled]"

definition run_live :: "run \<Rightarrow> bool" where
  "run_live r = (rn_state r \<notin> set terminal_run_states)"

definition one_active_per_thread :: "run list \<Rightarrow> bool" where
  "one_active_per_thread rs = distinct (map rn_thread_id (filter run_live rs))"

definition insert_run :: "run \<Rightarrow> unit op" where
  "insert_run r =
     seq (sql_insert IntegrityError runs runs_update rn_id r) (\<lambda>_.
     seq (gets (\<lambda>s. one_active_per_thread (runs s))) (\<lambda>unique. guard unique IntegrityError))"

definition update_runs :: "(run \<Rightarrow> bool) \<Rightarrow> (run \<Rightarrow> run) \<Rightarrow> nat op" where
  "update_runs P f =
     seq (sql_update runs runs_update P f) (\<lambda>rowcount.
     seq (gets (\<lambda>s. one_active_per_thread (runs s))) (\<lambda>unique.
     seq (guard unique IntegrityError) (\<lambda>_. ret rowcount)))"

definition insert_attempt :: "attempt \<Rightarrow> unit op" where
  "insert_attempt a =
     seq (gets (\<lambda>s. (at_run_id a, at_number a) \<in> set (map (\<lambda>x. (at_run_id x, at_number x)) (attempts s))))
       (\<lambda>taken.
     seq (guard (\<not> taken) IntegrityError) (\<lambda>_.
     sql_insert IntegrityError attempts attempts_update at_id a))"

definition insert_message :: "message \<Rightarrow> unit op" where
  "insert_message m =
     seq (gets (\<lambda>s. (ms_thread_id m, ms_position m) \<in> set (map (\<lambda>x. (ms_thread_id x, ms_position x)) (messages s))))
       (\<lambda>taken.
     seq (guard (\<not> taken) IntegrityError) (\<lambda>_.
     sql_insert IntegrityError messages messages_update ms_id m))"

text \<open>\<open>SELECT COALESCE(MAX(position), 0) + 1\<close>.\<close>

definition next_position :: "string \<Rightarrow> store \<Rightarrow> int" where
  "next_position thread_id s =
     fold max (map ms_position (filter (\<lambda>m. ms_thread_id m = thread_id) (messages s))) 0 + 1"

definition bump_thread :: "string \<Rightarrow> int \<Rightarrow> instant \<Rightarrow> unit op" where
  "bump_thread thread_id expected_revision now =
     seq (sql_update threads threads_update (\<lambda>t. th_id t = thread_id \<and> th_revision t = expected_revision)
            (\<lambda>t. t\<lparr>th_revision := th_revision t + 1, th_updated_at := now\<rparr>)) (\<lambda>rowcount.
     if rowcount \<noteq> 1 then seq (get_thread thread_id) (\<lambda>t. raise (RevisionConflict (thread_json t)))
     else ret ())"

definition bump_workspace :: "string \<Rightarrow> int \<Rightarrow> instant \<Rightarrow> unit op" where
  "bump_workspace workspace_id expected_revision now =
     seq (sql_update workspaces workspaces_update
            (\<lambda>w. ws_id w = workspace_id \<and> ws_revision w = expected_revision)
            (\<lambda>w. w\<lparr>ws_revision := ws_revision w + 1, ws_updated_at := now\<rparr>)) (\<lambda>rowcount.
     if rowcount \<noteq> 1 then seq (get_workspace workspace_id) (\<lambda>w. raise (RevisionConflict (workspace_json w)))
     else ret ())"

section \<open>Operations\<close>

definition create_workspace :: "string \<Rightarrow> string \<Rightarrow> string \<Rightarrow> command_result op" where
  "create_workspace title actor_id idempotency_key =
     seq (required_text title ''title'' 500) (\<lambda>title.
     command actor_id ''POST:/api/v1/workspaces'' idempotency_key (JObj [(''title'', JStr title)]) 201
     (seq utc_now (\<lambda>now.
      seq (new_id ''ws'') (\<lambda>workspace_id.
      seq (sql_insert IntegrityError workspaces workspaces_update ws_id
             \<lparr>ws_id = workspace_id, ws_title = title, ws_revision = 0, ws_created_at = now,
              ws_updated_at = now\<rparr>) (\<lambda>_.
      seq (audit ''workspace'' workspace_id ''workspace.created'' (JObj [(''title'', JStr title)])) (\<lambda>_.
      seq (get_workspace workspace_id) (\<lambda>value. ret (workspace_json value))))))))"

definition create_thread :: "string \<Rightarrow> string \<Rightarrow> int \<Rightarrow> string \<Rightarrow> string \<Rightarrow> command_result op" where
  "create_thread workspace_id title expected_revision actor_id idempotency_key =
     seq (required_text title ''title'' 500) (\<lambda>title.
     command actor_id (''POST:/api/v1/workspaces/'' @ workspace_id @ ''/threads'') idempotency_key
       (JObj [(''title'', JStr title), (''expected_revision'', JInt expected_revision)]) 201
     (seq (get_workspace workspace_id) (\<lambda>workspace.
      seq (expect_revision (ws_revision workspace) (workspace_json workspace) expected_revision) (\<lambda>_.
      seq utc_now (\<lambda>now.
      seq (new_id ''thread'') (\<lambda>thread_id.
      seq (sql_insert IntegrityError threads threads_update th_id
             \<lparr>th_id = thread_id, th_workspace_id = workspace_id, th_title = title, th_status = ''idle'',
              th_active_run_id = None, th_revision = 0, th_created_at = now, th_updated_at = now,
              th_archived_at = None\<rparr>) (\<lambda>_.
      seq (bump_workspace workspace_id expected_revision now) (\<lambda>_.
      seq (audit ''thread'' thread_id ''thread.created''
             (JObj [(''workspace_id'', JStr workspace_id), (''title'', JStr title)])) (\<lambda>_.
      seq (get_thread thread_id) (\<lambda>value. ret (thread_json value)))))))))))"

definition rename_workspace :: "string \<Rightarrow> string \<Rightarrow> int \<Rightarrow> string \<Rightarrow> string \<Rightarrow> command_result op" where
  "rename_workspace workspace_id title expected_revision actor_id idempotency_key =
     seq (required_text title ''title'' 500) (\<lambda>title.
     command actor_id (''POST:/api/v1/workspaces/'' @ workspace_id @ ''/rename'') idempotency_key
       (JObj [(''title'', JStr title), (''expected_revision'', JInt expected_revision)]) 200
     (seq (get_workspace workspace_id) (\<lambda>workspace.
      seq (expect_revision (ws_revision workspace) (workspace_json workspace) expected_revision) (\<lambda>_.
      seq utc_now (\<lambda>now.
      seq (sql_update workspaces workspaces_update (\<lambda>w. ws_id w = workspace_id)
             (\<lambda>w. w\<lparr>ws_title := title\<rparr>)) (\<lambda>_.
      seq (bump_workspace workspace_id expected_revision now) (\<lambda>_.
      seq (audit ''workspace'' workspace_id ''workspace.renamed''
             (JObj [(''from'', JStr (ws_title workspace)), (''to'', JStr title)])) (\<lambda>_.
      seq (get_workspace workspace_id) (\<lambda>value. ret (workspace_json value))))))))))"

definition rename_thread :: "string \<Rightarrow> string \<Rightarrow> int \<Rightarrow> string \<Rightarrow> string \<Rightarrow> command_result op" where
  "rename_thread thread_id title expected_revision actor_id idempotency_key =
     seq (required_text title ''title'' 500) (\<lambda>title.
     command actor_id (''POST:/api/v1/threads/'' @ thread_id @ ''/rename'') idempotency_key
       (JObj [(''title'', JStr title), (''expected_revision'', JInt expected_revision)]) 200
     (seq (get_thread thread_id) (\<lambda>thread.
      seq (expect_revision (th_revision thread) (thread_json thread) expected_revision) (\<lambda>_.
      seq utc_now (\<lambda>now.
      seq (sql_update threads threads_update (\<lambda>t. th_id t = thread_id) (\<lambda>t. t\<lparr>th_title := title\<rparr>)) (\<lambda>_.
      seq (bump_thread thread_id expected_revision now) (\<lambda>_.
      seq (audit ''thread'' thread_id ''thread.renamed''
             (JObj [(''from'', JStr (th_title thread)), (''to'', JStr title)])) (\<lambda>_.
      seq (get_thread thread_id) (\<lambda>value. ret (thread_json value))))))))))"

definition set_thread_archived ::
    "string \<Rightarrow> bool \<Rightarrow> int \<Rightarrow> string \<Rightarrow> string \<Rightarrow> command_result op" where
  "set_thread_archived thread_id archived expected_revision actor_id idempotency_key =
     (let action = (if archived then ''archive'' else ''unarchive'') in
     command actor_id (''POST:/api/v1/threads/'' @ thread_id @ ''/'' @ action) idempotency_key
       (JObj [(''expected_revision'', JInt expected_revision)]) 200
     (seq (get_thread thread_id) (\<lambda>thread.
      seq (expect_revision (th_revision thread) (thread_json thread) expected_revision) (\<lambda>_.
      if archived \<and> th_active_run_id thread \<noteq> None then raise (ThreadActiveRun (thread_json thread))
      else if (th_archived_at thread \<noteq> None) = archived then ret (thread_json thread)
      else
        seq utc_now (\<lambda>now.
        seq (sql_update threads threads_update (\<lambda>t. th_id t = thread_id)
               (\<lambda>t. t\<lparr>th_archived_at := (if archived then Some now else None)\<rparr>)) (\<lambda>_.
        seq (bump_thread thread_id expected_revision now) (\<lambda>_.
        seq (audit ''thread'' thread_id (''thread.'' @ action @ ''d'') (JObj [])) (\<lambda>_.
        seq (get_thread thread_id) (\<lambda>value. ret (thread_json value))))))))))"

definition archive_thread :: "string \<Rightarrow> int \<Rightarrow> string \<Rightarrow> string \<Rightarrow> command_result op" where
  "archive_thread thread_id = set_thread_archived thread_id True"

definition unarchive_thread :: "string \<Rightarrow> int \<Rightarrow> string \<Rightarrow> string \<Rightarrow> command_result op" where
  "unarchive_thread thread_id = set_thread_archived thread_id False"

definition append_message ::
    "string \<Rightarrow> string \<Rightarrow> string \<Rightarrow> int \<Rightarrow> string \<Rightarrow> string \<Rightarrow> command_result op" where
  "append_message thread_id role content expected_revision actor_id idempotency_key =
     seq (guard (role \<in> set [''user'', ''assistant'', ''system'']) (ValueError ''role is invalid'')) (\<lambda>_.
     seq (required_text content ''content'' 1000000) (\<lambda>content.
     command actor_id (''POST:/api/v1/threads/'' @ thread_id @ ''/messages'') idempotency_key
       (JObj [(''role'', JStr role), (''content'', JStr content),
              (''expected_revision'', JInt expected_revision)]) 201
     (seq (get_thread thread_id) (\<lambda>thread.
      seq (expect_revision (th_revision thread) (thread_json thread) expected_revision) (\<lambda>_.
      seq (guard (th_archived_at thread = None) (ThreadArchived (thread_json thread))) (\<lambda>_.
      seq (gets (next_position thread_id)) (\<lambda>position.
      seq utc_now (\<lambda>now.
      seq (new_id ''msg'') (\<lambda>message_id.
      seq (insert_message \<lparr>ms_id = message_id, ms_thread_id = thread_id, ms_role = role,
             ms_content = content, ms_position = position, ms_created_at = now\<rparr>) (\<lambda>_.
      seq (bump_thread thread_id expected_revision now) (\<lambda>_.
      seq (audit ''thread'' thread_id ''message.created''
             (JObj [(''message_id'', JStr message_id), (''role'', JStr role),
                    (''position'', JInt position)])) (\<lambda>_.
      seq (get_message message_id) (\<lambda>value. ret (message_json value))))))))))))))"

definition blank_attempt :: "string \<Rightarrow> string \<Rightarrow> int \<Rightarrow> run_state \<Rightarrow> attempt" where
  "blank_attempt attempt_id run_id number state =
     \<lparr>at_id = attempt_id, at_run_id = run_id, at_number = number, at_state = state,
      at_runtime_binding_id = None, at_runtime_release_id = None, at_checkpoint_uri = None,
      at_source_attempt_id = None, at_source_checkpoint_uri = None, at_started_at = None,
      at_finished_at = None, at_state_generation_id = None, at_dispatch_owner = None,
      at_dispatch_expires_at = None, at_runtime_identity_version = 0, at_runtime_slot_id = None,
      at_runtime_artifact_digest = None, at_runtime_worker_protocol = None\<rparr>"

definition create_run ::
    "string \<Rightarrow> int \<Rightarrow> string \<Rightarrow> string \<Rightarrow> workflow_definition option \<Rightarrow> command_result op" where
  "create_run thread_id expected_revision actor_id idempotency_key workflow =
     command actor_id (''POST:/api/v1/threads/'' @ thread_id @ ''/runs'') idempotency_key
       (JObj ([(''expected_revision'', JInt expected_revision)]
          @ (case workflow of None \<Rightarrow> [] | Some w \<Rightarrow>
               [(''workflow'', JObj [(''definition_id'', JStr (wn_definition_id w)),
                                     (''version'', JInt (wn_version w))])]))) 201
     (seq (get_thread thread_id) (\<lambda>thread.
      seq (expect_revision (th_revision thread) (thread_json thread) expected_revision) (\<lambda>_.
      seq (guard (th_archived_at thread = None) (ThreadArchived (thread_json thread))) (\<lambda>_.
      seq (case th_active_run_id thread of
             None \<Rightarrow> ret ()
           | Some active_run_id \<Rightarrow>
               seq (get_run active_run_id) (\<lambda>active.
               guard (rn_state active \<in> set terminal_run_states)
                 (InvalidTransition (run_state_name (rn_state active)) ''queued''))) (\<lambda>_.
      seq utc_now (\<lambda>now.
      seq (new_id ''run'') (\<lambda>run_id.
      seq (new_id ''attempt'') (\<lambda>attempt_id.
      seq (insert_run \<lparr>rn_id = run_id, rn_thread_id = thread_id, rn_state = R_queued,
             rn_active_attempt_id = Some attempt_id, rn_stage = None, rn_latest_sequence = 0,
             rn_revision = 0, rn_created_at = now, rn_updated_at = now\<rparr>) (\<lambda>_.
      seq (insert_attempt (blank_attempt attempt_id run_id 1 R_queued)) (\<lambda>_.
      seq (sql_update threads threads_update
             (\<lambda>t. th_id t = thread_id \<and> th_revision t = expected_revision)
             (\<lambda>t. t\<lparr>th_active_run_id := Some run_id, th_status := ''running'',
                    th_revision := th_revision t + 1, th_updated_at := now\<rparr>)) (\<lambda>_.
      seq (insert_event run_id (Some attempt_id) ''run.queued'' (JObj [(''state'', JStr ''queued'')]) None) (\<lambda>_.
      seq (case workflow of None \<Rightarrow> ret ()
           | Some w \<Rightarrow> seq (install_workflow run_id w) (\<lambda>_. ret ())) (\<lambda>_.
      seq (get_run run_id) (\<lambda>run.
      seq (get_attempt attempt_id) (\<lambda>attempt.
      ret (jset ''attempt'' (attempt_json attempt) (run_json run)))))))))))))))))"

section \<open>Statements that runs and threads do not see\<close>

text \<open>A predicate that says nothing about the tables beside \<open>threads\<close>, \<open>runs\<close> and \<open>run_events\<close>: every
  statement on the other tables keeps it.\<close>

locale side_frame = bookkeeping +
  assumes I_workspaces: "I s \<Longrightarrow> I (workspaces_update u0 s)"
    and I_message: "I s \<Longrightarrow> I (messages_update (\<lambda>rs. rs @ [x1']) s)"
    and I_attempts: "I s \<Longrightarrow> I (attempts_update u2 s)"
    and I_bindings: "I s \<Longrightarrow> I (runtime_bindings_update u3 s)"
    and I_decision: "(\<And>x. P5 x \<Longrightarrow> decision_step x (f5 x)) \<Longrightarrow> I s
       \<Longrightarrow> I (decisions_update (update_where P5 f5) s)"
    and I_new_decision: "de_id x5 \<notin> de_id ` set (decisions s) \<Longrightarrow> I s \<Longrightarrow> I (decisions_update (\<lambda>rs. rs @ [x5]) s)"
    and I_action: "(\<And>x. P6 x \<Longrightarrow> action_step x (f6 x)) \<Longrightarrow> I s
       \<Longrightarrow> I (runtime_actions_update (update_where P6 f6) s)"
    and I_new_action: "ra_id x6 \<notin> ra_id ` set (runtime_actions s) \<Longrightarrow> I s \<Longrightarrow> I (runtime_actions_update (\<lambda>rs. rs @ [x6]) s)"
    and I_pin: "(\<And>x. P7 x \<Longrightarrow> pin_step x (f7 x)) \<Longrightarrow> I s
       \<Longrightarrow> I (runtime_pin_releases_update (update_where P7 f7) s)"
    and I_new_pin: "pr_id x7 \<notin> pr_id ` set (runtime_pin_releases s) \<Longrightarrow> I s \<Longrightarrow> I (runtime_pin_releases_update (\<lambda>rs. rs @ [x7]) s)"
    and I_recovery: "(\<And>x. P8 x \<Longrightarrow> recovery_step x (f8 x)) \<Longrightarrow> I s
       \<Longrightarrow> I (runtime_recovery_commands_update (update_where P8 f8) s)"
    and I_new_recovery: "rc_id x8 \<notin> rc_id ` set (runtime_recovery_commands s) \<Longrightarrow> I s \<Longrightarrow> I (runtime_recovery_commands_update (\<lambda>rs. rs @ [x8]) s)"
    and I_intents: "I s \<Longrightarrow> I (source_intents_update u10 s)"
    and I_waiters: "I s \<Longrightarrow> I (source_import_waiters_update u11 s)"
    and I_imports: "I s \<Longrightarrow> I (source_import_actions_update u12 s)"
    and I_versions: "I s \<Longrightarrow> I (artifact_versions_update u13 s)"
    and I_materializations: "I s \<Longrightarrow> I (artifact_materialization_actions_update u14 s)"
    and I_decision_refs: "I s \<Longrightarrow> I (workflow_decision_refs_update u15 s)"
    and I_effect: "(distinct (map wx_id (effects s)) \<Longrightarrow> \<forall>x \<in> set (effects s). P9 x \<longrightarrow> onward x (f9 x))
       \<Longrightarrow> I s \<Longrightarrow> I (effects_update (update_where P9 f9) s)"
    and I_new_effect: "wx_id x10 \<notin> wx_id ` set (effects s) \<Longrightarrow> fresh_effect x10 \<Longrightarrow> I s \<Longrightarrow> I (effects_update (\<lambda>rs. rs @ [x10]) s)"
    and I_references: "I s \<Longrightarrow> I (flow_update (workflow_stage_references_update u16) s)"
    and I_checkpoints: "I s \<Longrightarrow> I (flow_update (workflow_checkpoints_update u17) s)"
    and I_new_binding: "\<forall>b \<in> set (transport_bindings (mail s)).
         tb_id b \<noteq> tb_id x18 \<and> \<not> (tb_transport b = tb_transport x18 \<and> tb_external_scope b = tb_external_scope x18)
       \<Longrightarrow> I s \<Longrightarrow> I (mail_update (transport_bindings_update (\<lambda>bs. bs @ [x18])) s)"
    and I_new_command: "\<forall>r \<in> set (transport_command_receipts (mail s)).
         \<not> (cc_transport r = cc_transport x20 \<and> cc_command_key r = cc_command_key x20)
       \<Longrightarrow> I s \<Longrightarrow> I (mail_update (transport_command_receipts_update (\<lambda>rs. rs @ [x20])) s)"
    and I_library: "I s \<Longrightarrow> I (library_update u19 s)"
begin

lemma keeps_side_updates [keeps]:
  "preserves I (sql_update workspaces workspaces_update P0 f0)"
  "preserves I (sql_update attempts attempts_update P2 f2)"
  "preserves I (sql_update runtime_bindings runtime_bindings_update P3 f3)"
  "preserves I (sql_update source_intents source_intents_update P10 f10)"
  "preserves I (sql_update source_import_waiters source_import_waiters_update P11 f11)"
  "preserves I (sql_update source_import_actions source_import_actions_update P12 f12)"
  "preserves I (sql_update artifact_versions artifact_versions_update P13 f13)"
  "preserves I (sql_update artifact_materialization_actions artifact_materialization_actions_update P14 f14)"
  "preserves I (sql_update workflow_decision_refs workflow_decision_refs_update P15 f15)"
  by (rule preserves_sql_update, erule I_workspaces
    | rule preserves_sql_update, erule I_attempts
    | rule preserves_sql_update, erule I_bindings
    | rule preserves_sql_update, erule I_intents
    | rule preserves_sql_update, erule I_waiters
    | rule preserves_sql_update, erule I_imports
    | rule preserves_sql_update, erule I_versions
    | rule preserves_sql_update, erule I_materializations
    | rule preserves_sql_update, erule I_decision_refs)+

lemma keeps_side_inserts [keeps]:
  "preserves I (sql_insert e workspaces workspaces_update k0 x0)"
  "preserves I (sql_insert e messages messages_update k1 x1)"
  "preserves I (sql_insert e attempts attempts_update k2 x2)"
  "preserves I (sql_insert e runtime_bindings runtime_bindings_update k3 x3)"
  "preserves I (sql_insert e source_intents source_intents_update k10 x10)"
  "preserves I (sql_insert e source_import_waiters source_import_waiters_update k11 x11)"
  "preserves I (sql_insert e source_import_actions source_import_actions_update k12 x12)"
  "preserves I (sql_insert e artifact_versions artifact_versions_update k13 x13)"
  "preserves I (sql_insert e artifact_materialization_actions artifact_materialization_actions_update k14 x14)"
  "preserves I (sql_insert e workflow_decision_refs workflow_decision_refs_update k15 x15)"
  by (rule preserves_sql_insert, erule I_workspaces
    | rule preserves_sql_insert, erule I_message
    | rule preserves_sql_insert, erule I_attempts
    | rule preserves_sql_insert, erule I_bindings
    | rule preserves_sql_insert, erule I_intents
    | rule preserves_sql_insert, erule I_waiters
    | rule preserves_sql_insert, erule I_imports
    | rule preserves_sql_insert, erule I_versions
    | rule preserves_sql_insert, erule I_materializations
    | rule preserves_sql_insert, erule I_decision_refs)+

text \<open>The tables of work: their rows move only as the contract of leases allows.\<close>

lemma keeps_work_updates [keeps]:
  "(\<And>x. P5 x \<Longrightarrow> decision_step x (f5 x)) \<Longrightarrow> preserves I (sql_update decisions decisions_update P5 f5)"
  "(\<And>x. P6 x \<Longrightarrow> action_step x (f6 x)) \<Longrightarrow> preserves I (sql_update runtime_actions runtime_actions_update P6 f6)"
  "(\<And>x. P7 x \<Longrightarrow> pin_step x (f7 x))
     \<Longrightarrow> preserves I (sql_update runtime_pin_releases runtime_pin_releases_update P7 f7)"
  "(\<And>x. P8 x \<Longrightarrow> recovery_step x (f8 x))
     \<Longrightarrow> preserves I (sql_update runtime_recovery_commands runtime_recovery_commands_update P8 f8)"
  by (rule preserves_sql_update, erule (1) I_decision I_action I_pin I_recovery)+

lemma keeps_work_inserts [keeps]:
  "preserves I (sql_insert e decisions decisions_update de_id x5)"
  "preserves I (sql_insert e runtime_actions runtime_actions_update ra_id x6)"
  "preserves I (sql_insert e runtime_pin_releases runtime_pin_releases_update pr_id x7)"
  "preserves I (sql_insert e runtime_recovery_commands runtime_recovery_commands_update rc_id x8)"
  by (rule preserves_sql_insert, erule (1) I_new_decision I_new_action I_new_pin I_new_recovery)+

lemma keeps_insert_attempt [keeps]: "preserves I (insert_attempt a)"
  unfolding insert_attempt_def by (intro keeps)

lemma keeps_insert_message [keeps]: "preserves I (insert_message m)"
  unfolding insert_message_def by (intro keeps)

lemma keeps_bump_workspace [keeps]: "preserves I (bump_workspace i e n)"
  unfolding bump_workspace_def by (intro keeps)

end

text \<open>A predicate that says nothing about the inbox of runtime events.\<close>

locale ingest_frame = side_frame +
  assumes I_inbox: "I s \<Longrightarrow> I (runtime_event_inbox_update (\<lambda>rs. rs @ [x9]) s)"

text \<open>A predicate that says nothing about events either, nor about the latest sequence number of a run.\<close>

locale quiet_frame = side_frame + workflow_frame +
  assumes I_events: "I s \<Longrightarrow> I (run_events_update u4 s)"
    and I_sequence: "I s \<Longrightarrow> I (runs_update (update_where P (\<lambda>r. r\<lparr>rn_latest_sequence := n\<rparr>)) s)"
begin

lemma keeps_insert_event [keeps]: "preserves I (insert_event r a t p c)"
  unfolding insert_event_def Let_def
  by (intro keeps preserves_sql_insert preserves_sql_update) (erule I_events I_sequence)+

end

text \<open>How a run row moves: its identity stays, its revision and its latest sequence number never fall.\<close>

definition run_step :: "run \<Rightarrow> run \<Rightarrow> bool" where
  "run_step r r' \<longleftrightarrow> rn_id r' = rn_id r \<and> rn_thread_id r' = rn_thread_id r \<and> rn_created_at r' = rn_created_at r
     \<and> rn_revision r \<le> rn_revision r' \<and> rn_latest_sequence r \<le> rn_latest_sequence r'"

text \<open>A predicate that says nothing about threads, and about runs nothing but that they move in such steps
  and what their latest sequence numbers are, and that recording an event and opening a run keep.\<close>

locale journal_frame = side_frame +
  assumes keeps_event [keeps]: "preserves I (insert_event r a t p c)"
    and I_threads: "I s \<Longrightarrow> I (threads_update g1 s)"
    and I_runs: "(\<And>r. Q r \<Longrightarrow> run_step r (h r) \<and> rn_latest_sequence (h r) = rn_latest_sequence r)
       \<Longrightarrow> I s \<Longrightarrow> I (runs_update (update_where Q h) s)"
    and I_new_run: "rn_id r' \<notin> rn_id ` set (runs s) \<Longrightarrow> rn_latest_sequence r' = 0
       \<Longrightarrow> I s \<Longrightarrow> I (runs_update (\<lambda>rs. rs @ [r']) s)"
begin

lemma keeps_thread_updates [keeps]:
  "preserves I (sql_update threads threads_update Q h)" "preserves I (sql_insert e threads threads_update k x)"
  by (rule preserves_sql_update preserves_sql_insert, erule I_threads)+

lemma keeps_run_updates [keeps]:
  assumes "\<And>r. Q r \<Longrightarrow> run_step r (h r) \<and> rn_latest_sequence (h r) = rn_latest_sequence r"
  shows "preserves I (sql_update runs runs_update Q h)" and "preserves I (update_runs Q h)"
  unfolding update_runs_def
  by (intro keeps preserves_sql_update, erule I_runs[rotated], erule assms)+

lemma keeps_insert_run [keeps]: "rn_latest_sequence r = 0 \<Longrightarrow> preserves I (insert_run r)"
  unfolding insert_run_def by (intro keeps preserves_sql_insert I_new_run)

lemma keeps_bump_thread [keeps]: "preserves I (bump_thread i e n)"
  unfolding bump_thread_def by (intro keeps)

lemma keeps_thread_commands [keeps]:
  "preserves I (create_workspace t a k)" "preserves I (create_thread w t e a k)"
  "preserves I (rename_workspace w t e a k)" "preserves I (rename_thread i t e a k)"
  "preserves I (archive_thread i e a k)" "preserves I (unarchive_thread i e a k)"
  "preserves I (append_message i r c e a k)"
  unfolding create_workspace_def create_thread_def rename_workspace_def rename_thread_def archive_thread_def
    unarchive_thread_def set_thread_archived_def append_message_def Let_def
  by (intro keeps; simp add: run_step_def)+

end

locale ingest_journal = journal_frame + ingest_frame + workflow_frame
begin

lemma keeps_create_run [keeps]: "preserves I (create_run i e a k w')"
  unfolding create_run_def by (intro keeps; simp add: run_step_def)+

end

section \<open>The active run of a thread\<close>

text \<open>What the tables say about threads and their runs, and when it is coherent. \<open>links_ok X Y\<close>: a live
  run is the active run of its thread, except for the runs in \<open>X\<close>; a run that a thread names as active is
  a run of that thread and is live, except for the runs in \<open>Y\<close>.\<close>

definition thread_link :: "thread \<Rightarrow> string \<times> string option" where
  "thread_link t = (th_id t, th_active_run_id t)"

definition run_link :: "run \<Rightarrow> string \<times> string \<times> bool" where
  "run_link r = (rn_id r, rn_thread_id r, run_live r)"

definition links_ok :: "string list \<Rightarrow> string list \<Rightarrow> (string \<times> string option) list
    \<Rightarrow> (string \<times> string \<times> bool) list \<Rightarrow> bool" where
  "links_ok X Y ts rs \<longleftrightarrow> distinct (map fst ts) \<and> distinct (map fst rs)
     \<and> (\<forall>(i, t, live) \<in> set rs. live \<longrightarrow> (t, Some i) \<in> set ts \<or> i \<in> set X)
     \<and> (\<forall>(t, active) \<in> set ts. case active of None \<Rightarrow> True
         | Some i \<Rightarrow> (i, t, True) \<in> set rs \<or> i \<in> set Y \<and> (i, t, False) \<in> set rs)"

definition links_inv :: "string list \<Rightarrow> string list \<Rightarrow> store \<Rightarrow> bool" where
  "links_inv X Y s = links_ok X Y (map thread_link (threads s)) (map run_link (runs s))"

definition thread_inv :: "store \<Rightarrow> bool" where
  "thread_inv = links_inv [] []"

text \<open>A run that has ended and that its thread may still name; a run that has started and that its thread
  may not name yet; a run or a thread that is as it was read.\<close>

definition run_ending :: "string \<Rightarrow> string \<Rightarrow> store \<Rightarrow> bool" where
  "run_ending i t s \<longleftrightarrow> links_inv [] [i] s \<and> (i, t, False) \<in> set (map run_link (runs s))"

definition run_starting :: "string \<Rightarrow> string \<Rightarrow> store \<Rightarrow> bool" where
  "run_starting i t s \<longleftrightarrow> links_inv [i] [] s \<and> (i, t, True) \<in> set (map run_link (runs s))
     \<and> ((t, None) \<in> set (map thread_link (threads s)) \<or> (t, Some i) \<in> set (map thread_link (threads s)))"

definition run_view :: "run \<Rightarrow> string \<times> string \<times> bool \<times> int" where
  "run_view r = (rn_id r, rn_thread_id r, run_live r, rn_revision r)"

definition thread_view :: "thread \<Rightarrow> string \<times> string option \<times> int" where
  "thread_view t = (th_id t, th_active_run_id t, th_revision t)"

definition run_known :: "run \<Rightarrow> store \<Rightarrow> bool" where
  "run_known r0 s \<longleftrightarrow> thread_inv s \<and> run_view r0 \<in> set (map run_view (runs s))"

definition thread_known :: "thread \<Rightarrow> store \<Rightarrow> bool" where
  "thread_known t0 s \<longleftrightarrow> thread_inv s \<and> thread_view t0 \<in> set (map thread_view (threads s))"

text \<open>All of them are quiet.\<close>

lemma map_update_sequence [simp]:
  "map run_link (update_where P (\<lambda>r. r\<lparr>rn_latest_sequence := n\<rparr>) rs) = map run_link rs"
  "map run_view (update_where P (\<lambda>r. r\<lparr>rn_latest_sequence := n\<rparr>) rs) = map run_view rs"
  by (auto intro!: map_update_where simp: run_live_def run_link_def run_view_def)

text \<open>Predicates that speak of links only: they ignore revisions, titles and states within the live ones.\<close>

locale link_frame = quiet_frame +
  assumes I_thread_link:
      "(\<And>t. Q t \<Longrightarrow> thread_link (h t) = thread_link t) \<Longrightarrow> I s \<Longrightarrow> I (threads_update (update_where Q h) s)"
    and I_run_link:
      "(\<And>r. Q' r \<Longrightarrow> run_link (h' r) = run_link r) \<Longrightarrow> I s \<Longrightarrow> I (runs_update (update_where Q' h') s)"
begin

lemma keeps_thread_link:
  "(\<And>t. Q t \<Longrightarrow> thread_link (h t) = thread_link t) \<Longrightarrow> preserves I (sql_update threads threads_update Q h)"
  by (rule preserves_sql_update) (rule I_thread_link)

lemma keeps_run_link:
  "(\<And>r. Q r \<Longrightarrow> run_link (h r) = run_link r) \<Longrightarrow> preserves I (sql_update runs runs_update Q h)"
  by (rule preserves_sql_update) (rule I_run_link)

lemma keeps_run_revision [keeps]:
  "preserves I (sql_update runs runs_update Q (\<lambda>r. r\<lparr>rn_revision := rn_revision r + 1, rn_updated_at := now\<rparr>))"
  by (rule keeps_run_link) (simp add: run_link_def run_live_def)

lemma keeps_thread_revision [keeps]:
  "preserves I (sql_update threads threads_update Q (\<lambda>t. t\<lparr>th_revision := th_revision t + 1, th_updated_at := now\<rparr>))"
  by (rule keeps_thread_link) (simp add: thread_link_def)

lemma keeps_bump_thread [keeps]: "preserves I (bump_thread i e n)"
  unfolding bump_thread_def by (intro keeps)

lemma keeps_thread_title [keeps]:
  "preserves I (sql_update threads threads_update Q (\<lambda>t. t\<lparr>th_title := x\<rparr>))"
  by (rule keeps_thread_link) (simp add: thread_link_def)

lemma keeps_thread_archived [keeps]:
  "preserves I (sql_update threads threads_update Q (\<lambda>t. t\<lparr>th_archived_at := y\<rparr>))"
  by (rule keeps_thread_link) (simp add: thread_link_def)

lemma keeps_thread_edits [keeps]:
  "preserves I (create_workspace t a k)" "preserves I (rename_workspace w t e a k)"
  "preserves I (rename_thread i t e a k)" "preserves I (archive_thread i e a k)"
  "preserves I (unarchive_thread i e a k)" "preserves I (append_message i r c e a k)"
  unfolding create_workspace_def rename_workspace_def rename_thread_def archive_thread_def
    unarchive_thread_def set_thread_archived_def append_message_def Let_def
  by (intro keeps)+

end

interpretation tinv: link_frame thread_inv
  by unfold_locales (simp_all add: thread_inv_def links_inv_def map_update_where)

interpretation tinbox: ingest_frame thread_inv
  by unfold_locales (simp add: thread_inv_def links_inv_def)

interpretation ending: link_frame "run_ending i t" for i t
  by unfold_locales (simp_all add: run_ending_def links_inv_def map_update_where del: set_map)

interpretation starting: link_frame "run_starting i t" for i t
  by unfold_locales (simp_all add: run_starting_def links_inv_def map_update_where del: set_map)

interpretation rknown: quiet_frame "run_known r0" for r0
  by unfold_locales (simp_all add: run_known_def thread_inv_def links_inv_def del: set_map)

interpretation tknown: quiet_frame "thread_known t0" for t0
  by unfold_locales (simp_all add: thread_known_def thread_inv_def links_inv_def del: set_map)

subsection \<open>Changing one link\<close>

definition put :: "'k \<Rightarrow> 'v \<Rightarrow> ('k \<times> 'v) list \<Rightarrow> ('k \<times> 'v) list" where
  "put k v xs = update_where (\<lambda>p. fst p = k) (\<lambda>p. (k, v)) xs"

lemma map_fst_put [simp]: "map fst (put k v xs) = map fst xs"
  unfolding put_def by (rule map_update_where) simp

lemma in_put: "distinct (map fst xs) \<Longrightarrow> (k, w) \<in> set xs
    \<Longrightarrow> (j, x) \<in> set (put k v xs) \<longleftrightarrow> (if j = k then x = v else (j, x) \<in> set xs)"
  by (force simp: put_def in_update_where)

lemmas same_key = eq_key_imp_eq_value

lemma links_okI:
  assumes "distinct (map fst ts)" and "distinct (map fst rs)"
    and "\<And>i t. (i, t, True) \<in> set rs \<Longrightarrow> (t, Some i) \<in> set ts \<or> i \<in> set X"
    and "\<And>t i. (t, Some i) \<in> set ts \<Longrightarrow> (i, t, True) \<in> set rs \<or> i \<in> set Y \<and> (i, t, False) \<in> set rs"
  shows "links_ok X Y ts rs"
  using assms(1,2) assms(3)[of "fst x" "fst (snd x)" for x] assms(4)
  by (fastforce simp: links_ok_def split: option.split)

lemma links_okD:
  assumes "links_ok X Y ts rs"
  shows "distinct (map fst ts)" and "distinct (map fst rs)"
    and "(i, t, True) \<in> set rs \<Longrightarrow> (t, Some i) \<in> set ts \<or> i \<in> set X"
    and "(t, Some i) \<in> set ts \<Longrightarrow> (i, t, True) \<in> set rs \<or> i \<in> set Y \<and> (i, t, False) \<in> set rs"
  using assms by (fastforce simp: links_ok_def)+

lemma links_ok_end:
  assumes "links_ok [] [] ts rs" and "(i, t, l) \<in> set rs"
  shows "links_ok [] [i] ts (put i (t, False) rs)"
proof -
  note D = links_okD[OF assms(1)]
  note P = in_put[OF D(2) assms(2)]
  show ?thesis
  proof (rule links_okI)
    fix j u assume "(j, u, True) \<in> set (put i (t, False) rs)"
    then show "(u, Some j) \<in> set ts \<or> j \<in> set []" using D(3) by (auto simp: P split: if_splits)
  next
    fix u j assume "(u, Some j) \<in> set ts"
    then have j: "(j, u, True) \<in> set rs" using D(4) by simp
    then have "u = t" if "j = i" using that same_key[OF D(2) assms(2)] by auto
    with j show "(j, u, True) \<in> set (put i (t, False) rs)
        \<or> j \<in> set [i] \<and> (j, u, False) \<in> set (put i (t, False) rs)" by (auto simp: P)
  qed (use D in simp_all)
qed

lemma links_ok_unlink:
  assumes "links_ok [] [i] ts rs" and "(i, t, False) \<in> set rs"
  shows "links_ok [] [] (update_where (\<lambda>p. p = (t, Some i)) (\<lambda>p. (t, None)) ts) rs"
proof -
  note D = links_okD[OF assms(1)]
  let ?ts = "update_where (\<lambda>p. p = (t, Some i)) (\<lambda>p. (t, None)) ts"
  have U: "(u, Some j) \<in> set ?ts \<longleftrightarrow> (u, Some j) \<in> set ts \<and> (u, j) \<noteq> (t, i)" for u j
    by (auto simp: in_update_where intro!: bexI[of _ "(u, Some j)"])
  have gone: "(i, u, True) \<notin> set rs" for u using same_key[OF D(2) assms(2)] by fastforce
  show ?thesis
  proof (rule links_okI)
    fix j u assume j: "(j, u, True) \<in> set rs"
    then have "(u, Some j) \<in> set ts" using D(3) by auto
    moreover have "j \<noteq> i" using j gone by auto
    ultimately show "(u, Some j) \<in> set ?ts \<or> j \<in> set []" by (simp add: U)
  next
    fix u j assume "(u, Some j) \<in> set ?ts"
    then have "(u, Some j) \<in> set ts" "(u, j) \<noteq> (t, i)" by (auto simp: U)
    with D(4) same_key[OF D(2) assms(2)] show "(j, u, True) \<in> set rs \<or> j \<in> set [] \<and> (j, u, False) \<in> set rs"
      by fastforce
  next
    have "map fst ?ts = map fst ts" by (rule map_update_where) simp
    then show "distinct (map fst ?ts)" using D(1) by metis
  qed (use D in simp)
qed

lemma links_ok_new:
  assumes "links_ok [] [] ts rs" and "i \<notin> fst ` set rs"
  shows "links_ok [i] [] ts (rs @ [(i, t, True)])"
  using links_okD[OF assms(1)] assms(2) by (intro links_okI) auto

lemma links_ok_revive:
  assumes "links_ok [] [] ts rs" and "(i, t, l) \<in> set rs"
  shows "links_ok [i] [] ts (put i (t, True) rs)"
proof -
  note D = links_okD[OF assms(1)]
  note P = in_put[OF D(2) assms(2)]
  show ?thesis
  proof (rule links_okI)
    fix j u assume "(j, u, True) \<in> set (put i (t, True) rs)"
    then show "(u, Some j) \<in> set ts \<or> j \<in> set [i]" using D(3) by (auto simp: P split: if_splits)
  next
    fix u j assume "(u, Some j) \<in> set ts"
    then have j: "(j, u, True) \<in> set rs" using D(4) by simp
    then have "u = t" if "j = i" using that same_key[OF D(2) assms(2)] by auto
    with j show "(j, u, True) \<in> set (put i (t, True) rs) \<or> j \<in> set [] \<and> (j, u, False) \<in> set (put i (t, True) rs)"
      by (auto simp: P)
  qed (use D in simp_all)
qed

lemma links_ok_link:
  assumes "links_ok [i] [] ts rs" and "(i, t, True) \<in> set rs"
    and "(t, a) \<in> set ts" and "a = None \<or> a = Some i"
  shows "links_ok [] [] (put t (Some i) ts) rs"
proof -
  note D = links_okD[OF assms(1)]
  note P = in_put[OF D(1) assms(3)]
  show ?thesis
  proof (rule links_okI)
    fix j u assume j: "(j, u, True) \<in> set rs"
    show "(u, Some j) \<in> set (put t (Some i) ts) \<or> j \<in> set []"
    proof (cases "j = i")
      case True
      with j same_key[OF D(2) assms(2)] show ?thesis by (auto simp: P)
    next
      case False
      with j have "(u, Some j) \<in> set ts" using D(3) by auto
      moreover from this False same_key[OF D(1) assms(3)] assms(4) have "u \<noteq> t" by auto
      ultimately show ?thesis by (simp add: P)
    qed
  next
    fix u j assume "(u, Some j) \<in> set (put t (Some i) ts)"
    then show "(j, u, True) \<in> set rs \<or> j \<in> set [] \<and> (j, u, False) \<in> set rs"
      using D(4) assms(2) by (auto simp: P split: if_splits)
  qed (use D in simp_all)
qed

subsection \<open>The statements that change a link\<close>

definition starting_at :: "string \<Rightarrow> string \<Rightarrow> int \<Rightarrow> store \<Rightarrow> bool" where
  "starting_at i t e s \<longleftrightarrow> run_starting i t s \<and> (t, e) \<in> set (map (\<lambda>th. (th_id th, th_revision th)) (threads s))"

interpretation startat: quiet_frame "starting_at i t e" for i t e
  by unfold_locales (simp_all add: starting_at_def run_starting_def links_inv_def del: set_map)

lemma map_key_unique: "distinct (map key xs) \<Longrightarrow> x \<in> set xs \<Longrightarrow> y \<in> set xs \<Longrightarrow> key x = key y \<Longrightarrow> x = y"
  by (metis distinct_map inj_onD)

lemma thread_inv_distinct:
  assumes "thread_inv s"
  shows "distinct (map rn_id (runs s))" and "distinct (map th_id (threads s))"
proof -
  have "map fst (map run_link (runs s)) = map rn_id (runs s)"
    "map fst (map thread_link (threads s)) = map th_id (threads s)"
    by (auto simp: run_link_def thread_link_def)
  with assms show "distinct (map rn_id (runs s))" "distinct (map th_id (threads s))"
    unfolding thread_inv_def links_inv_def links_ok_def by metis+
qed

lemma run_knownD:
  assumes "run_known r0 s" and "r \<in> set (runs s)" and "rn_id r = rn_id r0"
  shows "run_view r = run_view r0"
proof -
  from assms(1) obtain r' where "r' \<in> set (runs s)" "run_view r' = run_view r0" "distinct (map rn_id (runs s))"
    by (auto simp: run_known_def dest: thread_inv_distinct)
  with assms(2,3) map_key_unique[of rn_id "runs s" r r'] show ?thesis by (simp add: run_view_def)
qed

lemma run_known_link:
  "run_known r0 s \<Longrightarrow> (rn_id r0, rn_thread_id r0, run_live r0) \<in> set (map run_link (runs s))"
  by (auto simp: run_known_def run_view_def run_link_def image_iff)

text \<open>The row of the run, found by its id and its revision.\<close>

abbreviation at_revision :: "run \<Rightarrow> run \<Rightarrow> bool" where
  "at_revision r0 r \<equiv> rn_id r = rn_id r0 \<and> rn_revision r = rn_revision r0"

lemma map_link_update:
  assumes "run_known r0 s" and "\<And>r. run_link (f r) = (rn_id r, rn_thread_id r, l)"
  shows "map run_link (update_where (at_revision r0) f (runs s)) = put (rn_id r0) (rn_thread_id r0, l) (map run_link (runs s))"
  unfolding update_where_def put_def map_map o_def
  by (rule map_cong[OF refl]) (use assms(2) run_knownD[OF assms(1)] in \<open>auto simp: run_view_def run_link_def\<close>)

lemma update_runs_wp:
  "Q (runs_update (update_where P f) s) \<Longrightarrow> wp (update_runs P f) (\<lambda>_. Q) s"
  by (simp add: update_runs_def wp_rules)

lemma hoare_end_run:
  assumes "\<And>r. run_link (f r) = (rn_id r, rn_thread_id r, False)"
  shows "hoare (run_known r0) (update_runs (at_revision r0) f) (run_ending (rn_id r0) (rn_thread_id r0))"
proof (intro hoareI update_runs_wp)
  fix s assume k: "run_known r0 s"
  then have "links_ok [] [] (map thread_link (threads s)) (map run_link (runs s))"
    by (simp add: run_known_def thread_inv_def links_inv_def)
  from links_ok_end[OF this run_known_link[OF k]] in_put[OF links_okD(2)[OF this] run_known_link[OF k]]
  show "run_ending (rn_id r0) (rn_thread_id r0) (runs_update (update_where (at_revision r0) f) s)"
    by (simp add: run_ending_def links_inv_def map_link_update[OF k assms] del: set_map)
qed

lemma run_same_life_update:
  assumes "run_known r0 s" and "\<And>r. run_link (f r) = (rn_id r, rn_thread_id r, run_live r0)"
  shows "map run_link (update_where (\<lambda>r. rn_id r = rn_id r0 \<and> P r) f (runs s)) = map run_link (runs s)"
  unfolding update_where_def map_map o_def
  by (rule map_cong[OF refl]) (use assms(2) run_knownD[OF assms(1)] in \<open>auto simp: run_view_def run_link_def\<close>)

lemma hoare_same_life:
  assumes "\<And>r. run_link (f r) = (rn_id r, rn_thread_id r, run_live r0)"
  shows "hoare (run_known r0) (update_runs (\<lambda>r. rn_id r = rn_id r0 \<and> P r) f) thread_inv"
  by (intro hoareI update_runs_wp)
    (simp add: thread_inv_def links_inv_def run_same_life_update[OF _ assms] run_known_def[unfolded thread_inv_def links_inv_def])

lemma hoare_live_run:
  assumes "run_live r0" and "\<And>r. run_link (f r) = (rn_id r, rn_thread_id r, True)"
  shows "hoare (run_known r0) (update_runs (\<lambda>r. rn_id r = rn_id r0 \<and> P r) f) thread_inv"
  by (rule hoare_same_life) (use assms in simp)

lemma keeps_run_resumed:
  assumes "run_live r0" and "\<And>r. run_view (f r) = (rn_id r, rn_thread_id r, True, rn_revision r)"
  shows "preserves (run_known r0) (update_runs (\<lambda>r. rn_id r = rn_id r0) f)"
proof (intro preservesI update_runs_wp)
  fix s assume k: "run_known r0 s"
  have link: "run_link (f r) = (rn_id r, rn_thread_id r, True)" for r
    using assms(2)[of r] by (simp add: run_view_def run_link_def)
  have "map run_view (update_where (\<lambda>r. rn_id r = rn_id r0) f (runs s)) = map run_view (runs s)"
    unfolding update_where_def map_map o_def
    by (rule map_cong[OF refl]) (use assms run_knownD[OF k] in \<open>auto simp: run_view_def\<close>)
  with k assms(1) run_same_life_update[OF k, of f "\<lambda>_. True"] link
  show "run_known r0 (runs_update (update_where (\<lambda>r. rn_id r = rn_id r0) f) s)"
    by (simp add: run_known_def thread_inv_def links_inv_def del: set_map)
qed

lemma hoare_unlink:
  assumes "\<And>th. thread_link (g th) = (th_id th, None)"
  shows "hoare (run_ending i t) (sql_update threads threads_update
    (\<lambda>th. th_id th = t \<and> th_active_run_id th = Some i) g) thread_inv"
proof (rule hoareI)
  fix s assume "run_ending i t s"
  then have "links_ok [] [] (update_where (\<lambda>p. p = (t, Some i)) (\<lambda>p. (t, None)) (map thread_link (threads s)))
      (map run_link (runs s))"
    unfolding run_ending_def links_inv_def by (auto intro: links_ok_unlink)
  moreover have "update_where (\<lambda>p. p = (t, Some i)) (\<lambda>p. (t, None)) (map thread_link (threads s))
      = map thread_link (update_where (\<lambda>th. th_id th = t \<and> th_active_run_id th = Some i) g (threads s))"
    using assms by (simp add: update_where_def thread_link_def)
  ultimately show "wp (sql_update threads threads_update
      (\<lambda>th. th_id th = t \<and> th_active_run_id th = Some i) g) (\<lambda>_. thread_inv) s"
    by (simp add: wp_rules thread_inv_def links_inv_def)
qed

lemma link_thread:
  assumes "run_starting i t s" and "\<And>th. thread_link (g th) = (th_id th, Some i)"
    and "\<And>th. th \<in> set (threads s) \<Longrightarrow> P th \<longleftrightarrow> th_id th = t"
  shows "thread_inv (threads_update (update_where P g) s)"
proof -
  from assms(1) obtain a where "links_ok [] [] (put t (Some i) (map thread_link (threads s))) (map run_link (runs s))"
    unfolding run_starting_def links_inv_def using links_ok_link by blast
  moreover have "put t (Some i) (map thread_link (threads s)) = map thread_link (update_where P g (threads s))"
    unfolding put_def update_where_def map_map o_def
    by (rule map_cong[OF refl]) (use assms(2,3) in \<open>auto simp: thread_link_def\<close>)
  ultimately show ?thesis by (simp add: thread_inv_def links_inv_def)
qed

lemma hoare_link:
  assumes "\<And>th. thread_link (g th) = (th_id th, Some i)"
  shows "hoare (run_starting i t) (sql_update threads threads_update (\<lambda>th. th_id th = t) g) thread_inv"
  by (rule hoareI) (simp add: wp_rules link_thread[OF _ assms])

lemma hoare_link_at:
  assumes "\<And>th. thread_link (g th) = (th_id th, Some i)"
  shows "hoare (starting_at i t e) (sql_update threads threads_update
    (\<lambda>th. th_id th = t \<and> th_revision th = e) g) thread_inv"
proof (rule hoareI)
  fix s assume "starting_at i t e s"
  then obtain th where *: "run_starting i t s" "th \<in> set (threads s)" "th_id th = t" "th_revision th = e"
    by (auto simp: starting_at_def)
  then have "distinct (map fst (map thread_link (threads s)))"
    unfolding run_starting_def links_inv_def links_ok_def by blast
  then have "distinct (map th_id (threads s))" by (simp add: thread_link_def o_def)
  then have "th' \<in> set (threads s) \<Longrightarrow> (th_id th' = t \<and> th_revision th' = e) \<longleftrightarrow> th_id th' = t" for th'
    using *(2-4) map_key_unique by fastforce
  from link_thread[OF *(1) assms this]
  show "wp (sql_update threads threads_update (\<lambda>th. th_id th = t \<and> th_revision th = e) g) (\<lambda>_. thread_inv) s"
    by (simp add: wp_rules)
qed

lemma hoare_insert_run:
  assumes "th_active_run_id t0 = None" and "rn_thread_id r = th_id t0" and "run_live r"
  shows "hoare (thread_known t0) (insert_run r) (starting_at (rn_id r) (th_id t0) (th_revision t0))"
proof (rule hoareI)
  fix s assume k: "thread_known t0 s"
  then have ok: "links_ok [] [] (map thread_link (threads s)) (map run_link (runs s))"
    by (simp add: thread_known_def thread_inv_def links_inv_def)
  from k obtain t where t: "t \<in> set (threads s)" "thread_view t = thread_view t0" by (auto simp: thread_known_def)
  have "starting_at (rn_id r) (th_id t0) (th_revision t0) (runs_update (\<lambda>rs. rs @ [r]) s)"
    if "rn_id r \<notin> rn_id ` set (runs s)"
  proof -
    from that have "rn_id r \<notin> fst ` set (map run_link (runs s))" by (auto simp: run_link_def image_iff)
    from links_ok_new[OF ok this, of "th_id t0"] t assms show ?thesis
      by (auto simp: starting_at_def run_starting_def links_inv_def run_link_def thread_link_def thread_view_def
          image_iff intro!: bexI[of _ t])
  qed
  then show "wp (insert_run r) (\<lambda>_. starting_at (rn_id r) (th_id t0) (th_revision t0)) s"
    by (simp add: insert_run_def wp_rules)
qed

section \<open>The operations keep the links\<close>

lemma know_thread: "thread_inv s \<Longrightarrow> wp (get_thread i) (\<lambda>t s'. th_id t = i \<and> thread_known t s') s"
  by (auto simp: get_thread_def wp_rules thread_known_def dest: find_row_SomeD)

lemma know_run: "thread_inv s \<Longrightarrow> wp (get_run i) (\<lambda>r s'. rn_id r = i \<and> run_known r s') s"
  by (auto simp: get_run_def wp_rules run_known_def dest: find_row_SomeD)

lemma hoare_get_thread:
  "(\<And>t. th_id t = i \<Longrightarrow> hoare (thread_known t) (f t) Q) \<Longrightarrow> hoare thread_inv (seq (get_thread i) f) Q"
  unfolding hoare_def wp_seq by (blast intro: wp_mono[OF know_thread])

lemma hoare_get_run:
  "(\<And>r. rn_id r = i \<Longrightarrow> hoare (run_known r) (f r) Q) \<Longrightarrow> hoare thread_inv (seq (get_run i) f) Q"
  unfolding hoare_def wp_seq by (blast intro: wp_mono[OF know_run])

lemma hoare_guard: "(b \<Longrightarrow> hoare P (f ()) Q) \<Longrightarrow> hoare P (seq (guard b e) f) Q"
  by (simp add: hoare_def wp_rules)

lemma hoare_expect: "(r = e \<Longrightarrow> hoare P (f ()) Q) \<Longrightarrow> hoare P (seq (expect_revision r j e) f) Q"
  by (simp add: hoare_def wp_rules)

lemma tinv_body: "hoare thread_inv body thread_inv \<Longrightarrow> preserves thread_inv (command a p k r st body)"
  by (intro keeps hoare_preserves)

text \<open>A thread of a coherent store that names a run as active names a live one.\<close>

lemma active_run_live:
  assumes "thread_known t0 s" and "th_active_run_id t0 = Some i" and "find_row rn_id i (runs s) = Some r"
  shows "run_live r"
proof -
  have inv: "thread_inv s" and "(th_id t0, Some i) \<in> set (map thread_link (threads s))"
    using assms(1,2) by (auto simp: thread_known_def thread_view_def thread_link_def image_iff)
  then obtain r' where "r' \<in> set (runs s)" "rn_id r' = i" "run_live r'"
    using links_okD(4) unfolding thread_inv_def links_inv_def by (fastforce simp: run_link_def)
  with find_row_SomeD[OF assms(3)] map_key_unique[OF thread_inv_distinct(1)[OF inv]] show ?thesis by metis
qed

lemma create_thread_links: "preserves thread_inv (create_thread w t e a k)"
proof -
  have "preserves thread_inv (sql_insert IntegrityError threads threads_update th_id th)"
    if "th_active_run_id th = None" for th
    using that unfolding thread_inv_def links_inv_def links_ok_def
    by (intro preserves_sql_insert) (auto simp: thread_link_def o_def)
  then show ?thesis unfolding create_thread_def by (intro keeps) simp
qed

lemma hoare_idle_check:
  assumes "th_active_run_id t0 = None \<Longrightarrow> hoare (thread_known t0) (f ()) Q"
  shows "hoare (thread_known t0) (seq (case th_active_run_id t0 of
      None \<Rightarrow> ret ()
    | Some i \<Rightarrow> seq (get_run i) (\<lambda>r. guard (rn_state r \<in> set terminal_run_states) (e r))) f) Q"
proof (cases "th_active_run_id t0")
  case None
  with assms show ?thesis by (simp add: hoare_def wp_rules)
next
  case (Some i)
  then show ?thesis using active_run_live[OF _ Some]
    by (auto simp: hoare_def wp_rules get_run_def run_live_def)
qed

lemma create_run_links: "preserves thread_inv (create_run i e a k w)"
  unfolding create_run_def
  apply (rule tinv_body)
  apply (rule hoare_get_thread)
  apply (rule hoare_expect)
  apply (rule hoare_guard)
  apply (rule hoare_idle_check)
  apply (rule hoare_skip, (intro keeps; fail))+
  apply (rule hoare_seq[OF hoare_insert_run])
     apply (simp_all add: run_live_def terminal_run_states_def)[3]
  apply (rule hoare_skip, (intro keeps; fail))
  apply (simp only: run.simps)
  apply (rule hoare_seq[OF hoare_link_at])
   apply (simp_all add: thread_link_def)[1]
  apply (intro hoare_rest keeps)
  done

section \<open>The event log\<close>

text \<open>The events of a run are numbered 1, 2, 3 and so on in the order they were recorded, the run carries
  the number of the last one, and no event belongs to a run that does not exist.\<close>

definition events_of :: "string \<Rightarrow> store \<Rightarrow> run_event list" where
  "events_of i s = filter (\<lambda>e. ev_run_id e = i) (run_events s)"

definition events_inv :: "store \<Rightarrow> bool" where
  "events_inv s \<longleftrightarrow> distinct (map rn_id (runs s))
     \<and> (\<forall>r \<in> set (runs s). 0 \<le> rn_latest_sequence r
          \<and> map ev_sequence (events_of (rn_id r) s) = [1..rn_latest_sequence r])
     \<and> (\<forall>e \<in> set (run_events s). ev_run_id e \<in> set (map rn_id (runs s)))"

lemma insert_event_log: "preserves events_inv (insert_event i a t p c)"
proof (rule preservesI)
  fix s assume inv: "events_inv s"
  have "events_inv (runs_update (update_where (\<lambda>r. rn_id r = i) (\<lambda>r. r\<lparr>rn_latest_sequence := rn_latest_sequence run + 1\<rparr>))
      (run_events_update (\<lambda>es. es @ [e]) s'))"
    if "find_row rn_id i (runs s) = Some run" and "ev_run_id e = i" and "ev_sequence e = rn_latest_sequence run + 1"
      and "runs s' = runs s" and "run_events s' = run_events s" for run e s'
  proof -
    have run: "run \<in> set (runs s)" "rn_id run = i" using find_row_SomeD[OF that(1)] by auto
    have only: "r = run" if "r \<in> set (runs s)" "rn_id r = i" for r
      using inv that run map_key_unique[of rn_id "runs s" r run] by (simp add: events_inv_def)
    note e = that(2,3)
    let ?n = "rn_latest_sequence run + 1"
    let ?rs = "update_where (\<lambda>r. rn_id r = i) (\<lambda>r. r\<lparr>rn_latest_sequence := ?n\<rparr>) (runs s)"
    let ?t = "runs_update (update_where (\<lambda>r. rn_id r = i) (\<lambda>r. r\<lparr>rn_latest_sequence := ?n\<rparr>))
      (run_events_update (\<lambda>es. es @ [e]) s')"
    have ids: "map rn_id ?rs = map rn_id (runs s)" by (rule map_update_where) simp
    have t: "runs ?t = ?rs" "run_events ?t = run_events s @ [e]" using that by simp_all
    have log: "0 \<le> rn_latest_sequence r \<and> map ev_sequence (events_of (rn_id r) s) = [1..rn_latest_sequence r]"
      if "r \<in> set (runs s)" for r using inv that by (simp add: events_inv_def)
    have "[1..?n] = [1..rn_latest_sequence run] @ [?n]" using log[OF run(1)] by (simp add: upto_rec2)
    then have "0 \<le> rn_latest_sequence r' \<and> map ev_sequence (events_of (rn_id r') ?t) = [1..rn_latest_sequence r']"
      if r': "r' \<in> set ?rs" for r'
    proof -
      from r' obtain r where "r \<in> set (runs s)" "r' = (if rn_id r = i then r\<lparr>rn_latest_sequence := ?n\<rparr> else r)"
        by (auto simp: in_update_where)
      with log[of r] log[OF run(1)] only[of r] e run(2) \<open>[1..?n] = _\<close> show ?thesis
        by (auto simp: events_of_def t)
    qed
    moreover have "\<forall>x \<in> set (run_events s @ [e]). ev_run_id x \<in> set (map rn_id (runs s))"
      using inv run e by (auto simp: events_inv_def)
    ultimately show ?thesis
      using inv by (simp add: events_inv_def t ids del: set_map)
  qed
  then show "wp (insert_event i a t p c) (\<lambda>_. events_inv) s"
    by (auto simp: insert_event_def get_run_def wp_rules Let_def)
qed

lemma events_inv_same_runs:
  assumes "\<And>r. Q r \<Longrightarrow> rn_id (h r) = rn_id r \<and> rn_latest_sequence (h r) = rn_latest_sequence r" and "events_inv s"
  shows "events_inv (runs_update (update_where Q h) s)"
proof -
  have "map rn_id (update_where Q h (runs s)) = map rn_id (runs s)" by (rule map_update_where) (simp add: assms(1))
  with assms show ?thesis by (auto simp: events_inv_def events_of_def in_update_where simp del: set_map)
qed

lemma events_inv_new_run:
  assumes "rn_id r \<notin> rn_id ` set (runs s)" and "rn_latest_sequence r = 0" and "events_inv s"
  shows "events_inv (runs_update (\<lambda>rs. rs @ [r]) s)"
proof -
  have "events_of (rn_id r) s = []" using assms(1,3) unfolding events_inv_def events_of_def filter_empty_conv
    by (metis list.set_map)
  with assms show ?thesis by (auto simp: events_inv_def events_of_def)
qed

interpretation journal: ingest_journal events_inv
  by unfold_locales
    (rule insert_event_log | erule (1) events_inv_same_runs events_inv_new_run
      | simp add: events_inv_def events_of_def; fail
      | (rule events_inv_same_runs; simp add: run_step_def) | (rule events_inv_new_run; assumption))+

end
