(* ===== verification/Control_Fences.thy ===== *)
theory Control_Fences
  imports Control_Threads
begin

text \<open>
  What ending, pausing or restarting a run does to the work attached to it: the helpers of
  \<open>ControlStore\<close> from \<open>_fail_pending_runtime_actions\<close> to \<open>_first_live_source_import_waiter\<close>, the release of
  runtime pins (\<open>_paused_source_attempt\<close>, \<open>_insert_pin_release\<close>), the inbox of runtime events
  (\<open>_runtime_event_replay\<close>, \<open>_save_runtime_event\<close>) and the fence of a lease (\<open>_claim_fence_is_current\<close>).

  The walk \<open>_paused_source_attempt\<close> follows the lineage of an attempt. It may not end by itself in a
  cyclic lineage, which the source detects by the set of the attempts it has seen; here each step takes
  an attempt that was not seen, so the walk ends within the number of attempts.
\<close>

section \<open>Runtime actions\<close>

definition action_order :: "runtime_action \<Rightarrow> int \<times> string" where
  "action_order a = (text_key (ra_created_at a), ra_id a)"

definition pending_of :: "string \<Rightarrow> string \<Rightarrow> runtime_action \<Rightarrow> bool" where
  "pending_of run_id attempt_id a =
     (ra_run_id a = run_id \<and> ra_attempt_id a = attempt_id \<and> ra_state a = A_pending)"

definition fail_pending_runtime_actions :: "string \<Rightarrow> string \<Rightarrow> instant \<Rightarrow> string list op" where
  "fail_pending_runtime_actions run_id attempt_id settled_at =
     seq (gets (\<lambda>s. map ra_id (select_by action_order (pending_of run_id attempt_id) (runtime_actions s))))
       (\<lambda>action_ids.
     if action_ids = [] then ret []
     else
       seq (sql_update runtime_actions runtime_actions_update (pending_of run_id attempt_id)
              (\<lambda>a. a\<lparr>ra_state := A_failed, ra_acknowledged_at := Some settled_at, ra_claim_owner := None,
                     ra_claim_expires_at := None, ra_failure_category := Some ''attempt_terminated''\<rparr>)) (\<lambda>_.
       ret action_ids))"

definition new_action ::
    "string \<Rightarrow> string \<Rightarrow> string \<Rightarrow> string \<Rightarrow> string \<Rightarrow> string \<Rightarrow> json \<Rightarrow> instant \<Rightarrow> runtime_action" where
  "new_action action_id run_id attempt_id binding_id release_id kind payload now =
     \<lparr>ra_id = action_id, ra_run_id = run_id, ra_attempt_id = attempt_id,
      ra_runtime_binding_id = binding_id, ra_runtime_release_id = release_id, ra_kind = kind,
      ra_payload = payload, ra_state = A_pending, ra_created_at = now, ra_acknowledged_at = None,
      ra_claim_owner = None, ra_claim_expires_at = None, ra_failure_category = None, ra_claim_epoch = 0,
      ra_outcome_state = O_ready\<rparr>"

definition insert_control_runtime_action ::
    "string \<Rightarrow> string option \<Rightarrow> string \<Rightarrow> instant \<Rightarrow> string option op" where
  "insert_control_runtime_action run_id attempt_id kind now =
     (case attempt_id of None \<Rightarrow> ret None
      | Some attempt_id \<Rightarrow>
          seq (get_attempt attempt_id) (\<lambda>attempt.
          case at_runtime_binding_id attempt of None \<Rightarrow> ret None
          | Some binding_id \<Rightarrow>
              (case at_runtime_release_id attempt of None \<Rightarrow> ret None
               | Some release_id \<Rightarrow>
                   seq (new_id ''runtime_action'') (\<lambda>action_id.
                   seq (sql_insert IntegrityError runtime_actions runtime_actions_update ra_id
                          (new_action action_id run_id attempt_id binding_id release_id kind (JObj []) now))
                     (\<lambda>_. ret (Some action_id))))))"

section \<open>Sources, imports and artifacts\<close>

definition live_version :: "(artifact_version \<Rightarrow> bool) \<Rightarrow> string \<Rightarrow> store \<Rightarrow> bool" where
  "live_version of_run version_id s = list_ex (\<lambda>v. av_id v = version_id \<and> of_run v
     \<and> av_state v = P_pending_materialization) (artifact_versions s)"

text \<open>The two functions \<open>_fence_artifact_materializations_for_run\<close> and \<open>..._for_attempt\<close>, which differ in
  the versions they look at and in the category they note.\<close>

definition fence_artifact_materializations ::
    "(artifact_version \<Rightarrow> bool) \<Rightarrow> string \<Rightarrow> instant \<Rightarrow> string list op" where
  "fence_artifact_materializations of_run category settled_at =
     seq (gets (\<lambda>s. select_by (\<lambda>m. (text_key (ma_created_at m), ma_id m))
            (\<lambda>m. live_version of_run (ma_artifact_version_id m) s \<and> ma_state m \<in> set [M_pending, M_claimed])
            (artifact_materialization_actions s))) (\<lambda>rows.
     if rows = [] then ret []
     else
       let action_ids = map ma_id rows; version_ids = map ma_artifact_version_id rows in
       seq (sql_update artifact_materialization_actions artifact_materialization_actions_update
              (\<lambda>m. ma_id m \<in> set action_ids \<and> ma_state m \<in> set [M_pending, M_claimed])
              (\<lambda>m. m\<lparr>ma_state := M_failed, ma_claim_owner := None, ma_claim_expires_at := None,
                     ma_claim_epoch := ma_claim_epoch m + 1, ma_failure_category := Some category,
                     ma_completed_at := Some settled_at\<rparr>)) (\<lambda>_.
       seq (sql_update artifact_versions artifact_versions_update
              (\<lambda>v. av_id v \<in> set version_ids \<and> av_state v = P_pending_materialization)
              (\<lambda>v. v\<lparr>av_state := P_failed\<rparr>)) (\<lambda>_.
       ret action_ids)))"

definition fence_artifact_materializations_for_run :: "string \<Rightarrow> instant \<Rightarrow> string list op" where
  "fence_artifact_materializations_for_run run_id =
     fence_artifact_materializations (\<lambda>v. av_run_id v = run_id) ''run_terminated''"

definition fence_artifact_materializations_for_attempt ::
    "string \<Rightarrow> string \<Rightarrow> instant \<Rightarrow> string list op" where
  "fence_artifact_materializations_for_attempt run_id attempt_id =
     fence_artifact_materializations (\<lambda>v. av_run_id v = run_id \<and> av_attempt_id v = attempt_id)
       ''attempt_superseded''"

definition waiter_order :: "import_waiter \<Rightarrow> int \<times> string" where
  "waiter_order w = (text_key (iw_created_at w), iw_id w)"

definition waiter_live :: "import_waiter \<Rightarrow> store \<Rightarrow> bool" where
  "waiter_live w s = (case find_row rn_id (iw_run_id w) (runs s) of
       None \<Rightarrow> False
     | Some r \<Rightarrow> rn_state r \<notin> set [R_cancel_requested, R_canceled, R_completed, R_failed]
         \<and> (case find_row th_id (rn_thread_id r) (threads s) of
              None \<Rightarrow> False | Some t \<Rightarrow> th_active_run_id t = Some (rn_id r)))"

definition first_live_source_import_waiter ::
    "string \<Rightarrow> string option \<Rightarrow> import_waiter option op" where
  "first_live_source_import_waiter action_id excluded_run_id = gets (\<lambda>s.
     first_by waiter_order (\<lambda>w. iw_action_id w = action_id \<and> iw_state w = N_waiting
       \<and> (case excluded_run_id of None \<Rightarrow> True | Some r \<Rightarrow> iw_run_id w \<noteq> r) \<and> waiter_live w s)
       (source_import_waiters s))"

text \<open>\<open>list(dict.fromkeys(...))\<close>: the first occurrences, in order.\<close>

fun firsts :: "'a list \<Rightarrow> 'a list" where
  "firsts [] = []"
| "firsts (x # xs) = x # filter (\<lambda>y. y \<noteq> x) (firsts xs)"

definition fence_source_imports_for_run :: "string \<Rightarrow> instant \<Rightarrow> string list op" where
  "fence_source_imports_for_run run_id settled_at =
     seq (gets (\<lambda>s. firsts (map iw_action_id (select_by waiter_order
            (\<lambda>w. iw_run_id w = run_id \<and> iw_state w = N_waiting) (source_import_waiters s))))) (\<lambda>action_ids.
     if action_ids = [] then ret []
     else
       seq (sql_update source_import_waiters source_import_waiters_update
              (\<lambda>w. iw_run_id w = run_id \<and> iw_state w = N_waiting)
              (\<lambda>w. w\<lparr>iw_state := N_canceled, iw_completed_at := Some settled_at\<rparr>)) (\<lambda>_.
       seq (for_each (\<lambda>action_id.
              seq (first_live_source_import_waiter action_id (Some run_id)) (\<lambda>replacement. case replacement of
                None \<Rightarrow>
                  sql_update source_import_actions source_import_actions_update
                    (\<lambda>a. ia_id a = action_id \<and> ia_state a = T_pending)
                    (\<lambda>a. a\<lparr>ia_state := T_canceled, ia_claim_owner := None, ia_claim_expires_at := None,
                           ia_claim_epoch := ia_claim_epoch a + 1, ia_completed_at := Some settled_at\<rparr>)
              | Some w \<Rightarrow>
                  sql_update source_import_actions source_import_actions_update
                    (\<lambda>a. ia_id a = action_id \<and> ia_state a = T_pending)
                    (\<lambda>a. a\<lparr>ia_run_id := iw_run_id w, ia_resolution_id := iw_resolution_id w,
                           ia_claim_owner := None, ia_claim_expires_at := None,
                           ia_claim_epoch := ia_claim_epoch a + 1\<rparr>))) action_ids) (\<lambda>_.
       ret action_ids)))"

text \<open>The summary is empty when nothing was closed.\<close>

definition closed_work :: "string list \<Rightarrow> string list \<Rightarrow> string list \<Rightarrow> string list \<Rightarrow> (string \<times> json) list" where
  "closed_work intent_ids decision_ids import_ids artifact_ids =
     (if intent_ids = [] \<and> decision_ids = [] \<and> import_ids = [] \<and> artifact_ids = [] then []
      else [(''source_intent_ids'', jstrs intent_ids), (''source_decision_ids'', jstrs decision_ids),
            (''source_import_ids'', jstrs import_ids), (''artifact_materialization_ids'', jstrs artifact_ids)])"

definition expire_decision :: "instant \<Rightarrow> decision \<Rightarrow> decision" where
  "expire_decision settled_at d =
     d\<lparr>de_state := D_expired, de_revision := de_revision d + 1, de_resolved_at := Some settled_at\<rparr>"

definition close_source_work_for_run :: "string \<Rightarrow> instant \<Rightarrow> (string \<times> json) list op" where
  "close_source_work_for_run run_id settled_at =
     seq (gets (\<lambda>s. select_by (\<lambda>i. (text_key (si_created_at i), si_id i))
            (\<lambda>i. si_run_id i = run_id \<and> si_state i = I_pending) (source_intents s))) (\<lambda>rows.
     let intent_ids = map si_id rows; decision_ids = List.map_filter si_decision_id rows in
     seq (if intent_ids \<noteq> [] then
            sql_update source_intents source_intents_update
              (\<lambda>i. si_run_id i = run_id \<and> si_state i = I_pending)
              (\<lambda>i. i\<lparr>si_state := I_canceled, si_revision := si_revision i + 1, si_updated_at := settled_at\<rparr>)
          else ret 0) (\<lambda>_.
     seq (if decision_ids \<noteq> [] then
            sql_update decisions decisions_update
              (\<lambda>d. de_id d \<in> set decision_ids \<and> de_state d = D_pending) (expire_decision settled_at)
          else ret 0) (\<lambda>_.
     seq (fence_source_imports_for_run run_id settled_at) (\<lambda>import_ids.
     seq (fence_artifact_materializations_for_run run_id settled_at) (\<lambda>artifact_ids.
     ret (closed_work intent_ids decision_ids import_ids artifact_ids))))))"

definition prepare_run_cancellation ::
    "string \<Rightarrow> string option \<Rightarrow> instant \<Rightarrow> (string list \<times> string option \<times> (string \<times> json) list) op" where
  "prepare_run_cancellation run_id attempt_id now =
     seq (case attempt_id of None \<Rightarrow> ret [] | Some i \<Rightarrow> fail_pending_runtime_actions run_id i now) (\<lambda>failed_ids.
     seq (insert_control_runtime_action run_id attempt_id ''control.cancel'' now) (\<lambda>runtime_action_id.
     seq (close_source_work_for_run run_id now) (\<lambda>closed.
     ret (failed_ids, runtime_action_id, closed))))"

section \<open>Releases of runtime pins\<close>

lemma unseen_attempts_decrease:
  "\<lbrakk>i \<notin> set visited; find_row at_id i rows = Some a\<rbrakk>
     \<Longrightarrow> length (filter (\<lambda>x. at_id x \<noteq> i \<and> at_id x \<notin> set visited) rows)
         < length (filter (\<lambda>x. at_id x \<notin> set visited) rows)"
proof (induction rows)
  case (Cons x rows)
  have "length (filter (\<lambda>x. at_id x \<noteq> i \<and> at_id x \<notin> set visited) xs)
      \<le> length (filter (\<lambda>x. at_id x \<notin> set visited) xs)" for xs
    by (induction xs) auto
  with Cons show ?case by (auto split: if_splits simp: less_Suc_eq_le)
qed simp

text \<open>The walk \<open>_paused_source_attempt\<close>, with the attempts it has seen.\<close>

function walk_paused_source ::
    "attempt list \<Rightarrow> string list \<Rightarrow> string option \<Rightarrow> control_error + attempt option" where
  "walk_paused_source rows visited None = Inr None"
| "walk_paused_source rows visited (Some i) =
     (if i \<in> set visited then Inl (InvalidTransition ''attempt_lineage_cycle'' ''source_attempt'')
      else case find_row at_id i rows of
        None \<Rightarrow> Inl (NotFound ''attempt'' i)
      | Some a \<Rightarrow>
          if at_state a = R_paused \<and> at_checkpoint_uri a \<notin> {None, Some []} then Inr (Some a)
          else walk_paused_source rows (i # visited) (at_source_attempt_id a))"
  by pat_completeness auto

termination
  by (relation "measure (\<lambda>(rows, visited, _). length (filter (\<lambda>x. at_id x \<notin> set visited) rows))")
    (auto intro: unseen_attempts_decrease)

definition paused_source_attempt :: "attempt \<Rightarrow> attempt option op" where
  "paused_source_attempt a =
     seq (gets (\<lambda>s. walk_paused_source (attempts s) [] (at_source_attempt_id a))) lift_result"

definition insert_pin_release :: "string \<Rightarrow> attempt \<Rightarrow> instant \<Rightarrow> string op" where
  "insert_pin_release run_id a now =
     seq (required_text_opt (at_runtime_release_id a) ''runtime_release_id'' 200) (\<lambda>release_id.
     seq (required_text_opt (at_state_generation_id a) ''state_generation_id'' 200) (\<lambda>generation_id.
     seq (guard (at_runtime_identity_version a = 1)
            (InvalidTransition ''legacy_runtime_identity'' ''pin_release'')) (\<lambda>_.
     seq (required_text_opt (at_runtime_slot_id a) ''runtime_slot_id'' 200) (\<lambda>slot_id.
     seq (required_text_opt (at_runtime_artifact_digest a) ''runtime_artifact_digest'' 200) (\<lambda>digest.
     seq (required_text_opt (at_runtime_worker_protocol a) ''runtime_worker_protocol'' 100) (\<lambda>protocol.
     seq (gets (\<lambda>s. find (\<lambda>p. pr_attempt_id p = at_id a \<and> pr_runtime_release_id p = release_id
            \<and> pr_state_generation_id p = generation_id) (runtime_pin_releases s))) (\<lambda>existing. case existing of
       Some release \<Rightarrow>
         seq (guard (pr_runtime_identity_version release = 1 \<and> pr_runtime_slot_id release = Some slot_id
                \<and> pr_runtime_artifact_digest release = Some digest
                \<and> pr_runtime_worker_protocol release = Some protocol)
                (InvalidTransition ''runtime_identity_mismatch'' ''pin_release'')) (\<lambda>_.
         ret (pr_id release))
     | None \<Rightarrow>
         seq (new_id ''pin_release'') (\<lambda>release_action_id.
         seq (sql_insert IntegrityError runtime_pin_releases runtime_pin_releases_update pr_id
                \<lparr>pr_id = release_action_id, pr_run_id = run_id, pr_attempt_id = at_id a,
                 pr_runtime_release_id = release_id, pr_state_generation_id = generation_id,
                 pr_state = A_pending, pr_claim_owner = None, pr_claim_epoch = 0,
                 pr_claim_expires_at = None, pr_failure_category = None, pr_created_at = now,
                 pr_acknowledged_at = None, pr_runtime_slot_id = Some slot_id,
                 pr_runtime_artifact_digest = Some digest, pr_runtime_worker_protocol = Some protocol,
                 pr_runtime_identity_version = 1\<rparr>) (\<lambda>_.
         ret release_action_id)))))))))"

definition insert_paused_source_releases :: "string \<Rightarrow> attempt \<Rightarrow> instant \<Rightarrow> string list op" where
  "insert_paused_source_releases run_id a now =
     seq (paused_source_attempt a) (\<lambda>paused_source. case paused_source of
       None \<Rightarrow> ret []
     | Some source \<Rightarrow> seq (insert_pin_release run_id source now) (\<lambda>i. ret [i]))"

section \<open>The inbox of runtime events\<close>

definition adapter_event_char :: "char \<Rightarrow> bool" where
  "adapter_event_char c = (is_upper_alpha c \<or> is_lower_alpha c \<or> is_digit c \<or> c = CHR ''_'' \<or> c = CHR ''.''
     \<or> c = CHR '':'' \<or> c = CHR ''-'')"

definition validate_adapter_event_id :: "string \<Rightarrow> unit op" where
  "validate_adapter_event_id i =
     guard (full_class adapter_event_char 1 500 i) (ValueError ''adapter_event_id is invalid'')"

definition inbox_of :: "string \<Rightarrow> store \<Rightarrow> inbox_row list" where
  "inbox_of attempt_id s = filter (\<lambda>r. ib_attempt_id r = attempt_id) (runtime_event_inbox s)"

text \<open>The request without its expected revision: a redelivery may come at a later revision.\<close>

definition logical_request :: "(string \<times> json) list \<Rightarrow> json" where
  "logical_request request = JObj (filter (\<lambda>(k, v). k \<noteq> ''expected_revision'') request)"

definition runtime_event_replay ::
    "string option \<Rightarrow> string option \<Rightarrow> int option \<Rightarrow> (string \<times> json) list \<Rightarrow> command_result option op" where
  "runtime_event_replay attempt_id adapter_event_id adapter_event_sequence request =
     (case adapter_event_id of None \<Rightarrow> ret None
      | Some event_id \<Rightarrow>
        (case attempt_id of
           None \<Rightarrow> raise (ValueError ''attempt_id is required for a runtime event'')
         | Some attempt_id \<Rightarrow>
            seq (guard (attempt_id \<noteq> []) (ValueError ''attempt_id is required for a runtime event'')) (\<lambda>_.
            seq (validate_adapter_event_id event_id) (\<lambda>_.
            (case adapter_event_sequence of
               None \<Rightarrow> raise (ValueError ''adapter_event_sequence is required for a runtime event'')
             | Some sequence \<Rightarrow>
                seq (guard (0 \<le> sequence) (ValueError ''adapter_event_sequence must be non-negative'')) (\<lambda>_.
                seq (gets (inbox_of attempt_id)) (\<lambda>seen.
                (case find (\<lambda>r. ib_adapter_event_id r = event_id) seen of
                   Some row \<Rightarrow>
                     seq (gets (request_hash (logical_request request))) (\<lambda>hash.
                     seq (guard (ib_adapter_event_sequence row = sequence \<and> ib_payload_hash row = hash)
                            IdempotencyConflict) (\<lambda>_.
                     ret (Some \<lparr>cr_value = ib_response row, cr_status_code = ib_status_code row,
                                cr_replayed = True\<rparr>)))
                 | None \<Rightarrow>
                     if list_ex (\<lambda>r. ib_adapter_event_sequence r = sequence) seen
                     then raise IdempotencyConflict
                     else
                       let expected = fold max (map ib_adapter_event_sequence seen) (-1) + 1 in
                       if sequence \<noteq> expected then
                         raise (InvalidTransition
                           (if expected < sequence then ''runtime_event_sequence_gap''
                            else ''stale_runtime_event_sequence'') ''runtime_event_ingest'')
                       else ret None))))))))"

text \<open>The statement fills \<open>adapter_event_sequence\<close> with the value \<open>_runtime_event_replay\<close> has checked.\<close>

definition inbox_key :: "inbox_row \<Rightarrow> string \<times> string" where
  "inbox_key r = (ib_attempt_id r, ib_adapter_event_id r)"

definition save_runtime_event ::
    "string option \<Rightarrow> string option \<Rightarrow> int option \<Rightarrow> (string \<times> json) list \<Rightarrow> command_result \<Rightarrow> unit op" where
  "save_runtime_event attempt_id adapter_event_id adapter_event_sequence request result =
     (case adapter_event_id of None \<Rightarrow> ret ()
      | Some event_id \<Rightarrow>
        (case (attempt_id, adapter_event_sequence) of
           (Some attempt_id, Some sequence) \<Rightarrow>
            seq (guard (attempt_id \<noteq> []) (ValueError ''attempt_id is required for a runtime event'')) (\<lambda>_.
            seq (validate_adapter_event_id event_id) (\<lambda>_.
            seq (gets (request_hash (logical_request request))) (\<lambda>hash.
            seq utc_now (\<lambda>now.
            seq (gets (\<lambda>s. list_ex (\<lambda>r. ib_adapter_event_sequence r = sequence) (inbox_of attempt_id s))) (\<lambda>taken.
            seq (guard (\<not> taken) IntegrityError) (\<lambda>_.
            sql_insert IntegrityError runtime_event_inbox runtime_event_inbox_update inbox_key
              \<lparr>ib_attempt_id = attempt_id, ib_adapter_event_id = event_id, ib_payload_hash = hash,
               ib_status_code = cr_status_code result, ib_response = cr_value result, ib_received_at = now,
               ib_adapter_event_sequence = sequence\<rparr>))))))
         | _ \<Rightarrow> raise (ValueError ''attempt_id is required for a runtime event'')))"

section \<open>Leases\<close>

text \<open>\<open>expires_at > now\<close> on the texts.\<close>

definition unexpired :: "instant option \<Rightarrow> instant \<Rightarrow> bool" where
  "unexpired expires_at now = (case expires_at of None \<Rightarrow> False | Some t \<Rightarrow> \<not> text_le t now)"

text \<open>The clock is read only when the expiry is reached in the conjunction.\<close>

definition claim_fence_is_current ::
    "string option \<Rightarrow> int \<Rightarrow> instant option \<Rightarrow> string \<Rightarrow> json option \<Rightarrow> bool op" where
  "claim_fence_is_current owner epoch expires_at worker_id claim_epoch =
     (if owner = Some worker_id \<and> claim_epoch = Some (JInt epoch) \<and> expires_at \<noteq> None
      then seq utc_now (\<lambda>now. ret (unexpired expires_at now))
      else ret False)"

section \<open>What they leave alone\<close>

context side_frame
begin

lemma keeps_fences [keeps]:
  "preserves I (fail_pending_runtime_actions r a n)" "preserves I (insert_control_runtime_action r ao kd n)"
  "preserves I (fence_artifact_materializations p c n)"
  "preserves I (fence_artifact_materializations_for_run r n)"
  "preserves I (fence_artifact_materializations_for_attempt r a n)"
  "preserves I (fence_source_imports_for_run r n)"
  unfolding fail_pending_runtime_actions_def insert_control_runtime_action_def
    fence_artifact_materializations_def fence_artifact_materializations_for_run_def
    fence_artifact_materializations_for_attempt_def fence_source_imports_for_run_def
    first_live_source_import_waiter_def Let_def
  by (intro keeps; simp add: row_step_defs pending_of_def)+

lemma keeps_close_source_work [keeps]: "preserves I (close_source_work_for_run r n)"
  unfolding close_source_work_for_run_def Let_def
  by (intro keeps; simp add: row_step_defs expire_decision_def)

lemma keeps_prepare_run_cancellation [keeps]: "preserves I (prepare_run_cancellation r a n)"
  unfolding prepare_run_cancellation_def by (intro keeps)

lemma keeps_paused_source_attempt [keeps]: "preserves I (paused_source_attempt a)"
  unfolding paused_source_attempt_def by (intro keeps)

lemma keeps_insert_pin_release [keeps]: "preserves I (insert_pin_release r a n)"
  unfolding insert_pin_release_def by (intro keeps)

lemma keeps_insert_paused_source_releases [keeps]: "preserves I (insert_paused_source_releases r a n)"
  unfolding insert_paused_source_releases_def by (intro keeps)

end

lemma keeps_runtime_event_replay [keeps]: "preserves I (runtime_event_replay a e q r)"
  unfolding runtime_event_replay_def validate_adapter_event_id_def Let_def by (intro keeps)

context bookkeeping
begin

lemma keeps_claim_fence_is_current [keeps]: "preserves I (claim_fence_is_current o' e x w j)"
  unfolding claim_fence_is_current_def by (intro keeps)

end

context ingest_frame
begin

lemma keeps_save_runtime_event [keeps]: "preserves I (save_runtime_event a e q r c)"
  unfolding save_runtime_event_def validate_adapter_event_id_def
  by (auto intro!: keeps preserves_sql_insert I_inbox split: prod.split option.split)

end

end
