(* ===== verification/Control_Runs.thy ===== *)
theory Control_Runs
  imports Control_Fences
begin

text \<open>
  The life of a run: \<open>create_runtime_binding\<close>, \<open>reserve_attempt_dispatch\<close>, \<open>pin_attempt_runtime\<close>,
  \<open>transition_run\<close> (and \<open>apply_runtime_transition\<close>), \<open>append_runtime_message\<close>, \<open>fail_unbound_run\<close>,
  \<open>resume_run\<close> and \<open>retry_run\<close> of \<open>ControlStore\<close>.

  Ids that the id factory made are not empty, so an id column is true in Python exactly when it is not
  null. A target state is a value of \<open>run_state\<close>: a text that names no state is refused by the same
  guards as a state that the table of transitions does not allow.
\<close>

section \<open>Runtime identity, events and ownership\<close>

record runtime_ref =
  rf_attempt_id :: "string option"
  rf_runtime_binding_id :: "string option"
  rf_runtime_release_id :: "string option"
  rf_state_generation_id :: "string option"

record event_ref =
  er_adapter_event_id :: "string option"
  er_adapter_event_sequence :: "int option"
  er_caused_by_adapter_operation_id :: "string option"
  er_caused_by_delivery_epoch :: "int option"

definition truthy :: "string option \<Rightarrow> bool" where
  "truthy x = (x \<noteq> None \<and> x \<noteq> Some [])"

fun run_transitions :: "run_state \<Rightarrow> run_state list" where
  "run_transitions R_queued = [R_starting, R_cancel_requested, R_failed]"
| "run_transitions R_starting = [R_running, R_cancel_requested, R_failed]"
| "run_transitions R_running =
     [R_waiting_for_decision, R_pause_requested, R_cancel_requested, R_completed, R_failed]"
| "run_transitions R_waiting_for_decision = [R_resuming, R_cancel_requested, R_failed]"
| "run_transitions R_pause_requested = [R_paused, R_canceled, R_cancel_requested, R_failed]"
| "run_transitions R_paused = [R_cancel_requested]"
| "run_transitions R_resuming = [R_starting, R_running, R_cancel_requested, R_failed]"
| "run_transitions R_cancel_requested = [R_canceled, R_failed]"
| "run_transitions R_failed = []"
| "run_transitions R_retrying = [R_starting, R_cancel_requested, R_failed]"
| "run_transitions R_completed = []"
| "run_transitions R_canceled = []"

definition capture_consumer_actor :: string where
  "capture_consumer_actor = ''machine:p4-capture-consumer''"

definition capture_workflow_definition_id :: string where
  "capture_workflow_definition_id = ''research.capture''"

text \<open>\<open>_machine_run_predicate\<close>, for any workflow or for one definition.\<close>

definition machine_run_predicate :: "string option \<Rightarrow> run \<Rightarrow> store \<Rightarrow> bool" where
  "machine_run_predicate workflow_definition_id r s =
     (list_ex (\<lambda>w. wf_run_id w = rn_id r
          \<and> (case workflow_definition_id of None \<Rightarrow> True | Some d \<Rightarrow> wf_definition_id w = d))
        (workflow_instances s)
      \<or> (case first_by (\<lambda>c. (text_key (rt_created_at c), rt_actor_id c))
               (\<lambda>c. rt_operation c = ''POST:/api/v1/threads/'' @ rn_thread_id r @ ''/runs''
                    \<and> jget ''id'' (rt_response c) = Some (JStr (rn_id r))) (idempotency_receipts s) of
           None \<Rightarrow> False
         | Some c \<Rightarrow> rt_actor_id c = capture_consumer_actor))"

definition engine_owned_run :: "run \<Rightarrow> bool op" where
  "engine_owned_run r = gets (machine_run_predicate (Some capture_workflow_definition_id) r)"

definition run_is_machine :: "string \<Rightarrow> bool op" where
  "run_is_machine run_id = seq (get_run run_id) (\<lambda>r. gets (machine_run_predicate None r))"

definition validate_runtime_identity ::
    "run \<Rightarrow> string \<Rightarrow> string \<Rightarrow> string \<Rightarrow> string option \<Rightarrow> attempt op" where
  "validate_runtime_identity run attempt_id binding_id release_id generation_id =
     seq (required_text_opt generation_id ''state_generation_id'' 200) (\<lambda>generation_id.
     seq (guard (rn_active_attempt_id run = Some attempt_id)
            (InvalidTransition ''attempt_mismatch'' ''runtime_result'')) (\<lambda>_.
     seq (get_attempt attempt_id) (\<lambda>attempt.
     seq (guard (at_runtime_identity_version attempt = 1
            \<and> list_all truthy [at_runtime_release_id attempt, at_state_generation_id attempt,
                at_runtime_slot_id attempt, at_runtime_artifact_digest attempt,
                at_runtime_worker_protocol attempt])
            (InvalidTransition ''legacy_runtime_identity'' ''manual_recovery'')) (\<lambda>_.
     seq (guard (at_run_id attempt = rn_id run \<and> at_runtime_binding_id attempt = Some binding_id
            \<and> at_runtime_release_id attempt = Some release_id
            \<and> at_state_generation_id attempt = Some generation_id)
            (InvalidTransition ''runtime_binding_mismatch'' ''runtime_result'')) (\<lambda>_.
     ret attempt)))))"

text \<open>\<open>_confirm_runtime_resume_from_event\<close>; the result is the run as the caller goes on to see it.\<close>

definition confirm_runtime_resume :: "run \<Rightarrow> string \<Rightarrow> event_ref \<Rightarrow> run op" where
  "confirm_runtime_resume run attempt_id ev =
     (if rn_state run \<noteq> R_resuming \<or> er_adapter_event_id ev = None then ret run
      else
        seq (gets (\<lambda>s. select_by action_order (\<lambda>a. ra_run_id a = rn_id run \<and> ra_attempt_id a = attempt_id
               \<and> ra_kind a = ''decision.resolve'' \<and> ra_state a = A_pending) (runtime_actions s))) (\<lambda>rows.
        (case rows of
           [action] \<Rightarrow>
             seq (guard (1 \<le> ra_claim_epoch action
                    \<and> er_caused_by_adapter_operation_id ev = Some (''runtime-action:'' @ ra_id action)
                    \<and> er_caused_by_delivery_epoch ev = Some (ra_claim_epoch action))
                    (InvalidTransition ''runtime_resume_causation_unverified'' ''runtime_event_ingest'')) (\<lambda>_.
             seq utc_now (\<lambda>now.
             seq (sql_update runtime_actions runtime_actions_update
                    (\<lambda>a. ra_id a = ra_id action \<and> ra_state a = A_pending)
                    (\<lambda>a. a\<lparr>ra_state := A_acked, ra_acknowledged_at := Some now, ra_outcome_state := O_ready,
                           ra_claim_owner := None, ra_claim_expires_at := None,
                           ra_failure_category := None\<rparr>)) (\<lambda>rowcount.
             seq (guard (rowcount = 1)
                    (InvalidTransition ''runtime_resume_action_race'' ''runtime_event_ingest'')) (\<lambda>_.
             seq (update_runs (\<lambda>r. rn_id r = rn_id run)
                    (\<lambda>r. r\<lparr>rn_state := R_running, rn_updated_at := now\<rparr>)) (\<lambda>_.
             seq (sql_update attempts attempts_update (\<lambda>a. at_id a = attempt_id)
                    (\<lambda>a. a\<lparr>at_state := R_running\<rparr>)) (\<lambda>_.
             seq (insert_event (rn_id run) (Some attempt_id) ''runtime.action.acked''
                    (JObj [(''runtime_action_id'', JStr (ra_id action)), (''kind'', JStr ''decision.resolve''),
                           (''confirmation'', JStr ''durable_runtime_event'')]) (er_adapter_event_id ev)) (\<lambda>_.
             ret (run\<lparr>rn_state := R_running\<rparr>))))))))
         | _ \<Rightarrow> raise (InvalidTransition ''runtime_resume_action_missing'' ''runtime_event_ingest''))))"

text \<open>The transaction of a command that a runtime event may have caused: the receipt, then the inbox of
  events, then the body, which gives the response and the attempt the event is filed under.\<close>

definition runtime_command ::
    "string \<Rightarrow> string \<Rightarrow> string \<Rightarrow> (string \<times> json) list \<Rightarrow> string option \<Rightarrow> event_ref \<Rightarrow> int
      \<Rightarrow> (json \<times> string option) op \<Rightarrow> command_result op" where
  "runtime_command actor_id operation key request attempt_id ev status_code body =
     seq (find_receipt actor_id operation key (JObj request)) (\<lambda>replay. case replay of
       Some result \<Rightarrow> ret result
     | None \<Rightarrow>
        (let full = (''operation'', JStr operation) # request in
         seq (runtime_event_replay attempt_id (er_adapter_event_id ev) (er_adapter_event_sequence ev) full)
           (\<lambda>inbox. case inbox of
              Some result \<Rightarrow> ret result
            | None \<Rightarrow>
                seq body (\<lambda>(value, filed_under).
                seq (save_receipt actor_id operation key (JObj request) value status_code) (\<lambda>result.
                seq (save_runtime_event filed_under (er_adapter_event_id ev) (er_adapter_event_sequence ev)
                       full result) (\<lambda>_.
                ret result))))))"

definition ref_request :: "runtime_ref \<Rightarrow> (string \<times> json) list" where
  "ref_request rf = [(''attempt_id'', jstr_opt (rf_attempt_id rf)),
     (''runtime_binding_id'', jstr_opt (rf_runtime_binding_id rf)),
     (''runtime_release_id'', jstr_opt (rf_runtime_release_id rf)),
     (''state_generation_id'', jstr_opt (rf_state_generation_id rf))]"

definition exact_ref :: "string \<Rightarrow> string \<Rightarrow> string \<Rightarrow> string option \<Rightarrow> runtime_ref" where
  "exact_ref attempt_id binding_id release_id generation_id =
     \<lparr>rf_attempt_id = Some attempt_id, rf_runtime_binding_id = Some binding_id,
      rf_runtime_release_id = Some release_id, rf_state_generation_id = generation_id\<rparr>"

definition event_request :: "event_ref \<Rightarrow> (string \<times> json) list" where
  "event_request ev = [(''adapter_event_sequence'', jint_opt (er_adapter_event_sequence ev)),
     (''caused_by_adapter_operation_id'', jstr_opt (er_caused_by_adapter_operation_id ev)),
     (''caused_by_delivery_epoch'', jint_opt (er_caused_by_delivery_epoch ev))]"

section \<open>Transitions\<close>

definition transition_operation :: "string \<Rightarrow> run_state \<Rightarrow> string" where
  "transition_operation run_id target =
     ''POST:/api/v1/runs/'' @ run_id @ ''/transition/'' @ run_state_name target"

definition transition_request ::
    "run_state \<Rightarrow> int \<Rightarrow> string option \<Rightarrow> (string \<times> json) list \<Rightarrow> runtime_ref \<Rightarrow> event_ref
      \<Rightarrow> (string \<times> json) list" where
  "transition_request target expected_revision stage payload rf ev =
     [(''target_state'', JStr (run_state_name target)), (''expected_revision'', JInt expected_revision),
      (''stage'', jstr_opt stage), (''payload'', JObj payload)] @ ref_request rf @ event_request ev"

definition operator_targets :: "run_state list" where
  "operator_targets = [R_pause_requested, R_cancel_requested]"

text \<open>The first part of the body: who may ask for the transition.\<close>

definition admit_transition ::
    "run \<Rightarrow> run_state \<Rightarrow> string \<Rightarrow> int \<Rightarrow> runtime_ref \<Rightarrow> event_ref \<Rightarrow> (run \<times> attempt option) op" where
  "admit_transition run target actor_id expected_revision rf ev =
     seq (if target \<in> set operator_targets \<and> actor_id \<noteq> capture_consumer_actor
          then engine_owned_run run else ret False) (\<lambda>owned.
     seq (guard (\<not> owned) (MachineRunRefused (rn_id run) (run_state_name target))) (\<lambda>_.
     seq (expect_revision (rn_revision run) (run_json run) expected_revision) (\<lambda>_.
     if target \<in> set operator_targets then ret (run, None)
     else
       (case (rf_attempt_id rf, rf_runtime_binding_id rf, rf_runtime_release_id rf) of
          (Some attempt_id, Some binding_id, Some release_id) \<Rightarrow>
            seq (guard (attempt_id \<noteq> [] \<and> binding_id \<noteq> [] \<and> release_id \<noteq> [])
                   (ValueError ''runtime identity is required for this transition'')) (\<lambda>_.
            seq (validate_runtime_identity run attempt_id binding_id release_id (rf_state_generation_id rf))
              (\<lambda>attempt.
            seq (confirm_runtime_resume run attempt_id ev) (\<lambda>run. ret (run, Some attempt))))
        | _ \<Rightarrow> raise (ValueError ''runtime identity is required for this transition'')))))"

text \<open>The second part: what the transition does to the work of the run.\<close>

definition settle_transition ::
    "run \<Rightarrow> run_state \<Rightarrow> instant \<Rightarrow> (string list \<times> string option \<times> (string \<times> json) list) op" where
  "settle_transition run target now =
     (let active = rn_active_attempt_id run; ends = (target \<in> set terminal_run_states) in
     seq (if target = R_cancel_requested then prepare_run_cancellation (rn_id run) active now
          else if target = R_pause_requested then
            seq (insert_control_runtime_action (rn_id run) active ''control.pause'' now) (\<lambda>a. ret ([], a, []))
          else ret ([], None, [])) (\<lambda>(canceled_ids, runtime_action_id, closed).
     seq (if canceled_ids \<noteq> [] then ret canceled_ids
          else if ends \<or> target = R_paused then
            (case active of None \<Rightarrow> ret [] | Some i \<Rightarrow> fail_pending_runtime_actions (rn_id run) i now)
          else ret []) (\<lambda>failed_ids.
     seq (if target = R_paused then
            (case active of None \<Rightarrow> ret []
             | Some i \<Rightarrow> fence_artifact_materializations_for_attempt (rn_id run) i now)
          else ret []) (\<lambda>_.
     seq (if target = R_cancel_requested then ret closed
          else if ends then close_source_work_for_run (rn_id run) now else ret []) (\<lambda>closed_source_work.
     ret (failed_ids, runtime_action_id, closed_source_work))))))"

definition expire_decisions_of :: "string \<Rightarrow> instant \<Rightarrow> string list op" where
  "expire_decisions_of run_id now =
     seq (gets (\<lambda>s. map de_id (select_by (\<lambda>d. (text_key (de_created_at d), de_id d))
            (\<lambda>d. de_run_id d = run_id \<and> de_state d = D_pending) (decisions s)))) (\<lambda>expired.
     if expired = [] then ret []
     else
       seq (sql_update decisions decisions_update (\<lambda>d. de_run_id d = run_id \<and> de_state d = D_pending)
              (expire_decision now)) (\<lambda>_. ret expired))"

definition release_active_pin :: "string \<Rightarrow> string option \<Rightarrow> instant \<Rightarrow> string option op" where
  "release_active_pin run_id active now =
     (case active of None \<Rightarrow> ret None
      | Some i \<Rightarrow>
          seq (get_attempt i) (\<lambda>attempt.
          if at_runtime_release_id attempt \<noteq> None \<and> at_state_generation_id attempt \<noteq> None
          then seq (insert_pin_release run_id attempt now) (\<lambda>p. ret (Some p))
          else ret None))"

definition set_attempt_state :: "run_state \<Rightarrow> instant \<Rightarrow> instant option \<Rightarrow> attempt \<Rightarrow> attempt" where
  "set_attempt_state target now finished a =
     a\<lparr>at_state := target,
       at_started_at := (if target = R_running then (case at_started_at a of None \<Rightarrow> Some now | Some t \<Rightarrow> Some t)
                         else at_started_at a),
       at_finished_at := (case finished of None \<Rightarrow> at_finished_at a | Some t \<Rightarrow> Some t)\<rparr>"

definition add_if :: "bool \<Rightarrow> string \<Rightarrow> json \<Rightarrow> (string \<times> json) list \<Rightarrow> (string \<times> json) list" where
  "add_if b k v d = (if b then dict_set k v d else d)"

definition transition_run ::
    "string \<Rightarrow> run_state \<Rightarrow> int \<Rightarrow> string \<Rightarrow> string \<Rightarrow> string option \<Rightarrow> (string \<times> json) list
      \<Rightarrow> runtime_ref \<Rightarrow> event_ref \<Rightarrow> command_result op" where
  "transition_run run_id target expected_revision actor_id idempotency_key stage payload rf ev =
     runtime_command actor_id (transition_operation run_id target) idempotency_key
       (transition_request target expected_revision stage payload rf ev) (rf_attempt_id rf) ev 200
     (seq (get_run run_id) (\<lambda>run0.
      seq (admit_transition run0 target actor_id expected_revision rf ev) (\<lambda>(run, runtime_attempt).
      seq (guard (target = R_paused \<longrightarrow> (case runtime_attempt of None \<Rightarrow> False
              | Some a \<Rightarrow> truthy (at_checkpoint_uri a))) (InvalidTransition ''checkpoint_missing'' ''paused'')) (\<lambda>_.
      let source = rn_state run; active = rn_active_attempt_id run; ends = (target \<in> set terminal_run_states) in
      seq (guard (target \<in> set (run_transitions source))
             (InvalidTransition (run_state_name source) (run_state_name target))) (\<lambda>_.
      seq utc_now (\<lambda>now.
      seq (settle_transition run target now) (\<lambda>(failed_ids, runtime_action_id, closed_source_work).
      seq (update_runs (\<lambda>r. rn_id r = run_id \<and> rn_revision r = expected_revision)
             (\<lambda>r. r\<lparr>rn_state := target, rn_stage := (case stage of None \<Rightarrow> rn_stage r | Some x \<Rightarrow> Some x),
                    rn_revision := rn_revision r + 1, rn_updated_at := now\<rparr>)) (\<lambda>_.
      seq (case active of None \<Rightarrow> ret 0
           | Some i \<Rightarrow> sql_update attempts attempts_update (\<lambda>a. at_id a = i)
               (set_attempt_state target now (if ends \<or> target = R_paused then Some now else None))) (\<lambda>_.
      seq (if ends then
             seq (sql_update threads threads_update
                    (\<lambda>t. th_id t = rn_thread_id run \<and> th_active_run_id t = Some run_id)
                    (\<lambda>t. t\<lparr>th_status := run_state_name target, th_active_run_id := None,
                           th_revision := th_revision t + 1, th_updated_at := now\<rparr>)) (\<lambda>_.
             expire_decisions_of run_id now)
           else ret []) (\<lambda>expired.
      seq (if ends then release_active_pin run_id active now else ret None) (\<lambda>pin_id.
      seq (insert_event run_id active (''run.'' @ run_state_name target)
             (JObj (add_if (pin_id \<noteq> None) ''pin_release_action_id'' (jstr_opt pin_id)
               (add_if (runtime_action_id \<noteq> None) ''runtime_action_id'' (jstr_opt runtime_action_id)
               (add_if (closed_source_work \<noteq> []) ''closed_source_work'' (JObj closed_source_work)
               (add_if (expired \<noteq> []) ''expired_decision_ids'' (jstrs expired)
               (add_if (failed_ids \<noteq> []) ''failed_runtime_action_ids'' (jstrs failed_ids)
               (dict_update [(''from'', JStr (run_state_name source)), (''state'', JStr (run_state_name target))]
                  payload)))))))
             (er_adapter_event_id ev)) (\<lambda>_.
      seq (get_run run_id) (\<lambda>value. ret (run_json value, active))))))))))))))"

definition apply_runtime_transition ::
    "string \<Rightarrow> string \<Rightarrow> string \<Rightarrow> string \<Rightarrow> run_state \<Rightarrow> int \<Rightarrow> string \<Rightarrow> string \<Rightarrow> string option
      \<Rightarrow> (string \<times> json) list \<Rightarrow> string option \<Rightarrow> event_ref \<Rightarrow> command_result op" where
  "apply_runtime_transition run_id attempt_id binding_id release_id target expected_revision actor_id
       idempotency_key stage payload generation_id ev =
     transition_run run_id target expected_revision actor_id idempotency_key stage payload
       (exact_ref attempt_id binding_id release_id generation_id) ev"

section \<open>Binding an attempt to a runtime\<close>

definition binding_identity :: "runtime_binding \<Rightarrow> string \<times> string \<times> int" where
  "binding_identity b = (rb_adapter_id b, rb_runtime_session_ref b, rb_generation b)"

definition create_runtime_binding ::
    "string \<Rightarrow> string \<Rightarrow> string \<Rightarrow> int \<Rightarrow> string \<Rightarrow> string option \<Rightarrow> string \<Rightarrow> string \<Rightarrow> command_result op" where
  "create_runtime_binding thread_id adapter_id session_ref generation adapter_version parent_ref
       actor_id idempotency_key =
     seq (required_text adapter_id ''adapter_id'' 100) (\<lambda>adapter_id.
     seq (required_text session_ref ''runtime_session_ref'' 1000) (\<lambda>session_ref.
     seq (required_text adapter_version ''adapter_version'' 100) (\<lambda>adapter_version.
     seq (guard (0 \<le> generation) (ValueError ''generation must be a non-negative integer'')) (\<lambda>_.
     command actor_id (''POST:/internal/v1/threads/'' @ thread_id @ ''/runtime-bindings'') idempotency_key
       (JObj [(''thread_id'', JStr thread_id), (''adapter_id'', JStr adapter_id),
              (''runtime_session_ref'', JStr session_ref), (''generation'', JInt generation),
              (''adapter_version'', JStr adapter_version), (''parent_ref'', jstr_opt parent_ref)]) 201
     (seq (get_thread thread_id) (\<lambda>_.
      seq utc_now (\<lambda>now.
      seq (new_id ''runtime_binding'') (\<lambda>binding_id.
      seq (gets (\<lambda>s. (adapter_id, session_ref, generation) \<in> set (map binding_identity (runtime_bindings s))))
        (\<lambda>taken.
      seq (guard (\<not> taken) IntegrityError) (\<lambda>_.
      seq (sql_insert IntegrityError runtime_bindings runtime_bindings_update rb_id
             \<lparr>rb_id = binding_id, rb_thread_id = thread_id, rb_adapter_id = adapter_id,
              rb_runtime_session_ref = session_ref, rb_generation = generation,
              rb_adapter_version = adapter_version, rb_parent_ref = parent_ref, rb_created_at = now,
              rb_updated_at = now\<rparr>) (\<lambda>_.
      seq (get_runtime_binding binding_id) (\<lambda>value. ret (runtime_binding_json value)))))))))))))"

definition run_with_attempt :: "string \<Rightarrow> string \<Rightarrow> json op" where
  "run_with_attempt run_id attempt_id =
     seq (get_run run_id) (\<lambda>run.
     seq (get_attempt attempt_id) (\<lambda>attempt.
     ret (jset ''attempt'' (attempt_json attempt) (run_json run))))"

definition touch_run :: "string \<Rightarrow> int \<Rightarrow> instant \<Rightarrow> nat op" where
  "touch_run run_id expected_revision now =
     sql_update runs runs_update (\<lambda>r. rn_id r = run_id \<and> rn_revision r = expected_revision)
       (\<lambda>r. r\<lparr>rn_revision := rn_revision r + 1, rn_updated_at := now\<rparr>)"

text \<open>\<open>reserve_attempt_dispatch\<close>. A null column matches any value; a set one only its own.\<close>

definition free_or :: "string option \<Rightarrow> string \<Rightarrow> bool" where
  "free_or column value = (column = None \<or> column = Some value)"

definition reservable ::
    "string \<Rightarrow> string \<Rightarrow> instant \<Rightarrow> string \<Rightarrow> string \<Rightarrow> string \<Rightarrow> string \<Rightarrow> string \<Rightarrow> attempt \<Rightarrow> bool" where
  "reservable attempt_id owner now release_id generation_id slot_id digest protocol a =
     (at_id a = attempt_id \<and> at_runtime_binding_id a = None
      \<and> (free_or (at_dispatch_owner a) owner
         \<or> (case at_dispatch_expires_at a of None \<Rightarrow> False | Some t \<Rightarrow> text_le t now))
      \<and> free_or (at_runtime_release_id a) release_id \<and> free_or (at_state_generation_id a) generation_id
      \<and> free_or (at_runtime_slot_id a) slot_id \<and> free_or (at_runtime_artifact_digest a) digest
      \<and> free_or (at_runtime_worker_protocol a) protocol)"

definition reserve_attempt_dispatch ::
    "string \<Rightarrow> string \<Rightarrow> string \<Rightarrow> string \<Rightarrow> string \<Rightarrow> string \<Rightarrow> string \<Rightarrow> string \<Rightarrow> int \<Rightarrow> int
      \<Rightarrow> string \<Rightarrow> string \<Rightarrow> command_result op" where
  "reserve_attempt_dispatch run_id attempt_id owner release_id generation_id slot_id digest protocol
       expected_revision lease_seconds actor_id idempotency_key =
     seq (required_text owner ''dispatch_owner'' 200) (\<lambda>owner.
     seq (required_text release_id ''runtime_release_id'' 200) (\<lambda>release_id.
     seq (required_text generation_id ''state_generation_id'' 200) (\<lambda>generation_id.
     seq (required_text slot_id ''runtime_slot_id'' 200) (\<lambda>slot_id.
     seq (required_text digest ''runtime_artifact_digest'' 200) (\<lambda>digest.
     seq (required_text protocol ''runtime_worker_protocol'' 100) (\<lambda>protocol.
     seq (guard (1 \<le> lease_seconds \<and> lease_seconds \<le> 300)
            (ValueError ''lease_seconds must be between 1 and 300'')) (\<lambda>_.
     command_checked actor_id (''POST:/internal/v1/runs/'' @ run_id @ ''/reserve-dispatch'') idempotency_key
       (JObj [(''attempt_id'', JStr attempt_id), (''dispatch_owner'', JStr owner),
              (''runtime_release_id'', JStr release_id), (''state_generation_id'', JStr generation_id),
              (''runtime_slot_id'', JStr slot_id), (''runtime_artifact_digest'', JStr digest),
              (''runtime_worker_protocol'', JStr protocol), (''expected_revision'', JInt expected_revision),
              (''lease_seconds'', JInt lease_seconds)]) 200
     (\<lambda>_. seq (get_attempt attempt_id) (\<lambda>attempt.
        if at_runtime_binding_id attempt = None \<and> at_runtime_identity_version attempt = 1
           \<and> at_dispatch_owner attempt = Some owner \<and> at_runtime_release_id attempt = Some release_id
           \<and> at_state_generation_id attempt = Some generation_id \<and> at_runtime_slot_id attempt = Some slot_id
           \<and> at_runtime_artifact_digest attempt = Some digest
           \<and> at_runtime_worker_protocol attempt = Some protocol \<and> at_dispatch_expires_at attempt \<noteq> None
        then seq utc_now (\<lambda>now. ret (unexpired (at_dispatch_expires_at attempt) now))
        else ret False))
     (InvalidTransition ''stale_dispatch_receipt'' ''dispatch_reserved'')
     (seq (get_run run_id) (\<lambda>run.
      seq (expect_revision (rn_revision run) (run_json run) expected_revision) (\<lambda>_.
      seq (guard (rn_active_attempt_id run = Some attempt_id)
             (InvalidTransition ''attempt_mismatch'' ''dispatch_reserved'')) (\<lambda>_.
      seq (guard (rn_state run \<in> set [R_queued, R_retrying, R_resuming])
             (InvalidTransition (run_state_name (rn_state run)) ''dispatch_reserved'')) (\<lambda>_.
      seq (get_attempt attempt_id) (\<lambda>attempt.
      seq (guard (at_runtime_binding_id attempt = None)
             (InvalidTransition ''already_bound'' ''dispatch_reserved'')) (\<lambda>_.
      seq utc_now (\<lambda>now.
      seq (sql_update attempts attempts_update
             (reservable attempt_id owner now release_id generation_id slot_id digest protocol)
             (\<lambda>a. a\<lparr>at_dispatch_owner := Some owner,
                    at_dispatch_expires_at := Some (now + seconds lease_seconds),
                    at_runtime_release_id := Some release_id, at_state_generation_id := Some generation_id,
                    at_runtime_slot_id := Some slot_id, at_runtime_artifact_digest := Some digest,
                    at_runtime_worker_protocol := Some protocol, at_runtime_identity_version := 1\<rparr>))
        (\<lambda>rowcount.
      seq (guard (rowcount = 1) (InvalidTransition ''already_reserved'' ''dispatch_reserved'')) (\<lambda>_.
      seq (touch_run run_id expected_revision now) (\<lambda>_.
      seq (insert_event run_id (Some attempt_id) ''runtime.dispatch.reserved''
             (JObj [(''runtime_release_id'', JStr release_id), (''state_generation_id'', JStr generation_id),
                    (''runtime_slot_id'', JStr slot_id), (''runtime_artifact_digest'', JStr digest),
                    (''runtime_worker_protocol'', JStr protocol)]) None) (\<lambda>_.
      run_with_attempt run_id attempt_id)))))))))))))))))))"

definition claim_attempt_dispatch :: "string \<Rightarrow> string \<Rightarrow> string \<Rightarrow> int \<Rightarrow> json op" where
  "claim_attempt_dispatch run_id attempt_id owner lease_seconds =
     raise (InvalidTransition ''dispatch_reservation_required'' ''dispatch_claimed'')"

text \<open>\<open>pin_attempt_runtime\<close>. The clock is read for the check only when the other conditions hold.\<close>

definition reservation_holds :: "attempt \<Rightarrow> string \<Rightarrow> string \<Rightarrow> string \<Rightarrow> bool op" where
  "reservation_holds a owner release_id generation_id =
     (if at_dispatch_owner a = Some owner \<and> at_runtime_identity_version a = 1
         \<and> at_runtime_release_id a = Some release_id \<and> at_state_generation_id a = Some generation_id
         \<and> truthy (at_runtime_slot_id a) \<and> truthy (at_runtime_artifact_digest a)
         \<and> truthy (at_runtime_worker_protocol a) \<and> at_dispatch_expires_at a \<noteq> None
      then seq utc_now (\<lambda>now. ret (unexpired (at_dispatch_expires_at a) now))
      else ret False)"

definition pin_attempt_runtime ::
    "string \<Rightarrow> string \<Rightarrow> string \<Rightarrow> string \<Rightarrow> int \<Rightarrow> string option \<Rightarrow> string option \<Rightarrow> string \<Rightarrow> string
      \<Rightarrow> command_result op" where
  "pin_attempt_runtime run_id attempt_id binding_id release_id expected_revision generation_id owner
       actor_id idempotency_key =
     seq (required_text release_id ''runtime_release_id'' 200) (\<lambda>release_id.
     seq (required_text_opt generation_id ''state_generation_id'' 200) (\<lambda>generation_id.
     seq (required_text_opt owner ''dispatch_owner'' 200) (\<lambda>owner.
     command actor_id (''POST:/internal/v1/runs/'' @ run_id @ ''/pin-runtime'') idempotency_key
       (JObj [(''attempt_id'', JStr attempt_id), (''runtime_binding_id'', JStr binding_id),
              (''runtime_release_id'', JStr release_id), (''state_generation_id'', JStr generation_id),
              (''expected_revision'', JInt expected_revision), (''dispatch_owner'', JStr owner)]) 200
     (seq (get_run run_id) (\<lambda>run.
      seq (expect_revision (rn_revision run) (run_json run) expected_revision) (\<lambda>_.
      seq (guard (rn_active_attempt_id run = Some attempt_id)
             (InvalidTransition ''attempt_mismatch'' ''runtime_bound'')) (\<lambda>_.
      seq (get_attempt attempt_id) (\<lambda>attempt.
      seq (get_runtime_binding binding_id) (\<lambda>binding.
      seq (guard (rb_thread_id binding = rn_thread_id run)
             (InvalidTransition ''binding_mismatch'' ''runtime_bound'')) (\<lambda>_.
      seq (guard (at_runtime_binding_id attempt = None)
             (InvalidTransition ''already_bound'' ''runtime_bound'')) (\<lambda>_.
      seq (reservation_holds attempt owner release_id generation_id) (\<lambda>holds.
      seq (guard holds (InvalidTransition ''dispatch_reservation_mismatch'' ''runtime_bound'')) (\<lambda>_.
      seq utc_now (\<lambda>now.
      seq (sql_update attempts attempts_update
             (\<lambda>a. at_id a = attempt_id \<and> at_runtime_binding_id a = None \<and> at_dispatch_owner a = Some owner
                  \<and> at_runtime_release_id a = Some release_id \<and> at_state_generation_id a = Some generation_id
                  \<and> unexpired (at_dispatch_expires_at a) now)
             (\<lambda>a. a\<lparr>at_runtime_binding_id := Some binding_id, at_dispatch_owner := None,
                    at_dispatch_expires_at := None\<rparr>)) (\<lambda>rowcount.
      seq (guard (rowcount = 1) (InvalidTransition ''dispatch_reservation_mismatch'' ''runtime_bound'')) (\<lambda>_.
      seq (insert_paused_source_releases run_id attempt now) (\<lambda>source_ids.
      seq (touch_run run_id expected_revision now) (\<lambda>_.
      seq (insert_event run_id (Some attempt_id) ''runtime.bound''
             (JObj [(''runtime_binding_id'', JStr binding_id), (''runtime_release_id'', JStr release_id),
                    (''state_generation_id'', JStr generation_id),
                    (''source_pin_release_action_ids'', jstrs source_ids)]) None) (\<lambda>_.
      run_with_attempt run_id attempt_id)))))))))))))))))))"

section \<open>Messages, failures and restarts\<close>

definition append_runtime_message ::
    "string \<Rightarrow> string \<Rightarrow> string \<Rightarrow> string \<Rightarrow> string option \<Rightarrow> string \<Rightarrow> int \<Rightarrow> string \<Rightarrow> string \<Rightarrow> event_ref
      \<Rightarrow> command_result op" where
  "append_runtime_message run_id attempt_id binding_id release_id generation_id content expected_revision
       actor_id idempotency_key ev =
     seq (required_text content ''content'' 1000000) (\<lambda>content.
     runtime_command actor_id (''POST:/internal/v1/runs/'' @ run_id @ ''/assistant-message'') idempotency_key
       (ref_request (exact_ref attempt_id binding_id release_id generation_id)
        @ [(''content'', JStr content), (''expected_revision'', JInt expected_revision)]
        @ event_request ev) (Some attempt_id) ev 200
     (seq (get_run run_id) (\<lambda>run0.
      seq (expect_revision (rn_revision run0) (run_json run0) expected_revision) (\<lambda>_.
      seq (validate_runtime_identity run0 attempt_id binding_id release_id generation_id) (\<lambda>_.
      seq (confirm_runtime_resume run0 attempt_id ev) (\<lambda>run.
      seq (guard (rn_state run = R_running)
             (InvalidTransition (run_state_name (rn_state run)) ''message_completed'')) (\<lambda>_.
      seq (get_thread (rn_thread_id run)) (\<lambda>thread.
      seq (gets (next_position (th_id thread))) (\<lambda>position.
      seq (new_id ''msg'') (\<lambda>message_id.
      seq utc_now (\<lambda>now.
      seq (insert_message \<lparr>ms_id = message_id, ms_thread_id = th_id thread, ms_role = ''assistant'',
             ms_content = content, ms_position = position, ms_created_at = now\<rparr>) (\<lambda>_.
      seq (sql_update threads threads_update (\<lambda>t. th_id t = th_id thread)
             (\<lambda>t. t\<lparr>th_revision := th_revision t + 1, th_updated_at := now\<rparr>)) (\<lambda>_.
      seq (touch_run run_id expected_revision now) (\<lambda>_.
      seq (insert_event run_id (Some attempt_id) ''runtime.message.completed''
             (JObj [(''message_id'', JStr message_id), (''role'', JStr ''assistant'')])
             (er_adapter_event_id ev)) (\<lambda>_.
      seq (get_run run_id) (\<lambda>value.
      seq (get_message message_id) (\<lambda>message.
      ret (jset ''message'' (message_json message) (run_json value), Some attempt_id))))))))))))))))))"

definition fail_unbound_run ::
    "string \<Rightarrow> string \<Rightarrow> int \<Rightarrow> string \<Rightarrow> string option \<Rightarrow> bool \<Rightarrow> string \<Rightarrow> string \<Rightarrow> command_result op" where
  "fail_unbound_run run_id attempt_id expected_revision category dispatch_owner retryable actor_id
       idempotency_key =
     seq (required_text category ''category'' 100) (\<lambda>category.
     command actor_id (''POST:/internal/v1/runs/'' @ run_id @ ''/fail-unbound'') idempotency_key
       (JObj ([(''attempt_id'', JStr attempt_id), (''expected_revision'', JInt expected_revision),
               (''category'', JStr category), (''dispatch_owner'', jstr_opt dispatch_owner)]
              @ (if retryable then [] else [(''retryable'', JBool False)]))) 200
     (seq (get_run run_id) (\<lambda>run.
      seq (expect_revision (rn_revision run) (run_json run) expected_revision) (\<lambda>_.
      seq (guard (rn_active_attempt_id run = Some attempt_id)
             (InvalidTransition ''attempt_mismatch'' ''failed'')) (\<lambda>_.
      seq (get_attempt attempt_id) (\<lambda>attempt.
      seq (guard (at_runtime_binding_id attempt = None)
             (InvalidTransition ''runtime_already_bound'' ''failed'')) (\<lambda>_.
      seq (case dispatch_owner of None \<Rightarrow> ret ()
           | Some owner \<Rightarrow>
               seq (required_text owner ''dispatch_owner'' 200) (\<lambda>owner.
               guard (at_dispatch_owner attempt = Some owner)
                 (InvalidTransition ''dispatch_owner_mismatch'' ''failed''))) (\<lambda>_.
      seq (guard (rn_state run \<in> set [R_queued, R_retrying, R_resuming, R_cancel_requested])
             (InvalidTransition (run_state_name (rn_state run)) ''failed'')) (\<lambda>_.
      seq utc_now (\<lambda>now.
      seq (paused_source_attempt attempt) (\<lambda>paused_source.
      let target = (if rn_state run = R_cancel_requested then R_canceled
                    else if paused_source \<noteq> None then R_paused else R_failed);
          target_attempt_id = (case paused_source of
              Some p \<Rightarrow> if target = R_paused then at_id p else attempt_id | None \<Rightarrow> attempt_id);
          ends = (target \<in> set terminal_run_states) in
      seq (if ends then fail_pending_runtime_actions run_id attempt_id now else ret []) (\<lambda>failed_ids.
      seq (if ends then close_source_work_for_run run_id now else ret []) (\<lambda>closed_source_work.
      seq (if target = R_paused then fence_artifact_materializations_for_attempt run_id attempt_id now
           else ret []) (\<lambda>_.
      seq (update_runs (\<lambda>r. rn_id r = run_id \<and> rn_revision r = expected_revision)
             (\<lambda>r. r\<lparr>rn_state := target, rn_active_attempt_id := Some target_attempt_id,
                    rn_revision := rn_revision r + 1, rn_updated_at := now\<rparr>)) (\<lambda>_.
      seq (sql_update attempts attempts_update (\<lambda>a. at_id a = attempt_id)
             (\<lambda>a. a\<lparr>at_state := R_failed, at_finished_at := Some now, at_dispatch_owner := None,
                    at_dispatch_expires_at := None\<rparr>)) (\<lambda>_.
      seq (if ends then
             sql_update threads threads_update
               (\<lambda>t. th_id t = rn_thread_id run \<and> th_active_run_id t = Some run_id)
               (\<lambda>t. t\<lparr>th_status := run_state_name target, th_active_run_id := None,
                      th_revision := th_revision t + 1, th_updated_at := now\<rparr>)
           else
             sql_update threads threads_update
               (\<lambda>t. th_id t = rn_thread_id run \<and> th_active_run_id t = Some run_id)
               (\<lambda>t. t\<lparr>th_status := ''paused'', th_revision := th_revision t + 1, th_updated_at := now\<rparr>)) (\<lambda>_.
      seq (if at_runtime_release_id attempt \<noteq> None \<and> at_state_generation_id attempt \<noteq> None
           then seq (insert_pin_release run_id attempt now) (\<lambda>p. ret (Some p)) else ret None) (\<lambda>pin_id.
      seq (if target = R_canceled then insert_paused_source_releases run_id attempt now else ret []) (\<lambda>source_ids.
      seq (insert_event run_id (Some attempt_id) (''run.'' @ run_state_name target)
             (JObj (add_if (closed_source_work \<noteq> []) ''closed_source_work'' (JObj closed_source_work)
               (add_if (failed_ids \<noteq> []) ''failed_runtime_action_ids'' (jstrs failed_ids)
               (add_if (source_ids \<noteq> []) ''source_pin_release_action_ids'' (jstrs source_ids)
               [(''from'', JStr (run_state_name (rn_state run))), (''state'', JStr (run_state_name target)),
                (''category'', JStr category), (''retryable'', JBool (retryable \<and> target \<noteq> R_canceled)),
                (''pin_release_action_id'', jstr_opt pin_id)])))) None) (\<lambda>_.
      seq (get_run run_id) (\<lambda>value. ret (run_json value))))))))))))))))))))))"

definition next_number :: "string \<Rightarrow> store \<Rightarrow> int" where
  "next_number run_id s =
     fold max (map at_number (filter (\<lambda>a. at_run_id a = run_id) (attempts s))) 0 + 1"

text \<open>\<open>_restart_attempt\<close>: \<open>str(None)\<close> is a text that names no attempt.\<close>

definition restart_attempt ::
    "string \<Rightarrow> int \<Rightarrow> string \<Rightarrow> string \<Rightarrow> run_state \<Rightarrow> run_state \<Rightarrow> string \<Rightarrow> string option
      \<Rightarrow> command_result op" where
  "restart_attempt run_id expected_revision actor_id idempotency_key source_state target operation reason =
     command actor_id operation idempotency_key
       (JObj [(''expected_revision'', JInt expected_revision), (''reason'', jstr_opt reason)]) 200
     (seq (get_run run_id) (\<lambda>run.
      seq (expect_revision (rn_revision run) (run_json run) expected_revision) (\<lambda>_.
      seq (guard (rn_state run = source_state)
             (InvalidTransition (run_state_name (rn_state run)) (run_state_name target))) (\<lambda>_.
      seq (get_thread (rn_thread_id run)) (\<lambda>thread.
      seq (guard (th_active_run_id thread \<in> set [None, Some run_id])
             (InvalidTransition ''another_run_active'' (run_state_name target))) (\<lambda>_.
      seq (get_attempt (case rn_active_attempt_id run of None \<Rightarrow> ''None'' | Some i \<Rightarrow> i)) (\<lambda>previous.
      seq (guard (source_state = R_paused \<longrightarrow> truthy (at_checkpoint_uri previous))
             (InvalidTransition ''checkpoint_missing'' (run_state_name target))) (\<lambda>_.
      let source_checkpoint_uri = (if truthy (at_checkpoint_uri previous) then at_checkpoint_uri previous
                                   else at_source_checkpoint_uri previous) in
      seq (gets (next_number run_id)) (\<lambda>number.
      seq (new_id ''attempt'') (\<lambda>attempt_id.
      seq utc_now (\<lambda>now.
      seq (fail_pending_runtime_actions run_id (at_id previous) now) (\<lambda>failed_ids.
      seq (fence_artifact_materializations_for_attempt run_id (at_id previous) now) (\<lambda>_.
      seq (insert_attempt ((blank_attempt attempt_id run_id number target)
             \<lparr>at_source_attempt_id := Some (at_id previous), at_source_checkpoint_uri := source_checkpoint_uri\<rparr>))
        (\<lambda>_.
      seq (update_runs (\<lambda>r. rn_id r = run_id \<and> rn_revision r = expected_revision)
             (\<lambda>r. r\<lparr>rn_state := target, rn_active_attempt_id := Some attempt_id,
                    rn_revision := rn_revision r + 1, rn_updated_at := now\<rparr>)) (\<lambda>_.
      seq (sql_update threads threads_update (\<lambda>t. th_id t = th_id thread)
             (\<lambda>t. t\<lparr>th_active_run_id := Some run_id, th_status := ''running'',
                    th_revision := th_revision t + 1, th_updated_at := now\<rparr>)) (\<lambda>_.
      seq (insert_event run_id (Some attempt_id) (''run.'' @ run_state_name target)
             (JObj [(''from'', JStr (run_state_name source_state)), (''state'', JStr (run_state_name target)),
                    (''source_attempt_id'', JStr (at_id previous)),
                    (''source_checkpoint_uri'', jstr_opt source_checkpoint_uri),
                    (''reason'', jstr_opt reason), (''failed_runtime_action_ids'', jstrs failed_ids)]) None) (\<lambda>_.
      run_with_attempt run_id attempt_id)))))))))))))))))"

definition resume_run :: "string \<Rightarrow> int \<Rightarrow> string \<Rightarrow> string \<Rightarrow> command_result op" where
  "resume_run run_id expected_revision actor_id idempotency_key =
     restart_attempt run_id expected_revision actor_id idempotency_key R_paused R_resuming
       (''POST:/api/v1/runs/'' @ run_id @ ''/resume'') None"

definition retry_run :: "string \<Rightarrow> int \<Rightarrow> string \<Rightarrow> string \<Rightarrow> string \<Rightarrow> command_result op" where
  "retry_run run_id expected_revision actor_id idempotency_key reason =
     seq (required_text reason ''reason'' 2000) (\<lambda>reason.
     restart_attempt run_id expected_revision actor_id idempotency_key R_failed R_retrying
       (''POST:/api/v1/runs/'' @ run_id @ ''/retry'') (Some reason))"

section \<open>What they leave alone\<close>

lemma keeps_validate_runtime_identity [keeps]: "preserves I (validate_runtime_identity r a b l g)"
  unfolding validate_runtime_identity_def by (intro keeps)

lemma keeps_run_with_attempt [keeps]: "preserves I (run_with_attempt r a)"
  unfolding run_with_attempt_def by (intro keeps)

lemma keeps_engine_owned_run [keeps]: "preserves I (engine_owned_run r)"
  unfolding engine_owned_run_def by (intro keeps)

context bookkeeping
begin

lemma keeps_reservation_holds [keeps]: "preserves I (reservation_holds a w l g)"
  unfolding reservation_holds_def by (intro keeps)

end

context side_frame
begin

lemma keeps_settle_transition [keeps]: "preserves I (settle_transition r t n)"
  unfolding settle_transition_def Let_def by (intro keeps)

lemma keeps_expire_decisions_of [keeps]: "preserves I (expire_decisions_of r n)"
  unfolding expire_decisions_of_def by (intro keeps; simp add: row_step_defs expire_decision_def)

lemma keeps_release_active_pin [keeps]: "preserves I (release_active_pin r a n)"
  unfolding release_active_pin_def by (intro keeps)

lemma keeps_create_runtime_binding [keeps]: "preserves I (create_runtime_binding t a s g v p ac k)"
  unfolding create_runtime_binding_def by (intro keeps)

end

context ingest_frame
begin

lemma keeps_runtime_command [keeps]: "preserves I body \<Longrightarrow> preserves I (runtime_command a p k r i ev st body)"
  unfolding runtime_command_def Let_def by (intro keeps)

end

context quiet_frame
begin

lemma keeps_confirm_runtime_resume:
  assumes "\<And>n. preserves I (update_runs (\<lambda>r. rn_id r = rn_id r0) (\<lambda>r. r\<lparr>rn_state := R_running, rn_updated_at := n\<rparr>))
     \<or> rn_state r0 \<noteq> R_resuming"
  shows "preserves I (confirm_runtime_resume r0 a ev)"
proof (cases "rn_state r0 = R_resuming")
  case True
  with assms have resumed:
    "preserves I (update_runs (\<lambda>r. rn_id r = rn_id r0) (\<lambda>r. r\<lparr>rn_state := R_running, rn_updated_at := n\<rparr>))" for n
    by blast
  show ?thesis unfolding confirm_runtime_resume_def
    by (auto intro!: keeps resumed split: list.split simp: row_step_defs)
qed (simp add: confirm_runtime_resume_def keeps)

end

context link_frame
begin

lemma keeps_touch_run [keeps]: "preserves I (touch_run r e n)"
  unfolding touch_run_def by (intro keeps)

lemma keeps_reserve_attempt_dispatch [keeps]:
  "preserves I (reserve_attempt_dispatch r a w l g sl d pr e ls ac k)"
  unfolding reserve_attempt_dispatch_def by (intro keeps)

lemma keeps_pin_attempt_runtime [keeps]: "preserves I (pin_attempt_runtime r a b l e g w ac k)"
  unfolding pin_attempt_runtime_def by (intro keeps)

end

context journal_frame
begin

lemma keeps_touch_run [keeps]: "preserves I (touch_run r e n)"
  unfolding touch_run_def by (intro keeps; simp add: run_step_def)

lemma keeps_confirm_runtime_resume [keeps]: "preserves I (confirm_runtime_resume r a ev)"
  unfolding confirm_runtime_resume_def
  by (auto intro!: keeps split: list.split simp: run_step_def row_step_defs)

lemma keeps_admit_transition [keeps]: "preserves I (admit_transition r t a e rf ev)"
  unfolding admit_transition_def by (auto intro!: keeps split: prod.split option.split)

lemma keeps_restart_attempt [keeps]: "preserves I (restart_attempt r e a k ss t oper reason)"
  unfolding restart_attempt_def Let_def by (intro keeps; simp add: run_step_def)

lemma keeps_run_commands [keeps]:
  "preserves I (reserve_attempt_dispatch r a w l g sl d pr e ls ac k)"
  "preserves I (pin_attempt_runtime r a b l e g' w' ac k)"
  "preserves I (fail_unbound_run r a e c w' rb ac k)"
  "preserves I (resume_run r e a k)" "preserves I (retry_run r e a k reason)"
  unfolding reserve_attempt_dispatch_def pin_attempt_runtime_def
    fail_unbound_run_def resume_run_def retry_run_def Let_def
  by (intro keeps; simp add: run_step_def)+

end

context ingest_journal
begin

lemma keeps_ingest_commands [keeps]:
  "preserves I (transition_run r t e a k st p rf ev)" "preserves I (apply_runtime_transition r a' b l t e a k st p g ev)"
  "preserves I (append_runtime_message r a' b l g c e a k ev)"
  unfolding apply_runtime_transition_def transition_run_def append_runtime_message_def Let_def
  by (intro keeps; simp add: run_step_def)+

end

section \<open>The operations keep the links\<close>

lemma live_states: "run_transitions st \<noteq> [] \<longleftrightarrow> st \<notin> set terminal_run_states"
  by (cases st) (simp_all add: terminal_run_states_def)

lemma rknown_confirm [keeps]: "preserves (run_known r0) (confirm_runtime_resume r0 a ev)"
proof (rule rknown.keeps_confirm_runtime_resume)
  fix n
  have "run_live r0" if "rn_state r0 = R_resuming"
    using that by (simp add: run_live_def terminal_run_states_def)
  then show "preserves (run_known r0) (update_runs (\<lambda>r. rn_id r = rn_id r0)
      (\<lambda>r. r\<lparr>rn_state := R_running, rn_updated_at := n\<rparr>)) \<or> rn_state r0 \<noteq> R_resuming"
    using keeps_run_resumed[of r0 "\<lambda>r. r\<lparr>rn_state := R_running, rn_updated_at := n\<rparr>"]
    by (auto simp: run_view_def run_live_def terminal_run_states_def)
qed

definition same_run :: "run \<Rightarrow> run \<Rightarrow> bool" where
  "same_run r0 r \<longleftrightarrow> run_view r = run_view r0 \<and> rn_active_attempt_id r = rn_active_attempt_id r0
     \<and> (rn_state r = rn_state r0 \<or> rn_state r0 = R_resuming \<and> rn_state r = R_running)"

lemma same_run_refl: "same_run r r"
  by (simp add: same_run_def)

lemma confirm_yields: "yields (same_run r0) (confirm_runtime_resume r0 a ev)"
  unfolding confirm_runtime_resume_def
  by (auto simp: same_run_def run_view_def run_live_def terminal_run_states_def
      intro!: yields_ret yields_seq yields_raise split: list.split)

lemma rknown_admit: "preserves (run_known r0) (admit_transition r0 t a e rf ev)"
  unfolding admit_transition_def by (auto intro!: keeps split: prod.split option.split)

lemma admit_yields:
  "yields (\<lambda>(r, att). same_run r0 r \<and> rn_revision r0 = e) (admit_transition r0 t a e rf ev)"
proof -
  have expect: "yields (\<lambda>_. rn_revision r0 = e) (expect_revision (rn_revision r0) j e)" for j
    by (simp add: yields_def wp_rules)
  have "yields (\<lambda>(r, att). same_run r0 r) (seq (confirm_runtime_resume r0 i ev) (\<lambda>r. ret (r, Some att)))"
    for i att by (intro yields_bind[OF confirm_yields] yields_ret) simp
  note confirmed = this
  show ?thesis unfolding admit_transition_def
    by (rule yields_seq, rule yields_seq, rule yields_bind[OF expect])
      (auto intro!: yields_ret yields_raise same_run_refl confirmed yields_seq[where m = "guard _ _"]
        yields_seq[where m = "validate_runtime_identity _ _ _ _ _"] split: option.split)
qed

text \<open>The tail of a command that gives the run a new state: it stays live, or it ends and its thread is
  told so.\<close>

lemma hoare_run_stays:
  assumes "run_live r0" and "\<And>r. run_link (f r) = (rn_id r, rn_thread_id r, True)"
    and "\<And>n. preserves thread_inv (g n)"
  shows "hoare (run_known r0) (seq (update_runs (at_revision r0) f) g) thread_inv"
  using hoare_live_run[OF assms(1,2)] by (rule hoare_seq) (intro hoare_rest assms(3))

lemma hoare_run_ends:
  assumes "\<And>r. run_link (f r) = (rn_id r, rn_thread_id r, False)"
    and "\<And>th. thread_link (g th) = (th_id th, None)"
    and "preserves (run_ending (rn_id r0) (rn_thread_id r0)) att" and "preserves thread_inv m2"
    and "\<And>x. preserves thread_inv (rest x)"
  shows "hoare (run_known r0) (seq (update_runs (at_revision r0) f) (\<lambda>_. seq att (\<lambda>_.
    seq (seq (sql_update threads threads_update
      (\<lambda>th. th_id th = rn_thread_id r0 \<and> th_active_run_id th = Some (rn_id r0)) g) (\<lambda>_. m2)) rest))) thread_inv"
  by (rule hoare_seq[OF hoare_end_run[OF assms(1)]], rule hoare_skip[OF assms(3)],
      rule hoare_seq[OF hoare_seq[OF hoare_unlink[OF assms(2)] hoare_rest[OF assms(4)]] hoare_rest[OF assms(5)]])

lemma transition_run_links: "preserves thread_inv (transition_run i t e a k st p rf ev)"
proof -
  have link: "run_link (r\<lparr>rn_state := t, rn_stage := x, rn_revision := n, rn_updated_at := now\<rparr>)
      = (rn_id r, rn_thread_id r, t \<notin> set terminal_run_states)" for r x n now
    by (simp add: run_link_def run_live_def)
  have att: "preserves (run_ending j u) (case b of None \<Rightarrow> ret 0
      | Some c \<Rightarrow> sql_update attempts attempts_update (\<lambda>x. at_id x = c) h)" for j u b h
    by (intro keeps)
  show ?thesis
    unfolding transition_run_def Let_def
    apply (intro tinbox.keeps_runtime_command hoare_preserves)
    apply (rule hoare_get_run)
    apply (rule hoare_yields[OF admit_yields rknown_admit])
    apply (clarsimp simp only: prod.case split_paired_all)
    apply (rule hoare_guard)+
    apply (rule hoare_skip[OF rknown.keeps_utc_now])
    apply (rule hoare_skip[OF rknown.keeps_settle_transition])
    apply (clarsimp simp only: prod.case split_paired_all)
    subgoal premises prems for r0 r att' failed ra closed
    proof -
      have eq: "rn_thread_id r = rn_thread_id r0"
        using prems by (auto simp: same_run_def run_view_def)
      have live: "run_live r0"
        using prems live_states[of "rn_state r"] by (auto simp: same_run_def run_live_def run_view_def)
      show ?thesis
      proof (cases "t \<in> set terminal_run_states")
        case True
        with link show ?thesis unfolding eq if_P[OF True]
          by (intro hoare_run_ends att keeps) (simp_all add: thread_link_def)
      next
        case False
        with link live show ?thesis unfolding if_not_P[OF False]
          by (intro hoare_run_stays keeps) simp_all
      qed
    qed
    done
qed

lemma apply_runtime_transition_links:
  "preserves thread_inv (apply_runtime_transition r a' b l t e a k st p g ev)"
  unfolding apply_runtime_transition_def by (rule transition_run_links)

lemma fail_unbound_run_links: "preserves thread_inv (fail_unbound_run i a e c w b ac k)"
proof -
  have link: "run_link (r\<lparr>rn_state := x, rn_active_attempt_id := y, rn_revision := n, rn_updated_at := now\<rparr>)
      = (rn_id r, rn_thread_id r, x \<notin> set terminal_run_states)" for r x y n now
    by (simp add: run_link_def run_live_def)
  have tail: "hoare (run_known r0) (seq (update_runs (at_revision r0)
        (\<lambda>r. r\<lparr>rn_state := x, rn_active_attempt_id := y, rn_revision := rn_revision r + 1, rn_updated_at := now\<rparr>)) (\<lambda>_.
      seq att (\<lambda>_. seq (if x \<in> set terminal_run_states then sql_update threads threads_update
          (\<lambda>t. th_id t = rn_thread_id r0 \<and> th_active_run_id t = Some (rn_id r0)) g1
        else sql_update threads threads_update
          (\<lambda>t. th_id t = rn_thread_id r0 \<and> th_active_run_id t = Some (rn_id r0)) g2) rest))) thread_inv"
    if "run_live r0" and "\<And>th. thread_link (g1 th) = (th_id th, None)" "\<And>th. thread_link (g2 th) = thread_link th"
      "\<And>i t. preserves (run_ending i t) att" "preserves thread_inv att" "\<And>x. preserves thread_inv (rest x)"
    for r0 x y now att g1 g2 rest
  proof (cases "x \<in> set terminal_run_states")
    case True
    with link have "run_link (r\<lparr>rn_state := x, rn_active_attempt_id := y, rn_revision := rn_revision r + 1,
        rn_updated_at := now\<rparr>) = (rn_id r, rn_thread_id r, False)" for r by simp
    from hoare_seq[OF hoare_end_run[OF this, of r0]
        hoare_skip[OF that(4) hoare_seq[OF hoare_unlink[OF that(2)] hoare_rest[OF that(6)]]]] True
    show ?thesis by simp
  next
    case False
    with link that(1,3,5,6) show ?thesis unfolding if_not_P[OF False]
      by (intro hoare_run_stays keeps tinv.keeps_thread_link) simp_all
  qed
  show ?thesis
    unfolding fail_unbound_run_def Let_def
    apply (rule preserves_seq[OF preserves_required_text], rule tinv_body)
    apply (rule hoare_get_run)
    apply (rule hoare_expect)
    apply (rule hoare_guard)
    apply (rule hoare_skip, (intro keeps; fail))
    apply (rule hoare_guard)
    apply (rule hoare_skip, (intro keeps; fail))
    apply (rule hoare_guard)
    apply (rule hoare_skip, (intro keeps; fail))+
    apply clarify
    apply (rule tail)
         apply (auto simp: run_live_def terminal_run_states_def)[1]
        apply (simp_all add: thread_link_def)[2]
      apply (intro keeps)+
    done
qed

definition reviving :: "run \<Rightarrow> thread \<Rightarrow> store \<Rightarrow> bool" where
  "reviving r0 t0 s \<longleftrightarrow> run_known r0 s \<and> thread_known t0 s"

interpretation reviving: quiet_frame "reviving r0 t0" for r0 t0
  by unfold_locales (auto simp: reviving_def run_known_def thread_known_def thread_inv_def links_inv_def simp del: set_map)

lemma hoare_revive:
  assumes "\<And>r. run_link (f r) = (rn_id r, rn_thread_id r, True)" and "th_id t0 = rn_thread_id r0"
    and "th_active_run_id t0 = None \<or> th_active_run_id t0 = Some (rn_id r0)"
  shows "hoare (reviving r0 t0) (update_runs (at_revision r0) f) (run_starting (rn_id r0) (th_id t0))"
proof (intro hoareI update_runs_wp)
  fix s assume "reviving r0 t0 s"
  then have k: "run_known r0 s" and kt: "thread_known t0 s" by (simp_all add: reviving_def)
  then have ok: "links_ok [] [] (map thread_link (threads s)) (map run_link (runs s))"
    by (simp add: run_known_def thread_inv_def links_inv_def)
  have "(th_id t0, th_active_run_id t0) \<in> set (map thread_link (threads s))"
    using kt by (auto simp: thread_known_def thread_view_def thread_link_def image_iff)
  with assms(3) links_ok_revive[OF ok run_known_link[OF k]] in_put[OF links_okD(2)[OF ok] run_known_link[OF k]]
  show "run_starting (rn_id r0) (th_id t0) (runs_update (update_where (at_revision r0) f) s)"
    by (auto simp: run_starting_def links_inv_def map_link_update[OF k assms(1)] assms(2) simp del: set_map)
qed

lemma hoare_reviving_thread:
  assumes "\<And>t. th_id t = i \<Longrightarrow> hoare (reviving r0 t) (f t) Q"
  shows "hoare (run_known r0) (seq (get_thread i) f) Q"
proof (rule hoareI)
  fix s assume k: "run_known r0 s"
  then have "thread_inv s" by (simp add: run_known_def)
  have "wp (get_thread i) (\<lambda>t s'. th_id t = i \<and> reviving r0 t s') s"
    using wp_conj[of "get_thread i" "\<lambda>t s'. th_id t = i \<and> thread_known t s'" "\<lambda>_ s'. run_known r0 s'" s]
      know_thread[OF \<open>thread_inv s\<close>, of i] preservesD[OF preserves_getters(2)[of "run_known r0" i] k]
    by (auto simp: reviving_def elim: wp_mono)
  then show "wp (seq (get_thread i) f) (\<lambda>_. Q) s"
    unfolding wp_seq by (rule wp_mono) (use assms in \<open>auto simp: hoare_def\<close>)
qed

lemma restart_attempt_links:
  assumes "target \<notin> set terminal_run_states"
  shows "preserves thread_inv (restart_attempt i e a k source target oper reason)"
proof -
  have link: "run_link (r\<lparr>rn_state := target, rn_active_attempt_id := y, rn_revision := n, rn_updated_at := now\<rparr>)
      = (rn_id r, rn_thread_id r, True)" for r y n now
    using assms by (simp add: run_link_def run_live_def)
  show ?thesis
    unfolding restart_attempt_def Let_def
    apply (rule tinv_body)
    apply (rule hoare_get_run)
    apply (rule hoare_expect)
    apply (rule hoare_guard)
    apply (rule hoare_reviving_thread)
    apply (rule hoare_guard)
    apply (rule hoare_skip, (intro keeps; fail))+
    apply clarify
    apply (rule hoare_seq[OF hoare_revive[OF link]])
      apply (auto)[2]
    apply (rule hoare_seq[OF hoare_link])
     apply (simp add: thread_link_def)
    apply (intro hoare_rest keeps)
    done
qed

lemma resume_run_links: "preserves thread_inv (resume_run i e a k)"
  unfolding resume_run_def by (rule restart_attempt_links) (simp add: terminal_run_states_def)

lemma retry_run_links: "preserves thread_inv (retry_run i e a k reason)"
  unfolding retry_run_def by (intro keeps restart_attempt_links) (simp add: terminal_run_states_def)

lemma append_runtime_message_links: "preserves thread_inv (append_runtime_message i a b l g c e ac k ev)"
  unfolding append_runtime_message_def
  apply (rule preserves_seq[OF preserves_required_text], rule tinbox.keeps_runtime_command, rule hoare_preserves)
  apply (rule hoare_get_run)
  apply (rule hoare_skip, (intro keeps; fail))+
  apply (rule hoare_pre[of _ thread_inv])
   apply (simp add: run_known_def)
  apply (intro hoare_rest keeps)
  done

end
