(* ===== verification/Control_Decisions.thy ===== *)
theory Control_Decisions
  imports Control_Runs
begin

text \<open>
  Decisions: a runtime asks the operator a question with a closed list of options
  (\<open>ControlStore.create_decision\<close>), and the operator picks one (\<open>resolve_decision\<close>), which sends a
  \<open>decision.resolve\<close> action back to the runtime, or, for a decision a workflow stage waits on, lets
  the stage go on.

  An option comes in as a JSON value and is stored normalized (\<open>_validate_decision_options\<close>): an id, and
  optionally a label and a description. Dictionaries have string keys. The ids of stored options are
  texts, since every writer of the table normalizes them.
\<close>

section \<open>Public texts and options\<close>

text \<open>\<open>_required_text\<close> on a value that need not be there, nor be a text.\<close>

definition required_text_json :: "json option \<Rightarrow> string \<Rightarrow> int \<Rightarrow> string op" where
  "required_text_json value name maximum =
     (case value of Some (JStr text) \<Rightarrow> required_text text name maximum
      | _ \<Rightarrow> raise (ValueError (name @ '' is invalid'')))"

definition control_char :: "char \<Rightarrow> bool" where
  "control_char c = (code c < 32 \<and> c \<notin> set [CHR 0x0A, CHR 0x09])"

definition public_decision_text :: "json option \<Rightarrow> string \<Rightarrow> int \<Rightarrow> string op" where
  "public_decision_text value name maximum =
     seq (required_text_json value name maximum) (\<lambda>text.
     seq (guard (\<not> list_ex control_char text)
            (ValueError (name @ '' contains invalid control characters''))) (\<lambda>_.
     ret text))"

definition decision_option_fields :: "string list" where
  "decision_option_fields = [''id'', ''label'', ''description'']"

definition sensitive_dto_fields :: "string list" where
  "sensitive_dto_fields = [''secret'', ''token'', ''path'', ''raw'', ''raw_payload'', ''reasoning'',
     ''hidden_reasoning'', ''chain_of_thought'', ''runtime_session_ref'', ''provider_request_id'']"

text \<open>The field \<open>name\<close> of an option, when it is there.\<close>

definition optional_field ::
    "(string \<times> json) list \<Rightarrow> string \<Rightarrow> string \<Rightarrow> int \<Rightarrow> (string \<times> json) list op" where
  "optional_field kvs field name maximum =
     (case map_of kvs field of None \<Rightarrow> ret []
      | Some v \<Rightarrow> seq (public_decision_text (Some v) name maximum) (\<lambda>text. ret [(field, JStr text)]))"

definition validate_decision_option :: "string list \<Rightarrow> json \<Rightarrow> (string \<times> json) op" where
  "validate_decision_option seen option =
     (case option of
        JObj kvs \<Rightarrow>
          seq (guard (\<not> list_ex (\<lambda>k. lower k \<in> set sensitive_dto_fields) (map fst kvs)
                 \<and> list_all (\<lambda>k. k \<in> set decision_option_fields) (map fst kvs))
                 (ValueError ''decision option contains private fields'')) (\<lambda>_.
          seq (public_decision_text (map_of kvs ''id'') ''option.id'' 200) (\<lambda>option_id.
          seq (guard (option_id \<notin> set seen) (ValueError ''decision option ids must be unique'')) (\<lambda>_.
          seq (optional_field kvs ''label'' ''option.label'' 500) (\<lambda>label.
          seq (optional_field kvs ''description'' ''option.description'' 2000) (\<lambda>description.
          ret (option_id, JObj ([(''id'', JStr option_id)] @ label @ description)))))))
      | _ \<Rightarrow> raise (ValueError ''decision option is invalid''))"

fun validate_decision_option_list :: "string list \<Rightarrow> json list \<Rightarrow> json list op" where
  "validate_decision_option_list seen [] = ret []"
| "validate_decision_option_list seen (option # options) =
     seq (validate_decision_option seen option) (\<lambda>(option_id, value).
     seq (validate_decision_option_list (option_id # seen) options) (\<lambda>values.
     ret (value # values)))"

definition validate_decision_options :: "json list \<Rightarrow> json list op" where
  "validate_decision_options options =
     seq (guard (1 \<le> length options \<and> length options \<le> 20)
            (ValueError ''options must contain between 1 and 20 entries'')) (\<lambda>_.
     validate_decision_option_list [] options)"

definition option_id :: "json \<Rightarrow> string option" where
  "option_id option = (case jget ''id'' option of Some (JStr i) \<Rightarrow> Some i | _ \<Rightarrow> None)"

text \<open>The ids of the options of a stored decision.\<close>

definition allowed_choices :: "json \<Rightarrow> string list" where
  "allowed_choices options = (case options of JArr xs \<Rightarrow> List.map_filter option_id xs | _ \<Rightarrow> [])"

section \<open>Asking\<close>

definition create_decision ::
    "string \<Rightarrow> string \<Rightarrow> string \<Rightarrow> string \<Rightarrow> int \<Rightarrow> string \<Rightarrow> string \<Rightarrow> json list \<Rightarrow> string \<Rightarrow> string
      \<Rightarrow> string option \<Rightarrow> event_ref \<Rightarrow> string option \<Rightarrow> int option \<Rightarrow> command_result op" where
  "create_decision run_id attempt_id binding_id release_id expected_revision kind prompt options
       actor_id idempotency_key generation_id ev decision_ref decision_revision =
     seq (required_text kind ''kind'' 100) (\<lambda>kind.
     seq (public_decision_text (Some (JStr prompt)) ''prompt'' 20000) (\<lambda>prompt.
     seq (validate_decision_options options) (\<lambda>options.
     seq (case decision_ref of None \<Rightarrow> ret None
          | Some r \<Rightarrow> seq (required_text r ''runtime_decision_ref'' 500) (\<lambda>r. ret (Some r))) (\<lambda>decision_ref.
     seq (guard (case decision_revision of None \<Rightarrow> True | Some n \<Rightarrow> 0 \<le> n)
            (ValueError ''runtime_decision_revision is invalid'')) (\<lambda>_.
     runtime_command actor_id (''POST:/internal/v1/runs/'' @ run_id @ ''/decisions'') idempotency_key
       ([(''expected_revision'', JInt expected_revision)]
        @ ref_request (exact_ref attempt_id binding_id release_id generation_id)
        @ [(''runtime_decision_ref'', jstr_opt decision_ref),
           (''runtime_decision_revision'', jint_opt decision_revision), (''kind'', JStr kind),
           (''prompt'', JStr prompt), (''options'', JArr options)]
        @ event_request ev) (Some attempt_id) ev 201
     (seq (get_run run_id) (\<lambda>run0.
      seq (expect_revision (rn_revision run0) (run_json run0) expected_revision) (\<lambda>_.
      seq (validate_runtime_identity run0 attempt_id binding_id release_id generation_id) (\<lambda>_.
      seq (confirm_runtime_resume run0 attempt_id ev) (\<lambda>run.
      seq (guard (rn_state run = R_running)
             (InvalidTransition (run_state_name (rn_state run)) ''waiting_for_decision'')) (\<lambda>_.
      seq utc_now (\<lambda>now.
      seq (new_id ''decision'') (\<lambda>decision_id.
      seq (sql_insert IntegrityError decisions decisions_update de_id
             \<lparr>de_id = decision_id, de_run_id = run_id, de_attempt_id = attempt_id, de_kind = kind,
              de_prompt = prompt, de_options = JArr options, de_state = D_pending, de_resolution = None,
              de_revision = 0, de_created_at = now, de_resolved_at = None,
              de_runtime_decision_ref = decision_ref, de_runtime_decision_revision = decision_revision\<rparr>) (\<lambda>_.
      seq (update_runs (\<lambda>r. rn_id r = run_id \<and> rn_revision r = expected_revision)
             (\<lambda>r. r\<lparr>rn_state := R_waiting_for_decision, rn_revision := rn_revision r + 1,
                    rn_updated_at := now\<rparr>)) (\<lambda>_.
      seq (sql_update attempts attempts_update (\<lambda>a. at_id a = attempt_id)
             (\<lambda>a. a\<lparr>at_state := R_waiting_for_decision\<rparr>)) (\<lambda>_.
      seq (insert_event run_id (Some attempt_id) ''decision.required''
             (JObj [(''decision_id'', JStr decision_id), (''kind'', JStr kind), (''prompt'', JStr prompt),
                    (''options'', JArr options)]) (er_adapter_event_id ev)) (\<lambda>_.
      seq (get_decision decision_id) (\<lambda>value. ret (decision_json value, Some attempt_id)))))))))))))))))))"

section \<open>Answering\<close>

definition resolution_json :: "string \<Rightarrow> string \<Rightarrow> json" where
  "resolution_json choice actor_id = JObj [(''choice'', JStr choice), (''actor_id'', JStr actor_id)]"

definition resolve_row :: "json \<Rightarrow> instant \<Rightarrow> decision \<Rightarrow> decision" where
  "resolve_row resolution now d = d\<lparr>de_state := D_resolved, de_resolution := Some resolution,
     de_revision := de_revision d + 1, de_resolved_at := Some now\<rparr>"

definition at_decision :: "string \<Rightarrow> int \<Rightarrow> decision \<Rightarrow> bool" where
  "at_decision decision_id expected_revision d =
     (de_id d = decision_id \<and> de_revision d = expected_revision \<and> de_state d = D_pending)"

definition workflow_stage_row :: "string \<Rightarrow> string \<Rightarrow> stage_instance op" where
  "workflow_stage_row workflow_id stage_key =
     seq (gets (\<lambda>s. find (\<lambda>g. sg_workflow_id g = workflow_id \<and> sg_stage_key g = stage_key)
            (workflow_stage_instances s))) (\<lambda>row. case row of
       None \<Rightarrow> raise (NotFound ''workflow stage'' stage_key) | Some g \<Rightarrow> ret g)"

text \<open>A decision that a workflow stage waits on.\<close>

definition resolve_workflow_decision ::
    "decision \<Rightarrow> workflow_decision_ref \<Rightarrow> string \<Rightarrow> string \<Rightarrow> int \<Rightarrow> json op" where
  "resolve_workflow_decision decision workflow_ref choice actor_id expected_revision =
     (let conflict = RevisionConflict (decision_json decision) in
     seq (guard (wd_state workflow_ref = F_pending) conflict) (\<lambda>_.
     seq (guard (case de_state decision of
             D_resolved \<Rightarrow> (case de_resolution decision of None \<Rightarrow> False
               | Some r \<Rightarrow> jget ''choice'' r = Some (JStr choice))
           | D_pending \<Rightarrow> True | D_expired \<Rightarrow> False) conflict) (\<lambda>_.
     seq (get_workflow_row (wd_workflow_id workflow_ref)) (\<lambda>workflow.
     seq (gets (\<lambda>s. find_row sg_id (wd_stage_id workflow_ref) (workflow_stage_instances s))) (\<lambda>named.
     seq (case named of None \<Rightarrow> raise (RuntimeError ''TypeError'')
          | Some g \<Rightarrow> workflow_stage_row (wd_workflow_id workflow_ref) (sg_stage_key g)) (\<lambda>stage.
     seq (get_run (de_run_id decision)) (\<lambda>run.
     seq (guard (rn_state run = R_waiting_for_decision)
            (InvalidTransition (run_state_name (rn_state run)) ''resuming'')) (\<lambda>_.
     seq (guard (sg_state stage = S_waiting)
            (InvalidTransition (stage_state_name (sg_state stage)) ''active'')) (\<lambda>_.
     seq utc_now (\<lambda>now.
     seq (if de_state decision = D_pending then
            seq (sql_update decisions decisions_update (at_decision (de_id decision) expected_revision)
                   (resolve_row (resolution_json choice actor_id) now)) (\<lambda>rowcount.
            if rowcount \<noteq> 1 then
              seq (get_decision (de_id decision)) (\<lambda>d. raise (RevisionConflict (decision_json d)))
            else ret (expected_revision + 1))
          else ret expected_revision) (\<lambda>resolved_revision.
     seq (sql_update workflow_decision_refs workflow_decision_refs_update
            (\<lambda>w. wd_id w = wd_id workflow_ref \<and> wd_state w = F_pending)
            (\<lambda>w. w\<lparr>wd_state := F_resolved, wd_resolved_revision := Some resolved_revision,
                   wd_selected_choice := Some choice, wd_resolved_at := Some now\<rparr>)) (\<lambda>_.
     seq (sql_update workflow_stage_instances workflow_stage_instances_update
            (\<lambda>g. sg_id g = sg_id stage \<and> sg_state g = S_waiting)
            (\<lambda>g. g\<lparr>sg_state := S_active, sg_revision := sg_revision g + 1\<rparr>)) (\<lambda>_.
     seq (sql_update workflow_instances workflow_instances_update (\<lambda>w. wf_id w = wf_id workflow)
            (\<lambda>w. w\<lparr>wf_state := W_running, wf_revision := wf_revision w + 1, wf_updated_at := now\<rparr>)) (\<lambda>_.
     seq (update_runs (\<lambda>r. rn_id r = rn_id run)
            (\<lambda>r. r\<lparr>rn_state := R_resuming, rn_revision := rn_revision r + 1, rn_updated_at := now\<rparr>)) (\<lambda>_.
     seq (sql_update attempts attempts_update (\<lambda>a. at_id a = de_attempt_id decision)
            (\<lambda>a. a\<lparr>at_state := R_resuming\<rparr>)) (\<lambda>_.
     seq (insert_event (rn_id run) (Some (de_attempt_id decision)) ''decision.resolved''
            (JObj [(''decision_id'', JStr (de_id decision)), (''choice'', JStr choice)]) None) (\<lambda>_.
     seq (get_decision (de_id decision)) (\<lambda>value. ret (decision_json value)))))))))))))))))))"

text \<open>A decision of a runtime: the answer is sent back as a runtime action.\<close>

definition resolve_runtime_decision :: "decision \<Rightarrow> string \<Rightarrow> string \<Rightarrow> int \<Rightarrow> json op" where
  "resolve_runtime_decision decision choice actor_id expected_revision =
     seq (guard (de_state decision = D_pending) (RevisionConflict (decision_json decision))) (\<lambda>_.
     seq (get_run (de_run_id decision)) (\<lambda>run.
     seq (guard (rn_state run = R_waiting_for_decision)
            (InvalidTransition (run_state_name (rn_state run)) ''resuming'')) (\<lambda>_.
     seq utc_now (\<lambda>now.
     seq (get_attempt (de_attempt_id decision)) (\<lambda>attempt.
     (case (at_runtime_binding_id attempt, at_runtime_release_id attempt) of
        (Some binding_id, Some release_id) \<Rightarrow>
          seq (guard (binding_id \<noteq> [] \<and> release_id \<noteq> [])
                 (InvalidTransition ''runtime_not_bound'' ''decision_resolved'')) (\<lambda>_.
          seq (new_id ''runtime_action'') (\<lambda>action_id.
          seq (sql_update decisions decisions_update (at_decision (de_id decision) expected_revision)
                 (resolve_row (resolution_json choice actor_id) now)) (\<lambda>_.
          seq (update_runs (\<lambda>r. rn_id r = rn_id run \<and> rn_revision r = rn_revision run)
                 (\<lambda>r. r\<lparr>rn_state := R_resuming, rn_revision := rn_revision r + 1, rn_updated_at := now\<rparr>)) (\<lambda>_.
          seq (sql_update attempts attempts_update (\<lambda>a. at_id a = de_attempt_id decision)
                 (\<lambda>a. a\<lparr>at_state := R_resuming\<rparr>)) (\<lambda>_.
          seq (sql_insert IntegrityError runtime_actions runtime_actions_update ra_id
                 (new_action action_id (rn_id run) (de_attempt_id decision) binding_id release_id ''decision.resolve''
                    (JObj [(''decision_id'', JStr (de_id decision)),
                           (''runtime_decision_ref'', jstr_opt (de_runtime_decision_ref decision)),
                           (''runtime_decision_revision'', jint_opt (de_runtime_decision_revision decision)),
                           (''choice'', JStr choice)]) now)) (\<lambda>_.
          seq (insert_event (rn_id run) (Some (de_attempt_id decision)) ''decision.resolved''
                 (JObj [(''decision_id'', JStr (de_id decision)), (''choice'', JStr choice),
                        (''runtime_action_id'', JStr action_id)]) None) (\<lambda>_.
          seq (get_decision (de_id decision)) (\<lambda>value.
          ret (jset ''runtime_action_id'' (JStr action_id) (decision_json value))))))))))
      | _ \<Rightarrow> raise (InvalidTransition ''runtime_not_bound'' ''decision_resolved'')))))))"

definition resolve_decision :: "string \<Rightarrow> string \<Rightarrow> int \<Rightarrow> string \<Rightarrow> string \<Rightarrow> command_result op" where
  "resolve_decision decision_id choice expected_revision actor_id idempotency_key =
     seq (required_text choice ''choice'' 500) (\<lambda>choice.
     command actor_id (''POST:/api/v1/decisions/'' @ decision_id @ ''/resolve'') idempotency_key
       (JObj [(''choice'', JStr choice), (''expected_revision'', JInt expected_revision)]) 200
     (seq (get_decision decision_id) (\<lambda>decision.
      seq (expect_revision (de_revision decision) (decision_json decision) expected_revision) (\<lambda>_.
      seq (gets (\<lambda>s. find_row wd_decision_id decision_id (workflow_decision_refs s))) (\<lambda>workflow_ref.
      seq (guard (workflow_ref \<noteq> None \<or> de_state decision = D_pending)
             (RevisionConflict (decision_json decision))) (\<lambda>_.
      seq (gets (\<lambda>s. list_ex (\<lambda>i. si_decision_id i = Some decision_id) (source_intents s))) (\<lambda>source_intent.
      seq (guard (\<not> source_intent)
             (InvalidTransition ''source_decision_requires_source_resolver'' ''resolved'')) (\<lambda>_.
      seq (guard (choice \<in> set (allowed_choices (de_options decision)))
             (ValueError ''choice is not one of the decision options'')) (\<lambda>_.
      (case workflow_ref of
         Some w \<Rightarrow> resolve_workflow_decision decision w choice actor_id expected_revision
       | None \<Rightarrow> resolve_runtime_decision decision choice actor_id expected_revision))))))))))"

section \<open>What they leave alone\<close>

lemma keeps_public_decision_text [keeps]: "preserves I (public_decision_text v n m)"
  unfolding public_decision_text_def required_text_json_def
  by (auto intro!: keeps split: option.split json.split)

lemma keeps_validate_decision_option [keeps]: "preserves I (validate_decision_option seen j)"
  unfolding validate_decision_option_def optional_field_def by (auto intro!: keeps split: json.split)

lemma keeps_validate_decision_option_list [keeps]: "preserves I (validate_decision_option_list seen js)"
  by (induction js arbitrary: seen) (auto intro!: keeps)

lemma keeps_validate_decision_options [keeps]: "preserves I (validate_decision_options js)"
  unfolding validate_decision_options_def by (intro keeps)

lemma keeps_workflow_stage_row [keeps]: "preserves I (workflow_stage_row w k)"
  unfolding workflow_stage_row_def by (intro keeps)

context workflow_frame
begin

lemma keeps_workflow_updates [keeps]:
  "preserves I (sql_update workflow_instances workflow_instances_update P f)"
  "preserves I (sql_update workflow_stage_instances workflow_stage_instances_update P' f')"
  by (intro preserves_sql_update, erule I_workflows I_stages)+

end

lemmas decision_steps = row_step_defs resolve_row_def at_decision_def

context journal_frame
begin

lemma keeps_resolve_runtime [keeps]: "preserves I (resolve_runtime_decision d c ac e)"
  unfolding resolve_runtime_decision_def by (intro keeps; simp add: run_step_def decision_steps)

end

context ingest_journal
begin

lemma keeps_resolve_workflow [keeps]: "preserves I (resolve_workflow_decision d w c ac e)"
  unfolding resolve_workflow_decision_def get_workflow_row_def Let_def
  by (intro keeps; simp add: run_step_def decision_steps)

lemma keeps_resolve_decision [keeps]: "preserves I (resolve_decision i c e ac k)"
  unfolding resolve_decision_def by (intro keeps)

end

context ingest_journal
begin

lemma keeps_create_decision [keeps]: "preserves I (create_decision r a b l e kd p os ac k g ev dr dv)"
  unfolding create_decision_def by (intro keeps; simp add: run_step_def)

end

section \<open>The operations keep the links\<close>

lemma waiting_link:
  "run_link (r\<lparr>rn_state := R_waiting_for_decision, rn_revision := n, rn_updated_at := now\<rparr>)
     = (rn_id r, rn_thread_id r, True)"
  "run_link (r\<lparr>rn_state := R_resuming, rn_revision := n, rn_updated_at := now\<rparr>)
     = (rn_id r, rn_thread_id r, True)"
  by (simp_all add: run_link_def run_live_def terminal_run_states_def)

lemma create_decision_links: "preserves thread_inv (create_decision i a b l e kd p os ac k g ev dr dv)"
  unfolding create_decision_def
  apply (rule preserves_seq, (intro keeps; fail))+
  apply (rule tinbox.keeps_runtime_command, rule hoare_preserves)
  apply (rule hoare_get_run)
  apply (rule hoare_expect)
  apply (rule hoare_skip, (intro keeps; fail))
  apply (rule hoare_yields[OF confirm_yields rknown_confirm])
  apply (rule hoare_guard)
  apply (rule hoare_skip, (intro keeps; fail))+
  apply clarify
  apply (rule hoare_run_stays)
    apply (auto simp: same_run_def run_view_def run_live_def terminal_run_states_def)[1]
   apply (rule waiting_link)
  apply (intro keeps)
  done

lemma resolve_workflow_decision_links: "preserves thread_inv (resolve_workflow_decision d w c ac e)"
  unfolding resolve_workflow_decision_def Let_def get_workflow_row_def
  apply (rule hoare_preserves)
  apply (rule hoare_get_run hoare_guard | rule hoare_skip, (intro keeps; simp add: decision_steps; fail))+
  apply (rule hoare_seq[OF hoare_live_run[where P = "\<lambda>_. True", simplified]])
    apply (simp add: run_live_def terminal_run_states_def)
   apply (rule waiting_link)
  apply (intro hoare_rest keeps)
  done

lemma resolve_runtime_decision_links: "preserves thread_inv (resolve_runtime_decision d c ac e)"
proof -
  have "hoare (run_known r) (seq (guard b x) (\<lambda>_. seq (new_id kd) (\<lambda>i.
      seq (sql_update decisions decisions_update (at_decision d' e) (resolve_row j now)) (\<lambda>_.
      seq (update_runs (at_revision r)
        (\<lambda>r. r\<lparr>rn_state := R_resuming, rn_revision := rn_revision r + 1, rn_updated_at := now\<rparr>)) (rest i))))) thread_inv"
    if "rn_state r = R_waiting_for_decision" "\<And>i n. preserves thread_inv (rest i n)" for r b x kd d' e j now rest
    using that waiting_link
    by (intro hoare_guard hoare_skip[OF rknown.keeps_new_id] hoare_run_stays
        hoare_skip[OF rknown.keeps_work_updates(1)])
      (simp_all add: run_live_def terminal_run_states_def decision_steps)
  note tail = this
  show ?thesis
    unfolding resolve_runtime_decision_def
    apply (rule hoare_preserves)
    apply (rule hoare_get_run hoare_guard | rule hoare_skip, (intro keeps; fail))+
    apply (simp (no_asm) only: prod.case split: option.split)
    apply (intro allI impI conjI hoare_raise tail)
     apply (assumption | intro keeps)+
    done
qed

lemma resolve_decision_links: "preserves thread_inv (resolve_decision i c e ac k)"
  unfolding resolve_decision_def by (intro keeps resolve_workflow_decision_links resolve_runtime_decision_links)

end
