(* ===== verification/Control_Bindings.thy ===== *)
theory Control_Bindings
  imports Control_Decisions
begin

text \<open>
  What \<open>ControlStore\<close> keeps for the transports beside their deliveries: the threads that external scopes are
  bound to, and the answers given to commands that came in over a transport. A scope is stored as a digest under
  the key of the installation (\<open>_scope_digest\<close>, one hmac); the digest is a parameter.
\<close>

section \<open>Scopes\<close>

definition binding_json :: "transport_binding \<Rightarrow> json" where
  "binding_json b = JObj [(''id'', JStr (tb_id b)), (''transport'', JStr (tb_transport b)),
     (''external_scope'', JStr (tb_external_scope b)), (''thread_id'', JStr (tb_thread_id b)),
     (''revision'', JInt (tb_revision b)), (''created_at'', JTime (tb_created_at b)),
     (''updated_at'', JTime (tb_updated_at b))]"

definition bindings :: "store \<Rightarrow> transport_binding list" where
  "bindings s = transport_bindings (mail s)"

definition get_transport_binding :: "string \<Rightarrow> transport_binding op" where
  "get_transport_binding i = fetch (NotFound ''transport binding'' i) bindings tb_id i"

definition binding_of :: "string \<Rightarrow> string \<Rightarrow> store \<Rightarrow> transport_binding option" where
  "binding_of transport digest s = find (\<lambda>b. tb_transport b = transport \<and> tb_external_scope b = digest) (bindings s)"

text \<open>The insertion with the unique index on the scope.\<close>

definition insert_binding :: "transport_binding \<Rightarrow> unit op" where
  "insert_binding b =
     seq (gets (\<lambda>s. binding_of (tb_transport b) (tb_external_scope b) s = None \<and> tb_id b \<notin> tb_id ` set (bindings s)))
       (\<lambda>fresh.
     seq (guard fresh IntegrityError) (\<lambda>_.
     modify (mail_update (transport_bindings_update (\<lambda>bs. bs @ [b])))))"

definition bind_transport ::
    "(string \<Rightarrow> string) \<Rightarrow> string \<Rightarrow> string \<Rightarrow> string \<Rightarrow> string \<Rightarrow> string \<Rightarrow> command_result op" where
  "bind_transport scope_digest transport external_scope thread_id actor_id idempotency_key =
     seq (required_text transport ''transport'' 50) (\<lambda>transport.
     seq (required_text external_scope ''external_scope'' 500) (\<lambda>external_scope.
     let request = JObj [(''transport'', JStr transport), (''thread_id'', JStr thread_id)];
         digest = scope_digest external_scope;
         operation = ''POST:/internal/v1/transports/'' @ transport @ ''/bindings/'' @ digest in
     seq (find_receipt actor_id operation idempotency_key request) (\<lambda>replay. case replay of
       Some result \<Rightarrow> ret result
     | None \<Rightarrow>
         seq (get_thread thread_id) (\<lambda>_.
         seq (gets (binding_of transport digest)) (\<lambda>existing. case existing of
           Some row \<Rightarrow>
             seq (get_transport_binding (tb_id row)) (\<lambda>b.
             seq (guard (tb_thread_id b = thread_id) (TransportBindingConflict (binding_json b))) (\<lambda>_.
             save_receipt actor_id operation idempotency_key request (binding_json b) 200))
         | None \<Rightarrow>
             seq utc_now (\<lambda>now.
             seq (new_id ''binding'') (\<lambda>binding_id.
             seq (insert_binding \<lparr>tb_id = binding_id, tb_transport = transport, tb_external_scope = digest,
                    tb_thread_id = thread_id, tb_revision = 0, tb_created_at = now, tb_updated_at = now\<rparr>) (\<lambda>_.
             seq (audit ''thread'' thread_id ''transport.bound''
                    (JObj [(''binding_id'', JStr binding_id), (''transport'', JStr transport)])) (\<lambda>_.
             seq (get_transport_binding binding_id) (\<lambda>b.
             save_receipt actor_id operation idempotency_key request (binding_json b) 201))))))))))"

definition thread_has_transport_binding :: "string \<Rightarrow> bool op" where
  "thread_has_transport_binding thread_id = gets (\<lambda>s. list_ex (\<lambda>b. tb_thread_id b = thread_id) (bindings s))"

definition resolve_transport :: "(string \<Rightarrow> string) \<Rightarrow> string \<Rightarrow> string \<Rightarrow> transport_binding option op" where
  "resolve_transport scope_digest transport external_scope =
     seq (gets (binding_of transport (scope_digest external_scope))) (\<lambda>row. case row of
       None \<Rightarrow> ret None
     | Some b \<Rightarrow> seq (get_transport_binding (tb_id b)) (\<lambda>b. ret (Some b)))"

section \<open>Commands of a transport\<close>

definition transport_name_char :: "char \<Rightarrow> bool" where
  "transport_name_char c = (is_lower_alpha c \<or> is_digit c \<or> c = CHR ''_'' \<or> c = CHR ''-'')"

definition is_transport_name :: "string \<Rightarrow> bool" where
  "is_transport_name v = (v \<noteq> [] \<and> is_lower_alpha (hd v) \<and> full_class transport_name_char 0 49 (tl v))"

definition transport_name :: "string \<Rightarrow> unit op" where
  "transport_name v = guard (is_transport_name v) (ValueError ''transport is invalid'')"

definition transport_digest :: "string \<Rightarrow> string \<Rightarrow> unit op" where
  "transport_digest v name = guard (valid_digest v) (ValueError (name @ '' must be a lowercase SHA-256 digest''))"

text \<open>The attributes of a response, as they are and as \<open>asdict\<close> stores them.\<close>

definition response_fields :: "command_response \<Rightarrow> (string \<times> json) list" where
  "response_fields c = [(''ok'', JBool (cp_ok c)), (''category'', JStr (cp_category c)), (''action'', JStr (cp_action c)),
     (''response_text'', JStr (cp_response_text c)), (''mutated'', JBool (cp_mutated c)),
     (''replayed'', JBool (cp_replayed c)), (''retryable'', JBool (cp_retryable c)),
     (''retry_after_ms'', jint_opt (cp_retry_after_ms c)), (''state'', jstr_opt (cp_state c)),
     (''revision'', jint_opt (cp_revision c))]"

definition attribute :: "string \<Rightarrow> json \<Rightarrow> (string \<times> json) list \<Rightarrow> json" where
  "attribute k absent kvs = (case map_of kvs k of None \<Rightarrow> absent | Some v \<Rightarrow> v)"

definition flag :: "string \<Rightarrow> (string \<times> json) list \<Rightarrow> bool option" where
  "flag k kvs = (case attribute k (JBool False) kvs of JBool b \<Rightarrow> Some b | _ \<Rightarrow> None)"

definition count_at_least :: "int \<Rightarrow> json \<Rightarrow> string \<Rightarrow> int option op" where
  "count_at_least least j message = (case j of
     JNull \<Rightarrow> ret None
   | JInt n \<Rightarrow> seq (guard (least \<le> n) (ValueError message)) (\<lambda>_. ret (Some n))
   | _ \<Rightarrow> raise (ValueError message))"

definition transport_command_response :: "(string \<times> json) list \<Rightarrow> command_response op" where
  "transport_command_response kvs =
     (case (flag ''ok'' kvs, flag ''mutated'' kvs, flag ''replayed'' kvs, flag ''retryable'' kvs) of
        (Some is_ok, Some mutated, Some replayed, Some retryable) \<Rightarrow>
          seq (required_text_json (Some (attribute ''category'' JNull kvs)) ''category'' 100) (\<lambda>category.
          seq (required_text_json (Some (attribute ''action'' JNull kvs)) ''action'' 100) (\<lambda>action.
          seq (required_text_json (Some (attribute ''response_text'' JNull kvs)) ''response_text'' 4000) (\<lambda>response_text.
          seq (guard (\<not> list_ex control_char response_text)
                 (ValueError ''response_text contains invalid control characters'')) (\<lambda>_.
          seq (count_at_least 1 (attribute ''retry_after_ms'' JNull kvs) ''retry_after_ms must be a positive integer'')
            (\<lambda>retry_after_ms.
          seq (case attribute ''state'' JNull kvs of JNull \<Rightarrow> ret None
               | j \<Rightarrow> seq (required_text_json (Some j) ''state'' 200) (\<lambda>v. ret (Some v))) (\<lambda>state.
          seq (count_at_least 0 (attribute ''revision'' JNull kvs) ''revision must be a non-negative integer'')
            (\<lambda>revision.
          ret \<lparr>cp_ok = is_ok, cp_category = category, cp_action = action, cp_response_text = response_text,
               cp_mutated = mutated, cp_replayed = replayed, cp_retryable = retryable,
               cp_retry_after_ms = retry_after_ms, cp_state = state, cp_revision = revision\<rparr>)))))))
      | _ \<Rightarrow> raise (ValueError ''transport command response booleans are invalid''))"

text \<open>\<open>TransportCommandResponse(**response)\<close> takes the attributes it knows and needs the four without a default.\<close>

definition response_names :: "string list" where
  "response_names = [''ok'', ''category'', ''action'', ''response_text'', ''mutated'', ''replayed'', ''retryable'',
     ''retry_after_ms'', ''state'', ''revision'']"

definition construct_response :: "json \<Rightarrow> command_response op" where
  "construct_response j = (case j of
     JObj kvs \<Rightarrow>
       if set (map fst kvs) \<subseteq> set response_names \<and> set (take 4 response_names) \<subseteq> set (map fst kvs)
       then transport_command_response kvs
       else raise (RuntimeError ''transport command response is invalid'')
   | _ \<Rightarrow> raise (RuntimeError ''transport command response is invalid''))"

record stored_command =
  sc_row :: command_receipt
  sc_response :: command_response

definition command_receipts :: "store \<Rightarrow> command_receipt list" where
  "command_receipts s = transport_command_receipts (mail s)"

definition command_receipt_key :: "command_receipt \<Rightarrow> string \<times> string" where
  "command_receipt_key r = (cc_transport r, cc_command_key r)"

definition transport_command_row :: "string \<Rightarrow> string \<Rightarrow> stored_command option op" where
  "transport_command_row transport key =
     seq (gets (\<lambda>s. find_row command_receipt_key (transport, key) (command_receipts s))) (\<lambda>row. case row of
       None \<Rightarrow> ret None
     | Some r \<Rightarrow>
         seq (construct_response (cc_response r)) (\<lambda>response.
         ret (Some \<lparr>sc_row = r, sc_response = response\<rparr>)))"

definition insert_command_receipt :: "command_receipt \<Rightarrow> unit op" where
  "insert_command_receipt r =
     seq (gets (\<lambda>s. command_receipt_key r \<notin> command_receipt_key ` set (command_receipts s)
        \<and> valid_digest (cc_request_hash r))) (\<lambda>ok_row.
     seq (guard ok_row IntegrityError) (\<lambda>_.
     modify (mail_update (transport_command_receipts_update (\<lambda>rs. rs @ [r])))))"

definition record_transport_command ::
    "string \<Rightarrow> string \<Rightarrow> string \<Rightarrow> command_response \<Rightarrow> stored_command op" where
  "record_transport_command transport key hash response =
     seq (transport_name transport) (\<lambda>_.
     seq (validate_key key) (\<lambda>_.
     seq (transport_digest hash ''request_hash'') (\<lambda>_.
     seq (transport_command_response (response_fields response)) (\<lambda>response.
     seq (transport_command_row transport key) (\<lambda>existing. case existing of
       Some stored \<Rightarrow>
         seq (guard (cc_request_hash (sc_row stored) = hash) IdempotencyConflict) (\<lambda>_. ret stored)
     | None \<Rightarrow>
         seq utc_now (\<lambda>now.
         seq (insert_command_receipt \<lparr>cc_transport = transport, cc_command_key = key, cc_request_hash = hash,
                cc_response = JObj (response_fields response), cc_created_at = now\<rparr>) (\<lambda>_.
         seq (transport_command_row transport key) (\<lambda>receipt. case receipt of
           None \<Rightarrow> raise (RuntimeError ''transport command receipt was not persisted'')
         | Some stored \<Rightarrow> ret stored))))))))"

definition get_transport_command :: "string \<Rightarrow> string \<Rightarrow> string \<Rightarrow> stored_command option op" where
  "get_transport_command transport key hash =
     seq (transport_name transport) (\<lambda>_.
     seq (validate_key key) (\<lambda>_.
     seq (transport_digest hash ''request_hash'') (\<lambda>_.
     seq (transport_command_row transport key) (\<lambda>receipt.
     seq (guard (case receipt of None \<Rightarrow> True | Some stored \<Rightarrow> cc_request_hash (sc_row stored) = hash)
            IdempotencyConflict) (\<lambda>_.
     ret receipt)))))"

section \<open>What they leave alone\<close>

lemma keeps_texts_given [keeps]: "preserves I (required_text_json j n m)" "preserves I (validate_key k)"
  unfolding required_text_json_def validate_key_def by (auto intro!: keeps split: option.split json.split)

lemma keeps_attributes [keeps]:
  "preserves I (count_at_least n j m)" "preserves I (transport_command_response kvs)" "preserves I (construct_response j)"
proof -
  show count: "preserves I (count_at_least n j m)" for n j m
    unfolding count_at_least_def by (cases j) (auto intro!: keeps)
  show *: "preserves I (transport_command_response kvs)" for kvs
    unfolding transport_command_response_def
    by (intro keeps count; simp split: json.split; intro conjI allI impI keeps)
  show "preserves I (construct_response j)" unfolding construct_response_def by (cases j) (auto intro!: keeps *)
qed

lemma keeps_transport_reads [keeps]:
  "preserves I (transport_name t)" "preserves I (transport_digest v n)" "preserves I (transport_command_row t k)"
  "preserves I (get_transport_binding i)"
  unfolding transport_name_def transport_digest_def transport_command_row_def get_transport_binding_def by (intro keeps)+

lemma wp_insert_binding: "wp (insert_binding b) Q s \<longleftrightarrow>
    (binding_of (tb_transport b) (tb_external_scope b) s = None \<and> tb_id b \<notin> tb_id ` set (bindings s)
     \<longrightarrow> Q () (mail_update (transport_bindings_update (\<lambda>bs. bs @ [b])) s))"
  by (simp add: insert_binding_def wp_rules)

lemma wp_insert_command_receipt: "wp (insert_command_receipt r) Q s \<longleftrightarrow>
    (command_receipt_key r \<notin> command_receipt_key ` set (command_receipts s) \<and> valid_digest (cc_request_hash r)
     \<longrightarrow> Q () (mail_update (transport_command_receipts_update (\<lambda>rs. rs @ [r])) s))"
  by (simp add: insert_command_receipt_def wp_rules)

context side_frame
begin

lemma keeps_mail_inserts [keeps]: "preserves I (insert_binding b)" "preserves I (insert_command_receipt r)"
  by (rule preservesI; auto simp: wp_insert_binding wp_insert_command_receipt bindings_def command_receipts_def
      binding_of_def command_receipt_key_def find_None_iff image_iff intro!: I_new_binding I_new_command)+

lemma keeps_bind_transport [keeps]: "preserves I (bind_transport d t sc th a k)"
  unfolding bind_transport_def Let_def by (intro keeps)

lemma keeps_record_transport_command [keeps]: "preserves I (record_transport_command t k h c)"
  unfolding record_transport_command_def by (intro keeps)

end

end
