(* ===== verification/Web_Address.thy ===== *)
theory Web_Address
  imports Prelude
begin

text \<open>
  What the sources use of \<open>urllib.parse\<close>: the parts of an address (\<open>urlsplit\<close>) and percent escapes
  (\<open>quote\<close>, \<open>unquote_to_bytes\<close>) with the UTF-8 coding below them. Texts are lists of characters with
  code points below 256; where a text may hold any code point (a decoded path segment) it is a list of
  integers, and so is a list of bytes.
\<close>

section \<open>The parts of an address\<close>

text \<open>\<open>urllib.parse.urlsplit\<close>, as far as the scheme and the network location go: \<open>None\<close> is its
  \<open>ValueError\<close>. The parameter decides its checks of a location with brackets or with characters outside
  ASCII (\<open>_check_bracketed_netloc\<close>, \<open>_checknetloc\<close>).\<close>

definition scheme_char :: "char \<Rightarrow> bool" where
  "scheme_char c = (is_upper_alpha c \<or> is_lower_alpha c \<or> is_digit c
     \<or> c = CHR ''+'' \<or> c = CHR ''-'' \<or> c = CHR ''.'')"

definition is_ascii :: "char \<Rightarrow> bool" where
  "is_ascii c = (code c < 128)"

definition split_scheme :: "string \<Rightarrow> string \<times> string" where
  "split_scheme url = (let (before, colon, after) = partition_at (CHR '':'') url in
     if colon \<noteq> [] \<and> before \<noteq> [] \<and> (is_upper_alpha (hd before) \<or> is_lower_alpha (hd before))
        \<and> list_all scheme_char before
     then (lower before, after) else ([], url))"

definition split_netloc :: "string \<Rightarrow> string" where
  "split_netloc url = (if take 2 url = ''//''
     then takeWhile (\<lambda>c. c \<noteq> CHR ''/'' \<and> c \<noteq> CHR ''?'' \<and> c \<noteq> CHR ''#'') (drop 2 url) else [])"

definition urlsplit :: "(string \<Rightarrow> bool) \<Rightarrow> string \<Rightarrow> (string \<times> string) option" where
  "urlsplit netloc_ok url =
     (let url = filter (\<lambda>c. code c \<noteq> 9 \<and> code c \<noteq> 10 \<and> code c \<noteq> 13)
                  (dropWhile (\<lambda>c. code c \<le> 32) url);
          (scheme, rest) = split_scheme url;
          netloc = split_netloc rest
      in if (CHR ''['' \<in> set netloc) \<noteq> (CHR '']'' \<in> set netloc) then None
         else if (CHR ''['' \<in> set netloc \<or> \<not> list_all is_ascii netloc) \<and> \<not> netloc_ok netloc then None
         else Some (scheme, netloc))"

text \<open>The host of a network location (\<open>SplitResult.hostname\<close> is \<open>None\<close> when this is empty).\<close>

definition host_of :: "string \<Rightarrow> string" where
  "host_of netloc = (let (_, _, hostinfo) = rpartition_at (CHR ''@'') netloc;
                         (_, open_br, bracketed) = partition_at (CHR ''['') hostinfo
     in if open_br \<noteq> [] then fst (partition_at (CHR '']'') bracketed)
        else fst (partition_at (CHR '':'') hostinfo))"

text \<open>What follows the network location: the path, the query and the fragment.\<close>

definition split_tail :: "string \<Rightarrow> string \<times> string \<times> string" where
  "split_tail url = (let rest = (if take 2 url = ''//'' then drop (2 + length (split_netloc url)) url else url);
                         (before, _, fragment) = partition_at (CHR ''#'') rest;
                         (path, _, query) = partition_at (CHR ''?'') before
     in (path, query, fragment))"

text \<open>\<open>str.split\<close> at one character, and \<open>str.join\<close> with it.\<close>

fun split_at :: "char \<Rightarrow> string \<Rightarrow> string list" where
  "split_at c [] = [[]]"
| "split_at c (x # xs) = (if x = c then [] # split_at c xs
     else (case split_at c xs of [] \<Rightarrow> [[x]] | s # ss \<Rightarrow> (x # s) # ss))"

fun join_with :: "char \<Rightarrow> string list \<Rightarrow> string" where
  "join_with c [] = []"
| "join_with c [s] = s"
| "join_with c (s # ss) = s @ c # join_with c ss"

lemma split_at_plain: "c \<notin> set s \<Longrightarrow> split_at c s = [s]"
  by (induction s) auto

lemma split_at_append: "c \<notin> set s \<Longrightarrow> split_at c (s @ c # t) = s # split_at c t"
  by (induction s) auto

lemma split_join: "ss \<noteq> [] \<Longrightarrow> \<forall>s \<in> set ss. c \<notin> set s \<Longrightarrow> split_at c (join_with c ss) = ss"
  by (induction c ss rule: join_with.induct) (auto simp: split_at_plain split_at_append)

section \<open>UTF-8\<close>

definition scalar :: "int \<Rightarrow> bool" where
  "scalar c = (0 \<le> c \<and> c < 0xD800 \<or> 0xE000 \<le> c \<and> c < 0x110000)"

definition utf8_char :: "int \<Rightarrow> int list" where
  "utf8_char c =
     (if c < 0x80 then [c]
      else if c < 0x800 then [0xC0 + c div 64, 0x80 + c mod 64]
      else if c < 0x10000 then [0xE0 + c div 4096, 0x80 + c div 64 mod 64, 0x80 + c mod 64]
      else [0xF0 + c div 262144, 0x80 + c div 4096 mod 64, 0x80 + c div 64 mod 64, 0x80 + c mod 64])"

definition utf8 :: "int list \<Rightarrow> int list" where
  "utf8 cs = concat (map utf8_char cs)"

definition continues :: "int \<Rightarrow> bool" where
  "continues b = (0x80 \<le> b \<and> b < 0xC0)"

text \<open>The strict decoder: it refuses stray and missing continuation bytes, overlong forms, surrogates and
  values beyond the last code point.\<close>

definition utf8_head :: "int list \<Rightarrow> (int \<times> int list) option" where
  "utf8_head bs = (case bs of
     b # bs \<Rightarrow>
       if 0 \<le> b \<and> b < 0x80 then Some (b, bs)
       else if 0xC2 \<le> b \<and> b < 0xE0 then
         (case bs of c1 # r \<Rightarrow>
            if continues c1 then Some ((b - 0xC0) * 64 + (c1 - 0x80), r) else None
          | _ \<Rightarrow> None)
       else if 0xE0 \<le> b \<and> b < 0xF0 then
         (case bs of c1 # c2 # r \<Rightarrow>
            let c = (b - 0xE0) * 4096 + (c1 - 0x80) * 64 + (c2 - 0x80) in
            if continues c1 \<and> continues c2 \<and> 0x800 \<le> c \<and> scalar c then Some (c, r) else None
          | _ \<Rightarrow> None)
       else if 0xF0 \<le> b \<and> b < 0xF5 then
         (case bs of c1 # c2 # c3 # r \<Rightarrow>
            let c = (b - 0xF0) * 262144 + (c1 - 0x80) * 4096 + (c2 - 0x80) * 64 + (c3 - 0x80) in
            if continues c1 \<and> continues c2 \<and> continues c3 \<and> 0x10000 \<le> c \<and> scalar c then Some (c, r) else None
          | _ \<Rightarrow> None)
       else None
   | [] \<Rightarrow> None)"

lemma utf8_head_shorter: "utf8_head bs = Some (c, r) \<Longrightarrow> length r < length bs"
  by (auto simp: utf8_head_def Let_def split: if_splits list.splits)

function utf8_decode :: "int list \<Rightarrow> int list option" where
  "utf8_decode bs = (if bs = [] then Some [] else case utf8_head bs of
     None \<Rightarrow> None | Some (c, r) \<Rightarrow> map_option ((#) c) (utf8_decode r))"
  by pat_completeness auto
termination by (relation "measure length") (auto dest: utf8_head_shorter)

lemmas utf8_decode_step = utf8_decode.simps
declare utf8_decode.simps [simp del]

lemma utf8_head_scalar: "utf8_head bs = Some (c, r) \<Longrightarrow> scalar c"
  by (auto simp: utf8_head_def continues_def scalar_def Let_def split: if_splits list.splits)

lemma base64:
  fixes c :: int
  shows "(c div 4096) * 4096 + (c div 64 mod 64) * 64 + c mod 64 = c"
    and "(c div 262144) * 262144 + (c div 4096 mod 64) * 4096 + (c div 64 mod 64) * 64 + c mod 64 = c"
proof -
  have q: "c div 4096 = c div 64 div 64" "c div 262144 = c div 4096 div 64" by (simp_all add: zdiv_zmult2_eq[symmetric])
  have "c div 64 * 64 + c mod 64 = c" "c div 64 div 64 * 64 + c div 64 mod 64 = c div 64"
    "c div 4096 div 64 * 64 + c div 4096 mod 64 = c div 4096" by (rule div_mult_mod_eq)+
  with q show "(c div 4096) * 4096 + (c div 64 mod 64) * 64 + c mod 64 = c"
    and "(c div 262144) * 262144 + (c div 4096 mod 64) * 4096 + (c div 64 mod 64) * 64 + c mod 64 = c"
    by linarith+
qed

lemma utf8_head_char:
  assumes "scalar c"
  shows "utf8_head (utf8_char c @ bs) = Some (c, bs)"
proof -
  have "0 \<le> c" "c < 0x110000" using assms by (auto simp: scalar_def)
  then consider "0 \<le> c" "c < 0x80" | "0x80 \<le> c" "c < 0x800" | "0x800 \<le> c" "c < 0x10000" | "0x10000 \<le> c" "c < 0x110000"
    by linarith
  then show ?thesis
  proof cases
    case 2
    have "(c div 64) * 64 + c mod 64 = c" by simp
    with 2 show ?thesis by (auto simp: utf8_head_def utf8_char_def continues_def)
  next
    case 3
    have "0 \<le> c div 4096" "c div 4096 < 16" using 3 by (simp_all add: div_less_iff_less_mult pos_imp_zdiv_nonneg_iff)
    with 3 assms show ?thesis by (simp add: utf8_head_def utf8_char_def continues_def base64 base64[unfolded add.assoc] Let_def)
  next
    case 4
    have "0 \<le> c div 262144" "c div 262144 < 5" using 4 by (simp_all add: div_less_iff_less_mult pos_imp_zdiv_nonneg_iff)
    with 4 assms show ?thesis by (simp add: utf8_head_def utf8_char_def continues_def base64 base64[unfolded add.assoc] Let_def)
  qed (simp add: utf8_head_def utf8_char_def)
qed

lemma utf8_char_not_Nil: "utf8_char c \<noteq> []"
  by (simp add: utf8_char_def)

lemma utf8_decode_utf8: "\<forall>c \<in> set cs. scalar c \<Longrightarrow> utf8_decode (utf8 cs) = Some cs"
proof (induction cs)
  case (Cons c cs)
  then show ?case
    by (subst utf8_decode_step) (simp add: utf8_def utf8_head_char utf8_char_not_Nil)
qed (simp add: utf8_def utf8_decode_step)

lemma utf8_decode_scalar: "utf8_decode bs = Some cs \<Longrightarrow> \<forall>c \<in> set cs. scalar c"
proof (induction bs arbitrary: cs rule: utf8_decode.induct)
  case (1 bs)
  from 1(2) utf8_decode_step[of bs] consider "bs = []" "cs = []"
    | c r cs' where "bs \<noteq> []" "utf8_head bs = Some (c, r)" "utf8_decode r = Some cs'" "cs = c # cs'"
    by (auto split: if_splits option.splits)
  then show ?case
  proof cases
    case 2
    with 1(1)[OF 2(1,2) refl 2(3)] utf8_head_scalar[OF 2(2)] show ?thesis by simp
  qed simp
qed

lemma utf8_decode_Nil: "utf8_decode bs = Some [] \<longleftrightarrow> bs = []"
  by (subst utf8_decode_step) (auto split: option.splits)

section \<open>Percent escapes\<close>

definition hex_char :: "char \<Rightarrow> bool" where
  "hex_char c = (is_digit c \<or> 65 \<le> code c \<and> code c \<le> 70 \<or> 97 \<le> code c \<and> code c \<le> 102)"

definition hex_value :: "char \<Rightarrow> int" where
  "hex_value c = (if is_digit c then code c - 48 else if code c \<le> 70 then code c - 55 else code c - 87)"

definition hex_digit :: "int \<Rightarrow> char" where
  "hex_digit n = char_of (if n < 10 then n + 48 else n + 55)"

text \<open>\<open>unquote_to_bytes\<close>: an escape is the byte it names, any other character its UTF-8 bytes.\<close>

fun unquote_to_bytes :: "string \<Rightarrow> int list" where
  "unquote_to_bytes [] = []"
| "unquote_to_bytes (c # cs) =
     (case cs of a # b # r \<Rightarrow>
        if c = CHR ''%'' \<and> hex_char a \<and> hex_char b then (hex_value a * 16 + hex_value b) # unquote_to_bytes r
        else utf8_char (code c) @ unquote_to_bytes cs
      | _ \<Rightarrow> utf8_char (code c) @ unquote_to_bytes cs)"

definition safe_byte :: "int \<Rightarrow> bool" where
  "safe_byte b = (48 \<le> b \<and> b \<le> 57 \<or> 65 \<le> b \<and> b \<le> 90 \<or> 97 \<le> b \<and> b \<le> 122 \<or> b \<in> {45, 46, 95, 126})"

text \<open>\<open>quote\<close> with \<open>safe="-._~"\<close>.\<close>

definition quote_byte :: "int \<Rightarrow> string" where
  "quote_byte b = (if safe_byte b then [char_of b] else [CHR ''%'', hex_digit (b div 16), hex_digit (b mod 16)])"

definition quote_bytes :: "int list \<Rightarrow> string" where
  "quote_bytes bs = concat (map quote_byte bs)"

definition quote :: "int list \<Rightarrow> string" where
  "quote cs = quote_bytes (utf8 cs)"

lemma code_char_of: "0 \<le> n \<Longrightarrow> n < 256 \<Longrightarrow> code (char_of n) = n"
  by (simp add: code_def)

lemma hex_digit_facts:
  assumes "0 \<le> n" "n < 16"
  shows "hex_char (hex_digit n)" and "hex_value (hex_digit n) = n"
    and "code (hex_digit n) = (if n < 10 then n + 48 else n + 55)"
  using assms by (auto simp: hex_digit_def hex_char_def hex_value_def is_digit_def code_char_of)

lemma unquote_quote_byte:
  assumes "0 \<le> b" "b < 256"
  shows "unquote_to_bytes (quote_byte b @ s) = b # unquote_to_bytes s"
proof (cases "safe_byte b")
  case True
  with assms have "b < 128" "b \<noteq> 37" by (auto simp: safe_byte_def)
  moreover have "code (CHR ''%'') = 37" by (simp add: code_def)
  ultimately have "char_of b \<noteq> CHR ''%''" using assms by (metis code_char_of)
  with True \<open>b < 128\<close> assms show ?thesis
    by (auto simp: quote_byte_def utf8_char_def code_char_of split: list.split)
next
  case False
  with assms show ?thesis by (simp add: quote_byte_def hex_digit_facts)
qed

lemma unquote_quote_bytes: "\<forall>b \<in> set bs. 0 \<le> b \<and> b < 256 \<Longrightarrow> unquote_to_bytes (quote_bytes bs) = bs"
  by (induction bs) (simp_all add: quote_bytes_def unquote_quote_byte)

lemma utf8_char_bytes: "scalar c \<Longrightarrow> b \<in> set (utf8_char c) \<Longrightarrow> 0 \<le> b \<and> b < 256 \<and> (b < 128 \<longrightarrow> c = b)"
  by (auto simp: utf8_char_def scalar_def split: if_splits)

lemma utf8_bytes: "\<forall>c \<in> set cs. scalar c \<Longrightarrow> b \<in> set (utf8 cs) \<Longrightarrow> 0 \<le> b \<and> b < 256 \<and> (b < 128 \<longrightarrow> b \<in> set cs)"
  using utf8_char_bytes by (fastforce simp: utf8_def)

lemma unquote_quote: "\<forall>c \<in> set cs. scalar c \<Longrightarrow> unquote_to_bytes (quote cs) = utf8 cs"
  using utf8_bytes by (auto simp: quote_def intro!: unquote_quote_bytes)

end
