(* ===== verification/Control_Captures.thy ===== *)
theory Control_Captures
  imports Web_Address Control_Core
begin

text \<open>
  Captures: the operator's raw submissions, which an explicit approval hands to the research engine's
  capture consumer (\<open>ControlStore.create_capture\<close> to \<open>_capture_note\<close> in \<open>control/store.py\<close>).

  A capture is \<open>pending\<close>, then \<open>approved\<close>, then \<open>claimed\<close> by one consumer under a lease with a fence token
  (owner and epoch), and ends \<open>consumed\<close>, \<open>failed\<close> or \<open>dismissed\<close>. A lease that ran out, or an outcome the
  consumer cannot prove, leaves it \<open>uncertain\<close>, and only an operator's acknowledgement takes it from there.

  The lemmas: the well-formedness \<open>capture_inv\<close> of the table (ids unique, at most one open capture of a
  key, the claim columns set exactly while claimed) is kept by every operation; every operation moves a
  capture along the edges of \<open>capture_edge\<close> only, never touches a closed one and never lowers an epoch
  (\<open>capture_evolves\<close>); a fence token that was overtaken stays invalid; the key of a capture is its trimmed
  payload with nothing but letter case changed; paging through the inbox loses and repeats nothing.
\<close>

section \<open>The shape of a payload\<close>

definition lower_hostinfo :: "string \<Rightarrow> string" where
  "lower_hostinfo hostinfo =
     (if take 1 hostinfo = ''['' then
        (let (host, bracket, after) = partition_at (CHR '']'') (drop 1 hostinfo)
         in ''['' @ lower host @ bracket @ after)
      else (let (host, colon, port) = partition_at (CHR '':'') hostinfo
            in lower host @ colon @ port))"

definition capture_shape :: "(string \<Rightarrow> bool) \<Rightarrow> string \<Rightarrow> string \<times> string" where
  "capture_shape netloc_ok payload =
     (if \<exists>c \<in> set payload. code c < 32 then (''text'', payload)
      else case urlsplit netloc_ok payload of
        None \<Rightarrow> (''text'', payload)
      | Some (scheme, netloc) \<Rightarrow>
          if scheme \<notin> {''http'', ''https''} \<or> host_of netloc = [] then (''text'', payload)
          else
            let netloc_start = length scheme + length ''://'';
                netloc_end = netloc_start + length netloc;
                (userinfo, separator, hostinfo) = rpartition_at (CHR ''@'') netloc;
                lowered = lower_hostinfo hostinfo
            in (''url'', lower (take (length scheme) payload)
                  @ take (netloc_start - length scheme) (drop (length scheme) payload)
                  @ userinfo @ separator @ lowered @ drop netloc_end payload))"

section \<open>Operations\<close>

definition capture_note :: "string \<Rightarrow> string op" where
  "capture_note note = seq (guard (int (length note) \<le> 2000) (ValueError ''note is invalid'')) (\<lambda>_. ret note)"

definition open_states :: "capture_state list" where
  "open_states = [C_pending, C_approved, C_claimed, C_uncertain]"

definition capture_order :: "capture \<Rightarrow> int \<times> string" where
  "capture_order c = (text_key (ca_created_at c), ca_id c)"

definition open_capture :: "string \<Rightarrow> capture option op" where
  "open_capture capture_key = gets (\<lambda>s. first_by capture_order
     (\<lambda>c. ca_capture_key c = capture_key \<and> ca_state c \<in> set open_states) (captures s))"

definition known_capture_source :: "string \<Rightarrow> string option op" where
  "known_capture_source capture_key = gets (\<lambda>s.
     case first_by sa_id (\<lambda>a. sa_normalized_value a = capture_key) (source_aliases s) of
       Some a \<Rightarrow> Some (sa_source_id a)
     | None \<Rightarrow>
        (case last_by (\<lambda>c. (text_key (ca_updated_at c), ca_id c))
                (\<lambda>c. ca_capture_key c = capture_key \<and> ca_state c = C_consumed
                     \<and> ca_consumed_source_ids c \<noteq> None) (captures s) of
           None \<Rightarrow> None
         | Some c \<Rightarrow> (case ca_consumed_source_ids c of
                        Some (source_id # _) \<Rightarrow> Some source_id
                      | _ \<Rightarrow> None)))"

definition insert_capture :: "string \<Rightarrow> string \<Rightarrow> string \<Rightarrow> string \<Rightarrow> capture op" where
  "insert_capture payload note kind capture_key =
     seq utc_now (\<lambda>now.
     seq (new_id ''capture'') (\<lambda>capture_id.
     seq (known_capture_source capture_key) (\<lambda>known.
     seq (sql_insert IntegrityError captures captures_update ca_id
       \<lparr>ca_id = capture_id, ca_capture_key = capture_key, ca_payload = payload, ca_kind = kind,
        ca_note = note, ca_state = C_pending, ca_claim_owner = None, ca_claim_epoch = 0,
        ca_claim_expires_at = None, ca_known_source_id = known, ca_consumed_source_ids = None,
        ca_failure_category = None, ca_revision = 0, ca_created_at = now, ca_updated_at = now\<rparr>) (\<lambda>_.
     seq (audit ''capture'' capture_id ''capture.created'' (JObj [(''kind'', JStr kind)])) (\<lambda>_.
     get_capture capture_id)))))"

definition create_capture :: "string \<Rightarrow> string \<Rightarrow> string \<Rightarrow> string \<Rightarrow> command_result op" where
  "create_capture payload note actor_id idempotency_key =
     seq (required_text payload ''payload'' 16384) (\<lambda>_.
     seq (capture_note note) (\<lambda>note.
     seq (gets (\<lambda>s. capture_shape (st_netloc_ok s) (strip payload))) (\<lambda>(kind, capture_key).
     command actor_id ''POST:/api/v1/captures'' idempotency_key
       (JObj [(''payload'', JStr payload), (''note'', JStr note)]) 201
     (seq (open_capture capture_key) (\<lambda>existing. case existing of
        Some c \<Rightarrow> raise (CaptureConflict (capture_json c))
      | None \<Rightarrow> seq (insert_capture payload note kind capture_key) (\<lambda>c. ret (capture_json c)))))))"

definition stage_capture :: "string \<Rightarrow> string \<Rightarrow> (capture \<times> bool) op" where
  "stage_capture payload note =
     seq (required_text payload ''payload'' 16384) (\<lambda>_.
     seq (capture_note note) (\<lambda>note.
     seq (gets (\<lambda>s. capture_shape (st_netloc_ok s) (strip payload))) (\<lambda>(kind, capture_key).
     seq (open_capture capture_key) (\<lambda>existing. case existing of
        Some c \<Rightarrow> ret (c, True)
      | None \<Rightarrow> seq (insert_capture payload note kind capture_key) (\<lambda>c. ret (c, False))))))"

definition revision_request :: "int \<Rightarrow> json" where
  "revision_request expected_revision = JObj [(''expected_revision'', JInt expected_revision)]"

definition approve_capture :: "string \<Rightarrow> int \<Rightarrow> string \<Rightarrow> string \<Rightarrow> command_result op" where
  "approve_capture capture_id expected_revision actor_id idempotency_key =
     command actor_id (''POST:/api/v1/captures/'' @ capture_id @ ''/approve'') idempotency_key
       (revision_request expected_revision) 200
     (seq (get_capture capture_id) (\<lambda>capture.
      seq (expect_revision (ca_revision capture) (capture_json capture) expected_revision) (\<lambda>_.
      seq (guard (ca_state capture = C_pending)
             (InvalidTransition (capture_state_name (ca_state capture)) ''approved'')) (\<lambda>_.
      seq utc_now (\<lambda>now.
      seq (sql_update captures captures_update
             (\<lambda>c. ca_id c = capture_id \<and> ca_revision c = expected_revision \<and> ca_state c = C_pending)
             (\<lambda>c. c\<lparr>ca_state := C_approved, ca_revision := ca_revision c + 1, ca_updated_at := now\<rparr>))
        (\<lambda>rowcount.
      seq (get_capture capture_id) (\<lambda>updated.
      seq (guard (rowcount = 1) (RevisionConflict (capture_json updated))) (\<lambda>_.
      seq (audit ''capture'' capture_id ''capture.approved'' (JObj [])) (\<lambda>_.
      seq (get_capture capture_id) (\<lambda>value. ret (capture_json value)))))))))))"

definition capture_dismissable :: "capture_state list" where
  "capture_dismissable = [C_pending, C_approved, C_uncertain]"

definition dismiss_capture :: "string \<Rightarrow> int \<Rightarrow> string \<Rightarrow> string \<Rightarrow> command_result op" where
  "dismiss_capture capture_id expected_revision actor_id idempotency_key =
     command actor_id (''POST:/api/v1/captures/'' @ capture_id @ ''/dismiss'') idempotency_key
       (revision_request expected_revision) 200
     (seq (get_capture capture_id) (\<lambda>capture.
      seq (expect_revision (ca_revision capture) (capture_json capture) expected_revision) (\<lambda>_.
      seq (guard (ca_state capture \<in> set capture_dismissable)
             (InvalidTransition (capture_state_name (ca_state capture)) ''dismissed'')) (\<lambda>_.
      seq utc_now (\<lambda>now.
      seq (sql_update captures captures_update
             (\<lambda>c. ca_id c = capture_id \<and> ca_revision c = expected_revision
                  \<and> ca_state c \<in> set capture_dismissable)
             (\<lambda>c. c\<lparr>ca_state := C_dismissed, ca_revision := ca_revision c + 1, ca_updated_at := now\<rparr>))
        (\<lambda>rowcount.
      seq (get_capture capture_id) (\<lambda>updated.
      seq (guard (rowcount = 1) (RevisionConflict (capture_json updated))) (\<lambda>_.
      seq (audit ''capture'' capture_id ''capture.dismissed'' (JObj [])) (\<lambda>_.
      seq (get_capture capture_id) (\<lambda>value. ret (capture_json value)))))))))))"

definition reopen_capture :: "string \<Rightarrow> int \<Rightarrow> bool \<Rightarrow> string \<Rightarrow> string \<Rightarrow> command_result op" where
  "reopen_capture capture_id expected_revision acknowledged actor_id idempotency_key =
     seq (guard acknowledged (ValueError ''acknowledged must be true'')) (\<lambda>_.
     command actor_id (''POST:/api/v1/captures/'' @ capture_id @ ''/reopen'') idempotency_key
       (JObj [(''expected_revision'', JInt expected_revision), (''acknowledged'', JBool True)]) 200
     (seq (get_capture capture_id) (\<lambda>capture.
      seq (expect_revision (ca_revision capture) (capture_json capture) expected_revision) (\<lambda>_.
      seq (guard (ca_state capture = C_uncertain)
             (InvalidTransition (capture_state_name (ca_state capture)) ''approved'')) (\<lambda>_.
      seq utc_now (\<lambda>now.
      seq (sql_update captures captures_update
             (\<lambda>c. ca_id c = capture_id \<and> ca_revision c = expected_revision \<and> ca_state c = C_uncertain)
             (\<lambda>c. c\<lparr>ca_state := C_approved, ca_claim_owner := None, ca_claim_expires_at := None,
                    ca_failure_category := None, ca_revision := ca_revision c + 1,
                    ca_updated_at := now\<rparr>)) (\<lambda>rowcount.
      seq (get_capture capture_id) (\<lambda>updated.
      seq (guard (rowcount = 1) (RevisionConflict (capture_json updated))) (\<lambda>_.
      seq (audit ''capture'' capture_id ''capture.reopened'' (JObj [])) (\<lambda>_.
      seq (get_capture capture_id) (\<lambda>value. ret (capture_json value))))))))))))"

definition lease_expired :: "instant \<Rightarrow> capture \<Rightarrow> bool" where
  "lease_expired now c = (ca_state c = C_claimed \<and>
     (case ca_claim_expires_at c of None \<Rightarrow> False | Some t \<Rightarrow> text_le t now))"

definition sweep_expired_captures :: "unit op" where
  "sweep_expired_captures =
     seq utc_now (\<lambda>now.
     seq (gets (\<lambda>s. map ca_id (filter (lease_expired now) (captures s)))) (\<lambda>expired.
     if expired = [] then ret ()
     else
       seq (sql_update captures captures_update (lease_expired now)
              (\<lambda>c. c\<lparr>ca_state := C_uncertain, ca_claim_owner := None, ca_claim_expires_at := None,
                     ca_failure_category := Some ''outcome_unknown'',
                     ca_revision := ca_revision c + 1, ca_updated_at := now\<rparr>)) (\<lambda>_.
       seq (for_each (\<lambda>capture_id. audit ''capture'' capture_id ''capture.lease_expired''
              (JObj [(''failure_category'', JStr ''outcome_unknown'')])) expired) (\<lambda>_.
       ret ()))))"

definition list_limit_ok :: "int \<Rightarrow> bool" where
  "list_limit_ok limit = (1 \<le> limit \<and> limit \<le> 1000)"

definition list_pending_captures :: "int \<Rightarrow> capture list op" where
  "list_pending_captures limit =
     seq (guard (list_limit_ok limit) (ValueError ''limit must be between 1 and 1000'')) (\<lambda>_.
     seq sweep_expired_captures (\<lambda>_.
     gets (\<lambda>s. take (nat limit) (select_by capture_order (\<lambda>c. ca_state c = C_approved) (captures s)))))"

definition claim_capture ::
    "string \<Rightarrow> string \<Rightarrow> int \<Rightarrow> string \<Rightarrow> string \<Rightarrow> command_result op" where
  "claim_capture capture_id worker_id lease_seconds actor_id idempotency_key =
     seq (required_text worker_id ''worker_id'' 200) (\<lambda>worker_id.
     seq (guard (1 \<le> lease_seconds \<and> lease_seconds \<le> 3600)
            (ValueError ''lease_seconds must be between 1 and 3600'')) (\<lambda>_.
     command_checked actor_id (''POST:/internal/v1/captures/'' @ capture_id @ ''/claim'') idempotency_key
       (JObj [(''worker_id'', JStr worker_id), (''lease_seconds'', JInt lease_seconds)]) 200
     (\<lambda>replay. seq (get_capture capture_id) (\<lambda>current.
        ret (ca_state current = C_claimed \<and> ca_claim_owner current = Some worker_id
             \<and> jget ''claim_epoch'' (cr_value replay) = Some (JInt (ca_claim_epoch current)))))
     (InvalidTransition ''stale_claim_receipt'' ''claimed'')
     (seq sweep_expired_captures (\<lambda>_.
      seq (get_capture capture_id) (\<lambda>capture.
      seq (guard (ca_state capture = C_approved)
             (InvalidTransition (capture_state_name (ca_state capture)) ''claimed'')) (\<lambda>_.
      seq utc_now (\<lambda>now.
      seq (sql_update captures captures_update
             (\<lambda>c. ca_id c = capture_id \<and> ca_state c = C_approved)
             (\<lambda>c. c\<lparr>ca_state := C_claimed, ca_claim_owner := Some worker_id,
                    ca_claim_expires_at := Some (now + seconds lease_seconds),
                    ca_claim_epoch := ca_claim_epoch c + 1, ca_revision := ca_revision c + 1,
                    ca_updated_at := now\<rparr>)) (\<lambda>rowcount.
      seq (guard (rowcount = 1) (InvalidTransition ''claim_conflict'' ''claimed'')) (\<lambda>_.
      seq (audit ''capture'' capture_id ''capture.claimed'' (JObj [])) (\<lambda>_.
      seq (get_capture capture_id) (\<lambda>value. ret (capture_json value))))))))))))"

definition capture_failures :: "string list" where
  "capture_failures = [''adapter_unavailable'', ''capability_unavailable'', ''invalid_source'',
     ''materialization_failed'', ''outcome_unknown'']"

definition capture_uncertain_categories :: "string list" where
  "capture_uncertain_categories = [''outcome_unknown'', ''carrier_thread_busy'', ''carrier_thread_foreign'']"

definition capture_source_ids :: "string list option \<Rightarrow> string list op" where
  "capture_source_ids ids =
     (case ids of None \<Rightarrow> raise (ValueError ''consumed_source_ids is invalid'')
      | Some ids \<Rightarrow>
          seq (for_each (\<lambda>i. required_text i ''consumed_source_id'' 200) ids) (\<lambda>source_ids.
          seq (guard (1 \<le> length source_ids \<and> int (length source_ids) \<le> 100)
                 (ValueError ''consumed_source_ids must name 1 to 100 sources'')) (\<lambda>_.
          seq (guard (distinct source_ids) (ValueError ''consumed_source_ids must be unique'')) (\<lambda>_.
          ret source_ids))))"

definition capture_outcome ::
    "string \<Rightarrow> string list option \<Rightarrow> string option
      \<Rightarrow> (capture_state \<times> string list option \<times> string option) op" where
  "capture_outcome outcome consumed_source_ids failure_category =
     (if outcome = ''consumed'' then
        (if failure_category \<noteq> None then
           raise (ValueError ''a consumed capture has no failure category'')
         else seq (capture_source_ids consumed_source_ids) (\<lambda>ids. ret (C_consumed, Some ids, None)))
      else if consumed_source_ids \<noteq> None \<and> consumed_source_ids \<noteq> Some [] then
        raise (ValueError ''only a consumed capture names sources'')
      else if outcome = ''failed'' then
        (case failure_category of
           Some category \<Rightarrow>
             (if category \<in> set capture_failures then ret (C_failed, None, Some category)
              else raise (ValueError ''capture failure category is invalid''))
         | None \<Rightarrow> raise (ValueError ''capture failure category is invalid''))
      else if outcome = ''uncertain'' then
        (case failure_category of
           None \<Rightarrow> ret (C_uncertain, None, Some ''outcome_unknown'')
         | Some category \<Rightarrow>
             (if category \<in> set capture_uncertain_categories then ret (C_uncertain, None, Some category)
              else raise (ValueError ''capture failure category is invalid'')))
      else raise (ValueError ''capture outcome is invalid''))"

definition validate_capture_sources :: "string list \<Rightarrow> unit op" where
  "validate_capture_sources source_ids =
     seq (gets (\<lambda>s. list_all (\<lambda>i. i \<in> set (sources s)) source_ids)) (\<lambda>known.
     guard known (ValueError ''consumed_source_ids names an unknown source''))"

definition capture_detail :: "(string \<times> string) list \<Rightarrow> (string \<times> json) list op" where
  "capture_detail detail =
     seq (for_each (\<lambda>(key, text).
            seq (required_text key ''detail key'' 100) (\<lambda>key.
            seq (required_text text ''detail value'' 200) (\<lambda>text. ret (key, JStr text)))) detail)
       (\<lambda>pairs. ret (dict_update [] pairs))"

definition complete_capture ::
    "string \<Rightarrow> string \<Rightarrow> int \<Rightarrow> string \<Rightarrow> string list option \<Rightarrow> string option
      \<Rightarrow> (string \<times> string) list \<Rightarrow> string \<Rightarrow> string \<Rightarrow> command_result op" where
  "complete_capture capture_id claim_owner claim_epoch outcome consumed_source_ids failure_category
       detail actor_id idempotency_key =
     seq (required_text claim_owner ''claim_owner'' 200) (\<lambda>claim_owner.
     seq (guard (1 \<le> claim_epoch) (ValueError ''claim_epoch must be a positive integer'')) (\<lambda>_.
     seq (capture_outcome outcome consumed_source_ids failure_category)
       (\<lambda>(target, source_ids, category).
     seq (capture_detail detail) (\<lambda>detail.
     command actor_id (''POST:/internal/v1/captures/'' @ capture_id @ ''/complete'') idempotency_key
       (JObj ([(''claim_owner'', JStr claim_owner), (''claim_epoch'', JInt claim_epoch),
               (''outcome'', JStr outcome),
               (''consumed_source_ids'', case source_ids of None \<Rightarrow> JNull | Some ids \<Rightarrow> jstrs ids),
               (''failure_category'', jstr_opt category)]
              @ (if detail = [] then [] else [(''detail'', JObj detail)]))) 200
     (seq (get_capture capture_id) (\<lambda>_.
      seq (case source_ids of None \<Rightarrow> ret () | Some ids \<Rightarrow> validate_capture_sources ids) (\<lambda>_.
      seq utc_now (\<lambda>now.
      seq (sql_update captures captures_update
             (\<lambda>c. ca_id c = capture_id \<and> ca_state c = C_claimed \<and> ca_claim_owner c = Some claim_owner
                  \<and> ca_claim_epoch c = claim_epoch)
             (\<lambda>c. c\<lparr>ca_state := target, ca_claim_owner := None, ca_claim_expires_at := None,
                    ca_consumed_source_ids := source_ids, ca_failure_category := category,
                    ca_revision := ca_revision c + 1, ca_updated_at := now\<rparr>)) (\<lambda>rowcount.
      seq (guard (rowcount = 1) (InvalidTransition ''claim_fence_mismatch'' outcome)) (\<lambda>_.
      seq (audit ''capture'' capture_id (''capture.'' @ outcome)
             (JObj (dict_update [(''failure_category'', jstr_opt category)] detail))) (\<lambda>_.
      seq (get_capture capture_id) (\<lambda>value. ret (capture_json value)))))))))))))"

definition list_captures ::
    "capture_state option \<Rightarrow> int \<Rightarrow> string option \<Rightarrow> (capture list \<times> string option) op" where
  "list_captures state limit cursor =
     seq (guard (list_limit_ok limit) (ValueError ''limit must be between 1 and 1000'')) (\<lambda>_.
     seq (case cursor of
            None \<Rightarrow> ret (\<lambda>c. True)
          | Some cur \<Rightarrow>
              seq (gets (\<lambda>s. find_row ca_id cur (captures s))) (\<lambda>row. case row of
                None \<Rightarrow> raise (ValueError ''cursor is invalid'')
              | Some r \<Rightarrow> ret (\<lambda>c. (text_key (ca_created_at r), cur) < capture_order c))) (\<lambda>after.
     seq (gets (\<lambda>s. take (nat (limit + 1)) (select_by capture_order
                (\<lambda>c. (case state of None \<Rightarrow> True | Some st \<Rightarrow> ca_state c = st) \<and> after c) (captures s))))
       (\<lambda>rows.
     let items = take (nat limit) rows in
     ret (items, if nat limit < length rows \<and> items \<noteq> [] then Some (ca_id (last items)) else None))))"

text \<open>The loop of \<open>capture_blocked_by\<close> over the audit rows, oldest first.\<close>

definition blocked_step :: "audit_row \<Rightarrow> (string \<rightharpoonup> string) \<Rightarrow> (string \<rightharpoonup> string)" where
  "blocked_step row blocked =
     (case jget ''blocked_by'' (au_payload row) of
        Some (JStr v) \<Rightarrow> if v \<noteq> [] then blocked(au_aggregate_id row \<mapsto> v)
                         else blocked(au_aggregate_id row := None)
      | _ \<Rightarrow> blocked(au_aggregate_id row := None))"

definition capture_blocked_by :: "string list \<Rightarrow> (string \<rightharpoonup> string) op" where
  "capture_blocked_by capture_ids = gets (\<lambda>s.
     fold blocked_step (filter (\<lambda>r. au_aggregate_type r = ''capture'' \<and> au_aggregate_id r \<in> set capture_ids
                                    \<and> au_type r = ''capture.uncertain'') (control_audit s)) Map.empty)"

section \<open>Well-formedness of the table\<close>

definition capture_ok :: "string list \<Rightarrow> capture \<Rightarrow> bool" where
  "capture_ok known c \<longleftrightarrow>
     (ca_state c = C_claimed \<longleftrightarrow> ca_claim_owner c \<noteq> None) \<and>
     (ca_claim_owner c = None \<longleftrightarrow> ca_claim_expires_at c = None) \<and>
     (ca_state c \<in> {C_uncertain, C_failed} \<longrightarrow> ca_failure_category c \<noteq> None) \<and>
     (ca_failure_category c \<noteq> None \<longrightarrow> ca_state c \<in> {C_uncertain, C_failed, C_dismissed}) \<and>
     (case ca_consumed_source_ids c of
        None \<Rightarrow> ca_state c \<noteq> C_consumed
      | Some ids \<Rightarrow> ca_state c = C_consumed \<and> ids \<noteq> [] \<and> set ids \<subseteq> set known) \<and>
     0 \<le> ca_claim_epoch c \<and> 0 \<le> ca_revision c"

definition capture_inv :: "store \<Rightarrow> bool" where
  "capture_inv s \<longleftrightarrow>
     distinct (map ca_id (captures s)) \<and>
     list_all (capture_ok (sources s)) (captures s) \<and>
     distinct (map ca_capture_key (filter (\<lambda>c. ca_state c \<in> set open_states) (captures s)))"

interpretation cap: bookkeeping capture_inv
  by unfold_locales (simp_all add: capture_inv_def)

text \<open>An update keeps the table well formed when it keeps ids and keys, leaves each row it changes
  well formed, and opens no closed row.\<close>

lemma filter_update_where_map:
  "(\<And>r. P r \<Longrightarrow> g (f r) = g r) \<Longrightarrow> (\<And>r. P r \<Longrightarrow> q (f r) \<longrightarrow> q r)
     \<Longrightarrow> distinct (map g (filter q rows)) \<Longrightarrow> distinct (map g (filter q (update_where P f rows)))"
proof (induction rows)
  case (Cons r rows)
  have "set (map g (filter q (update_where P f rows))) \<subseteq> set (map g (filter q rows))"
    using Cons.prems(1,2) by (induction rows) auto
  with Cons show ?case by (auto split: if_splits)
qed simp

lemma capture_inv_update:
  assumes "\<And>c. P c \<Longrightarrow> ca_id (f c) = ca_id c \<and> ca_capture_key (f c) = ca_capture_key c"
    and "\<And>c. P c \<Longrightarrow> ca_state (f c) \<in> set open_states \<Longrightarrow> ca_state c \<in> set open_states"
    and "\<And>s c. P c \<Longrightarrow> capture_ok known c \<Longrightarrow> capture_ok known (f c)"
    and "capture_inv s" and "sources s = known"
  shows "capture_inv (captures_update (update_where P f) s)"
proof -
  have "map ca_id (update_where P f (captures s)) = map ca_id (captures s)"
    using assms(1) by (intro map_update_where) simp
  moreover have "distinct (map ca_capture_key (filter (\<lambda>c. ca_state c \<in> set open_states)
      (update_where P f (captures s))))"
    using assms(1,2,4) by (intro filter_update_where_map) (auto simp: capture_inv_def)
  moreover have "list_all (capture_ok (sources s)) (update_where P f (captures s))"
    using assms(3-5) by (auto simp: capture_inv_def list_all_iff in_update_where)
  ultimately show ?thesis using assms(4) by (simp add: capture_inv_def)
qed

lemma capture_inv_updateI:
  assumes "\<And>c. P c \<Longrightarrow> ca_id (f c) = ca_id c \<and> ca_capture_key (f c) = ca_capture_key c"
    and "\<And>c. P c \<Longrightarrow> ca_state (f c) \<in> set open_states \<Longrightarrow> ca_state c \<in> set open_states"
    and "\<And>known c. P c \<Longrightarrow> capture_ok known c \<Longrightarrow> capture_ok known (f c)"
  shows "preserves capture_inv (sql_update captures captures_update P f)"
  by (rule preserves_sql_update) (use assms in \<open>blast intro: capture_inv_update\<close>)

lemma approve_capture_inv: "preserves capture_inv (approve_capture i r a k)"
  unfolding approve_capture_def
  by (intro keeps capture_inv_updateI) (auto simp: open_states_def capture_ok_def split: option.splits)

lemma dismiss_capture_inv: "preserves capture_inv (dismiss_capture i r a k)"
  unfolding dismiss_capture_def
  by (intro keeps capture_inv_updateI)
    (auto simp: open_states_def capture_dismissable_def capture_ok_def split: option.splits)

lemma reopen_capture_inv: "preserves capture_inv (reopen_capture i r b a k)"
  unfolding reopen_capture_def
  by (intro keeps capture_inv_updateI) (auto simp: open_states_def capture_ok_def split: option.splits)

lemma sweep_capture_inv [keeps]: "preserves capture_inv sweep_expired_captures"
  unfolding sweep_expired_captures_def
  by (intro keeps capture_inv_updateI)
    (auto simp: open_states_def lease_expired_def capture_ok_def split: option.splits)

lemma list_pending_captures_inv: "preserves capture_inv (list_pending_captures n)"
  unfolding list_pending_captures_def by (intro keeps)

lemma claim_capture_inv: "preserves capture_inv (claim_capture i w l a k)"
  unfolding claim_capture_def
  by (intro keeps capture_inv_updateI) (auto simp: open_states_def capture_ok_def split: option.splits)

text \<open>An insertion keeps the table well formed when no capture of its key is open.\<close>

lemma capture_inv_insert:
  assumes "capture_inv s" and "ca_id c \<notin> ca_id ` set (captures s)" and "capture_ok (sources s) c"
    and "\<forall>c' \<in> set (captures s). \<not> (ca_capture_key c' = ca_capture_key c \<and> ca_state c' \<in> set open_states)"
  shows "capture_inv (captures_update (\<lambda>cs. cs @ [c]) s)"
  using assms by (auto simp: capture_inv_def)

lemma insert_capture_inv:
  assumes "capture_inv s"
    and "\<forall>c \<in> set (captures s). \<not> (ca_capture_key c = key \<and> ca_state c \<in> set open_states)"
  shows "wp (insert_capture payload note kind key) (\<lambda>_. capture_inv) s"
proof -
  have tail: "wp (audit t i e p) (\<lambda>_. wp (get_capture j) (\<lambda>_. capture_inv)) s'" if "capture_inv s'" for t i e p j s'
    using preservesD[OF preserves_seq[OF cap.keeps_audit preserves_getters(11)] that] by (simp add: wp_seq)
  show ?thesis unfolding insert_capture_def known_capture_source_def wp_rules
    using assms by (auto simp: capture_ok_def intro!: tail capture_inv_insert cap.I_ticks cap.I_ids)
qed

lemma unless_open_inv:
  assumes "\<And>c. preserves capture_inv (f c)"
    and "\<And>c. preserves capture_inv (g c)"
  shows "preserves capture_inv (seq (open_capture key) (\<lambda>existing. case existing of
     Some c \<Rightarrow> f c | None \<Rightarrow> seq (insert_capture p n k key) g))"
proof (rule preservesI)
  fix s assume I: "capture_inv s"
  show "wp (seq (open_capture key) (\<lambda>existing. case existing of
     Some c \<Rightarrow> f c | None \<Rightarrow> seq (insert_capture p n k key) g)) (\<lambda>_. capture_inv) s"
    unfolding open_capture_def wp_seq wp_gets wp_option
    using wp_seq_keeps[OF insert_capture_inv[OF I] assms(2)] preservesD[OF assms(1) I]
    by (auto simp: first_by_None wp_seq split: option.split)
qed

lemma create_capture_inv: "preserves capture_inv (create_capture p n a k)"
  unfolding create_capture_def capture_note_def by (intro keeps unless_open_inv)

lemma stage_capture_inv: "preserves capture_inv (stage_capture p n)"
  unfolding stage_capture_def capture_note_def by (intro keeps unless_open_inv)


text \<open>What \<open>_capture_outcome\<close> lets through: a consumed capture names sources and no failure, any other
  outcome names a failure and no sources.\<close>

definition outcome_shape :: "capture_state \<Rightarrow> string list option \<Rightarrow> string option \<Rightarrow> bool" where
  "outcome_shape target source_ids category \<longleftrightarrow>
     (target = C_consumed \<and> category = None \<and> (\<exists>ids. source_ids = Some ids \<and> ids \<noteq> []))
     \<or> (target \<in> {C_failed, C_uncertain} \<and> category \<noteq> None \<and> source_ids = None)"

lemma capture_source_ids_wp: "wp (capture_source_ids ids) (\<lambda>r s'. r \<noteq> [] \<and> s' = s) s"
proof (cases ids)
  case (Some xs)
  have "preserves (\<lambda>s'. s' = s) (for_each (\<lambda>i. required_text i ''consumed_source_id'' 200) xs)"
    by (intro keeps)
  then have "wp (for_each (\<lambda>i. required_text i ''consumed_source_id'' 200) xs) (\<lambda>_ s'. s' = s) s"
    by (rule preservesD) simp
  then show ?thesis using Some by (auto simp: capture_source_ids_def wp_rules elim!: wp_mono)
qed (simp add: capture_source_ids_def wp_rules)

lemma capture_outcome_wp:
  "wp (capture_outcome outcome ids category) (\<lambda>(target, ids, category) s'. outcome_shape target ids category \<and> s' = s) s"
proof -
  have "wp (seq (capture_source_ids ids) (\<lambda>ids. ret (C_consumed, Some ids, None)))
      (\<lambda>(target, ids, category) s'. outcome_shape target ids category \<and> s' = s) s"
    unfolding wp_seq wp_ret by (rule wp_mono[OF capture_source_ids_wp]) (simp add: outcome_shape_def)
  moreover have "outcome_shape C_failed None (Some x)" "outcome_shape C_uncertain None (Some x)" for x
    by (simp_all add: outcome_shape_def)
  ultimately show ?thesis
    unfolding capture_outcome_def by (auto simp: wp_if wp_option wp_raise wp_ret split: option.split)
qed

lemma capture_outcome_keeps: "preserves I (capture_outcome out ids cat)"
  unfolding capture_outcome_def capture_source_ids_def by (intro keeps)

lemma capture_ok_finish:
  assumes "outcome_shape target ids category" and "case ids of None \<Rightarrow> True | Some is \<Rightarrow> set is \<subseteq> set known"
    and "capture_ok known c"
  shows "capture_ok known (c\<lparr>ca_state := target, ca_claim_owner := None, ca_claim_expires_at := None,
     ca_consumed_source_ids := ids, ca_failure_category := category,
     ca_revision := ca_revision c + 1, ca_updated_at := now\<rparr>)"
  using assms by (auto simp: outcome_shape_def capture_ok_def)

lemma finish_capture_inv:
  assumes "outcome_shape target ids category" and "\<And>n. preserves capture_inv (g n)"
  shows "preserves capture_inv
    (seq (case ids of None \<Rightarrow> ret () | Some is \<Rightarrow> validate_capture_sources is) (\<lambda>_.
     seq utc_now (\<lambda>now.
     seq (sql_update captures captures_update
            (\<lambda>c. ca_id c = i \<and> ca_state c = C_claimed \<and> ca_claim_owner c = Some w \<and> ca_claim_epoch c = e)
            (\<lambda>c. c\<lparr>ca_state := target, ca_claim_owner := None, ca_claim_expires_at := None,
                   ca_consumed_source_ids := ids, ca_failure_category := category,
                   ca_revision := ca_revision c + 1, ca_updated_at := now\<rparr>)) g)))" (is "preserves _ ?m")
proof (rule preservesI)
  fix s assume I: "capture_inv s"
  let ?f = "\<lambda>c. c\<lparr>ca_state := target, ca_claim_owner := None, ca_claim_expires_at := None,
     ca_consumed_source_ids := ids, ca_failure_category := category,
     ca_revision := ca_revision c + 1, ca_updated_at := st_clock s (st_ticks s)\<rparr>"
  have "wp (g n) (\<lambda>_. capture_inv) (captures_update (update_where
      (\<lambda>c. ca_id c = i \<and> ca_state c = C_claimed \<and> ca_claim_owner c = Some w \<and> ca_claim_epoch c = e) ?f)
      (s\<lparr>st_ticks := t\<rparr>))"
    if "case ids of None \<Rightarrow> True | Some is \<Rightarrow> set is \<subseteq> set (sources s)" for n t
    using capture_ok_finish[OF assms(1) that]
    by (intro preservesD[OF assms(2)] capture_inv_update[where known = "sources s"] cap.I_ticks I)
      (auto simp: open_states_def)
  then show "wp ?m (\<lambda>_. capture_inv) s"
    by (auto simp: validate_capture_sources_def wp_rules list_all_iff subset_iff split: option.splits)
qed

lemma capture_detail_keeps [keeps]: "preserves I (capture_detail d)"
  unfolding capture_detail_def by (intro keeps)

lemma complete_capture_inv: "preserves capture_inv (complete_capture i w e out ids cat d a k)"
proof -
  have know: "wp (capture_outcome out ids cat) (\<lambda>x s'. (case x of (t, is, c) \<Rightarrow> outcome_shape t is c) \<and> capture_inv s') s"
    if "capture_inv s" for s
    using that by (intro wp_mono[OF capture_outcome_wp]) auto
  show ?thesis unfolding complete_capture_def
    by (intro keeps preserves_seq_know[OF know] finish_capture_inv) (auto intro!: keeps finish_capture_inv)
qed

lemma list_captures_inv: "preserves I (list_captures st n cur)"
  unfolding list_captures_def Let_def by (intro keeps)

section \<open>The life of a capture\<close>

text \<open>The contract of the lifecycle: which state may follow which, and what a step does to the other
  columns. The operations implement it: what any of them does to a row is a sequence of such steps.\<close>

fun capture_edge :: "capture_state \<Rightarrow> capture_state \<Rightarrow> bool" where
  "capture_edge C_pending to \<longleftrightarrow> to \<in> {C_approved, C_dismissed}"
| "capture_edge C_approved to \<longleftrightarrow> to \<in> {C_claimed, C_dismissed}"
| "capture_edge C_claimed to \<longleftrightarrow> to \<in> {C_consumed, C_failed, C_uncertain}"
| "capture_edge C_uncertain to \<longleftrightarrow> to \<in> {C_approved, C_dismissed}"
| "capture_edge _ to \<longleftrightarrow> False"

definition capture_identity :: "capture \<Rightarrow> string \<times> string \<times> string \<times> string \<times> string \<times> string option \<times> instant" where
  "capture_identity c = (ca_id c, ca_capture_key c, ca_payload c, ca_kind c, ca_note c, ca_known_source_id c,
     ca_created_at c)"

definition capture_step :: "capture \<Rightarrow> capture \<Rightarrow> bool" where
  "capture_step c c' \<longleftrightarrow> capture_edge (ca_state c) (ca_state c') \<and> capture_identity c' = capture_identity c
     \<and> ca_revision c' = ca_revision c + 1
     \<and> ca_claim_epoch c' = (if ca_state c' = C_claimed then ca_claim_epoch c + 1 else ca_claim_epoch c)"

abbreviation capture_evolves :: "capture \<Rightarrow> capture \<Rightarrow> bool" where
  "capture_evolves \<equiv> capture_step\<^sup>*\<^sup>*"

abbreviation captures_evolved :: "capture list \<Rightarrow> store \<Rightarrow> bool" where
  "captures_evolved old s \<equiv> rows_evolve capture_evolves old (captures s)"

definition capture_closed :: "capture_state \<Rightarrow> bool" where
  "capture_closed st \<longleftrightarrow> st \<in> {C_consumed, C_dismissed, C_failed}"

lemma capture_evolves_facts:
  "capture_evolves c c' \<Longrightarrow> capture_identity c' = capture_identity c
     \<and> ca_revision c \<le> ca_revision c' \<and> ca_claim_epoch c \<le> ca_claim_epoch c'
     \<and> (ca_revision c' = ca_revision c \<longrightarrow> c' = c)"
  by (induction rule: rtranclp_induct) (auto simp: capture_step_def)

lemma closed_capture_stays: "capture_evolves c c' \<Longrightarrow> capture_closed (ca_state c) \<Longrightarrow> c' = c"
  by (erule converse_rtranclpE) (auto simp: capture_step_def capture_closed_def)

lemma reclaim_raises_epoch:
  "capture_evolves c c' \<Longrightarrow> ca_state c \<noteq> C_claimed \<Longrightarrow> ca_state c' = C_claimed
     \<Longrightarrow> ca_claim_epoch c < ca_claim_epoch c'"
proof (induction rule: rtranclp_induct)
  case (step y z)
  from capture_evolves_facts[OF step.hyps(1)] step.hyps(2) step.prems show ?case
    by (auto simp: capture_step_def)
qed simp

lemma capture_evolves_append: "rows_evolve capture_evolves old cs \<Longrightarrow> rows_evolve capture_evolves cs cs' \<Longrightarrow> rows_evolve capture_evolves old cs'"
  by (drule (1) rows_evolve_trans) (erule rows_evolve_mono, auto)

interpretation capev: bookkeeping "captures_evolved old" for old
  by unfold_locales simp_all

lemma captures_evolved_update:
  assumes "\<And>c. P c \<Longrightarrow> capture_step c (f c)"
  shows "preserves (captures_evolved old) (sql_update captures captures_update P f)"
  by (rule preserves_sql_update)
    (use assms in \<open>auto elim!: capture_evolves_append intro!: rows_evolve_update_where\<close>)

lemma captures_evolved_insert:
  "preserves (captures_evolved old) (sql_insert e captures captures_update ca_id row)"
  by (rule preserves_sql_insert) (simp add: rows_evolve_append)

lemmas capture_step_simps = capture_step_def capture_identity_def

lemma insert_capture_evolves [keeps]: "preserves (captures_evolved old) (insert_capture p n k key)"
  unfolding insert_capture_def known_capture_source_def by (intro keeps captures_evolved_insert)

lemma create_capture_evolves: "preserves (captures_evolved old) (create_capture p n a k)"
  unfolding create_capture_def capture_note_def open_capture_def by (intro keeps)

lemma stage_capture_evolves: "preserves (captures_evolved old) (stage_capture p n)"
  unfolding stage_capture_def capture_note_def open_capture_def by (intro keeps)

lemma approve_capture_evolves: "preserves (captures_evolved old) (approve_capture i r a k)"
  unfolding approve_capture_def by (intro keeps captures_evolved_update) (auto simp: capture_step_simps)

lemma dismiss_capture_evolves: "preserves (captures_evolved old) (dismiss_capture i r a k)"
  unfolding dismiss_capture_def
  by (intro keeps captures_evolved_update) (auto simp: capture_step_simps capture_dismissable_def)

lemma reopen_capture_evolves: "preserves (captures_evolved old) (reopen_capture i r b a k)"
  unfolding reopen_capture_def by (intro keeps captures_evolved_update) (auto simp: capture_step_simps)

lemma sweep_captures_evolves [keeps]: "preserves (captures_evolved old) sweep_expired_captures"
  unfolding sweep_expired_captures_def
  by (intro keeps captures_evolved_update) (auto simp: capture_step_simps lease_expired_def)

lemma list_pending_captures_evolves: "preserves (captures_evolved old) (list_pending_captures n)"
  unfolding list_pending_captures_def by (intro keeps)

lemma claim_capture_evolves: "preserves (captures_evolved old) (claim_capture i w l a k)"
  unfolding claim_capture_def by (intro keeps captures_evolved_update) (auto simp: capture_step_simps)

lemma complete_capture_evolves: "preserves (captures_evolved old) (complete_capture i w e out ids cat d a k)"
proof -
  have know: "wp (capture_outcome out ids cat) (\<lambda>x s'. (case x of (t, is, c) \<Rightarrow> outcome_shape t is c) \<and> captures_evolved old s') s"
    if "captures_evolved old s" for s
    using that by (intro wp_mono[OF capture_outcome_wp]) auto
  show ?thesis unfolding complete_capture_def validate_capture_sources_def
    by (intro keeps preserves_seq_know[OF know] captures_evolved_update)
      (auto simp: capture_step_simps outcome_shape_def)
qed

section \<open>Every sequence of capture operations\<close>

inductive capture_cmd :: "store \<Rightarrow> store \<Rightarrow> bool" where
  create: "leads (create_capture p n a k) s s' \<Longrightarrow> capture_cmd s s'"
| stage: "leads (stage_capture p n) s s' \<Longrightarrow> capture_cmd s s'"
| approve: "leads (approve_capture i r a k) s s' \<Longrightarrow> capture_cmd s s'"
| dismiss: "leads (dismiss_capture i r a k) s s' \<Longrightarrow> capture_cmd s s'"
| reopen: "leads (reopen_capture i r b a k) s s' \<Longrightarrow> capture_cmd s s'"
| list_pending: "leads (list_pending_captures m) s s' \<Longrightarrow> capture_cmd s s'"
| claim: "leads (claim_capture i w l a k) s s' \<Longrightarrow> capture_cmd s s'"
| complete: "leads (complete_capture i w e out ids cat d a k) s s' \<Longrightarrow> capture_cmd s s'"

lemmas capture_inv_ops = create_capture_inv stage_capture_inv approve_capture_inv dismiss_capture_inv
  reopen_capture_inv list_pending_captures_inv claim_capture_inv complete_capture_inv

lemmas capture_evolves_ops = create_capture_evolves stage_capture_evolves approve_capture_evolves
  dismiss_capture_evolves reopen_capture_evolves list_pending_captures_evolves claim_capture_evolves
  complete_capture_evolves

lemma capture_cmd_inv: "capture_cmd s s' \<Longrightarrow> capture_inv s \<Longrightarrow> capture_inv s'"
  by (erule capture_cmd.cases) (auto intro: capture_inv_ops[THEN preserves_leads])

lemma capture_cmd_evolves: "capture_cmd s s' \<Longrightarrow> captures_evolved old s \<Longrightarrow> captures_evolved old s'"
  by (erule capture_cmd.cases) (auto intro: capture_evolves_ops[THEN preserves_leads])

lemma capture_cmds_evolve: "capture_cmd\<^sup>*\<^sup>* s s' \<Longrightarrow> captures_evolved (captures s) s'"
  by (induction rule: rtranclp_induct) (auto intro: rows_evolve_refl capture_cmd_evolves)

lemma capture_cmds_inv: "capture_cmd\<^sup>*\<^sup>* s s' \<Longrightarrow> capture_inv s \<Longrightarrow> capture_inv s'"
  by (induction rule: rtranclp_induct) (auto intro: capture_cmd_inv)

lemma capture_cmds_row:
  assumes "capture_cmd\<^sup>*\<^sup>* s s'" and "capture_inv s" and "c \<in> set (captures s)"
    and "c' \<in> set (captures s')" and "ca_id c' = ca_id c"
  shows "capture_evolves c c'"
proof -
  obtain d where "d \<in> set (captures s')" "capture_evolves c d"
    using rows_evolve_in[OF capture_cmds_evolve[OF assms(1)] assms(3)] by blast
  moreover from this have "ca_id d = ca_id c'"
    using capture_evolves_facts assms(5) by (auto simp: capture_identity_def)
  moreover have "distinct (map ca_id (captures s'))"
    using capture_cmds_inv[OF assms(1,2)] by (simp add: capture_inv_def)
  ultimately show ?thesis using assms(4) by (auto simp: distinct_map dest: inj_onD)
qed

text \<open>The fence. A token (owner, epoch) is honoured only by a row that is claimed at that epoch.\<close>

lemma complete_capture_token:
  assumes "\<forall>c \<in> set (captures s). ca_id c = i \<longrightarrow> ca_state c = C_claimed \<longrightarrow> ca_claim_epoch c \<noteq> e"
  shows "wp (complete_capture i w e out ids cat d a k) (\<lambda>r s'. cr_replayed r \<and> s' = s) s"
proof -
  have none: "row_count (\<lambda>c. ca_id c = i \<and> ca_state c = C_claimed \<and> ca_claim_owner c = Some v
      \<and> ca_claim_epoch c = e) (captures s) \<noteq> Suc 0" for v
    using assms row_count_zero[THEN iffD2, of "captures s" "\<lambda>c. ca_id c = i \<and> ca_state c = C_claimed
      \<and> ca_claim_owner c = Some v \<and> ca_claim_epoch c = e"] by simp
  show ?thesis
    unfolding complete_capture_def
    by (intro wp_seq_pure[OF preserves_required_text] wp_seq_pure[OF preserves_guard] wp_prodI
        wp_seq_pure[OF capture_outcome_keeps] wp_seq_pure[OF capture_detail_keeps] command_refused)
      (simp add: wp_rules validate_capture_sources_def get_capture_def none split: option.splits)
qed

section \<open>The key of a payload\<close>

lemma lower_hostinfo_lower: "lower (lower_hostinfo h) = lower h"
proof -
  have "lower (a @ sep @ b) = lower h" if "partition_at c h = (a, sep, b)" for c a sep b
    using partition_at_concat[OF that] by simp
  moreover have "lower (''['' @ a @ sep @ b) = lower h"
    if "partition_at c (drop 1 h) = (a, sep, b)" and "take 1 h = ''[''" for c a sep b
    using partition_at_concat[OF that(1)] append_take_drop_id[of 1 h] that(2) by metis
  ultimately show ?thesis by (auto simp: lower_hostinfo_def split: prod.split)
qed

lemma split_scheme_shape:
  assumes "split_scheme url = (scheme, rest)" and "scheme \<noteq> []"
  shows "\<exists>before. lower before = scheme \<and> url = before @ '':'' @ rest"
proof -
  obtain before colon after where *: "partition_at (CHR '':'') url = (before, colon, after)"
    by (cases "partition_at (CHR '':'') url")
  with assms have "lower before = scheme" "after = rest" "colon \<noteq> []"
    by (auto simp: split_scheme_def split: if_splits)
  moreover from this(3) * have "colon = '':''" by (auto simp: partition_at_def Let_def split: if_splits)
  ultimately show ?thesis using partition_at_concat[OF *] by blast
qed

lemma split_netloc_shape:
  assumes "split_netloc rest = netloc" and "netloc \<noteq> []"
  shows "\<exists>path. rest = ''//'' @ netloc @ path"
proof -
  from assms have "take 2 rest = ''//''" by (auto simp: split_netloc_def split: if_splits)
  then have "rest = ''//'' @ drop 2 rest" by (metis append_take_drop_id)
  moreover have "drop 2 rest = netloc
      @ dropWhile (\<lambda>c. c \<noteq> CHR ''/'' \<and> c \<noteq> CHR ''?'' \<and> c \<noteq> CHR ''#'') (drop 2 rest)"
    using assms by (auto simp: split_netloc_def split: if_splits)
  ultimately show ?thesis by metis
qed

text \<open>A trimmed payload with no control character reaches the splitter as it is.\<close>

lemma urlsplit_clean:
  assumes "\<forall>c \<in> set url. \<not> code c < 32" and "strip url = url"
  shows "filter (\<lambda>c. code c \<noteq> 9 \<and> code c \<noteq> 10 \<and> code c \<noteq> 13) (dropWhile (\<lambda>c. code c \<le> 32) url) = url"
proof -
  have "\<not> code (hd url) \<le> 32" if "url \<noteq> []"
  proof
    assume "code (hd url) \<le> 32"
    moreover have "\<not> code (hd url) < 32" using assms(1) that by simp
    ultimately have "code (hd url) = 32" by simp
    then have "is_space (hd url)" by (simp add: is_space_def)
    then have "length (dropWhile is_space url) < length url"
      using that by (cases url) (auto intro: le_less_trans[OF length_dropWhile_le])
    moreover have "length (strip url) \<le> length (dropWhile is_space url)"
      unfolding strip_def by (metis length_dropWhile_le length_rev)
    ultimately show False using assms(2) by simp
  qed
  then have "dropWhile (\<lambda>c. code c \<le> 32) url = url" by (cases url) auto
  moreover have "filter (\<lambda>c. code c \<noteq> 9 \<and> code c \<noteq> 10 \<and> code c \<noteq> 13) url = url"
    using assms(1) by (intro filter_True) auto
  ultimately show ?thesis by simp
qed

lemma url_key_lower:
  assumes url: "payload = before @ ''://'' @ netloc @ path" and "lower before = scheme"
    and "rpartition_at (CHR ''@'') netloc = (userinfo, separator, hostinfo)"
  shows "lower (lower (take (length scheme) payload)
      @ take (length scheme + length ''://'' - length scheme) (drop (length scheme) payload)
      @ userinfo @ separator @ lower_hostinfo hostinfo
      @ drop (length scheme + length ''://'' + length netloc) payload) = lower payload"
proof -
  have len: "length scheme = length before" using assms(2) by auto
  have "take (length scheme) payload = before" "drop (length scheme) payload = ''://'' @ netloc @ path"
    "drop (length scheme + length ''://'' + length netloc) payload = path"
    using url len by (simp_all add: eval_nat_numeral)
  moreover have "lower netloc = lower (userinfo @ separator @ hostinfo)"
    using rpartition_at_concat[OF assms(3)] by simp
  ultimately show ?thesis using url lower_hostinfo_lower by simp
qed

lemma capture_shape_lower:
  assumes "strip payload = payload" and "capture_shape netloc_ok payload = (kind, key)"
  shows "lower key = lower payload"
proof (cases "kind = ''url''")
  case False
  with assms(2) have "key = payload"
    by (auto simp: capture_shape_def Let_def split: if_splits option.splits prod.splits)
  then show ?thesis by simp
next
  case True
  with assms(2) obtain scheme netloc where u: "urlsplit netloc_ok payload = Some (scheme, netloc)"
    and clean: "\<forall>c \<in> set payload. \<not> code c < 32" and sch: "scheme \<noteq> []" and host: "host_of netloc \<noteq> []"
    by (auto simp: capture_shape_def Let_def split: if_splits option.splits prod.splits)
  from host have net: "netloc \<noteq> []"
    by (auto simp: host_of_def rpartition_at_def partition_at_def)
  from u obtain rest where "split_scheme payload = (scheme, rest)" "split_netloc rest = netloc"
    unfolding urlsplit_def urlsplit_clean[OF clean assms(1)] Let_def
    by (auto split: prod.splits if_splits)
  with sch net obtain before path where "lower before = scheme" "payload = before @ ''://'' @ netloc @ path"
    using split_scheme_shape split_netloc_shape by fastforce
  moreover obtain userinfo sep hostinfo where "rpartition_at (CHR ''@'') netloc = (userinfo, sep, hostinfo)"
    by (cases "rpartition_at (CHR ''@'') netloc")
  ultimately show ?thesis
    using url_key_lower[of payload before netloc path scheme userinfo sep hostinfo] assms(2) u clean True
    by (auto simp: capture_shape_def Let_def split: if_splits)
qed

section \<open>Reading the inbox\<close>

definition inbox :: "capture_state option \<Rightarrow> store \<Rightarrow> capture list" where
  "inbox st s = select_by capture_order
     (\<lambda>c. case st of None \<Rightarrow> True | Some x \<Rightarrow> ca_state c = x) (captures s)"

definition page_of :: "nat \<Rightarrow> capture list \<Rightarrow> capture list \<times> string option" where
  "page_of n rows = (take n rows, if n < length rows then Some (ca_id (rows ! (n - 1))) else None)"

lemma page_of_selected:
  assumes "0 < n"
  shows "(take n (take (Suc n) rows), if n < length (take (Suc n) rows) \<and> take n (take (Suc n) rows) \<noteq> []
     then Some (ca_id (last (take n (take (Suc n) rows)))) else None) = page_of n rows"
proof (cases "n < length rows")
  case True
  then have "last (take n rows) = rows ! (n - 1)"
    using assms by (subst last_conv_nth) auto
  moreover have "take n rows \<noteq> []" using True assms by auto
  ultimately show ?thesis using True by (simp add: page_of_def min_def)
qed (simp add: page_of_def)

lemma list_captures_first:
  assumes "list_limit_ok limit"
  shows "list_captures st limit None s = Inr (page_of (nat limit) (inbox st s), s)"
proof -
  have n: "nat (limit + 1) = Suc (nat limit)" "0 < nat limit" using assms by (auto simp: list_limit_ok_def)
  show ?thesis
    using assms by (simp add: list_captures_def Let_def n(1) cmd_defs inbox_def
        flip: page_of_selected[OF n(2)])
qed

lemma list_captures_from:
  assumes "list_limit_ok limit" and "find_row ca_id (ca_id r) (captures s) = Some r"
  shows "list_captures st limit (Some (ca_id r)) s
    = Inr (page_of (nat limit) (filter (\<lambda>c. capture_order r < capture_order c) (inbox st s)), s)"
proof -
  have n: "nat (limit + 1) = Suc (nat limit)" "0 < nat limit" using assms(1) by (auto simp: list_limit_ok_def)
  have "select_by capture_order (\<lambda>c. (case st of None \<Rightarrow> True | Some x \<Rightarrow> ca_state c = x)
      \<and> (text_key (ca_created_at r), ca_id r) < capture_order c) (captures s)
      = filter (\<lambda>c. capture_order r < capture_order c) (inbox st s)"
    by (simp add: select_by_filter inbox_def capture_order_def)
  with assms show ?thesis
    by (simp add: list_captures_def Let_def n(1) cmd_defs flip: page_of_selected[OF n(2)])
qed

lemma capture_order_distinct: "distinct (map ca_id cs) \<Longrightarrow> distinct (map capture_order cs)"
  by (auto simp: distinct_map inj_on_def capture_order_def)

lemma inbox_after:
  assumes "capture_inv s" and "j < length (inbox st s)"
  shows "find_row ca_id (ca_id (inbox st s ! j)) (captures s) = Some (inbox st s ! j)"
    and "filter (\<lambda>c. capture_order (inbox st s ! j) < capture_order c) (inbox st s) = drop (Suc j) (inbox st s)"
proof -
  have ids: "distinct (map ca_id (captures s))" using assms(1) by (simp add: capture_inv_def)
  have "inbox st s ! j \<in> set (inbox st s)" using assms(2) by simp
  then have "inbox st s ! j \<in> set (captures s)" by (simp add: inbox_def)
  with ids show "find_row ca_id (ca_id (inbox st s ! j)) (captures s) = Some (inbox st s ! j)"
    by (rule find_row_unique)
  show "filter (\<lambda>c. capture_order (inbox st s ! j) < capture_order c) (inbox st s) = drop (Suc j) (inbox st s)"
    using assms(2) sorted_select_by distinct_select_by[OF capture_order_distinct[OF ids]]
    unfolding inbox_def by (intro filter_after_nth)
qed

text \<open>C25. Paging through the inbox. In a well-formed store the first page of a filtered list is its first
  \<open>limit\<close> rows, in the order of creation, and the page after the cursor of the row at place \<open>j\<close> is the
  next \<open>limit\<close> rows from place \<open>j + 1\<close>, with the cursor of its last row when there are more: whatever page
  sizes a client uses, following the cursors loses no capture and repeats none.\<close>

theorem list_captures_pages:
  assumes "capture_inv s" and "1 \<le> limit" and "limit \<le> 1000"
  shows "list_captures st limit None s = Inr (page_of (nat limit) (inbox st s), s)
    \<and> (\<forall>j < length (inbox st s). list_captures st limit (Some (ca_id (inbox st s ! j))) s
         = Inr (page_of (nat limit) (drop (Suc j) (inbox st s)), s))"
proof -
  have lim: "list_limit_ok limit" using assms(2,3) by (simp add: list_limit_ok_def)
  show ?thesis
    using list_captures_first[OF lim] list_captures_from[OF lim inbox_after(1)[OF assms(1)]]
      inbox_after(2)[OF assms(1)] by simp
qed

definition demo_capture :: "command_result op" where
  "demo_capture = create_capture '' https://Example.org/A '' ''note'' ''op'' demo_key"

definition demo_two :: store where
  "demo_two = state_after (seq demo_capture (\<lambda>_. stage_capture ''a text'' [])) demo_store"

theorem list_captures_pages_witness:
  "list_captures None 1 None demo_two = Inr (page_of 1 (inbox None demo_two), demo_two)
   \<and> list_captures None 1 (Some (ca_id (inbox None demo_two ! 0))) demo_two
     = Inr (page_of 1 (drop 1 (inbox None demo_two)), demo_two)
   \<and> length (inbox None demo_two) = 2"
proof -
  have "capture_inv demo_two" by code_simp
  moreover have len: "length (inbox None demo_two) = 2" by code_simp
  ultimately show ?thesis using list_captures_pages[of demo_two 1 None] by simp
qed

definition blocked_verdict :: "audit_row \<Rightarrow> string option" where
  "blocked_verdict row = (case jget ''blocked_by'' (au_payload row) of
     Some (JStr v) \<Rightarrow> if v \<noteq> [] then Some v else None | _ \<Rightarrow> None)"

lemma blocked_step_verdict: "blocked_step row b = b(au_aggregate_id row := blocked_verdict row)"
  by (auto simp: blocked_step_def blocked_verdict_def split: option.splits json.splits)

lemma fold_blocked_step:
  "fold blocked_step rows Map.empty i =
     (let found = filter (\<lambda>r. au_aggregate_id r = i) rows
      in if found = [] then None else blocked_verdict (last found))"
proof (induction rows rule: rev_induct)
  case (snoc row rows)
  then show ?case by (auto simp: blocked_step_verdict Let_def)
qed simp

text \<open>C28. \<open>capture_blocked_by\<close> answers from the newest \<open>capture.uncertain\<close> row of each capture it is asked
  about: what that row names, or nothing when it names nothing (an older row that named something is
  not brought back), and nothing for any other capture.\<close>

theorem capture_blocked_by_newest:
  "\<exists>m. capture_blocked_by ids s = Inr (m, s) \<and>
     (\<forall>i. m i = (let found = filter (\<lambda>r. au_aggregate_type r = ''capture''
                    \<and> au_type r = ''capture.uncertain'' \<and> au_aggregate_id r = i) (control_audit s)
                 in if i \<in> set ids \<and> found \<noteq> [] then blocked_verdict (last found) else None))"
proof -
  have found: "filter (\<lambda>r. au_aggregate_id r = i) (filter (\<lambda>r. au_aggregate_type r = ''capture''
        \<and> au_aggregate_id r \<in> set ids \<and> au_type r = ''capture.uncertain'') rows)
      = (if i \<in> set ids then filter (\<lambda>r. au_aggregate_type r = ''capture'' \<and> au_type r = ''capture.uncertain''
           \<and> au_aggregate_id r = i) rows else [])" for i rows
    by (induction rows) auto
  show ?thesis
    unfolding capture_blocked_by_def gets_def
    by (intro exI conjI allI refl)
      (use found[of _ "control_audit s"] in \<open>auto simp only: fold_blocked_step Let_def simp_thms if_True if_False split: if_split\<close>)
qed

section \<open>Properties of the lifecycle\<close>

text \<open>C17. The life of a capture. Whatever capture operations are executed, in whatever order, a row moves
  along the edges of \<open>capture_edge\<close> only: its id, key, payload, note and time of creation never change,
  every change raises the revision, the claim epoch never falls, and a consumed, dismissed or failed
  capture is never changed again.\<close>

theorem capture_lifecycle:
  assumes "capture_cmd\<^sup>*\<^sup>* s s'" and "capture_inv s" and "c \<in> set (captures s)"
  shows "\<exists>c' \<in> set (captures s'). capture_evolves c c' \<and> capture_identity c' = capture_identity c
     \<and> ca_claim_epoch c \<le> ca_claim_epoch c' \<and> ca_revision c \<le> ca_revision c'
     \<and> (ca_revision c' = ca_revision c \<longrightarrow> c' = c) \<and> (capture_closed (ca_state c) \<longrightarrow> c' = c)"
proof -
  obtain c' where "c' \<in> set (captures s')" and c': "capture_evolves c c'"
    using rows_evolve_in[OF capture_cmds_evolve[OF assms(1)] assms(3)] by blast
  with capture_evolves_facts[OF c'] closed_capture_stays[OF c'] show ?thesis by blast
qed

definition demo_claimed :: store where
  "demo_claimed = state_after (seq demo_capture (\<lambda>_.
     seq (approve_capture ''capture_'' 0 ''op'' demo_key) (\<lambda>_.
     claim_capture ''capture_'' ''worker'' 30 ''op'' demo_key))) demo_store"

definition demo_complete :: "command_result op" where
  "demo_complete = complete_capture ''capture_'' ''worker'' 1 ''failed'' None (Some ''invalid_source'') []
     ''op'' demo_key"

definition demo_failed :: store where
  "demo_failed = state_after demo_complete demo_claimed"

lemma demo_capture_steps:
  "capture_inv demo_claimed" "capture_inv demo_failed" "capture_cmd demo_claimed demo_failed"
  "succeeds demo_complete demo_claimed"
proof -
  show "capture_inv demo_claimed" "capture_inv demo_failed" "succeeds demo_complete demo_claimed" by code_simp+
  then show "capture_cmd demo_claimed demo_failed"
    unfolding demo_failed_def demo_complete_def by (intro capture_cmd.complete[OF leads_after])
qed

theorem capture_lifecycle_witness:
  "ca_state (captures demo_claimed ! 0) = C_claimed
   \<and> (\<exists>c' \<in> set (captures demo_failed). capture_evolves (captures demo_claimed ! 0) c')"
proof -
  have "captures demo_claimed ! 0 \<in> set (captures demo_claimed)"
    and "ca_state (captures demo_claimed ! 0) = C_claimed" by code_simp+
  with capture_lifecycle[OF r_into_rtranclp, OF demo_capture_steps(3,1)] show ?thesis by blast
qed

text \<open>C18. Stale claims are fenced off. Once a capture has left the claim with epoch \<open>e\<close> (completed, or its
  lease ran out), no sequence of operations lets \<open>complete_capture\<close> take effect under that epoch again:
  the call is refused, or it is the replay of a receipt and changes nothing.\<close>

theorem stale_capture_token:
  assumes "capture_cmd\<^sup>*\<^sup>* s s'" and "capture_inv s" and "c \<in> set (captures s)"
    and "ca_state c \<noteq> C_claimed" and "e \<le> ca_claim_epoch c"
    and "complete_capture (ca_id c) w e out ids cat d a k s' = Inr (r, t)"
  shows "cr_replayed r \<and> t = s'"
proof -
  have "ca_claim_epoch c' \<noteq> e" if "c' \<in> set (captures s')" "ca_id c' = ca_id c" "ca_state c' = C_claimed" for c'
    using reclaim_raises_epoch[OF capture_cmds_row[OF assms(1-3) that(1,2)] assms(4) that(3)] assms(5) by simp
  then show ?thesis by (intro wpD[OF complete_capture_token assms(6)]) blast
qed

theorem stale_capture_token_witness:
  "case demo_complete demo_failed of Inl e \<Rightarrow> False | Inr (r, t) \<Rightarrow> cr_replayed r \<and> t = demo_failed"
proof -
  let ?c = "captures demo_failed ! 0"
  have c: "?c \<in> set (captures demo_failed)" "ca_state ?c \<noteq> C_claimed" "1 \<le> ca_claim_epoch ?c"
    "ca_id ?c = ''capture_''" "succeeds demo_complete demo_failed" by code_simp+
  from c(5) obtain r t where eq: "demo_complete demo_failed = Inr (r, t)"
    by (auto simp: succeeds_def split: sum.splits)
  note fenced = stale_capture_token[OF rtranclp.rtrancl_refl demo_capture_steps(2) c(1-3), unfolded c(4)]
  have "cr_replayed r \<and> t = demo_failed"
    using eq unfolding demo_complete_def by (rule fenced)
  with eq show ?thesis by simp
qed

text \<open>C27. The key of a payload. Trimming apart, it is the payload with nothing but the case of letters
  changed, so two payloads share a key only when they agree up to case; and the key of a payload that is
  not a web address is the trimmed payload itself.\<close>

theorem capture_key_faithful:
  "case capture_shape netloc_ok (strip payload) of (kind, key) \<Rightarrow>
     lower key = lower (strip payload) \<and> length key = length (strip payload)
     \<and> (kind = ''url'' \<or> kind = ''text'' \<and> key = strip payload)"
proof -
  obtain kind key where eq: "capture_shape netloc_ok (strip payload) = (kind, key)"
    by (cases "capture_shape netloc_ok (strip payload)")
  have low: "lower key = lower (strip payload)" using capture_shape_lower[OF strip_idem eq] .
  from arg_cong[OF low, of length] have "length key = length (strip payload)" by simp
  moreover have "kind = ''url'' \<or> kind = ''text'' \<and> key = strip payload"
    using eq by (auto simp: capture_shape_def Let_def split: if_splits option.splits prod.splits)
  ultimately show ?thesis using eq low by simp
qed

text \<open>C26. One open capture for each key. While a capture of a key is open, staging a payload with that key
  answers with that capture and stores nothing, and a new \<open>create_capture\<close> is refused with it.\<close>

theorem open_capture_deduplicates:
  assumes "capture_inv s" and "c \<in> set (captures s)" and "ca_state c \<in> set open_states"
    and "capture_shape (st_netloc_ok s) (strip payload) = (kind, ca_capture_key c)"
    and "strip payload \<noteq> []" and "int (length payload) \<le> 16384" and "int (length note) \<le> 2000"
    and "valid_key k"
    and "find_row receipt_key (a, ''POST:/api/v1/captures'', k) (idempotency_receipts s) = None"
  shows "stage_capture payload note s = Inr ((c, True), s)
    \<and> create_capture payload note a k s = Inl (CaptureConflict (capture_json c))"
proof -
  let ?open = "\<lambda>c'. ca_capture_key c' = ca_capture_key c \<and> ca_state c' \<in> set open_states"
  obtain c' where c': "first_by capture_order ?open (captures s) = Some c'"
    using assms(2,3) first_by_None[of capture_order ?open "captures s"] by (cases "first_by capture_order ?open (captures s)") auto
  have "inj_on ca_capture_key (set (filter (\<lambda>c. ca_state c \<in> set open_states) (captures s)))"
    using assms(1) by (simp add: capture_inv_def distinct_map)
  then have "c' = c" using first_by_Some[OF c'] assms(2,3) by (auto dest: inj_onD)
  then have "open_capture (ca_capture_key c) s = Inr (Some c, s)"
    using c' by (simp add: open_capture_def gets_def)
  with assms(4-) show ?thesis
    by (simp add: stage_capture_def create_capture_def required_text_def capture_note_def command_def
        find_receipt_def validate_key_def cmd_defs)
qed

theorem open_capture_deduplicates_witness:
  "stage_capture ''HTTPS://example.ORG/A'' [] demo_claimed = Inr ((captures demo_claimed ! 0, True), demo_claimed)"
proof -
  let ?c = "captures demo_claimed ! 0"
  have "?c \<in> set (captures demo_claimed)" "ca_state ?c \<in> set open_states"
    "capture_shape (st_netloc_ok demo_claimed) (strip ''HTTPS://example.ORG/A'') = (''url'', ca_capture_key ?c)"
    "strip ''HTTPS://example.ORG/A'' \<noteq> []" "int (length ''HTTPS://example.ORG/A'') \<le> 16384"
    "int (length ([] :: string)) \<le> 2000" "valid_key ''demo-key-00000002''"
    "find_row receipt_key (''op'', ''POST:/api/v1/captures'', ''demo-key-00000002'')
       (idempotency_receipts demo_claimed) = None"
    by code_simp+
  from open_capture_deduplicates[OF demo_capture_steps(1) this] show ?thesis by blast
qed

interpretation caprows: bookkeeping "\<lambda>s. captures s = cs" for cs
  by unfold_locales simp_all

abbreviation lapse :: "instant \<Rightarrow> capture \<Rightarrow> capture" where
  "lapse now c \<equiv> c\<lparr>ca_state := C_uncertain, ca_claim_owner := None, ca_claim_expires_at := None,
     ca_failure_category := Some ''outcome_unknown'', ca_revision := ca_revision c + 1, ca_updated_at := now\<rparr>"

lemma sweep_captures:
  "wp sweep_expired_captures (\<lambda>_ s'. captures s'
     = update_where (lease_expired (st_clock s (st_ticks s))) (lapse (st_clock s (st_ticks s))) (captures s)) s"
    (is "wp _ (\<lambda>_ s'. captures s' = ?cs) s")
proof -
  have audits: "wp (seq (for_each (\<lambda>i. audit ''capture'' i ''capture.lease_expired'' p) ids) (\<lambda>_. ret ()))
      (\<lambda>_ s'. captures s' = ?cs) s'" if "captures s' = ?cs" for ids p s'
    using that by (intro preservesD[where I = "\<lambda>s'. captures s' = ?cs"]) (intro keeps)
  show ?thesis
    unfolding sweep_expired_captures_def wp_seq[where m = utc_now] wp_seq[where m = "gets _"]
      wp_seq[where m = "sql_update _ _ _ _"] wp_utc_now wp_gets wp_sql_update wp_if wp_ret
    by (auto simp: filter_empty_conv update_where_None intro!: audits)
qed

text \<open>C29. When a lease counts as run out. The time stamps are compared as texts, so the instant is exact up to
  less than a second: a pass over the inbox moves every capture whose lease ended a second or more ago to
  \<open>uncertain\<close>, and leaves every capture whose lease has a second or more to run as it is.\<close>

theorem lease_expiry_bounds:
  assumes "list_pending_captures limit s = Inr (page, s')" and "c \<in> set (captures s)"
    and "ca_state c = C_claimed" and "ca_claim_expires_at c = Some t"
  shows "(t + seconds 1 \<le> st_clock s (st_ticks s) \<longrightarrow> lapse (st_clock s (st_ticks s)) c \<in> set (captures s'))
    \<and> (st_clock s (st_ticks s) + seconds 1 \<le> t \<longrightarrow> c \<in> set (captures s'))"
proof -
  let ?now = "st_clock s (st_ticks s)"
  have "wp (list_pending_captures limit) (\<lambda>_ s'. captures s'
      = update_where (lease_expired ?now) (lapse ?now) (captures s)) s"
    unfolding list_pending_captures_def wp_seq wp_guard wp_gets using sweep_captures by blast
  from wpD[OF this assms(1)]
  have "captures s' = update_where (lease_expired ?now) (lapse ?now) (captures s)" .
  moreover have "lease_expired ?now c \<longleftrightarrow> text_le t ?now" using assms(3,4) by (simp add: lease_expired_def)
  moreover have "t + seconds 1 \<le> ?now \<Longrightarrow> text_le t ?now" by (simp add: seconds_def text_le_second_later)
  moreover have "?now + seconds 1 \<le> t \<Longrightarrow> \<not> text_le t ?now"
    using text_le_before[of t ?now] by (auto simp: seconds_def)
  ultimately show ?thesis using assms(2) by (auto simp: in_update_where)
qed

theorem lease_expiry_bounds_witness:
  "\<exists>page s'. list_pending_captures 10 (demo_claimed\<lparr>st_ticks := 40\<rparr>) = Inr (page, s')
     \<and> lapse 60000000 (captures demo_claimed ! 0) \<in> set (captures s')"
proof -
  let ?s = "demo_claimed\<lparr>st_ticks := 40\<rparr>"
  have *: "captures ?s ! 0 \<in> set (captures ?s)" "ca_state (captures ?s ! 0) = C_claimed"
    "ca_claim_expires_at (captures ?s ! 0) = Some 40500000" "st_clock ?s (st_ticks ?s) = 60000000"
    "succeeds (list_pending_captures 10) ?s" by code_simp+
  then obtain page s' where "list_pending_captures 10 ?s = Inr (page, s')"
    by (auto simp: succeeds_def split: sum.splits)
  with lease_expiry_bounds[OF this *(1-3), unfolded *(4)] show ?thesis by (auto simp: seconds_def)
qed

end
