(* ===== verification/Control_Actions.thy ===== *)
theory Control_Actions
  imports Control_Decisions
begin

text \<open>
  Runtime actions: the outbox of what the control plane wants a runtime to do (resolve a decision, pause,
  cancel). A worker claims an action under a lease, delivers it and settles it: it was done
  (\<open>acknowledge_runtime_action\<close>), it failed and its run with it (\<open>fail_runtime_action\<close>), the runtime
  refused it (\<open>reject_runtime_action\<close>), or nobody knows (\<open>mark_runtime_action_outcome_unknown\<close>), in which
  case a reconciler claims it (\<open>claim_runtime_action_reconciliation\<close>), and settles it, puts it off
  (\<open>defer_runtime_action_reconciliation\<close>) or has it delivered again (\<open>retry_runtime_action_delivery\<close>).

  \<open>settle_action\<close> is the transaction that the last six share: load the action, check the fence of the
  lease, load the run at its revision, update the action under the fence, and what differs (\<open>after\<close>).
  The conditions that the source checks in one conjunction fail with one error, so their order is not
  visible.
\<close>

section \<open>Lists\<close>

definition free_or_expired :: "string option \<Rightarrow> instant option \<Rightarrow> instant \<Rightarrow> bool" where
  "free_or_expired owner expires_at now =
     (owner = None \<or> (case expires_at of None \<Rightarrow> False | Some t \<Rightarrow> text_le t now))"

definition deliverable :: "run \<Rightarrow> runtime_action \<Rightarrow> bool" where
  "deliverable r a = (ra_kind a = ''decision.resolve'' \<and> rn_state r = R_resuming
     \<or> ra_kind a = ''control.pause'' \<and> rn_state r = R_pause_requested
     \<or> ra_kind a = ''control.cancel'' \<and> rn_state r = R_cancel_requested)"

definition list_pending_runtime_actions :: "json list op" where
  "list_pending_runtime_actions =
     seq utc_now (\<lambda>now.
     gets (\<lambda>s. map runtime_action_json (select_by action_order
       (\<lambda>a. ra_state a = A_pending \<and> ra_outcome_state a = O_ready
          \<and> list_ex (\<lambda>r. rn_id r = ra_run_id a \<and> rn_active_attempt_id r = Some (ra_attempt_id a)
               \<and> deliverable r a) (runs s)
          \<and> free_or_expired (ra_claim_owner a) (ra_claim_expires_at a) now) (runtime_actions s))))"

definition reconcilable :: "instant \<Rightarrow> runtime_action \<Rightarrow> bool" where
  "reconcilable now a = (ra_state a = A_pending \<and> (ra_outcome_state a = O_outcome_unknown
     \<or> ra_outcome_state a = O_reconcile
       \<and> (case ra_claim_expires_at a of None \<Rightarrow> False | Some t \<Rightarrow> text_le t now)))"

definition list_runtime_actions_requiring_reconciliation :: "int \<Rightarrow> json list op" where
  "list_runtime_actions_requiring_reconciliation limit =
     seq (guard (1 \<le> limit \<and> limit \<le> 1000) (ValueError ''limit must be between 1 and 1000'')) (\<lambda>_.
     seq utc_now (\<lambda>now.
     gets (\<lambda>s. map runtime_action_json
       (take (nat limit) (select_by action_order (reconcilable now) (runtime_actions s))))))"

section \<open>Claims\<close>

definition lease_seconds_ok :: "int \<Rightarrow> unit op" where
  "lease_seconds_ok n = guard (1 \<le> n \<and> n \<le> 300) (ValueError ''lease_seconds must be between 1 and 300'')"

definition positive_epoch :: "int \<Rightarrow> unit op" where
  "positive_epoch n = guard (1 \<le> n) (ValueError ''claim_epoch must be a positive integer'')"

definition lease_request :: "string \<Rightarrow> int \<Rightarrow> json" where
  "lease_request worker_id lease_seconds =
     JObj [(''worker_id'', JStr worker_id), (''lease_seconds'', JInt lease_seconds)]"

text \<open>\<open>_claim_replay_is_current\<close>.\<close>

definition claim_replay_is_current ::
    "bool \<Rightarrow> string option \<Rightarrow> int \<Rightarrow> instant option \<Rightarrow> string \<Rightarrow> json option \<Rightarrow> bool op" where
  "claim_replay_is_current pending owner epoch expires_at worker_id claim_epoch =
     (if pending then claim_fence_is_current owner epoch expires_at worker_id claim_epoch else ret False)"

definition action_replay_is_current :: "runtime_action \<Rightarrow> string \<Rightarrow> command_result \<Rightarrow> bool op" where
  "action_replay_is_current a worker_id replay =
     claim_replay_is_current (ra_state a = A_pending) (ra_claim_owner a) (ra_claim_epoch a)
       (ra_claim_expires_at a) worker_id (jget ''claim_epoch'' (cr_value replay))"

definition undeliverable :: "run \<Rightarrow> runtime_action \<Rightarrow> bool" where
  "undeliverable r a = (rn_active_attempt_id r \<noteq> Some (ra_attempt_id a)
     \<or> ra_kind a = ''decision.resolve'' \<and> rn_state r \<noteq> R_resuming
     \<or> ra_kind a = ''control.pause'' \<and> rn_state r \<noteq> R_pause_requested
     \<or> ra_kind a = ''control.cancel'' \<and> rn_state r \<noteq> R_cancel_requested)"

definition claim_runtime_action :: "string \<Rightarrow> string \<Rightarrow> int \<Rightarrow> string \<Rightarrow> string \<Rightarrow> command_result op" where
  "claim_runtime_action action_id worker_id lease_seconds actor_id idempotency_key =
     seq (required_text worker_id ''worker_id'' 200) (\<lambda>worker_id.
     seq (lease_seconds_ok lease_seconds) (\<lambda>_.
     command_checked actor_id (''POST:/internal/v1/runtime-actions/'' @ action_id @ ''/claim'') idempotency_key
       (lease_request worker_id lease_seconds) 200
     (\<lambda>replay. seq (get_runtime_action action_id) (\<lambda>current.
        action_replay_is_current current worker_id replay))
     (InvalidTransition ''stale_claim_receipt'' ''claimed'')
     (seq (get_runtime_action action_id) (\<lambda>action.
      seq (guard (ra_state action = A_pending \<and> ra_outcome_state action = O_ready)
             (InvalidTransition (action_state_name (ra_state action)) ''claimed'')) (\<lambda>_.
      seq (get_run (ra_run_id action)) (\<lambda>run.
      seq (guard (\<not> undeliverable run action)
             (InvalidTransition (run_state_name (rn_state run)) ''claimed'')) (\<lambda>_.
      seq utc_now (\<lambda>now.
      seq (sql_update runtime_actions runtime_actions_update
             (\<lambda>a. ra_id a = action_id \<and> ra_state a = A_pending \<and> ra_outcome_state a = O_ready
                \<and> free_or_expired (ra_claim_owner a) (ra_claim_expires_at a) now)
             (\<lambda>a. a\<lparr>ra_claim_owner := Some worker_id,
                    ra_claim_expires_at := Some (now + seconds lease_seconds),
                    ra_claim_epoch := ra_claim_epoch a + 1\<rparr>)) (\<lambda>rowcount.
      seq (guard (rowcount = 1) (InvalidTransition ''already_claimed'' ''claimed'')) (\<lambda>_.
      seq (get_runtime_action action_id) (\<lambda>value. ret (runtime_action_json value))))))))))))"

definition claim_runtime_action_reconciliation ::
    "string \<Rightarrow> string \<Rightarrow> int \<Rightarrow> string \<Rightarrow> string \<Rightarrow> command_result op" where
  "claim_runtime_action_reconciliation action_id worker_id lease_seconds actor_id idempotency_key =
     seq (required_text worker_id ''worker_id'' 200) (\<lambda>worker_id.
     seq (lease_seconds_ok lease_seconds) (\<lambda>_.
     command_checked actor_id (''POST:/internal/v1/runtime-actions/'' @ action_id @ ''/reconcile'') idempotency_key
       (lease_request worker_id lease_seconds) 200
     (\<lambda>replay. seq (get_runtime_action action_id) (\<lambda>current.
        if ra_outcome_state current = O_reconcile
        then action_replay_is_current current worker_id replay else ret False))
     (InvalidTransition ''stale_claim_receipt'' ''reconcile'')
     (seq (get_runtime_action action_id) (\<lambda>action.
      seq utc_now (\<lambda>now.
      seq (guard (reconcilable now action)
             (InvalidTransition (outcome_state_name (ra_outcome_state action)) ''reconcile'')) (\<lambda>_.
      seq utc_now (\<lambda>current.
      seq (sql_update runtime_actions runtime_actions_update
             (\<lambda>a. ra_id a = action_id \<and> reconcilable now a)
             (\<lambda>a. a\<lparr>ra_outcome_state := O_reconcile, ra_claim_owner := Some worker_id,
                    ra_claim_expires_at := Some (current + seconds lease_seconds),
                    ra_claim_epoch := ra_claim_epoch a + 1\<rparr>)) (\<lambda>rowcount.
      seq (guard (rowcount = 1) (InvalidTransition ''already_claimed'' ''reconcile'')) (\<lambda>_.
      seq (get_runtime_action action_id) (\<lambda>value. ret (runtime_action_json value)))))))))))"

section \<open>Settling\<close>

definition holds_action :: "runtime_action \<Rightarrow> string \<Rightarrow> int \<Rightarrow> outcome_state list \<Rightarrow> bool op" where
  "holds_action a claim_owner claim_epoch outcomes =
     (if ra_state a = A_pending \<and> ra_outcome_state a \<in> set outcomes
      then claim_fence_is_current (ra_claim_owner a) (ra_claim_epoch a) (ra_claim_expires_at a)
             claim_owner (Some (JInt claim_epoch))
      else ret False)"

text \<open>The row that the update under the fence finds.\<close>

definition held_action :: "string \<Rightarrow> string \<Rightarrow> int \<Rightarrow> outcome_state list \<Rightarrow> runtime_action \<Rightarrow> bool" where
  "held_action action_id claim_owner claim_epoch outcomes a =
     (ra_id a = action_id \<and> ra_state a = A_pending \<and> ra_claim_owner a = Some claim_owner
      \<and> ra_claim_epoch a = claim_epoch \<and> ra_outcome_state a \<in> set outcomes)"

definition settle_action ::
    "string \<Rightarrow> string \<Rightarrow> outcome_state list \<Rightarrow> string \<Rightarrow> int \<Rightarrow> int \<Rightarrow> (instant \<Rightarrow> runtime_action \<Rightarrow> runtime_action)
      \<Rightarrow> (runtime_action \<Rightarrow> run \<Rightarrow> instant \<Rightarrow> unit op) \<Rightarrow> json op" where
  "settle_action action_id target outcomes claim_owner claim_epoch expected_revision f after =
     (let mismatch = InvalidTransition ''claim_fence_mismatch'' target in
     seq (get_runtime_action action_id) (\<lambda>action.
     seq (holds_action action claim_owner claim_epoch outcomes) (\<lambda>holds.
     seq (guard holds mismatch) (\<lambda>_.
     seq (get_run (ra_run_id action)) (\<lambda>run.
     seq (expect_revision (rn_revision run) (run_json run) expected_revision) (\<lambda>_.
     seq utc_now (\<lambda>now.
     seq (sql_update runtime_actions runtime_actions_update
            (held_action action_id claim_owner claim_epoch outcomes) (f now)) (\<lambda>rowcount.
     seq (guard (rowcount = 1) mismatch) (\<lambda>_.
     seq (after action run now) (\<lambda>_.
     seq (get_runtime_action action_id) (\<lambda>value. ret (runtime_action_json value))))))))))))"

definition settle_request :: "string \<Rightarrow> int \<Rightarrow> int \<Rightarrow> string option \<Rightarrow> json" where
  "settle_request claim_owner claim_epoch expected_revision category =
     JObj ([(''claim_owner'', JStr claim_owner), (''claim_epoch'', JInt claim_epoch),
            (''expected_revision'', JInt expected_revision)]
        @ (case category of None \<Rightarrow> [] | Some c \<Rightarrow> [(''category'', JStr c)]))"

definition fail_action :: "string \<Rightarrow> instant \<Rightarrow> runtime_action \<Rightarrow> runtime_action" where
  "fail_action category now a = a\<lparr>ra_state := A_failed, ra_failure_category := Some category,
     ra_acknowledged_at := Some now, ra_claim_owner := None, ra_claim_expires_at := None,
     ra_outcome_state := O_ready\<rparr>"

definition return_action :: "outcome_state \<Rightarrow> string option \<Rightarrow> runtime_action \<Rightarrow> runtime_action" where
  "return_action outcome category a = a\<lparr>ra_outcome_state := outcome, ra_failure_category := category,
     ra_claim_owner := None, ra_claim_expires_at := None\<rparr>"

definition action_event :: "runtime_action \<Rightarrow> (string \<times> json) list" where
  "action_event a = [(''runtime_action_id'', JStr (ra_id a)), (''kind'', JStr (ra_kind a))]"

definition acknowledge_runtime_action ::
    "string \<Rightarrow> string \<Rightarrow> string \<Rightarrow> string \<Rightarrow> string \<Rightarrow> int \<Rightarrow> string \<Rightarrow> string \<Rightarrow> string option \<Rightarrow> string option
      \<Rightarrow> int \<Rightarrow> command_result op" where
  "acknowledge_runtime_action action_id run_id attempt_id binding_id release_id expected_revision actor_id
       idempotency_key generation_id claim_owner claim_epoch =
     seq (required_text_opt claim_owner ''claim_owner'' 200) (\<lambda>claim_owner.
     seq (positive_epoch claim_epoch) (\<lambda>_.
     command actor_id (''POST:/internal/v1/runtime-actions/'' @ action_id @ ''/ack'') idempotency_key
       (JObj ([(''run_id'', JStr run_id)] @ ref_request (exact_ref attempt_id binding_id release_id generation_id)
          @ [(''claim_owner'', JStr claim_owner), (''claim_epoch'', JInt claim_epoch),
             (''expected_revision'', JInt expected_revision)])) 200
     (seq (get_runtime_action action_id) (\<lambda>action.
      seq (guard (ra_state action = A_pending)
             (InvalidTransition (action_state_name (ra_state action)) ''acked'')) (\<lambda>_.
      seq (holds_action action claim_owner claim_epoch [O_ready, O_reconcile]) (\<lambda>holds.
      seq (guard holds (InvalidTransition ''claim_fence_mismatch'' ''acked'')) (\<lambda>_.
      seq (guard (ra_run_id action = run_id \<and> ra_attempt_id action = attempt_id
             \<and> ra_runtime_binding_id action = binding_id \<and> ra_runtime_release_id action = release_id)
             (InvalidTransition ''runtime_binding_mismatch'' ''acked'')) (\<lambda>_.
      seq (get_run run_id) (\<lambda>run.
      seq (expect_revision (rn_revision run) (run_json run) expected_revision) (\<lambda>_.
      seq (validate_runtime_identity run attempt_id binding_id release_id generation_id) (\<lambda>_.
      seq utc_now (\<lambda>now.
      seq (sql_update runtime_actions runtime_actions_update
             (held_action action_id claim_owner claim_epoch [O_ready, O_reconcile])
             (\<lambda>a. a\<lparr>ra_state := A_acked, ra_acknowledged_at := Some now, ra_claim_owner := None,
                    ra_claim_expires_at := None, ra_outcome_state := O_ready\<rparr>)) (\<lambda>rowcount.
      seq (guard (rowcount = 1) (InvalidTransition ''claim_fence_mismatch'' ''acked'')) (\<lambda>_.
      seq (if ra_kind action = ''decision.resolve'' \<and> rn_state run = R_resuming then
             seq (update_runs (\<lambda>r. rn_id r = run_id \<and> rn_revision r = expected_revision)
                    (\<lambda>r. r\<lparr>rn_state := R_running, rn_revision := rn_revision r + 1, rn_updated_at := now\<rparr>)) (\<lambda>_.
             sql_update attempts attempts_update (\<lambda>a. at_id a = attempt_id) (\<lambda>a. a\<lparr>at_state := R_running\<rparr>))
           else seq (touch_run run_id expected_revision now) (\<lambda>_. ret 0)) (\<lambda>_.
      seq (insert_event run_id (Some attempt_id) ''runtime.action.acked'' (JObj (action_event action)) None) (\<lambda>_.
      seq (get_runtime_action action_id) (\<lambda>value. ret (runtime_action_json value))))))))))))))))))"

text \<open>What becomes of the run when its action failed.\<close>

definition fail_run_of_action :: "string \<Rightarrow> int \<Rightarrow> runtime_action \<Rightarrow> run \<Rightarrow> instant \<Rightarrow> unit op" where
  "fail_run_of_action category expected_revision action run now =
     seq (close_source_work_for_run (rn_id run) now) (\<lambda>closed.
     seq (update_runs (\<lambda>r. rn_id r = rn_id run \<and> rn_revision r = expected_revision)
            (\<lambda>r. r\<lparr>rn_state := R_failed, rn_revision := rn_revision r + 1, rn_updated_at := now\<rparr>)) (\<lambda>_.
     seq (sql_update attempts attempts_update (\<lambda>a. at_id a = ra_attempt_id action)
            (\<lambda>a. a\<lparr>at_state := R_failed, at_finished_at := Some now\<rparr>)) (\<lambda>_.
     seq (sql_update threads threads_update
            (\<lambda>t. th_id t = rn_thread_id run \<and> th_active_run_id t = Some (rn_id run))
            (\<lambda>t. t\<lparr>th_status := ''failed'', th_active_run_id := None, th_revision := th_revision t + 1,
                   th_updated_at := now\<rparr>)) (\<lambda>_.
     seq (release_active_pin (rn_id run) (Some (ra_attempt_id action)) now) (\<lambda>_.
     seq (insert_event (rn_id run) (Some (ra_attempt_id action)) ''runtime.action.failed''
            (JObj (action_event action @ [(''category'', JStr category), (''closed_source_work'', JObj closed)])) None)
       (\<lambda>_. ret ()))))))"

definition fail_runtime_action ::
    "string \<Rightarrow> string \<Rightarrow> int \<Rightarrow> int \<Rightarrow> string \<Rightarrow> string \<Rightarrow> string \<Rightarrow> command_result op" where
  "fail_runtime_action action_id claim_owner claim_epoch expected_revision category actor_id idempotency_key =
     seq (required_text category ''category'' 100) (\<lambda>category.
     seq (required_text claim_owner ''claim_owner'' 200) (\<lambda>claim_owner.
     seq (positive_epoch claim_epoch) (\<lambda>_.
     command actor_id (''POST:/internal/v1/runtime-actions/'' @ action_id @ ''/fail'') idempotency_key
       (settle_request claim_owner claim_epoch expected_revision (Some category)) 200
     (settle_action action_id ''failed'' [O_ready, O_reconcile] claim_owner claim_epoch expected_revision
        (fail_action category) (fail_run_of_action category expected_revision)))))"

definition reject_run_of_action :: "string \<Rightarrow> int \<Rightarrow> runtime_action \<Rightarrow> run \<Rightarrow> instant \<Rightarrow> unit op" where
  "reject_run_of_action category expected_revision action run now =
     (let resumes = (ra_kind action = ''control.pause'' \<and> rn_state run = R_pause_requested) in
     seq (if resumes then sql_update attempts attempts_update (\<lambda>a. at_id a = ra_attempt_id action)
                            (\<lambda>a. a\<lparr>at_state := R_running\<rparr>) else ret 0) (\<lambda>_.
     seq (update_runs (\<lambda>r. rn_id r = rn_id run \<and> rn_revision r = expected_revision)
            (\<lambda>r. r\<lparr>rn_state := (if resumes then R_running else rn_state run),
                   rn_revision := rn_revision r + 1, rn_updated_at := now\<rparr>)) (\<lambda>_.
     seq (insert_event (rn_id run) (Some (ra_attempt_id action)) ''runtime.action.rejected''
            (JObj (action_event action @ [(''category'', JStr category)])) None)
       (\<lambda>_. ret ()))))"

definition reject_runtime_action ::
    "string \<Rightarrow> string \<Rightarrow> int \<Rightarrow> int \<Rightarrow> string \<Rightarrow> string \<Rightarrow> string \<Rightarrow> command_result op" where
  "reject_runtime_action action_id claim_owner claim_epoch expected_revision category actor_id idempotency_key =
     seq (required_text category ''category'' 100) (\<lambda>category.
     seq (required_text claim_owner ''claim_owner'' 200) (\<lambda>claim_owner.
     seq (positive_epoch claim_epoch) (\<lambda>_.
     command actor_id (''POST:/internal/v1/runtime-actions/'' @ action_id @ ''/reject'') idempotency_key
       (settle_request claim_owner claim_epoch expected_revision (Some category)) 200
     (settle_action action_id ''rejected'' [O_ready, O_reconcile] claim_owner claim_epoch expected_revision
        (fail_action category) (reject_run_of_action category expected_revision)))))"

text \<open>The three that leave the state of the run alone.\<close>

definition note_action :: "string \<Rightarrow> (string \<times> json) list \<Rightarrow> int \<Rightarrow> runtime_action \<Rightarrow> run \<Rightarrow> instant \<Rightarrow> unit op" where
  "note_action event_type details expected_revision action run now =
     seq (touch_run (rn_id run) expected_revision now) (\<lambda>_.
     seq (insert_event (rn_id run) (Some (ra_attempt_id action)) event_type
            (JObj (action_event action @ details)) None) (\<lambda>_. ret ()))"

definition mark_runtime_action_outcome_unknown ::
    "string \<Rightarrow> string \<Rightarrow> int \<Rightarrow> int \<Rightarrow> string \<Rightarrow> string \<Rightarrow> string \<Rightarrow> command_result op" where
  "mark_runtime_action_outcome_unknown action_id claim_owner claim_epoch expected_revision category actor_id
       idempotency_key =
     seq (required_text claim_owner ''claim_owner'' 200) (\<lambda>claim_owner.
     seq (required_text category ''category'' 100) (\<lambda>category.
     seq (positive_epoch claim_epoch) (\<lambda>_.
     command actor_id (''POST:/internal/v1/runtime-actions/'' @ action_id @ ''/outcome-unknown'') idempotency_key
       (settle_request claim_owner claim_epoch expected_revision (Some category)) 200
     (settle_action action_id ''outcome_unknown'' [O_ready] claim_owner claim_epoch expected_revision
        (\<lambda>now. return_action O_outcome_unknown (Some category))
        (note_action ''runtime.action.outcome_unknown'' [(''category'', JStr category)] expected_revision)))))"

definition defer_runtime_action_reconciliation ::
    "string \<Rightarrow> string \<Rightarrow> int \<Rightarrow> int \<Rightarrow> string \<Rightarrow> string \<Rightarrow> string \<Rightarrow> command_result op" where
  "defer_runtime_action_reconciliation action_id claim_owner claim_epoch expected_revision category actor_id
       idempotency_key =
     seq (required_text claim_owner ''claim_owner'' 200) (\<lambda>claim_owner.
     seq (required_text category ''category'' 100) (\<lambda>category.
     seq (positive_epoch claim_epoch) (\<lambda>_.
     command actor_id (''POST:/internal/v1/runtime-actions/'' @ action_id @ ''/defer-reconcile'') idempotency_key
       (settle_request claim_owner claim_epoch expected_revision (Some category)) 200
     (settle_action action_id ''outcome_unknown'' [O_reconcile] claim_owner claim_epoch expected_revision
        (\<lambda>now. return_action O_outcome_unknown (Some category))
        (note_action ''runtime.action.reconciliation_deferred'' [(''category'', JStr category)]
           expected_revision)))))"

definition retry_runtime_action_delivery ::
    "string \<Rightarrow> string \<Rightarrow> int \<Rightarrow> int \<Rightarrow> string \<Rightarrow> string \<Rightarrow> command_result op" where
  "retry_runtime_action_delivery action_id claim_owner claim_epoch expected_revision actor_id idempotency_key =
     seq (required_text claim_owner ''claim_owner'' 200) (\<lambda>claim_owner.
     seq (positive_epoch claim_epoch) (\<lambda>_.
     command actor_id (''POST:/internal/v1/runtime-actions/'' @ action_id @ ''/retry-delivery'') idempotency_key
       (settle_request claim_owner claim_epoch expected_revision None) 200
     (settle_action action_id ''ready'' [O_reconcile] claim_owner claim_epoch expected_revision
        (\<lambda>now. return_action O_ready None)
        (note_action ''runtime.action.retry_scheduled'' [] expected_revision))))"

section \<open>What they leave alone\<close>

lemma keeps_guards [keeps]: "preserves I (lease_seconds_ok n)" "preserves I (positive_epoch n)"
  unfolding lease_seconds_ok_def positive_epoch_def by (intro keeps)+

context bookkeeping
begin

lemma keeps_action_checks [keeps]:
  "preserves I (claim_replay_is_current b o' e x w j)" "preserves I (action_replay_is_current a w r)"
  "preserves I (holds_action a w e os)"
  unfolding claim_replay_is_current_def action_replay_is_current_def holds_action_def by (intro keeps)+

end

lemmas action_steps = row_step_defs held_action_def fail_action_def return_action_def reconcilable_def

context side_frame
begin

lemma keeps_action_claims [keeps]:
  "preserves I (claim_runtime_action i w l ac k)" "preserves I (claim_runtime_action_reconciliation i w l ac k)"
  unfolding claim_runtime_action_def claim_runtime_action_reconciliation_def
  by (intro keeps; simp add: action_steps)+

lemma keeps_action_lists [keeps]:
  "preserves I list_pending_runtime_actions" "preserves I (list_runtime_actions_requiring_reconciliation n)"
  unfolding list_pending_runtime_actions_def list_runtime_actions_requiring_reconciliation_def by (intro keeps)+

lemma keeps_settle_action [keeps]:
  assumes "\<And>n a. held_action i w c os a \<Longrightarrow> action_step a (f n a)" and "\<And>a r n. preserves I (after a r n)"
  shows "preserves I (settle_action i tg os w c e f after)"
  unfolding settle_action_def Let_def by (intro keeps assms)

end

context journal_frame
begin

lemma keeps_action_runs [keeps]:
  "preserves I (fail_run_of_action c e a r n)" "preserves I (reject_run_of_action c e a r n)"
  "preserves I (note_action t d e a r n)"
  unfolding fail_run_of_action_def reject_run_of_action_def note_action_def Let_def by (intro keeps; simp add: run_step_def)+

lemma keeps_action_commands [keeps]:
  "preserves I (acknowledge_runtime_action i r a b l e ac k g w' c)"
  "preserves I (fail_runtime_action i w c e ct ac k)" "preserves I (reject_runtime_action i w c e ct ac k)"
  "preserves I (mark_runtime_action_outcome_unknown i w c e ct ac k)"
  "preserves I (defer_runtime_action_reconciliation i w c e ct ac k)"
  "preserves I (retry_runtime_action_delivery i w c e ac k)"
  unfolding acknowledge_runtime_action_def fail_runtime_action_def reject_runtime_action_def
    mark_runtime_action_outcome_unknown_def defer_runtime_action_reconciliation_def
    retry_runtime_action_delivery_def
  by (intro keeps; simp add: run_step_def action_steps)+

end

section \<open>The operations keep the links\<close>

lemma settle_action_links:
  assumes "\<And>n a. held_action i w c os a \<Longrightarrow> action_step a (f n a)"
    and "\<And>a r n. rn_revision r = e \<Longrightarrow> hoare (run_known r) (after a r n) thread_inv"
  shows "preserves thread_inv (settle_action i tg os w c e f after)"
  unfolding settle_action_def Let_def
  apply (rule hoare_preserves)
  apply (rule hoare_skip, (intro keeps; fail))
  apply (rule hoare_skip, (intro keeps; fail))
  apply (rule hoare_guard)
  apply (rule hoare_get_run)
  apply (rule hoare_expect)
  apply (rule hoare_skip, (intro keeps; fail))
  apply (rule hoare_skip, rule rknown.keeps_work_updates, erule assms(1))
  apply (rule hoare_guard)
  apply (rule hoare_seq[OF assms(2)])
   apply assumption
  apply (intro hoare_rest keeps)
  done

lemma hoare_fail_run_of_action:
  assumes "rn_revision r = e"
  shows "hoare (run_known r) (fail_run_of_action c e a r n) thread_inv"
  unfolding fail_run_of_action_def assms[symmetric]
  apply (rule hoare_skip, (intro keeps; fail))
  apply (rule hoare_seq[OF hoare_end_run])
   apply (simp add: run_link_def run_live_def terminal_run_states_def)
  apply (rule hoare_skip, (intro keeps; fail))
  apply (rule hoare_seq[OF hoare_unlink])
   apply (simp add: thread_link_def)
  apply (intro hoare_rest keeps)
  done

lemma hoare_reject_run_of_action:
  assumes "rn_revision r = e"
  shows "hoare (run_known r) (reject_run_of_action c e a r n) thread_inv"
  unfolding reject_run_of_action_def Let_def assms[symmetric]
  apply (rule hoare_skip, (intro keeps; fail))
  apply (rule hoare_seq[OF hoare_same_life])
   apply (simp add: run_link_def run_live_def terminal_run_states_def)
  apply (intro hoare_rest keeps)
  done

lemma hoare_note_action: "hoare (run_known r) (note_action t d e a r n) thread_inv"
  unfolding note_action_def
  by (rule hoare_pre[of _ thread_inv]) (simp add: run_known_def, intro hoare_rest keeps)

lemma settle_links:
  "preserves thread_inv (fail_runtime_action i w c e ct ac k)"
  "preserves thread_inv (reject_runtime_action i w c e ct ac k)"
  "preserves thread_inv (mark_runtime_action_outcome_unknown i w c e ct ac k)"
  "preserves thread_inv (defer_runtime_action_reconciliation i w c e ct ac k)"
  "preserves thread_inv (retry_runtime_action_delivery i w c e ac k)"
  unfolding fail_runtime_action_def reject_runtime_action_def
    mark_runtime_action_outcome_unknown_def defer_runtime_action_reconciliation_def
    retry_runtime_action_delivery_def
  by (intro keeps_guards preserves_seq[OF preserves_required_text] preserves_seq[OF keeps_guards(2)] tinv.keeps_command
      settle_action_links hoare_fail_run_of_action hoare_reject_run_of_action hoare_note_action;
      simp add: action_steps)+

lemma acknowledge_links: "preserves thread_inv (acknowledge_runtime_action i r a b l e ac k g w c)"
proof -
  have resumed: "hoare (run_known r0) (seq (update_runs (at_revision r0)
      (\<lambda>r. r\<lparr>rn_state := R_running, rn_revision := rn_revision r + 1, rn_updated_at := n\<rparr>)) (\<lambda>_. att)) thread_inv"
    if "rn_state r0 = R_resuming" and "preserves thread_inv att" for r0 n att
    using that by (intro hoare_run_stays) (simp_all add: run_link_def run_live_def terminal_run_states_def)
  have touched: "hoare (run_known r0) (seq (touch_run j e' n) (\<lambda>_. ret x)) thread_inv" for r0 j e' n x
    by (rule hoare_pre[of _ thread_inv]) (simp add: run_known_def, intro hoare_rest keeps)
  show ?thesis
    unfolding acknowledge_runtime_action_def
    apply (rule preserves_seq, (intro keeps; fail))
    apply (rule preserves_seq, (intro keeps; fail))
    apply (rule tinv_body)
    apply (rule hoare_get_run hoare_guard hoare_expect
        | rule hoare_skip, (intro keeps; simp add: action_steps; fail))+
    apply clarify
    apply (rule hoare_seq)
     apply (rule hoare_if)
      apply (rule resumed, blast, intro keeps)
     apply (rule touched)
    apply (intro hoare_rest keeps)
    done
qed

end
