(* ===== verification/Control_Recovery.thy ===== *)
theory Control_Recovery
  imports Control_Actions
begin

text \<open>
  Releases of runtime pins and recovery of interrupted runs, the two other kinds of leased work of
  \<open>ControlStore\<close>: \<open>list_pending_pin_releases\<close>, \<open>claim_pin_release\<close>, \<open>acknowledge_pin_release\<close>,
  \<open>fail_pin_release\<close>, \<open>retry_pin_release\<close>; \<open>schedule_runtime_recovery\<close>,
  \<open>list_pending_runtime_recoveries\<close>, \<open>claim_runtime_recovery\<close>, \<open>record_runtime_recovery_outcome\<close>.

  The table of recovery commands has a partial unique index (one pending command per attempt), which
  \<open>insert_recovery_command\<close> checks.
\<close>

section \<open>Pin releases\<close>

definition pin_order :: "pin_release \<Rightarrow> int \<times> string" where
  "pin_order p = (text_key (pr_created_at p), pr_id p)"

definition superseded_states :: "run_state list" where
  "superseded_states = [R_paused, R_failed, R_completed, R_canceled]"

text \<open>The rows of the join; a comparison with a null active attempt is not true.\<close>

definition pin_releasable :: "pin_release \<Rightarrow> store \<Rightarrow> bool" where
  "pin_releasable p s = list_ex (\<lambda>r. rn_id r = pr_run_id p \<and> list_ex (\<lambda>a. at_id a = pr_attempt_id p
     \<and> (rn_state r \<in> set terminal_run_states
        \<or> rn_active_attempt_id r \<noteq> None \<and> rn_active_attempt_id r \<noteq> Some (pr_attempt_id p)
          \<and> at_state a \<in> set superseded_states)) (attempts s)) (runs s)"

definition list_pending_pin_releases :: "int \<Rightarrow> json list op" where
  "list_pending_pin_releases limit =
     seq (guard (1 \<le> limit \<and> limit \<le> 1000) (ValueError ''limit must be between 1 and 1000'')) (\<lambda>_.
     seq utc_now (\<lambda>now.
     gets (\<lambda>s. map pin_release_json (take (nat limit) (select_by pin_order
       (\<lambda>p. pr_state p = A_pending \<and> pin_releasable p s
          \<and> free_or_expired (pr_claim_owner p) (pr_claim_expires_at p) now) (runtime_pin_releases s))))))"

definition claim_pin_release :: "string \<Rightarrow> string \<Rightarrow> int \<Rightarrow> string \<Rightarrow> string \<Rightarrow> command_result op" where
  "claim_pin_release release_action_id worker_id lease_seconds actor_id idempotency_key =
     seq (required_text worker_id ''worker_id'' 200) (\<lambda>worker_id.
     seq (lease_seconds_ok lease_seconds) (\<lambda>_.
     command_checked actor_id (''POST:/internal/v1/pin-releases/'' @ release_action_id @ ''/claim'') idempotency_key
       (lease_request worker_id lease_seconds) 200
     (\<lambda>replay. seq (get_pin_release release_action_id) (\<lambda>current.
        claim_replay_is_current (pr_state current = A_pending) (pr_claim_owner current) (pr_claim_epoch current)
          (pr_claim_expires_at current) worker_id (jget ''claim_epoch'' (cr_value replay))))
     (InvalidTransition ''stale_claim_receipt'' ''claimed'')
     (seq (get_pin_release release_action_id) (\<lambda>action.
      seq (guard (pr_state action = A_pending)
             (InvalidTransition (action_state_name (pr_state action)) ''claimed'')) (\<lambda>_.
      seq (get_run (pr_run_id action)) (\<lambda>run.
      seq (get_attempt (pr_attempt_id action)) (\<lambda>release_attempt.
      seq (guard (rn_state run \<in> set terminal_run_states
             \<or> rn_active_attempt_id run \<noteq> Some (pr_attempt_id action)
               \<and> at_state release_attempt \<in> set superseded_states)
             (InvalidTransition (run_state_name (rn_state run)) ''pin_release'')) (\<lambda>_.
      seq utc_now (\<lambda>now.
      seq (sql_update runtime_pin_releases runtime_pin_releases_update
             (\<lambda>p. pr_id p = release_action_id \<and> pr_state p = A_pending
                \<and> free_or_expired (pr_claim_owner p) (pr_claim_expires_at p) now)
             (\<lambda>p. p\<lparr>pr_claim_owner := Some worker_id,
                    pr_claim_expires_at := Some (now + seconds lease_seconds),
                    pr_claim_epoch := pr_claim_epoch p + 1\<rparr>)) (\<lambda>rowcount.
      seq (guard (rowcount = 1) (InvalidTransition ''already_claimed'' ''claimed'')) (\<lambda>_.
      seq (get_pin_release release_action_id) (\<lambda>value. ret (pin_release_json value)))))))))))))"

definition settle_pin_release ::
    "string \<Rightarrow> string \<Rightarrow> int \<Rightarrow> int \<Rightarrow> action_state \<Rightarrow> string option \<Rightarrow> string \<Rightarrow> string \<Rightarrow> command_result op" where
  "settle_pin_release release_action_id claim_owner claim_epoch expected_revision target category
       actor_id idempotency_key =
     (let mismatch = InvalidTransition ''claim_fence_mismatch'' (action_state_name target) in
     seq (required_text claim_owner ''claim_owner'' 200) (\<lambda>claim_owner.
     seq (positive_epoch claim_epoch) (\<lambda>_.
     command actor_id (''POST:/internal/v1/pin-releases/'' @ release_action_id @ ''/'' @ action_state_name target)
       idempotency_key
       (JObj [(''claim_owner'', JStr claim_owner), (''claim_epoch'', JInt claim_epoch),
              (''expected_revision'', JInt expected_revision), (''category'', jstr_opt category)]) 200
     (seq (get_pin_release release_action_id) (\<lambda>action.
      seq (if pr_state action = A_pending
           then claim_fence_is_current (pr_claim_owner action) (pr_claim_epoch action)
                  (pr_claim_expires_at action) claim_owner (Some (JInt claim_epoch))
           else ret False) (\<lambda>holds.
      seq (guard holds mismatch) (\<lambda>_.
      seq (get_run (pr_run_id action)) (\<lambda>run.
      seq (expect_revision (rn_revision run) (run_json run) expected_revision) (\<lambda>_.
      seq utc_now (\<lambda>now.
      seq (sql_update runtime_pin_releases runtime_pin_releases_update
             (\<lambda>p. pr_id p = release_action_id \<and> pr_state p = A_pending \<and> pr_claim_owner p = Some claim_owner
                \<and> pr_claim_epoch p = claim_epoch)
             (\<lambda>p. p\<lparr>pr_state := target, pr_failure_category := category, pr_acknowledged_at := Some now,
                    pr_claim_owner := None, pr_claim_expires_at := None\<rparr>)) (\<lambda>rowcount.
      seq (guard (rowcount = 1) mismatch) (\<lambda>_.
      seq (touch_run (rn_id run) expected_revision now) (\<lambda>_.
      seq (insert_event (rn_id run) (Some (pr_attempt_id action))
             (''runtime.pin_release.'' @ action_state_name target)
             (JObj [(''pin_release_action_id'', JStr release_action_id), (''category'', jstr_opt category)]) None) (\<lambda>_.
      seq (get_pin_release release_action_id) (\<lambda>value. ret (pin_release_json value))))))))))))))))"

definition acknowledge_pin_release ::
    "string \<Rightarrow> string \<Rightarrow> int \<Rightarrow> int \<Rightarrow> string \<Rightarrow> string \<Rightarrow> command_result op" where
  "acknowledge_pin_release release_action_id claim_owner claim_epoch expected_revision =
     settle_pin_release release_action_id claim_owner claim_epoch expected_revision A_acked None"

definition fail_pin_release ::
    "string \<Rightarrow> string \<Rightarrow> int \<Rightarrow> int \<Rightarrow> string \<Rightarrow> string \<Rightarrow> string \<Rightarrow> command_result op" where
  "fail_pin_release release_action_id claim_owner claim_epoch expected_revision category actor_id
       idempotency_key =
     seq (required_text category ''category'' 100) (\<lambda>category.
     settle_pin_release release_action_id claim_owner claim_epoch expected_revision A_failed (Some category)
       actor_id idempotency_key)"

definition retry_pin_release :: "string \<Rightarrow> int \<Rightarrow> string \<Rightarrow> string \<Rightarrow> command_result op" where
  "retry_pin_release release_action_id expected_revision actor_id idempotency_key =
     command actor_id (''POST:/internal/v1/pin-releases/'' @ release_action_id @ ''/retry'') idempotency_key
       (JObj [(''expected_revision'', JInt expected_revision)]) 200
     (seq (get_pin_release release_action_id) (\<lambda>action.
      seq (guard (pr_state action = A_failed)
             (InvalidTransition (action_state_name (pr_state action)) ''pending'')) (\<lambda>_.
      seq (get_run (pr_run_id action)) (\<lambda>run.
      seq (expect_revision (rn_revision run) (run_json run) expected_revision) (\<lambda>_.
      seq utc_now (\<lambda>now.
      seq (sql_update runtime_pin_releases runtime_pin_releases_update
             (\<lambda>p. pr_id p = release_action_id \<and> pr_state p = A_failed)
             (\<lambda>p. p\<lparr>pr_state := A_pending, pr_failure_category := None, pr_acknowledged_at := None,
                    pr_claim_owner := None, pr_claim_expires_at := None\<rparr>)) (\<lambda>_.
      seq (touch_run (rn_id run) expected_revision now) (\<lambda>_.
      seq (insert_event (rn_id run) (Some (pr_attempt_id action)) ''runtime.pin_release.retried''
             (JObj [(''pin_release_action_id'', JStr release_action_id)]) None) (\<lambda>_.
      seq (get_pin_release release_action_id) (\<lambda>value. ret (pin_release_json value)))))))))))"

section \<open>Recovery commands\<close>

definition recovery_order :: "recovery_command \<Rightarrow> int \<times> string" where
  "recovery_order c = (text_key (rc_created_at c), rc_id c)"

definition insert_recovery_command :: "recovery_command \<Rightarrow> unit op" where
  "insert_recovery_command c =
     seq (gets (\<lambda>s. rc_state c = V_pending \<and> list_ex (\<lambda>x. rc_attempt_id x = rc_attempt_id c
            \<and> rc_state x = V_pending) (runtime_recovery_commands s))) (\<lambda>taken.
     seq (guard (\<not> taken) IntegrityError) (\<lambda>_.
     sql_insert IntegrityError runtime_recovery_commands runtime_recovery_commands_update rc_id c))"

definition identity_fields :: "attempt \<Rightarrow> string option list" where
  "identity_fields a = [at_runtime_release_id a, at_state_generation_id a, at_runtime_slot_id a,
     at_runtime_artifact_digest a, at_runtime_worker_protocol a]"

definition identity_complete :: "attempt \<Rightarrow> bool" where
  "identity_complete a = (at_runtime_identity_version a = 1 \<and> list_all truthy (identity_fields a))"

text \<open>What is to be done for an attempt, and in which state the command starts.\<close>

definition recovery_plan :: "attempt \<Rightarrow> string \<times> recovery_state" where
  "recovery_plan a =
     (if at_runtime_binding_id a \<noteq> None \<and> \<not> identity_complete a then (''manual_recovery'', V_manual_required)
      else if at_runtime_binding_id a \<noteq> None then (''inspect_runtime'', V_pending)
      else if identity_complete a then (''resume_dispatch'', V_pending)
      else if list_ex (\<lambda>x. x \<noteq> None) (identity_fields a) then (''manual_recovery'', V_manual_required)
      else (''dispatch'', V_pending))"

definition new_recovery :: "string \<Rightarrow> string \<Rightarrow> attempt \<Rightarrow> instant \<Rightarrow> recovery_command" where
  "new_recovery command_id run_id a now = (let (kind, state) = recovery_plan a in
     \<lparr>rc_id = command_id, rc_run_id = run_id, rc_attempt_id = at_id a,
      rc_runtime_binding_id = at_runtime_binding_id a, rc_runtime_release_id = at_runtime_release_id a,
      rc_state_generation_id = at_state_generation_id a, rc_kind = kind, rc_state = state,
      rc_claim_owner = None, rc_claim_epoch = 0, rc_claim_expires_at = None, rc_result = None,
      rc_created_at = now, rc_completed_at = (if state = V_manual_required then Some now else None),
      rc_runtime_slot_id = at_runtime_slot_id a, rc_runtime_artifact_digest = at_runtime_artifact_digest a,
      rc_runtime_worker_protocol = at_runtime_worker_protocol a,
      rc_runtime_identity_version = (if identity_complete a then 1 else 0)\<rparr>)"

definition schedule_runtime_recovery ::
    "string \<Rightarrow> string \<Rightarrow> int \<Rightarrow> string \<Rightarrow> string \<Rightarrow> command_result op" where
  "schedule_runtime_recovery run_id attempt_id expected_revision actor_id idempotency_key =
     (let request = JObj [(''attempt_id'', JStr attempt_id), (''expected_revision'', JInt expected_revision)];
          operation = ''POST:/internal/v1/runs/'' @ run_id @ ''/schedule-recovery'' in
     seq (find_receipt actor_id operation idempotency_key request) (\<lambda>replay. case replay of
       Some result \<Rightarrow> ret result
     | None \<Rightarrow>
        seq (get_run run_id) (\<lambda>run.
        seq (expect_revision (rn_revision run) (run_json run) expected_revision) (\<lambda>_.
        seq (guard (rn_state run \<notin> set terminal_run_states \<and> rn_state run \<noteq> R_paused)
               (InvalidTransition (run_state_name (rn_state run)) ''recovery_queued'')) (\<lambda>_.
        seq (guard (rn_active_attempt_id run = Some attempt_id)
               (InvalidTransition ''attempt_mismatch'' ''recovery_queued'')) (\<lambda>_.
        seq (get_attempt attempt_id) (\<lambda>attempt.
        seq (gets (\<lambda>s. last_by recovery_order (\<lambda>c. rc_attempt_id c = attempt_id
               \<and> rc_state c \<in> set [V_pending, V_manual_required]) (runtime_recovery_commands s))) (\<lambda>existing.
        (case existing of
           Some c \<Rightarrow>
             seq (get_recovery_command (rc_id c)) (\<lambda>value.
             save_receipt actor_id operation idempotency_key request (recovery_command_json value) 200)
         | None \<Rightarrow>
             seq utc_now (\<lambda>now.
             seq (new_id ''recovery'') (\<lambda>command_id.
             let (kind, state) = recovery_plan attempt in
             seq (insert_recovery_command (new_recovery command_id run_id attempt now)) (\<lambda>_.
             seq (touch_run run_id expected_revision now) (\<lambda>_.
             seq (insert_event run_id (Some attempt_id)
                    (if state = V_manual_required then ''runtime.recovery.manual_required''
                     else ''runtime.recovery.queued'')
                    (JObj [(''recovery_command_id'', JStr command_id), (''kind'', JStr kind),
                           (''state'', JStr (recovery_state_name state))]) None) (\<lambda>_.
             seq (get_recovery_command command_id) (\<lambda>value.
             save_receipt actor_id operation idempotency_key request (recovery_command_json value) 201)))))))))))))))"

definition list_pending_runtime_recoveries :: "int \<Rightarrow> json list op" where
  "list_pending_runtime_recoveries limit =
     seq (guard (1 \<le> limit \<and> limit \<le> 1000) (ValueError ''limit must be between 1 and 1000'')) (\<lambda>_.
     seq utc_now (\<lambda>now.
     gets (\<lambda>s. map recovery_command_json (take (nat limit) (select_by recovery_order
       (\<lambda>c. rc_state c = V_pending \<and> free_or_expired (rc_claim_owner c) (rc_claim_expires_at c) now)
       (runtime_recovery_commands s))))))"

definition claim_runtime_recovery :: "string \<Rightarrow> string \<Rightarrow> int \<Rightarrow> string \<Rightarrow> string \<Rightarrow> command_result op" where
  "claim_runtime_recovery recovery_command_id worker_id lease_seconds actor_id idempotency_key =
     seq (required_text worker_id ''worker_id'' 200) (\<lambda>worker_id.
     seq (lease_seconds_ok lease_seconds) (\<lambda>_.
     command_checked actor_id (''POST:/internal/v1/recoveries/'' @ recovery_command_id @ ''/claim'') idempotency_key
       (lease_request worker_id lease_seconds) 200
     (\<lambda>replay. seq (get_recovery_command recovery_command_id) (\<lambda>current.
        claim_replay_is_current (rc_state current = V_pending) (rc_claim_owner current) (rc_claim_epoch current)
          (rc_claim_expires_at current) worker_id (jget ''claim_epoch'' (cr_value replay))))
     (InvalidTransition ''stale_claim_receipt'' ''claimed'')
     (seq (get_recovery_command recovery_command_id) (\<lambda>c.
      seq (guard (rc_state c = V_pending)
             (InvalidTransition (recovery_state_name (rc_state c)) ''claimed'')) (\<lambda>_.
      seq utc_now (\<lambda>now.
      seq (sql_update runtime_recovery_commands runtime_recovery_commands_update
             (\<lambda>c. rc_id c = recovery_command_id \<and> rc_state c = V_pending
                \<and> free_or_expired (rc_claim_owner c) (rc_claim_expires_at c) now)
             (\<lambda>c. c\<lparr>rc_claim_owner := Some worker_id,
                    rc_claim_expires_at := Some (now + seconds lease_seconds),
                    rc_claim_epoch := rc_claim_epoch c + 1\<rparr>)) (\<lambda>rowcount.
      seq (guard (rowcount = 1) (InvalidTransition ''already_claimed'' ''claimed'')) (\<lambda>_.
      seq (get_recovery_command recovery_command_id) (\<lambda>value. ret (recovery_command_json value))))))))))"

definition recovery_outcomes :: "string list" where
  "recovery_outcomes = [''recovered'', ''dispatchable'', ''inactive'', ''retryable_failed'', ''manual_required'']"

definition recovery_detail_fields :: "string list" where
  "recovery_detail_fields = [''category'', ''status'', ''retryable'', ''message'']"

definition validate_recovery_details :: "(string \<times> json) list \<Rightarrow> (string \<times> json) list op" where
  "validate_recovery_details details =
     seq (guard (\<not> list_ex (\<lambda>k. lower k \<in> set sensitive_dto_fields) (map fst details)
            \<and> list_all (\<lambda>k. k \<in> set recovery_detail_fields) (map fst details))
            (ValueError ''recovery details contain private fields'')) (\<lambda>_.
     seq (optional_field details ''category'' ''category'' 200) (\<lambda>category.
     seq (optional_field details ''status'' ''status'' 200) (\<lambda>status.
     seq (optional_field details ''message'' ''message'' 2000) (\<lambda>message.
     (case map_of details ''retryable'' of
        None \<Rightarrow> ret (category @ status @ message)
      | Some (JBool b) \<Rightarrow> ret (category @ status @ message @ [(''retryable'', JBool b)])
      | Some _ \<Rightarrow> raise (ValueError ''retryable must be a boolean''))))))"

definition recovery_target :: "string \<Rightarrow> recovery_state" where
  "recovery_target outcome = (if outcome = ''manual_required'' then V_manual_required
     else if outcome = ''retryable_failed'' then V_failed else V_completed)"

definition record_runtime_recovery_outcome ::
    "string \<Rightarrow> string \<Rightarrow> int \<Rightarrow> string \<Rightarrow> int \<Rightarrow> (string \<times> json) list \<Rightarrow> string \<Rightarrow> string \<Rightarrow> command_result op" where
  "record_runtime_recovery_outcome recovery_command_id claim_owner claim_epoch outcome expected_revision
       details actor_id idempotency_key =
     (let mismatch = InvalidTransition ''claim_fence_mismatch'' outcome in
     seq (required_text claim_owner ''claim_owner'' 200) (\<lambda>claim_owner.
     seq (positive_epoch claim_epoch) (\<lambda>_.
     seq (guard (outcome \<in> set recovery_outcomes) (ValueError ''recovery outcome is invalid'')) (\<lambda>_.
     seq (validate_recovery_details details) (\<lambda>result.
     command actor_id (''POST:/internal/v1/recoveries/'' @ recovery_command_id @ ''/outcome'') idempotency_key
       (JObj [(''claim_owner'', JStr claim_owner), (''claim_epoch'', JInt claim_epoch),
              (''outcome'', JStr outcome), (''expected_revision'', JInt expected_revision),
              (''details'', JObj result)]) 200
     (seq (get_recovery_command recovery_command_id) (\<lambda>c.
      seq (if rc_state c = V_pending
           then claim_fence_is_current (rc_claim_owner c) (rc_claim_epoch c) (rc_claim_expires_at c)
                  claim_owner (Some (JInt claim_epoch))
           else ret False) (\<lambda>holds.
      seq (guard holds mismatch) (\<lambda>_.
      seq (get_run (rc_run_id c)) (\<lambda>run.
      seq (expect_revision (rn_revision run) (run_json run) expected_revision) (\<lambda>_.
      seq utc_now (\<lambda>now.
      seq (sql_update runtime_recovery_commands runtime_recovery_commands_update
             (\<lambda>c. rc_id c = recovery_command_id \<and> rc_state c = V_pending \<and> rc_claim_owner c = Some claim_owner
                \<and> rc_claim_epoch c = claim_epoch)
             (\<lambda>c. c\<lparr>rc_state := recovery_target outcome, rc_result := Some (JObj result),
                    rc_completed_at := Some now, rc_claim_owner := None, rc_claim_expires_at := None\<rparr>)) (\<lambda>rowcount.
      seq (guard (rowcount = 1) mismatch) (\<lambda>_.
      seq (touch_run (rn_id run) expected_revision now) (\<lambda>_.
      seq (insert_event (rn_id run) (Some (rc_attempt_id c)) (''runtime.recovery.'' @ outcome)
             (JObj (dict_update [(''recovery_command_id'', JStr recovery_command_id), (''outcome'', JStr outcome)]
                result)) None) (\<lambda>_.
      seq (get_recovery_command recovery_command_id) (\<lambda>value. ret (recovery_command_json value))))))))))))))))))"

section \<open>What they leave alone\<close>

lemma keeps_optional_field [keeps]: "preserves I (optional_field kvs f n m)"
  unfolding optional_field_def by (intro keeps)

lemma keeps_validate_recovery_details [keeps]: "preserves I (validate_recovery_details d)"
  unfolding validate_recovery_details_def by (auto intro!: keeps split: option.split json.split)

context side_frame
begin

lemma keeps_pin_recovery_claims [keeps]:
  "preserves I (claim_pin_release i w l ac k)" "preserves I (claim_runtime_recovery i w l ac k)"
  unfolding claim_pin_release_def claim_runtime_recovery_def by (intro keeps; simp add: row_step_defs)+

lemma keeps_pin_recovery_lists [keeps]:
  "preserves I (list_pending_pin_releases n)" "preserves I (list_pending_runtime_recoveries n)"
  unfolding list_pending_pin_releases_def list_pending_runtime_recoveries_def by (intro keeps)+

lemma keeps_insert_recovery_command [keeps]: "preserves I (insert_recovery_command c)"
  unfolding insert_recovery_command_def by (intro keeps)

end

lemmas recovery_commands = settle_pin_release_def retry_pin_release_def schedule_runtime_recovery_def
  record_runtime_recovery_outcome_def Let_def

context journal_frame
begin

lemma keeps_recovery_commands [keeps]:
  "t \<noteq> A_pending \<Longrightarrow> preserves I (settle_pin_release i w c e t ct ac k)" "preserves I (retry_pin_release i e ac k)"
  "preserves I (schedule_runtime_recovery r a e ac k)"
  "preserves I (record_runtime_recovery_outcome i w c oc e d ac k)"
  unfolding recovery_commands by (intro keeps; simp add: run_step_def row_step_defs)+

lemma keeps_pin_settlements [keeps]:
  "preserves I (acknowledge_pin_release i w c e ac k)" "preserves I (fail_pin_release i w c e ct ac k)"
  unfolding acknowledge_pin_release_def fail_pin_release_def by (intro keeps; simp add: run_step_def)+

end

context link_frame
begin

lemma keeps_recovery_commands [keeps]:
  "t \<noteq> A_pending \<Longrightarrow> preserves I (settle_pin_release i w c e t ct ac k)" "preserves I (retry_pin_release i e ac k)"
  "preserves I (schedule_runtime_recovery r a e ac k)"
  "preserves I (record_runtime_recovery_outcome i w c oc e d ac k)"
  unfolding recovery_commands by (intro keeps; simp add: row_step_defs)+

lemma keeps_pin_settlements [keeps]:
  "preserves I (acknowledge_pin_release i w c e ac k)" "preserves I (fail_pin_release i w c e ct ac k)"
  unfolding acknowledge_pin_release_def fail_pin_release_def by (intro keeps; simp)+

end

end
