(* ===== verification/Control_Gates.thy ===== *)
theory Control_Gates
  imports Control_Core
begin

text \<open>
  The operator's gates of \<open>ControlStore\<close>: the approval of one exact runtime release
  (\<open>approve_runtime_release\<close>, \<open>revoke_runtime_release\<close>, \<open>runtime_release_approved\<close>), the activation of
  managed runtime dispatch (\<open>enable_runtime_activation\<close>, \<open>disable_runtime_activation\<close>,
  \<open>runtime_activation\<close>) and the activation of a transport (\<open>enable_transport_activation\<close> to
  \<open>abort_open_transport_windows\<close>).

  Each gate is an append-only table: a decision is a new row, and the decision in force is the last row
  of its subject. The tables have no primary key but the id, and their \<open>CHECK\<close> constraints are the
  guards of the insertions. Unlike the leases, an expiry is compared as an instant, not as a text.
\<close>

section \<open>Approval of a release\<close>

definition release_json :: "release_approval \<Rightarrow> json" where
  "release_json r = JObj [(''id'', JStr (rl_id r)), (''decision'', JStr (rl_decision r)),
     (''release_id'', JStr (rl_release_id r)), (''manifest_sha256'', JStr (rl_manifest_sha256 r)),
     (''actor_id'', JStr (rl_actor_id r)), (''decided_at'', JTime (rl_decided_at r))]"

text \<open>Reading a receipt back; a value that is not an object with exactly the expected fields is refused.
  (\<open>str\<close> and \<open>_parse_control_time\<close> are the identity on the texts that \<open>release_json\<close> wrote.)\<close>

definition has_fields :: "string list \<Rightarrow> json \<Rightarrow> bool" where
  "has_fields names j = (case j of JObj kvs \<Rightarrow> set (map fst kvs) = set names | _ \<Rightarrow> False)"

definition release_receipt :: "json \<Rightarrow> release_approval op" where
  "release_receipt j =
     (if has_fields [''id'', ''decision'', ''release_id'', ''manifest_sha256'', ''actor_id'', ''decided_at''] j
      then (case (jget ''id'' j, jget ''decision'' j, jget ''release_id'' j, jget ''manifest_sha256'' j,
                  jget ''actor_id'' j, jget ''decided_at'' j) of
              (Some (JStr i), Some (JStr d), Some (JStr r), Some (JStr m), Some (JStr a), Some (JTime t)) \<Rightarrow>
                ret \<lparr>rl_id = i, rl_decision = d, rl_release_id = r, rl_manifest_sha256 = m, rl_actor_id = a,
                     rl_decided_at = t\<rparr>
            | _ \<Rightarrow> raise (RuntimeError ''runtime release approval receipt is invalid''))
      else raise (RuntimeError ''runtime release approval receipt is invalid''))"

definition validated_release_identity :: "string \<Rightarrow> string \<Rightarrow> unit op" where
  "validated_release_identity release_id manifest_sha256 =
     seq (guard (1 \<le> length release_id \<and> length release_id \<le> 200)
            (ValueError ''release_id must be 1-200 characters'')) (\<lambda>_.
     guard (valid_digest manifest_sha256)
       (ValueError ''manifest_sha256 must be a lowercase sha256 digest''))"

text \<open>\<open>ORDER BY rowid DESC LIMIT 1\<close>.\<close>

definition latest :: "('r \<Rightarrow> bool) \<Rightarrow> 'r list \<Rightarrow> 'r option" where
  "latest P rows = find P (rev rows)"

definition standing_release_decision :: "string \<Rightarrow> string \<Rightarrow> store \<Rightarrow> release_approval option" where
  "standing_release_decision release_id manifest_sha256 s =
     latest (\<lambda>r. rl_release_id r = release_id \<and> rl_manifest_sha256 r = manifest_sha256)
       (runtime_release_approvals s)"

definition runtime_release_decision :: "string \<Rightarrow> string \<Rightarrow> release_approval option op" where
  "runtime_release_decision release_id manifest_sha256 =
     seq (validated_release_identity release_id manifest_sha256) (\<lambda>_.
     gets (standing_release_decision release_id manifest_sha256))"

definition runtime_release_approved :: "string \<Rightarrow> string \<Rightarrow> bool op" where
  "runtime_release_approved release_id manifest_sha256 =
     seq (runtime_release_decision release_id manifest_sha256) (\<lambda>record.
     ret (case record of None \<Rightarrow> False | Some r \<Rightarrow> rl_decision r = ''approve''))"

definition actor_ok :: "string \<Rightarrow> unit op" where
  "actor_ok actor_id = guard (1 \<le> length actor_id \<and> length actor_id \<le> 200) IntegrityError"

definition delete_receipt :: "string \<Rightarrow> string \<Rightarrow> string \<Rightarrow> unit op" where
  "delete_receipt actor_id operation key =
     modify (idempotency_receipts_update (filter (\<lambda>r. receipt_key r \<noteq> (actor_id, operation, key))))"

definition record_runtime_release_decision ::
    "string \<Rightarrow> string \<Rightarrow> string \<Rightarrow> string \<Rightarrow> string \<Rightarrow> release_approval op" where
  "record_runtime_release_decision decision release_id manifest_sha256 actor_id idempotency_key =
     (let request = JObj [(''decision'', JStr decision), (''release_id'', JStr release_id),
                          (''manifest_sha256'', JStr manifest_sha256)];
          operation = ''INTERNAL:runtime-release/'' @ decision in
     seq (validated_release_identity release_id manifest_sha256) (\<lambda>_.
     seq (find_receipt actor_id operation idempotency_key request) (\<lambda>replay.
     seq (gets (standing_release_decision release_id manifest_sha256)) (\<lambda>standing.
     (case (if (case standing of None \<Rightarrow> False | Some r \<Rightarrow> rl_decision r = decision) then standing else None) of
        Some r \<Rightarrow>
          (case replay of
             Some result \<Rightarrow> release_receipt (cr_value result)
           | None \<Rightarrow>
               seq (save_receipt actor_id operation idempotency_key request (release_json r) 200) (\<lambda>_. ret r))
      | None \<Rightarrow>
          seq (new_id ''runtime-release-approval'') (\<lambda>approval_id.
          seq utc_now (\<lambda>now.
          seq (actor_ok actor_id) (\<lambda>_.
          seq (sql_insert IntegrityError runtime_release_approvals runtime_release_approvals_update rl_id
                 \<lparr>rl_id = approval_id, rl_decision = decision, rl_release_id = release_id,
                  rl_manifest_sha256 = manifest_sha256, rl_actor_id = actor_id, rl_decided_at = now\<rparr>) (\<lambda>_.
          seq (audit ''runtime_release_approval'' approval_id (''runtime_release.'' @ decision @ ''d'')
                 (JObj [(''release_id'', JStr release_id), (''manifest_sha256'', JStr manifest_sha256)])) (\<lambda>_.
          seq (fetch (RuntimeError ''TypeError'') runtime_release_approvals rl_id approval_id) (\<lambda>record.
          seq (if replay \<noteq> None then delete_receipt actor_id operation idempotency_key else ret ()) (\<lambda>_.
          seq (save_receipt actor_id operation idempotency_key request (release_json record) 201) (\<lambda>_.
          ret record)))))))))))))"

definition approve_runtime_release :: "string \<Rightarrow> string \<Rightarrow> string \<Rightarrow> string \<Rightarrow> release_approval op" where
  "approve_runtime_release = record_runtime_release_decision ''approve''"

definition revoke_runtime_release :: "string \<Rightarrow> string \<Rightarrow> string \<Rightarrow> string \<Rightarrow> release_approval op" where
  "revoke_runtime_release = record_runtime_release_decision ''revoke''"

definition runtime_release_approval_report :: "string \<Rightarrow> string \<Rightarrow> json op" where
  "runtime_release_approval_report release_id manifest_sha256 =
     seq (runtime_release_decision release_id manifest_sha256) (\<lambda>record.
     ret (JObj [(''release_id'', JStr release_id), (''manifest_sha256'', JStr manifest_sha256),
       (''approved'', JBool (case record of None \<Rightarrow> False | Some r \<Rightarrow> rl_decision r = ''approve'')),
       (''decision'', jstr_opt (map_option rl_decision record)),
       (''decided_at'', jtime_opt (map_option rl_decided_at record)),
       (''actor_id'', jstr_opt (map_option rl_actor_id record))]))"

section \<open>Activation of runtime dispatch\<close>

definition activation_json :: "runtime_activation \<Rightarrow> json" where
  "activation_json r = JObj [(''id'', JStr (rv_id r)), (''decision'', JStr (rv_decision r)),
     (''mode'', jstr_opt (rv_mode r)), (''expires_at'', jtime_opt (rv_expires_at r)),
     (''actor_id'', JStr (rv_actor_id r)), (''decided_at'', JTime (rv_decided_at r))]"

definition opt_text :: "json \<Rightarrow> string option" where
  "opt_text j = (case j of JStr t \<Rightarrow> Some t | _ \<Rightarrow> None)"

definition opt_time :: "json \<Rightarrow> instant option" where
  "opt_time j = (case j of JTime t \<Rightarrow> Some t | _ \<Rightarrow> None)"

definition activation_receipt :: "json \<Rightarrow> runtime_activation op" where
  "activation_receipt j =
     (if has_fields [''id'', ''decision'', ''mode'', ''expires_at'', ''actor_id'', ''decided_at''] j
      then (case (jget ''id'' j, jget ''decision'' j, jget ''mode'' j, jget ''expires_at'' j,
                  jget ''actor_id'' j, jget ''decided_at'' j) of
              (Some (JStr i), Some (JStr d), Some m, Some e, Some (JStr a), Some (JTime t)) \<Rightarrow>
                ret \<lparr>rv_id = i, rv_decision = d, rv_mode = opt_text m, rv_expires_at = opt_time e, rv_actor_id = a,
                     rv_decided_at = t\<rparr>
            | _ \<Rightarrow> raise (RuntimeError ''runtime activation receipt is invalid''))
      else raise (RuntimeError ''runtime activation receipt is invalid''))"

definition insert_runtime_activation ::
    "string \<Rightarrow> string option \<Rightarrow> instant option \<Rightarrow> string \<Rightarrow> instant \<Rightarrow> runtime_activation op" where
  "insert_runtime_activation decision mode expires_at actor_id now =
     seq (new_id ''runtime-activation'') (\<lambda>activation_id.
     seq (actor_ok actor_id) (\<lambda>_.
     seq (sql_insert IntegrityError runtime_activation_decisions runtime_activation_decisions_update rv_id
            \<lparr>rv_id = activation_id, rv_decision = decision, rv_mode = mode, rv_expires_at = expires_at,
             rv_actor_id = actor_id, rv_decided_at = now\<rparr>) (\<lambda>_.
     seq (audit ''runtime_activation'' activation_id (''runtime_activation.'' @ decision @ ''d'')
            (JObj [(''mode'', jstr_opt mode), (''expires_at'', jtime_opt expires_at)])) (\<lambda>_.
     fetch (RuntimeError ''TypeError'') runtime_activation_decisions rv_id activation_id))))"

text \<open>The transaction of a decision about activation: the receipt, or the new row.\<close>

definition gate_command ::
    "string \<Rightarrow> string \<Rightarrow> string \<Rightarrow> json \<Rightarrow> (json \<Rightarrow> 'r op) \<Rightarrow> ('r \<Rightarrow> json) \<Rightarrow> 'r op \<Rightarrow> 'r op" where
  "gate_command actor_id operation key request decode encode body =
     seq (find_receipt actor_id operation key request) (\<lambda>replay. case replay of
       Some result \<Rightarrow> decode (cr_value result)
     | None \<Rightarrow>
         seq body (\<lambda>record.
         seq (save_receipt actor_id operation key request (encode record) 201) (\<lambda>_.
         ret record)))"

definition quoted :: "string \<Rightarrow> string" where
  "quoted s = CHR 0x27 # s @ [CHR 0x27]"

definition check_window :: "string \<Rightarrow> string \<Rightarrow> int \<Rightarrow> string \<Rightarrow> int option \<Rightarrow> unit op" where
  "check_window name maximum_text maximum mode window_seconds =
     seq (guard (mode \<in> set [''permanent'', ''window''])
            (ValueError (name @ '' must be '' @ quoted ''permanent'' @ '' or '' @ quoted ''window''))) (\<lambda>_.
     if mode = ''window'' then
       guard (case window_seconds of None \<Rightarrow> False | Some n \<Rightarrow> 1 \<le> n \<and> n \<le> maximum)
         (ValueError (''window_seconds must be between 1 and '' @ maximum_text @ '' for a window''))
     else guard (window_seconds = None) (ValueError ''window_seconds is only valid for a window''))"

definition window_end :: "string \<Rightarrow> int option \<Rightarrow> instant \<Rightarrow> instant option" where
  "window_end mode window_seconds now =
     (if mode = ''window'' then map_option (\<lambda>n. now + seconds n) window_seconds else None)"

definition enable_runtime_activation ::
    "string \<Rightarrow> int option \<Rightarrow> string \<Rightarrow> string \<Rightarrow> runtime_activation op" where
  "enable_runtime_activation mode window_seconds actor_id idempotency_key =
     seq (check_window ''mode'' ''604800'' 604800 mode window_seconds) (\<lambda>_.
     gate_command actor_id ''INTERNAL:runtime-activation/enable'' idempotency_key
       (JObj [(''mode'', JStr mode), (''window_seconds'', jint_opt window_seconds)])
       activation_receipt activation_json
     (seq utc_now (\<lambda>now.
      insert_runtime_activation ''enable'' (Some mode) (window_end mode window_seconds now) actor_id now)))"

definition disable_runtime_activation :: "string \<Rightarrow> string \<Rightarrow> runtime_activation op" where
  "disable_runtime_activation actor_id idempotency_key =
     gate_command actor_id ''INTERNAL:runtime-activation/disable'' idempotency_key
       (JObj [(''decision'', JStr ''disable'')]) activation_receipt activation_json
     (seq utc_now (\<lambda>now. insert_runtime_activation ''disable'' None None actor_id now))"

text \<open>The clock is read only for a decision that may have run out.\<close>

definition unless_run_out :: "instant option \<Rightarrow> 'r \<Rightarrow> 'r option op" where
  "unless_run_out expires_at r =
     (case expires_at of None \<Rightarrow> ret (Some r)
      | Some t \<Rightarrow> seq utc_now (\<lambda>now. ret (if t \<le> now then None else Some r)))"

definition runtime_activation_in_force :: "runtime_activation option op" where
  "runtime_activation_in_force =
     seq (gets (\<lambda>s. latest (\<lambda>_. True) (runtime_activation_decisions s))) (\<lambda>row. case row of
       None \<Rightarrow> ret None
     | Some r \<Rightarrow> if rv_decision r \<noteq> ''enable'' then ret None else unless_run_out (rv_expires_at r) r)"

definition runtime_dispatch_enabled :: "bool op" where
  "runtime_dispatch_enabled = seq runtime_activation_in_force (\<lambda>record. ret (record \<noteq> None))"

definition runtime_activation_report :: "json op" where
  "runtime_activation_report = seq runtime_activation_in_force (\<lambda>record.
     ret (JObj [(''enabled'', JBool (record \<noteq> None)),
       (''mode'', case record of None \<Rightarrow> JNull | Some r \<Rightarrow> jstr_opt (rv_mode r)),
       (''expires_at'', case record of None \<Rightarrow> JNull | Some r \<Rightarrow> jtime_opt (rv_expires_at r))]))"

section \<open>Activation of a transport\<close>

definition transport_json :: "transport_activation \<Rightarrow> json" where
  "transport_json r = JObj [(''id'', JStr (tv_id r)), (''transport'', JStr (tv_transport r)),
     (''decision'', JStr (tv_decision r)), (''scope'', jstr_opt (tv_scope r)),
     (''expires_at'', jtime_opt (tv_expires_at r)), (''actor_id'', JStr (tv_actor_id r)),
     (''decided_at'', JTime (tv_decided_at r))]"

definition transport_receipt :: "json \<Rightarrow> transport_activation op" where
  "transport_receipt j =
     (if has_fields [''id'', ''transport'', ''decision'', ''scope'', ''expires_at'', ''actor_id'', ''decided_at''] j
      then (case (jget ''id'' j, jget ''transport'' j, jget ''decision'' j, jget ''scope'' j, jget ''expires_at'' j,
                  jget ''actor_id'' j, jget ''decided_at'' j) of
              (Some (JStr i), Some (JStr p), Some (JStr d), Some m, Some e, Some (JStr a), Some (JTime t)) \<Rightarrow>
                ret \<lparr>tv_id = i, tv_transport = p, tv_decision = d, tv_scope = opt_text m,
                     tv_expires_at = opt_time e, tv_actor_id = a, tv_decided_at = t\<rparr>
            | _ \<Rightarrow> raise (RuntimeError ''transport activation receipt is invalid''))
      else raise (RuntimeError ''transport activation receipt is invalid''))"

definition check_activation_transport :: "string \<Rightarrow> unit op" where
  "check_activation_transport v = guard (v \<in> set [''telegram'']) (ValueError ''transport is invalid'')"

definition insert_transport_activation ::
    "string \<Rightarrow> string \<Rightarrow> string option \<Rightarrow> instant option \<Rightarrow> string \<Rightarrow> instant \<Rightarrow> transport_activation op" where
  "insert_transport_activation transport decision scope expires_at actor_id now =
     seq (new_id ''transport-activation'') (\<lambda>activation_id.
     seq (actor_ok actor_id) (\<lambda>_.
     seq (sql_insert IntegrityError transport_activation_decisions transport_activation_decisions_update tv_id
            \<lparr>tv_id = activation_id, tv_transport = transport, tv_decision = decision, tv_scope = scope,
             tv_expires_at = expires_at, tv_actor_id = actor_id, tv_decided_at = now\<rparr>) (\<lambda>_.
     seq (audit ''transport_activation'' activation_id (''transport_activation.'' @ decision @ ''d'')
            (JObj [(''transport'', JStr transport), (''scope'', jstr_opt scope),
                   (''expires_at'', jtime_opt expires_at)])) (\<lambda>_.
     fetch (RuntimeError ''TypeError'') transport_activation_decisions tv_id activation_id))))"

definition enable_transport_activation ::
    "string \<Rightarrow> string \<Rightarrow> int option \<Rightarrow> string \<Rightarrow> string \<Rightarrow> transport_activation op" where
  "enable_transport_activation transport scope window_seconds actor_id idempotency_key =
     seq (check_activation_transport transport) (\<lambda>_.
     seq (check_window ''scope'' ''1800'' 1800 scope window_seconds) (\<lambda>_.
     gate_command actor_id ''INTERNAL:transport-activation/enable'' idempotency_key
       (JObj [(''transport'', JStr transport), (''scope'', JStr scope),
              (''window_seconds'', jint_opt window_seconds)]) transport_receipt transport_json
     (seq utc_now (\<lambda>now.
      insert_transport_activation transport ''enable'' (Some scope) (window_end scope window_seconds now)
        actor_id now))))"

definition disable_transport_activation :: "string \<Rightarrow> string \<Rightarrow> string \<Rightarrow> transport_activation op" where
  "disable_transport_activation transport actor_id idempotency_key =
     seq (check_activation_transport transport) (\<lambda>_.
     gate_command actor_id ''INTERNAL:transport-activation/disable'' idempotency_key
       (JObj [(''transport'', JStr transport), (''decision'', JStr ''disable'')]) transport_receipt transport_json
     (seq utc_now (\<lambda>now. insert_transport_activation transport ''disable'' None None actor_id now)))"

definition transport_activation_in_force :: "string \<Rightarrow> transport_activation option op" where
  "transport_activation_in_force transport =
     seq (gets (\<lambda>s. latest (\<lambda>r. tv_transport r = transport) (transport_activation_decisions s))) (\<lambda>row. case row of
       None \<Rightarrow> ret None
     | Some r \<Rightarrow> if tv_decision r \<noteq> ''enable'' then ret None else unless_run_out (tv_expires_at r) r)"

definition checked_transport_activation :: "string \<Rightarrow> transport_activation option op" where
  "checked_transport_activation transport =
     seq (check_activation_transport transport) (\<lambda>_. transport_activation_in_force transport)"

definition telegram_dispatch_enabled :: "bool op" where
  "telegram_dispatch_enabled =
     seq (checked_transport_activation ''telegram'') (\<lambda>record. ret (record \<noteq> None))"

definition transport_activation_decision :: "string \<Rightarrow> transport_activation option op" where
  "transport_activation_decision decision_id =
     seq (required_text decision_id ''decision_id'' 200) (\<lambda>decision_id.
     gets (\<lambda>s. find_row tv_id decision_id (transport_activation_decisions s)))"

definition transport_window_aggregate :: string where
  "transport_window_aggregate = ''transport_window''"

definition record_transport_window_closed :: "string \<Rightarrow> bool \<Rightarrow> string \<Rightarrow> string \<Rightarrow> unit op" where
  "record_transport_window_closed window_id poller_stopped proof_text actor_id =
     seq (required_text window_id ''window_id'' 200) (\<lambda>window_id.
     seq (required_text proof_text ''proof'' 200) (\<lambda>proof_text.
     seq (required_text actor_id ''actor_id'' 200) (\<lambda>actor_id.
     seq (fetch (NotFound ''transport activation decision'' window_id) transport_activation_decisions tv_id
            window_id) (\<lambda>record.
     seq (guard (tv_scope record = Some ''window'')
            (InvalidTransition (case tv_scope record of None \<Rightarrow> ''None'' | Some x \<Rightarrow> x) ''closed'')) (\<lambda>_.
     seq (transport_activation_in_force (tv_transport record)) (\<lambda>in_force.
     seq (guard (case in_force of None \<Rightarrow> True | Some r \<Rightarrow> tv_id r \<noteq> window_id)
            (InvalidTransition ''open'' ''closed'')) (\<lambda>_.
     audit transport_window_aggregate window_id ''transport_window_closed''
       (JObj [(''transport'', JStr (tv_transport record)), (''poller_stopped'', JBool poller_stopped),
              (''proof'', JStr proof_text), (''actor_id'', JStr actor_id)]))))))))"

definition accounted_windows :: "store \<Rightarrow> string list" where
  "accounted_windows s = map au_aggregate_id
     (filter (\<lambda>a. au_aggregate_type a = transport_window_aggregate) (control_audit s))"

definition open_windows :: "store \<Rightarrow> transport_activation list" where
  "open_windows s = filter (\<lambda>r. tv_scope r = Some ''window'' \<and> tv_decision r = ''enable''
     \<and> tv_id r \<notin> set (accounted_windows s)) (transport_activation_decisions s)"

text \<open>The body of the loop over the windows found open.\<close>

definition abort_window :: "string \<Rightarrow> string \<Rightarrow> transport_activation \<Rightarrow> unit op" where
  "abort_window reason actor_id record =
     seq (transport_activation_in_force (tv_transport record)) (\<lambda>in_force.
     seq (if (case in_force of None \<Rightarrow> False | Some r \<Rightarrow> tv_id r = tv_id record) then
            seq utc_now (\<lambda>now.
            seq (insert_transport_activation (tv_transport record) ''disable'' None None actor_id now) (\<lambda>_. ret ()))
          else ret ()) (\<lambda>_.
     audit transport_window_aggregate (tv_id record) ''transport_window_aborted''
       (JObj [(''transport'', JStr (tv_transport record)), (''reason'', JStr reason),
              (''actor_id'', JStr actor_id)])))"

definition abort_open_transport_windows :: "string \<Rightarrow> string \<Rightarrow> string list op" where
  "abort_open_transport_windows reason actor_id =
     seq (required_text reason ''reason'' 200) (\<lambda>reason.
     seq (required_text actor_id ''actor_id'' 200) (\<lambda>actor_id.
     seq (gets open_windows) (\<lambda>rows.
     seq (for_each (abort_window reason actor_id) rows) (\<lambda>_.
     ret (map tv_id rows)))))"

section \<open>What the gates leave alone\<close>

lemma keeps_gate_checks [keeps]:
  "preserves I (validated_release_identity r m)" "preserves I (actor_ok a)" "preserves I (check_window n t mx md w)"
  "preserves I (check_activation_transport v)"
  unfolding validated_release_identity_def actor_ok_def check_window_def check_activation_transport_def
  by (intro keeps)+

lemma keeps_gate_receipts [keeps]:
  "preserves I (release_receipt j)" "preserves I (activation_receipt j)" "preserves I (transport_receipt j)"
  unfolding release_receipt_def activation_receipt_def transport_receipt_def
  by (auto intro!: keeps split: option.split json.split)

lemma keeps_gate_reads [keeps]:
  "preserves I (runtime_release_decision r m)" "preserves I (runtime_release_approved r m)"
  "preserves I (runtime_release_approval_report r m)" "preserves I (transport_activation_decision i)"
  unfolding runtime_release_decision_def runtime_release_approved_def runtime_release_approval_report_def
    transport_activation_decision_def
  by (intro keeps)+

context bookkeeping
begin

lemma keeps_unless_run_out [keeps]: "preserves I (unless_run_out t r)"
  unfolding unless_run_out_def by (intro keeps)

lemma keeps_activations_in_force [keeps]:
  "preserves I runtime_activation_in_force" "preserves I (transport_activation_in_force p)"
  unfolding runtime_activation_in_force_def transport_activation_in_force_def by (intro keeps)+

lemma keeps_gate_predicates [keeps]:
  "preserves I runtime_dispatch_enabled" "preserves I telegram_dispatch_enabled"
  "preserves I runtime_activation_report" "preserves I (checked_transport_activation p)"
  unfolding runtime_dispatch_enabled_def telegram_dispatch_enabled_def runtime_activation_report_def
    checked_transport_activation_def
  by (intro keeps)+

lemma keeps_record_transport_window_closed [keeps]: "preserves I (record_transport_window_closed w b p a)"
  unfolding record_transport_window_closed_def by (intro keeps)

lemma keeps_gate_command [keeps]:
  "(\<And>j. preserves I (decode j)) \<Longrightarrow> preserves I body \<Longrightarrow> preserves I (gate_command a p k r decode encode body)"
  unfolding gate_command_def by (intro keeps)

end

text \<open>A predicate about the three tables of decisions that every insertion keeps.\<close>

locale gate_frame = bookkeeping +
  assumes I_forget: "I s \<Longrightarrow> I (idempotency_receipts_update
         (filter (\<lambda>r. receipt_key r \<noteq> (a, ''INTERNAL:runtime-release/'' @ d, k))) s)"
    and I_approval: "I s \<Longrightarrow> I (runtime_release_approvals_update (\<lambda>rs. rs @ [x1]) s)"
    and I_activation: "rv_id x2 \<notin> rv_id ` set (runtime_activation_decisions s)
       \<Longrightarrow> rv_decision x2 = ''disable'' \<and> rv_mode x2 = None \<and> rv_expires_at x2 = None
         \<or> rv_decision x2 = ''enable'' \<and> rv_mode x2 = Some ''permanent'' \<and> rv_expires_at x2 = None
         \<or> rv_decision x2 = ''enable'' \<and> rv_mode x2 = Some ''window'' \<and> (\<exists>n. 1 \<le> n \<and> n \<le> 604800
             \<and> rv_expires_at x2 = Some (rv_decided_at x2 + seconds n))
       \<Longrightarrow> I s \<Longrightarrow> I (runtime_activation_decisions_update (\<lambda>rs. rs @ [x2]) s)"
    and I_transport: "tv_id x3 \<notin> tv_id ` set (transport_activation_decisions s)
       \<Longrightarrow> tv_decision x3 = ''disable'' \<and> tv_scope x3 = None \<and> tv_expires_at x3 = None
         \<or> tv_transport x3 = ''telegram'' \<and> tv_decision x3 = ''enable'' \<and> tv_scope x3 = Some ''permanent''
             \<and> tv_expires_at x3 = None
         \<or> tv_transport x3 = ''telegram'' \<and> tv_decision x3 = ''enable'' \<and> tv_scope x3 = Some ''window''
             \<and> (\<exists>n. 1 \<le> n \<and> n \<le> 1800 \<and> tv_expires_at x3 = Some (tv_decided_at x3 + seconds n))
       \<Longrightarrow> I s \<Longrightarrow> I (transport_activation_decisions_update (\<lambda>rs. rs @ [x3]) s)"
begin

lemma keeps_delete_receipt [keeps]: "preserves I (delete_receipt a (''INTERNAL:runtime-release/'' @ d) k)"
  unfolding delete_receipt_def by (intro preserves_modify I_forget)

lemma keeps_release_decisions [keeps]:
  "preserves I (approve_runtime_release r m a k)" "preserves I (revoke_runtime_release r m a k)"
  unfolding approve_runtime_release_def revoke_runtime_release_def record_runtime_release_decision_def Let_def
  by (intro keeps preserves_sql_insert; erule I_approval)+

lemma keeps_insert_activation:
  assumes "d = ''disable'' \<and> m = None \<and> e = None \<or> d = ''enable'' \<and> m = Some ''permanent'' \<and> e = None
    \<or> d = ''enable'' \<and> m = Some ''window'' \<and> (\<exists>n. 1 \<le> n \<and> n \<le> 604800 \<and> e = Some (now + seconds n))"
  shows "preserves I (insert_runtime_activation d m e a now)"
  unfolding insert_runtime_activation_def
  by (intro keeps preserves_sql_insert I_activation) (use assms in simp_all)

lemma keeps_insert_transport:
  assumes "d = ''disable'' \<and> m = None \<and> e = None
    \<or> p = ''telegram'' \<and> d = ''enable'' \<and> m = Some ''permanent'' \<and> e = None
    \<or> p = ''telegram'' \<and> d = ''enable'' \<and> m = Some ''window'' \<and> (\<exists>n. 1 \<le> n \<and> n \<le> 1800 \<and> e = Some (now + seconds n))"
  shows "preserves I (insert_transport_activation p d m e a now)"
  unfolding insert_transport_activation_def
  by (intro keeps preserves_sql_insert I_transport) (use assms in simp_all)

lemma keeps_enable_runtime [keeps]: "preserves I (enable_runtime_activation m w a k)"
proof (rule preservesI)
  fix s assume "I s"
  show "wp (enable_runtime_activation m w a k) (\<lambda>_. I) s"
  proof (cases "m = ''permanent'' \<and> w = None \<or> m = ''window'' \<and> (\<exists>n. w = Some n \<and> 1 \<le> n \<and> n \<le> 604800)")
    case True
    then have "preserves I (gate_command a p k r activation_receipt activation_json (seq utc_now (\<lambda>now.
        insert_runtime_activation ''enable'' (Some m) (window_end m w now) a now)))" for p r
      by (intro keeps keeps_insert_activation) (auto simp: window_end_def)
    with \<open>I s\<close> show ?thesis
      by (auto simp: enable_runtime_activation_def check_window_def wp_rules dest: preservesD)
  qed (auto simp: enable_runtime_activation_def check_window_def wp_rules split: option.splits)
qed

lemma keeps_enable_transport [keeps]: "preserves I (enable_transport_activation p m w a k)"
proof (rule preservesI)
  fix s assume "I s"
  show "wp (enable_transport_activation p m w a k) (\<lambda>_. I) s"
  proof (cases "p = ''telegram'' \<and> (m = ''permanent'' \<and> w = None \<or> m = ''window'' \<and> (\<exists>n. w = Some n \<and> 1 \<le> n \<and> n \<le> 1800))")
    case True
    then have "preserves I (gate_command a q k r transport_receipt transport_json (seq utc_now (\<lambda>now.
        insert_transport_activation p ''enable'' (Some m) (window_end m w now) a now)))" for q r
      by (intro keeps keeps_insert_transport) (auto simp: window_end_def)
    with \<open>I s\<close> show ?thesis
      by (auto simp: enable_transport_activation_def check_activation_transport_def check_window_def wp_rules dest: preservesD)
  qed (auto simp: enable_transport_activation_def check_activation_transport_def check_window_def wp_rules split: option.splits)
qed

lemma keeps_disables [keeps]:
  "preserves I (disable_runtime_activation a k)" "preserves I (disable_transport_activation p a k)"
  unfolding disable_runtime_activation_def disable_transport_activation_def
  by (intro keeps keeps_insert_activation keeps_insert_transport; simp)+

lemma keeps_abort_open_transport_windows [keeps]: "preserves I (abort_open_transport_windows r a)"
  unfolding abort_open_transport_windows_def abort_window_def by (intro keeps keeps_insert_transport; simp)

end

section \<open>Well-formed decisions\<close>

text \<open>A decision that enables for a window carries the end of the window, not later than the bound.\<close>

definition activation_ok :: "runtime_activation \<Rightarrow> bool" where
  "activation_ok r = (case rv_expires_at r of
     None \<Rightarrow> rv_decision r = ''disable'' \<and> rv_mode r = None
             \<or> rv_decision r = ''enable'' \<and> rv_mode r = Some ''permanent''
   | Some e \<Rightarrow> rv_decision r = ''enable'' \<and> rv_mode r = Some ''window''
             \<and> rv_decided_at r < e \<and> e \<le> rv_decided_at r + seconds 604800)"

definition transport_ok :: "transport_activation \<Rightarrow> bool" where
  "transport_ok r = (case tv_expires_at r of
     None \<Rightarrow> tv_decision r = ''disable'' \<and> tv_scope r = None
             \<or> tv_transport r = ''telegram'' \<and> tv_decision r = ''enable'' \<and> tv_scope r = Some ''permanent''
   | Some e \<Rightarrow> tv_transport r = ''telegram'' \<and> tv_decision r = ''enable'' \<and> tv_scope r = Some ''window''
             \<and> tv_decided_at r < e \<and> e \<le> tv_decided_at r + seconds 1800)"

definition gates_inv :: "store \<Rightarrow> bool" where
  "gates_inv s = (distinct (map rv_id (runtime_activation_decisions s))
     \<and> list_all activation_ok (runtime_activation_decisions s)
     \<and> distinct (map tv_id (transport_activation_decisions s))
     \<and> list_all transport_ok (transport_activation_decisions s))"

interpretation gates: gate_frame gates_inv
  by unfold_locales
    (auto simp: gates_inv_def activation_ok_def transport_ok_def seconds_def split: option.splits)

inductive gate_cmd :: "store \<Rightarrow> store \<Rightarrow> bool" where
  approve: "leads (approve_runtime_release r m a k) s s' \<Longrightarrow> gate_cmd s s'"
| revoke: "leads (revoke_runtime_release r m a k) s s' \<Longrightarrow> gate_cmd s s'"
| enable_runtime: "leads (enable_runtime_activation md w a k) s s' \<Longrightarrow> gate_cmd s s'"
| disable_runtime: "leads (disable_runtime_activation a k) s s' \<Longrightarrow> gate_cmd s s'"
| enable_transport: "leads (enable_transport_activation p md w a k) s s' \<Longrightarrow> gate_cmd s s'"
| disable_transport: "leads (disable_transport_activation p a k) s s' \<Longrightarrow> gate_cmd s s'"
| close_window: "leads (record_transport_window_closed i b pf a) s s' \<Longrightarrow> gate_cmd s s'"
| abort_windows: "leads (abort_open_transport_windows rs a) s s' \<Longrightarrow> gate_cmd s s'"

context gate_frame
begin

lemmas gate_ops = keeps_release_decisions keeps_enable_runtime keeps_enable_transport keeps_disables
  keeps_record_transport_window_closed keeps_abort_open_transport_windows

lemma gate_cmd_keeps: "gate_cmd s s' \<Longrightarrow> I s \<Longrightarrow> I s'"
  by (erule gate_cmd.cases) (auto intro: gate_ops[THEN preserves_leads])

end

section \<open>Properties of the gates\<close>

subsection \<open>Receipts read back\<close>

lemma opt_text_back [simp]: "opt_text (jstr_opt x) = x" by (cases x) (simp_all add: opt_text_def jstr_opt_def)
lemma opt_time_back [simp]: "opt_time (jtime_opt x) = x" by (cases x) (simp_all add: opt_time_def jtime_opt_def)

lemma receipts_read_back:
  "release_receipt (release_json r) = ret r" "activation_receipt (activation_json v) = ret v"
  "transport_receipt (transport_json t) = ret t"
  by (cases r, cases v, cases t, simp_all add: release_receipt_def release_json_def activation_receipt_def activation_json_def
      transport_receipt_def transport_json_def has_fields_def insert_commute)+

definition demo_sha :: string where
  "demo_sha = replicate 64 (CHR ''a'')"

definition demo_window :: "runtime_activation op" where
  "demo_window = enable_runtime_activation ''window'' (Some 60) ''operator'' demo_key"

subsection \<open>The release gate\<close>

lemma latest_append: "latest P (rows @ [r]) = (if P r then Some r else latest P rows)"
  by (simp add: latest_def)

interpretation approvals: bookkeeping "\<lambda>s. runtime_release_approvals s = rows" for rows
  by unfold_locales simp_all

lemma release_receipt_wp: "(\<And>r. Q r s) \<Longrightarrow> wp (release_receipt j) Q s"
  by (auto simp: release_receipt_def wp_rules split: option.split json.split)

lemma release_decision_standing:
  "wp (record_runtime_release_decision d i m a k)
     (\<lambda>_ s'. (\<exists>r. standing_release_decision i m s' = Some r \<and> rl_decision r = d)
       \<and> (\<forall>j n. (j, n) \<noteq> (i, m) \<longrightarrow> standing_release_decision j n s' = standing_release_decision j n s)) s"
  unfolding record_runtime_release_decision_def Let_def validated_release_identity_def actor_ok_def delete_receipt_def
    audit_def save_receipt_def
  by (auto simp: wp_rules standing_release_decision_def latest_append intro!: release_receipt_wp split: option.splits)

text \<open>C22. The release gate follows the operator. After an approval that returned, whatever receipts its key
  had, this release with these bytes is approved; after a revocation it is not; and no decision touches
  another release or the same release with other bytes.\<close>

theorem release_gate_follows:
  assumes "leads ((if approve then approve_runtime_release else revoke_runtime_release) i m a k) s s'"
  shows "answer (runtime_release_approved i m) s' = Some approve
     \<and> (\<forall>j n. (j, n) \<noteq> (i, m) \<longrightarrow>
          answer (runtime_release_approved j n) s' = answer (runtime_release_approved j n) s)"
proof -
  let ?d = "if approve then ''approve'' else ''revoke''"
  obtain r where run: "record_runtime_release_decision ?d i m a k s = Inr (r, s')"
    using assms by (auto simp: leads_def approve_runtime_release_def revoke_runtime_release_def split: if_splits)
  have ok: "validated_release_identity i m s = Inr ((), s)"
    using run by (auto simp: record_runtime_release_decision_def validated_release_identity_def cmd_defs Let_def split: if_splits)
  then have ok': "validated_release_identity i m s' = Inr ((), s')"
    by (auto simp: validated_release_identity_def cmd_defs split: if_splits)
  have "answer (runtime_release_approved j n) x = (if validated_release_identity j n x = Inr ((), x)
      then Some (case standing_release_decision j n x of None \<Rightarrow> False | Some r \<Rightarrow> rl_decision r = ''approve'') else None)" for j n x
    by (auto simp: runtime_release_approved_def runtime_release_decision_def answer_def validated_release_identity_def
        cmd_defs split: option.splits)
  moreover have "validated_release_identity j n s = Inr ((), s) \<longleftrightarrow> validated_release_identity j n s' = Inr ((), s')" for j n
    by (auto simp: validated_release_identity_def cmd_defs split: if_splits)
  ultimately show ?thesis using wpD[OF release_decision_standing run] ok' by (cases approve) auto
qed

theorem release_gate_follows_witness:
  "answer (runtime_release_approved ''r1'' demo_sha)
     (state_after (revoke_runtime_release ''r1'' demo_sha ''operator'' demo_key)
       (state_after (approve_runtime_release ''r1'' demo_sha ''operator'' demo_key) demo_store)) = Some False"
proof -
  let ?s = "state_after (approve_runtime_release ''r1'' demo_sha ''operator'' demo_key) demo_store"
  have "succeeds (revoke_runtime_release ''r1'' demo_sha ''operator'' demo_key) ?s" by code_simp
  from release_gate_follows[of False "''r1''" demo_sha "''operator''" demo_key ?s] leads_after[OF this]
  show ?thesis by simp
qed

subsection \<open>Windows\<close>

lemma dispatch_enabled_answer:
  "answer runtime_dispatch_enabled s = Some (case latest (\<lambda>_. True) (runtime_activation_decisions s) of
     None \<Rightarrow> False
   | Some r \<Rightarrow> rv_decision r = ''enable'' \<and> (case rv_expires_at r of None \<Rightarrow> True
       | Some e \<Rightarrow> st_clock s (st_ticks s) < e))"
  by (auto simp: runtime_dispatch_enabled_def runtime_activation_in_force_def unless_run_out_def utc_now_def answer_def
      cmd_defs split: option.split)

lemma enable_window_row:
  assumes "find_row receipt_key (a, ''INTERNAL:runtime-activation/enable'', k) (idempotency_receipts s) = None"
  shows "wp (enable_runtime_activation ''window'' (Some n) a k) (\<lambda>_ s'.
    \<exists>r. latest (\<lambda>_. True) (runtime_activation_decisions s') = Some r \<and> rv_decision r = ''enable''
      \<and> rv_expires_at r = Some (st_clock s (st_ticks s) + seconds n)) s"
  unfolding enable_runtime_activation_def gate_command_def insert_runtime_activation_def actor_ok_def audit_def
    save_receipt_def
  by (auto simp: wp_rules check_window_def latest_append assms window_end_def)

text \<open>C21. A window of dispatch is open for exactly as long as it was opened for. After a request with a fresh key
  for a window of \<open>n\<close> seconds, and until the next decision, dispatch is enabled at an instant if and only if
  the instant is before the end of the window, counted from the instant of the decision: no restart and no
  other activity of the store, which leave the table of decisions as it is, make it longer or shorter.\<close>

theorem dispatch_window:
  assumes "find_row receipt_key (a, ''INTERNAL:runtime-activation/enable'', k) (idempotency_receipts s) = None"
    and "leads (enable_runtime_activation ''window'' (Some n) a k) s s'"
    and "runtime_activation_decisions t = runtime_activation_decisions s'"
  shows "answer runtime_dispatch_enabled t
    = Some (st_clock t (st_ticks t) < st_clock s (st_ticks s) + seconds n)"
  using assms(2) wpD[OF enable_window_row[OF assms(1)]]
  by (fastforce simp: dispatch_enabled_answer assms(3) leads_def)

theorem dispatch_window_witness:
  "answer runtime_dispatch_enabled (state_after demo_window demo_store) = Some True"
proof -
  let ?s = "state_after demo_window demo_store"
  have "succeeds demo_window demo_store" and "idempotency_receipts demo_store = []"
    and "st_clock ?s (st_ticks ?s) < st_clock demo_store (st_ticks demo_store) + seconds 60"
    by code_simp+
  with dispatch_window[OF _ leads_after[OF this(1)[unfolded demo_window_def]] refl] show ?thesis
    by (simp add: demo_window_def)
qed

end
