(* ===== verification/Resource_URI.thy ===== *)
theory Resource_URI
  imports Web_Address
begin

text \<open>
  The resource URIs of \<open>src/cortex_platform/product/resources.py\<close>: \<open>parse_resource_uri\<close> step by step, with
  the messages of its \<open>ValueError\<close>s. The parsed value is the root and the decoded segments, as lists of
  code points. Unicode normalization (\<open>unicodedata.normalize("NFC", _)\<close>) is the parameter \<open>nfc\<close>.

  The main theorem says what the parser accepts: exactly the canonical spellings of a valid root and a
  non-empty list of safe segments, and that it returns them.
\<close>

section \<open>The parser\<close>

text \<open>\<open>_ROOT_RE\<close>.\<close>

definition root_ok :: "string \<Rightarrow> bool" where
  "root_ok r = (r \<noteq> [] \<and> is_lower_alpha (hd r)
     \<and> full_class (\<lambda>c. is_lower_alpha c \<or> is_digit c \<or> c = CHR ''-'') 0 62 (tl r))"

text \<open>\<open>_ENCODED_SEPARATOR_RE\<close> and \<open>_BAD_ESCAPE_RE\<close>, searched for.\<close>

fun encoded_separator :: "string \<Rightarrow> bool" where
  "encoded_separator [] = False"
| "encoded_separator (c # cs) =
     (c = CHR ''%'' \<and> lower (take 2 cs) \<in> {''2f'', ''5c''} \<or> encoded_separator cs)"

fun bad_escape :: "string \<Rightarrow> bool" where
  "bad_escape [] = False"
| "bad_escape (c # cs) =
     (c = CHR ''%'' \<and> \<not> (length (take 2 cs) = 2 \<and> list_all hex_char (take 2 cs)) \<or> bad_escape cs)"

definition control_point :: "int \<Rightarrow> bool" where
  "control_point c = (0 \<le> c \<and> c < 32 \<or> 127 \<le> c \<and> c < 160)"

definition unsafe_segment :: "int list \<Rightarrow> bool" where
  "unsafe_segment cs = (cs \<in> {[46], [46, 46]} \<or> 47 \<in> set cs \<or> 92 \<in> set cs \<or> list_ex control_point cs)"

definition decode_segment :: "(int list \<Rightarrow> int list) \<Rightarrow> string \<Rightarrow> string + int list" where
  "decode_segment nfc segment =
     (if bad_escape segment then Inl ''resource URI contains an invalid percent escape''
      else case utf8_decode (unquote_to_bytes segment) of
        None \<Rightarrow> Inl ''resource URI path is not valid UTF-8''
      | Some decoded \<Rightarrow>
          if nfc decoded \<noteq> decoded then Inl ''resource URI path must use NFC Unicode''
          else if unsafe_segment decoded then Inl ''resource URI path segment is unsafe''
          else Inr decoded)"

fun decode_segments :: "(int list \<Rightarrow> int list) \<Rightarrow> string list \<Rightarrow> string + int list list" where
  "decode_segments nfc [] = Inr []"
| "decode_segments nfc (s # ss) = (case decode_segment nfc s of
     Inl e \<Rightarrow> Inl e
   | Inr d \<Rightarrow> (case decode_segments nfc ss of Inl e \<Rightarrow> Inl e | Inr ds \<Rightarrow> Inr (d # ds)))"

definition canonical_uri :: "string \<Rightarrow> int list list \<Rightarrow> string" where
  "canonical_uri root segments = ''cortex://'' @ root @ CHR ''/'' # join_with (CHR ''/'') (map quote segments)"

text \<open>The network location that \<open>urlsplit\<close> finds is the root checked before, so that the user name, the
  password and the port of the result are all absent exactly when it has no at sign and no colon.\<close>

definition parse_resource_uri :: "(int list \<Rightarrow> int list) \<Rightarrow> string \<Rightarrow> string + (string \<times> int list list)" where
  "parse_resource_uri nfc v =
     (if take 9 v \<noteq> ''cortex://'' then Inl ''resource URI must use the lowercase cortex scheme''
      else if encoded_separator v then Inl ''resource URI contains an encoded path separator''
      else
        let (raw_authority, separator, _) = partition_at (CHR ''/'') (drop 9 v) in
        if separator = [] \<or> \<not> root_ok raw_authority then Inl ''resource URI root is invalid''
        else
          let url = filter (\<lambda>c. code c \<noteq> 9 \<and> code c \<noteq> 10 \<and> code c \<noteq> 13) (dropWhile (\<lambda>c. code c \<le> 32) v);
              (scheme, rest) = split_scheme url;
              netloc = split_netloc rest;
              (path, query, fragment) = split_tail rest in
          if scheme \<noteq> ''cortex'' \<or> netloc \<noteq> raw_authority \<or> CHR ''@'' \<in> set netloc \<or> CHR '':'' \<in> set netloc
             \<or> query \<noteq> [] \<or> fragment \<noteq> [] \<or> lower (host_of netloc) \<noteq> raw_authority
          then Inl ''resource URI contains unsupported authority or suffix data''
          else
            let raw_segments = tl (split_at (CHR ''/'') path) in
            if raw_segments = [] \<or> [] \<in> set raw_segments
            then Inl ''resource URI path must contain non-empty segments''
            else case decode_segments nfc raw_segments of
              Inl e \<Rightarrow> Inl e
            | Inr segments \<Rightarrow>
                if v \<noteq> canonical_uri raw_authority segments
                then Inl ''resource URI is not in canonical percent-encoded form''
                else Inr (raw_authority, segments))"

section \<open>What it accepts\<close>

definition segment_ok :: "(int list \<Rightarrow> int list) \<Rightarrow> int list \<Rightarrow> bool" where
  "segment_ok nfc cs \<longleftrightarrow> cs \<noteq> [] \<and> (\<forall>c \<in> set cs. scalar c) \<and> nfc cs = cs \<and> \<not> unsafe_segment cs"

subsection \<open>From a value to its segments\<close>

lemma unquote_Nil: "unquote_to_bytes s = [] \<longleftrightarrow> s = []"
  by (cases s) (auto simp: utf8_char_not_Nil split: list.splits)

lemma decode_segment_ok: "decode_segment nfc s = Inr cs \<Longrightarrow> s \<noteq> [] \<Longrightarrow> segment_ok nfc cs"
  using utf8_decode_Nil[of "unquote_to_bytes s"]
  by (auto simp: decode_segment_def segment_ok_def unquote_Nil split: if_splits option.splits
      dest: utf8_decode_scalar)

lemma decode_segments_ok:
  "decode_segments nfc ss = Inr css \<Longrightarrow> [] \<notin> set ss \<Longrightarrow> length css = length ss \<and> (\<forall>cs \<in> set css. segment_ok nfc cs)"
  by (induction ss arbitrary: css) (auto split: sum.splits intro: decode_segment_ok)

lemma parse_accepts_only:
  assumes "parse_resource_uri nfc v = Inr (root, segs)"
  shows "root_ok root \<and> segs \<noteq> [] \<and> (\<forall>cs \<in> set segs. segment_ok nfc cs) \<and> v = canonical_uri root segs"
proof -
  obtain raw where raw: "raw \<noteq> []" "[] \<notin> set raw" "decode_segments nfc raw = Inr segs"
    and "root_ok root" "v = canonical_uri root segs"
    using assms by (auto simp: parse_resource_uri_def Let_def split: if_splits prod.splits sum.splits)
  with decode_segments_ok[OF raw(3,2)] show ?thesis by auto
qed

subsection \<open>From segments to a value and back\<close>

text \<open>The characters of a canonical spelling.\<close>

definition plain_char :: "char \<Rightarrow> bool" where
  "plain_char c = (safe_byte (code c) \<or> c = CHR ''%'')"

lemma codes:
  "code (CHR ''/'') = 47" "code (CHR ''?'') = 63" "code (CHR ''#'') = 35" "code (CHR '':'') = 58"
  "code (CHR ''@'') = 64" "code (CHR ''['') = 91" "code (CHR ''%'') = 37" "code (CHR ''-'') = 45"
  by (simp_all add: code_def)

lemma plain_char_code: "plain_char c \<Longrightarrow> 37 \<le> code c \<and> code c \<notin> {35, 47, 58, 63, 64, 91}"
  unfolding plain_char_def safe_byte_def by (elim disjE) (auto simp: codes)

lemma plain_char_not: "plain_char c \<Longrightarrow> c \<notin> {CHR ''/'', CHR ''?'', CHR ''#'', CHR '':'', CHR ''@'', CHR ''[''}"
  using plain_char_code[of c] codes by fastforce

lemma hex_digit_plain: "0 \<le> n \<Longrightarrow> n < 16 \<Longrightarrow> plain_char (hex_digit n)"
  using hex_digit_facts(3)[of n] by (simp add: plain_char_def safe_byte_def)

lemma quote_byte_plain: "0 \<le> b \<Longrightarrow> b < 256 \<Longrightarrow> list_all plain_char (quote_byte b)"
proof (cases "safe_byte b")
  case False
  assume "0 \<le> b" "b < 256"
  then have "0 \<le> b div 16" "b div 16 < 16" "0 \<le> b mod 16" "b mod 16 < 16" by auto
  moreover have "plain_char (CHR ''%'')" by (simp add: plain_char_def)
  ultimately show ?thesis using False by (simp add: quote_byte_def hex_digit_plain)
qed (simp add: quote_byte_def plain_char_def code_char_of)

lemma quote_plain: "\<forall>c \<in> set cs. scalar c \<Longrightarrow> list_all plain_char (quote cs)"
  unfolding quote_def quote_bytes_def list_all_iff set_concat set_map
  using utf8_bytes quote_byte_plain unfolding list_all_iff by blast

lemma quote_Nil: "quote cs = [] \<longleftrightarrow> cs = []"
proof -
  have "quote_bytes bs = [] \<longleftrightarrow> bs = []" for bs by (cases bs) (simp_all add: quote_bytes_def quote_byte_def)
  moreover have "utf8 cs = [] \<longleftrightarrow> cs = []" by (cases cs) (simp_all add: utf8_def utf8_char_not_Nil)
  ultimately show ?thesis by (simp add: quote_def)
qed

text \<open>Escapes in it are complete and none of them is a separator.\<close>

lemma lower_hex_digit:
  assumes "0 \<le> n" "n < 16"
  shows "code (lower_char (hex_digit n)) = (if n < 10 then n + 48 else n + 87)"
  using hex_digit_facts(3)[OF assms] assms by (simp add: lower_char_def Let_def code_char_of)

lemma escapes_quote_byte:
  assumes "0 \<le> b" "b < 256"
  shows "bad_escape (quote_byte b @ s) = bad_escape s"
    and "b \<noteq> 47 \<Longrightarrow> b \<noteq> 92 \<Longrightarrow> encoded_separator (quote_byte b @ s) = encoded_separator s"
proof -
  define x y where "x = hex_digit (b div 16)" and "y = hex_digit (b mod 16)"
  have n: "0 \<le> b div 16" "b div 16 < 16" "0 \<le> b mod 16" "b mod 16 < 16" using assms by auto
  have hex: "hex_char x" "hex_char y" using n by (simp_all add: x_def y_def hex_digit_facts)
  have code: "code x \<noteq> 37" "code y \<noteq> 37"
    unfolding x_def y_def hex_digit_facts(3)[OF n(1,2)] hex_digit_facts(3)[OF n(3,4)] using n by presburger+
  then have ne: "x \<noteq> CHR ''%''" "y \<noteq> CHR ''%''" using codes(7) by metis+
  have low: "[lower_char x, lower_char y] \<notin> {''2f'', ''5c''}" if "b \<noteq> 47" "b \<noteq> 92"
  proof
    have digits: "code (CHR ''2'') = 50" "code (CHR ''5'') = 53" "code (CHR ''f'') = 102" "code (CHR ''c'') = 99"
      by (simp_all add: code_def)
    assume "[lower_char x, lower_char y] \<in> {''2f'', ''5c''}"
    then have "code (lower_char x) = 50 \<and> code (lower_char y) = 102 \<or> code (lower_char x) = 53 \<and> code (lower_char y) = 99"
      using digits by auto
    then have "b div 16 = 2 \<and> b mod 16 = 15 \<or> b div 16 = 5 \<and> b mod 16 = 12"
      using n by (auto simp: x_def y_def lower_hex_digit split: if_splits)
    with that show False by presburger
  qed
  have safe: "char_of b \<noteq> CHR ''%''" if "safe_byte b"
    using that assms codes(7) code_char_of[of b] by (auto simp: safe_byte_def)
  show "bad_escape (quote_byte b @ s) = bad_escape s"
    using safe hex ne by (simp add: quote_byte_def flip: x_def y_def)
  show "encoded_separator (quote_byte b @ s) = encoded_separator s" if "b \<noteq> 47" "b \<noteq> 92"
    using safe ne low[OF that] by (auto simp: quote_byte_def lower_def simp flip: x_def y_def)
qed

lemma bad_escape_quote: "\<forall>c \<in> set cs. scalar c \<Longrightarrow> \<not> bad_escape (quote cs)"
proof -
  have "\<forall>b \<in> set bs. 0 \<le> b \<and> b < 256 \<Longrightarrow> \<not> bad_escape (concat (map quote_byte bs))" for bs
    by (induction bs) (simp_all add: escapes_quote_byte)
  then show "\<forall>c \<in> set cs. scalar c \<Longrightarrow> ?thesis" unfolding quote_def quote_bytes_def using utf8_bytes by blast
qed

lemma separator_quote:
  assumes "\<forall>c \<in> set cs. scalar c" "47 \<notin> set cs" "92 \<notin> set cs"
  shows "encoded_separator (quote cs @ s) = encoded_separator s"
proof -
  have "\<forall>b \<in> set bs. 0 \<le> b \<and> b < 256 \<and> b \<noteq> 47 \<and> b \<noteq> 92
      \<Longrightarrow> encoded_separator (concat (map quote_byte bs) @ s) = encoded_separator s" for bs
    by (induction bs) (simp_all add: escapes_quote_byte)
  moreover have "\<forall>b \<in> set (utf8 cs). 0 \<le> b \<and> b < 256 \<and> b \<noteq> 47 \<and> b \<noteq> 92"
    using utf8_bytes[OF assms(1)] assms(2,3) by fastforce
  ultimately show ?thesis unfolding quote_def quote_bytes_def by blast
qed

lemma separator_join:
  "\<forall>cs \<in> set css. (\<forall>c \<in> set cs. scalar c) \<and> 47 \<notin> set cs \<and> 92 \<notin> set cs
     \<Longrightarrow> \<not> encoded_separator (join_with (CHR ''/'') (map quote css))"
  by (induction css rule: induct_list012) (auto simp: separator_quote separator_quote[where s = "[]", simplified])

lemma separator_prefix: "CHR ''%'' \<notin> set p \<Longrightarrow> encoded_separator (p @ s) = encoded_separator s"
  by (induction p) auto

lemma decode_quote: "segment_ok nfc cs \<Longrightarrow> decode_segment nfc (quote cs) = Inr cs"
  by (simp add: decode_segment_def segment_ok_def bad_escape_quote unquote_quote utf8_decode_utf8)

lemma decode_quotes: "\<forall>cs \<in> set css. segment_ok nfc cs \<Longrightarrow> decode_segments nfc (map quote css) = Inr css"
  by (induction css) (simp_all add: decode_quote)

subsection \<open>The parts of a canonical value\<close>

lemma partition_at_append: "c \<notin> set a \<Longrightarrow> partition_at c (a @ c # b) = (a, [c], b)"
  by (induction a) (auto simp: partition_at_def Let_def)

lemma partition_at_none: "c \<notin> set a \<Longrightarrow> partition_at c a = (a, [], [])"
  by (simp add: partition_at_def)

lemma root_char: "is_lower_alpha c \<or> is_digit c \<or> c = CHR ''-'' \<Longrightarrow> plain_char c \<and> c \<noteq> CHR ''%'' \<and> lower_char c = c"
  by (auto simp: plain_char_def safe_byte_def is_lower_alpha_def is_digit_def lower_char_def Let_def codes)

lemma root_plain:
  assumes "root_ok r"
  shows "list_all plain_char r" and "CHR ''%'' \<notin> set r" and "lower r = r"
proof -
  have "\<forall>c \<in> set r. is_lower_alpha c \<or> is_digit c \<or> c = CHR ''-''"
    using assms by (cases r) (auto simp: root_ok_def full_class_def list_all_iff)
  with root_char show "list_all plain_char r" "CHR ''%'' \<notin> set r" "lower r = r"
    by (auto simp: list_all_iff lower_def intro!: map_idI)
qed

lemma join_plain:
  "\<forall>s \<in> set ss. list_all plain_char s \<Longrightarrow> c \<in> set (join_with (CHR ''/'') ss) \<Longrightarrow> plain_char c \<or> c = CHR ''/''"
  by (induction ss rule: induct_list012) (auto simp: list_all_iff)

lemma host_of_plain: "list_all plain_char r \<Longrightarrow> host_of r = r"
proof -
  assume "list_all plain_char r"
  then have "CHR ''@'' \<notin> set r" "CHR ''['' \<notin> set r" "CHR '':'' \<notin> set r"
    using plain_char_not by (auto simp: list_all_iff)
  then show ?thesis by (simp add: host_of_def rpartition_at_def partition_at_none)
qed

lemma split_parts:
  assumes "list_all plain_char r" and "\<forall>c \<in> set p. plain_char c \<or> c = CHR ''/''"
  shows "split_scheme (''cortex://'' @ r @ CHR ''/'' # p) = (''cortex'', ''//'' @ r @ CHR ''/'' # p)"
    and "split_netloc (''//'' @ r @ CHR ''/'' # p) = r"
    and "split_tail (''//'' @ r @ CHR ''/'' # p) = (CHR ''/'' # p, [], [])"
proof -
  have no: "CHR ''/'' \<notin> set r" "CHR ''?'' \<notin> set r" "CHR ''#'' \<notin> set r" "CHR ''?'' \<notin> set p" "CHR ''#'' \<notin> set p"
    using assms plain_char_not by (auto simp: list_all_iff)
  have "partition_at (CHR '':'') (''cortex'' @ CHR '':'' # t) = (''cortex'', '':'', t)" for t
    by (rule partition_at_append) simp
  moreover have "is_lower_alpha (CHR ''c'')" "list_all scheme_char ''cortex''" "lower ''cortex'' = ''cortex''"
    by code_simp+
  ultimately show "split_scheme (''cortex://'' @ r @ CHR ''/'' # p) = (''cortex'', ''//'' @ r @ CHR ''/'' # p)"
    by (simp add: split_scheme_def)
  have tw: "takeWhile (\<lambda>c. c \<noteq> CHR ''/'' \<and> c \<noteq> CHR ''?'' \<and> c \<noteq> CHR ''#'') (r @ CHR ''/'' # p) = r"
    using no by (subst takeWhile_append2) auto
  then show net: "split_netloc (''//'' @ r @ CHR ''/'' # p) = r"
    by (simp add: split_netloc_def)
  then show "split_tail (''//'' @ r @ CHR ''/'' # p) = (CHR ''/'' # p, [], [])"
    using no by (simp add: split_tail_def partition_at_none)
qed

lemma parse_accepts:
  assumes root: "root_ok root" and segs: "segs \<noteq> []" "\<forall>cs \<in> set segs. segment_ok nfc cs"
  shows "parse_resource_uri nfc (canonical_uri root segs) = Inr (root, segs)"
proof -
  let ?p = "join_with (CHR ''/'') (map quote segs)"
  note r = root_plain[OF root]
  have quotes: "\<forall>s \<in> set (map quote segs). list_all plain_char s"
    using segs(2) quote_plain by (auto simp: segment_ok_def)
  then have p: "\<forall>c \<in> set ?p. plain_char c \<or> c = CHR ''/''" using join_plain by blast
  have v: "canonical_uri root segs = ''cortex://'' @ root @ CHR ''/'' # ?p" by (simp add: canonical_uri_def)
  have codes32: "32 < code c" if "c \<in> set (canonical_uri root segs)" for c
  proof -
    have "c \<in> set ''cortex:/'' \<or> plain_char c" using that p r(1) by (auto simp: v list_all_iff)
    moreover have "\<forall>c \<in> set ''cortex:/''. 32 < code c" by code_simp
    ultimately show ?thesis using plain_char_code by fastforce
  qed
  have sep: "\<not> encoded_separator (canonical_uri root segs)"
  proof -
    have "CHR ''%'' \<notin> set (''cortex://'' @ root @ ''/'')" using r(2) by simp
    from separator_prefix[OF this, of ?p] separator_join[of segs] segs(2) show ?thesis
      by (auto simp: v segment_ok_def unsafe_segment_def)
  qed
  have part: "partition_at (CHR ''/'') (drop 9 (canonical_uri root segs)) = (root, ''/'', ?p)"
    using r(1) plain_char_not by (auto simp: v list_all_iff intro!: partition_at_append)
  have url: "filter (\<lambda>c. code c \<noteq> 9 \<and> code c \<noteq> 10 \<and> code c \<noteq> 13) (dropWhile (\<lambda>c. code c \<le> 32) (canonical_uri root segs))
      = canonical_uri root segs"
  proof -
    have "dropWhile (\<lambda>c. code c \<le> 32) (canonical_uri root segs) = canonical_uri root segs"
      using codes32[of "hd (canonical_uri root segs)"] by (simp add: dropWhile_eq_self_iff v del: append.simps)
    moreover have "filter (\<lambda>c. code c \<noteq> 9 \<and> code c \<noteq> 10 \<and> code c \<noteq> 13) (canonical_uri root segs) = canonical_uri root segs"
      unfolding filter_id_conv using codes32 by fastforce
    ultimately show ?thesis by simp
  qed
  have no: "CHR ''@'' \<notin> set root" "CHR '':'' \<notin> set root" using r(1) plain_char_not by (auto simp: list_all_iff)
  have split: "split_at (CHR ''/'') ?p = map quote segs"
    using quotes plain_char_not segs(1) by (intro split_join) (auto simp: list_all_iff)
  have ne: "map quote segs \<noteq> []" "[] \<notin> set (map quote segs)"
    using segs by (auto simp: segment_ok_def quote_Nil dest: sym)
  define rest where "rest = ''//'' @ root @ CHR ''/'' # ?p"
  note parts = split_parts[OF r(1) p, folded v rest_def]
  have "take 9 (canonical_uri root segs) = ''cortex://''" by (simp add: v)
  with sep part url no r split ne root parts show ?thesis
    by (simp add: parse_resource_uri_def host_of_plain decode_quotes segs(2))
qed

section \<open>The property\<close>

text \<open>C36. What a resource URI is. For every way of normalizing texts, the parser accepts a value if and only if
  it is the canonical spelling of a valid root and a non-empty list of segments that are safe (not empty, not
  a dot segment, no separators, no control characters, normalized), and then it returns that root and these
  segments: printing and parsing are inverse to each other, and no two values name the same resource.\<close>

theorem resource_uri_exact:
  "parse_resource_uri nfc v = Inr (root, segs) \<longleftrightarrow>
     root_ok root \<and> segs \<noteq> [] \<and> list_all (segment_ok nfc) segs \<and> v = canonical_uri root segs"
  using parse_accepts_only[of nfc v root segs] parse_accepts[of root segs nfc] by (auto simp: list_all_iff)

end
