(* ===== verification/Control_Observations.thy ===== *)
theory Control_Observations
  imports Control_Runs Resource_URI
begin

text \<open>
  What a runtime reports while it works (\<open>src/cortex_platform/product/control/store.py\<close>):
  \<open>record_runtime_observation\<close>, which files tool calls, discarded events and the move of a session to a new
  generation of its binding, and \<open>commit_checkpoint\<close>, which pins the checkpoint of an attempt to a
  resource of the artifacts root.

  \<open>str\<close> of a payload value that is not a text is the parameter \<open>py_str\<close>, Unicode normalization the
  parameter \<open>nfc\<close>.
\<close>

section \<open>Observations\<close>

definition observation_fields :: "string \<Rightarrow> string list option" where
  "observation_fields event_type =
     (if event_type = ''runtime.tool.started'' then Some [''tool_call_id'', ''tool_name'']
      else if event_type = ''runtime.tool.completed''
      then Some [''tool_call_id'', ''tool_name'', ''is_error'', ''duration_ms'']
      else if event_type = ''runtime.session_rebound''
      then Some [''runtime_session_ref'', ''generation'', ''parent_runtime_session_ref'']
      else if event_type = ''runtime.event.discarded'' then Some [''event_type'']
      else None)"

definition sanitized_payload :: "string list \<Rightarrow> (string \<times> json) list \<Rightarrow> (string \<times> json) list" where
  "sanitized_payload names payload = List.map_filter (\<lambda>f. map_option (Pair f) (map_of payload f)) names"

definition text_of :: "(json \<Rightarrow> string) \<Rightarrow> json \<Rightarrow> string" where
  "text_of py_str j = (case j of JStr t \<Rightarrow> t | _ \<Rightarrow> py_str j)"

definition clean_field ::
    "(json \<Rightarrow> string) \<Rightarrow> string \<Rightarrow> (string \<times> json) list \<Rightarrow> (string \<times> json) list op" where
  "clean_field py_str f d = (case map_of d f of
     None \<Rightarrow> ret d
   | Some v \<Rightarrow> seq (required_text (text_of py_str v) f 500) (\<lambda>t. ret (dict_set f (JStr t) d)))"

text \<open>A payload value as the parameter of a statement on a text column: the driver takes no list and no
  mapping, and the column turns a number into its digits.\<close>

definition text_column :: "(json \<Rightarrow> string) \<Rightarrow> json option \<Rightarrow> string option op" where
  "text_column py_str v = (case v of
     None \<Rightarrow> ret None
   | Some JNull \<Rightarrow> ret None
   | Some (JStr t) \<Rightarrow> ret (Some t)
   | Some (JInt n) \<Rightarrow> ret (Some (py_str (JInt n)))
   | Some (JBool b) \<Rightarrow> ret (Some (if b then ''1'' else ''0''))
   | _ \<Rightarrow> raise (RuntimeError ''ProgrammingError''))"

definition rebind :: "string \<Rightarrow> int \<Rightarrow> string option \<Rightarrow> instant \<Rightarrow> runtime_binding \<Rightarrow> runtime_binding" where
  "rebind session_ref generation parent_ref now b =
     b\<lparr>rb_runtime_session_ref := session_ref, rb_generation := generation, rb_parent_ref := parent_ref,
       rb_updated_at := now\<rparr>"

definition rebind_session :: "(json \<Rightarrow> string) \<Rightarrow> string \<Rightarrow> (string \<times> json) list \<Rightarrow> unit op" where
  "rebind_session py_str binding_id sanitized =
     seq (required_text (case map_of sanitized ''runtime_session_ref'' of None \<Rightarrow> [] | Some v \<Rightarrow> text_of py_str v)
            ''runtime_session_ref'' 1000) (\<lambda>session_ref.
     (case map_of sanitized ''generation'' of
        Some (JInt generation) \<Rightarrow>
          seq (guard (1 \<le> generation) (ValueError ''runtime binding generation is invalid'')) (\<lambda>_.
          seq (get_runtime_binding binding_id) (\<lambda>binding.
          seq (guard (rb_generation binding < generation)
                 (InvalidTransition ''stale_binding_generation'' ''rebound'')) (\<lambda>_.
          seq utc_now (\<lambda>now.
          seq (text_column py_str (map_of sanitized ''parent_runtime_session_ref'')) (\<lambda>parent_ref.
          seq (sql_update runtime_bindings runtime_bindings_update (\<lambda>b. rb_id b = binding_id)
                 (rebind session_ref generation parent_ref now)) (\<lambda>_.
          seq (gets (\<lambda>s. distinct (map binding_identity (runtime_bindings s)))) (\<lambda>unique.
          guard unique IntegrityError)))))))
      | _ \<Rightarrow> raise (ValueError ''runtime binding generation is invalid'')))"

definition record_runtime_observation ::
    "(json \<Rightarrow> string) \<Rightarrow> string \<Rightarrow> string \<Rightarrow> string \<Rightarrow> string \<Rightarrow> string option \<Rightarrow> string
      \<Rightarrow> (string \<times> json) list \<Rightarrow> int \<Rightarrow> string \<Rightarrow> string \<Rightarrow> event_ref \<Rightarrow> command_result op" where
  "record_runtime_observation py_str run_id attempt_id binding_id release_id generation_id event_type payload
       expected_revision actor_id idempotency_key ev =
     (case observation_fields event_type of
        None \<Rightarrow> raise (ValueError ''runtime observation type is invalid'')
      | Some names \<Rightarrow>
     seq (clean_field py_str ''tool_call_id'' (sanitized_payload names payload)) (\<lambda>d.
     seq (clean_field py_str ''tool_name'' d) (\<lambda>sanitized.
     runtime_command actor_id (''POST:/internal/v1/runs/'' @ run_id @ ''/runtime-observations'') idempotency_key
       (ref_request (exact_ref attempt_id binding_id release_id generation_id)
        @ [(''event_type'', JStr event_type), (''payload'', JObj sanitized),
           (''expected_revision'', JInt expected_revision)]
        @ event_request ev) (Some attempt_id) ev 200
     (seq (get_run run_id) (\<lambda>run0.
      seq (expect_revision (rn_revision run0) (run_json run0) expected_revision) (\<lambda>_.
      seq (validate_runtime_identity run0 attempt_id binding_id release_id generation_id) (\<lambda>_.
      seq (confirm_runtime_resume run0 attempt_id ev) (\<lambda>run.
      seq (guard (rn_state run = R_running \<or> event_type = ''runtime.event.discarded''
                    \<and> rn_state run \<in> set [R_cancel_requested, R_pause_requested])
             (InvalidTransition (run_state_name (rn_state run)) event_type)) (\<lambda>_.
      seq (if event_type = ''runtime.session_rebound'' then rebind_session py_str binding_id sanitized else ret ()) (\<lambda>_.
      seq utc_now (\<lambda>now.
      seq (touch_run run_id expected_revision now) (\<lambda>_.
      seq (insert_event run_id (Some attempt_id) event_type (JObj sanitized) (er_adapter_event_id ev)) (\<lambda>_.
      seq (get_run run_id) (\<lambda>value. ret (run_json value, Some attempt_id)))))))))))))))"

section \<open>Checkpoints\<close>

definition commit_checkpoint ::
    "(int list \<Rightarrow> int list) \<Rightarrow> string \<Rightarrow> string \<Rightarrow> string \<Rightarrow> string \<Rightarrow> string \<Rightarrow> int \<Rightarrow> string \<Rightarrow> string
      \<Rightarrow> string option \<Rightarrow> event_ref \<Rightarrow> command_result op" where
  "commit_checkpoint nfc run_id attempt_id binding_id release_id checkpoint_uri expected_revision
       actor_id idempotency_key generation_id ev =
     seq (required_text checkpoint_uri ''checkpoint_uri'' 4000) (\<lambda>uri.
     seq (case parse_resource_uri nfc uri of
            Inl msg \<Rightarrow> raise (ValueError msg)
          | Inr (root, _) \<Rightarrow> guard (root = ''artifacts'')
              (ValueError ''checkpoint_uri must use the artifacts resource root'')) (\<lambda>_.
     runtime_command actor_id (''POST:/internal/v1/runs/'' @ run_id @ ''/checkpoint'') idempotency_key
       (ref_request (exact_ref attempt_id binding_id release_id generation_id)
        @ [(''checkpoint_uri'', JStr uri), (''expected_revision'', JInt expected_revision)]
        @ event_request ev) (Some attempt_id) ev 200
     (seq (get_run run_id) (\<lambda>run0.
      seq (expect_revision (rn_revision run0) (run_json run0) expected_revision) (\<lambda>_.
      seq (validate_runtime_identity run0 attempt_id binding_id release_id generation_id) (\<lambda>attempt.
      seq (confirm_runtime_resume run0 attempt_id ev) (\<lambda>run.
      seq (guard (rn_state run \<in> set [R_running, R_pause_requested])
             (InvalidTransition (run_state_name (rn_state run)) ''checkpointed'')) (\<lambda>_.
      seq utc_now (\<lambda>now.
      seq (sql_update attempts attempts_update (\<lambda>a. at_id a = attempt_id)
             (\<lambda>a. a\<lparr>at_checkpoint_uri := Some uri\<rparr>)) (\<lambda>_.
      seq (touch_run run_id expected_revision now) (\<lambda>_.
      seq (insert_event run_id (Some attempt_id) ''checkpoint.committed''
             (JObj [(''checkpoint_uri'', JStr uri)]) (er_adapter_event_id ev)) (\<lambda>_.
      seq (get_run run_id) (\<lambda>value.
      ret (jset ''attempt'' (jset ''checkpoint_uri'' (JStr uri) (attempt_json attempt)) (run_json value),
           Some attempt_id))))))))))))))"

section \<open>What they leave alone\<close>

lemma keeps_clean_field [keeps]: "preserves I (clean_field p f d)"
  unfolding clean_field_def by (auto intro!: keeps split: option.split)

lemma keeps_text_column [keeps]: "preserves I (text_column p v)"
  unfolding text_column_def by (auto intro!: keeps split: option.split json.split)

lemma keeps_checkpoint_root [keeps]:
  "preserves I (case parse_resource_uri nfc uri of Inl msg \<Rightarrow> raise (ValueError msg) | Inr (root, ss) \<Rightarrow> guard (P root) e)"
  by (auto intro!: keeps split: sum.split prod.split)

context side_frame
begin

lemma keeps_rebind_session [keeps]: "preserves I (rebind_session p b d)"
  unfolding rebind_session_def by (auto intro!: keeps split: option.split json.split)

end

context ingest_journal
begin

lemma keeps_observations [keeps]:
  "preserves I (record_runtime_observation ps r a' b l g t p e a k ev)"
  "preserves I (commit_checkpoint nfc r a' b l u e a k g ev)"
  unfolding record_runtime_observation_def commit_checkpoint_def
  by (cases "observation_fields t"; simp; intro keeps; simp)
    (intro keeps; simp)

end

lemma commit_checkpoint_links: "preserves thread_inv (commit_checkpoint nfc r a b l u e ac k g ev)"
  unfolding commit_checkpoint_def
  apply (rule preserves_seq[OF preserves_required_text], rule preserves_seq[OF keeps_checkpoint_root],
      rule tinbox.keeps_runtime_command, rule hoare_preserves)
  apply (rule hoare_get_run)
  apply (rule hoare_skip, (intro keeps; fail))+
  apply (rule hoare_pre[of _ thread_inv])
   apply (simp add: run_known_def)
  apply (intro hoare_rest keeps)
  done

lemma record_runtime_observation_links:
  "preserves thread_inv (record_runtime_observation ps r a b l g t p e ac k ev)"
proof (cases "observation_fields t")
  case (Some names)
  show ?thesis
    unfolding record_runtime_observation_def Some option.case
    apply (rule preserves_seq[OF keeps_clean_field], rule preserves_seq[OF keeps_clean_field],
        rule tinbox.keeps_runtime_command, rule hoare_preserves)
    apply (rule hoare_get_run)
    apply (rule hoare_skip, (intro keeps; fail))+
    apply (rule hoare_pre[of _ thread_inv])
     apply (simp add: run_known_def)
    apply (intro hoare_rest keeps)
    done
qed (simp add: record_runtime_observation_def preserves_raise)

end
