(* ===== verification/Transport_Models.thy ===== *)
theory Transport_Models
  imports Web_Address Control_Core
begin

text \<open>
  The durable values of a transport delivery and their validation
  (\<open>src/cortex_platform/product/control/transport.py\<close>): a message is frozen as a projection, a list of
  chunks with their buttons and the capabilities (opaque tokens) that the text and the buttons carry, bound
  together by a hash of each chunk and a hash of the whole.

  SHA-256 of a byte string, SHA-256 of the canonical JSON text of a value, and Unicode normalization are
  the fields of \<open>crypto\<close>; a \<open>JTime\<close> in a value that is hashed here is the text of \<open>_canonical_time\<close>. The
  checks of the Python types of the arguments hold by the types of the model.

  The lemmas: the derived name of a chunk, and the injectivity of the name a chunk has on the wire.
\<close>

section \<open>Values\<close>

record crypto =
  cx_sha256 :: "int list \<Rightarrow> string"
  cx_canonical_digest :: "json \<Rightarrow> string"
  cx_nfc :: "int list \<Rightarrow> int list"

record delivery_key =
  dk_transport :: string
  dk_destination_digest :: string
  dk_event_id :: string
  dk_projection_version :: int

record opaque_target =
  ot_namespace :: string
  ot_purpose :: string
  ot_resource_kind :: string
  ot_resource_id :: string
  ot_expected_revision :: "int option"
  ot_choice :: "string option"
  ot_scope_digest :: "string option"
  ot_expires_at :: instant

record delivery_button =
  bt_label :: string
  bt_callback_data :: string
  bt_token_digest :: string

record delivery_capability =
  cp_namespace :: string
  cp_token_digest :: string
  cp_expires_at :: instant
  cp_start_offset :: "int option"
  cp_end_offset :: "int option"

record target_registration =
  tr_token_digest :: string
  tr_expires_at :: instant
  tr_target :: opaque_target

record chunk_projection =
  ck_chunk_index :: int
  ck_operation_id :: string
  ck_text :: string
  ck_parse_mode :: string
  ck_buttons :: "delivery_button list"
  ck_capabilities :: "delivery_capability list"
  ck_chunk_hash :: string

record frozen_projection =
  fp_delivery_key :: delivery_key
  fp_operation_id :: string
  fp_destination_binding_digest :: string
  fp_routing :: string
  fp_capability_binding_digest :: string
  fp_rpc_timeout_seconds :: int
  fp_projection_hash :: string
  fp_chunks :: "chunk_projection list"

section \<open>Patterns\<close>

text \<open>\<open>re.fullmatch\<close> of one class followed by at most \<open>maximum\<close> of another.\<close>

definition full_ident :: "(char \<Rightarrow> bool) \<Rightarrow> (char \<Rightarrow> bool) \<Rightarrow> int \<Rightarrow> string \<Rightarrow> bool" where
  "full_ident P Q maximum s = (case s of [] \<Rightarrow> False | c # cs \<Rightarrow> P c \<and> full_class Q 0 maximum cs)"

definition alnum :: "char \<Rightarrow> bool" where
  "alnum c = (is_upper_alpha c \<or> is_lower_alpha c \<or> is_digit c)"

definition operation_char :: "char \<Rightarrow> bool" where
  "operation_char c = (alnum c \<or> c = CHR ''.'' \<or> c = CHR ''_'' \<or> c = CHR '':'' \<or> c = CHR ''-'')"

definition wire_char :: "char \<Rightarrow> bool" where
  "wire_char c = (alnum c \<or> c = CHR ''.'' \<or> c = CHR ''_'' \<or> c = CHR ''-'')"

definition valid_operation_id :: "string \<Rightarrow> bool" where
  "valid_operation_id v = full_ident alnum operation_char 199 v"

definition valid_transport :: "string \<Rightarrow> bool" where
  "valid_transport v = full_ident is_lower_alpha
     (\<lambda>c. is_lower_alpha c \<or> is_digit c \<or> c = CHR ''_'' \<or> c = CHR ''-'') 49 v"

definition valid_binding_digest :: "string \<Rightarrow> bool" where
  "valid_binding_digest v = (take 12 v = ''hmac-sha256:'' \<and> valid_digest (drop 12 v))"

definition valid_target_kind :: "string \<Rightarrow> bool" where
  "valid_target_kind v = full_ident is_lower_alpha
     (\<lambda>c. is_lower_alpha c \<or> is_digit c \<or> c = CHR ''_'' \<or> c = CHR ''.'' \<or> c = CHR ''-'') 99 v"

definition valid_target_id :: "string \<Rightarrow> bool" where
  "valid_target_id v = full_ident alnum operation_char 499 v"

text \<open>\<open>[A-Za-z0-9_-]\<close> on bytes, and the pattern of a token that is delimited on both sides: the length of the
  match at the start of \<open>bs\<close>. Neither repetition can stop short, since a full stop is not in the class and
  no byte of the class may follow.\<close>

definition token_byte :: "int \<Rightarrow> bool" where
  "token_byte b = (48 \<le> b \<and> b \<le> 57 \<or> 65 \<le> b \<and> b \<le> 90 \<or> 97 \<le> b \<and> b \<le> 122 \<or> b = 95 \<or> b = 45)"

definition deep_link_at :: "int list \<Rightarrow> nat option" where
  "deep_link_at bs =
     (if take 4 bs = [100, 108, 49, 46] then
        (let run1 = takeWhile token_byte (drop 4 bs); rest = drop (4 + length run1) bs in
         if 1 \<le> length run1 \<and> length run1 \<le> 128 \<and> take 1 rest = [46] then
           (let run2 = takeWhile token_byte (drop 1 rest) in
            if 1 \<le> length run2 \<and> length run2 \<le> 128 then Some (5 + length run1 + length run2) else None)
         else None)
      else None)"

definition is_deep_link_token :: "int list \<Rightarrow> bool" where
  "is_deep_link_token bs = (deep_link_at bs = Some (length bs))"

lemma deep_link_at_pos: "deep_link_at bs = Some n \<Longrightarrow> 0 < n \<and> bs \<noteq> []"
  by (auto simp: deep_link_at_def Let_def split: if_splits)

text \<open>\<open>finditer\<close>: the spans found from offset \<open>i\<close> on; \<open>inside\<close> says that a byte of the class precedes.\<close>

function deep_link_spans :: "nat \<Rightarrow> bool \<Rightarrow> int list \<Rightarrow> (nat \<times> nat) list" where
  "deep_link_spans i inside [] = []"
| "deep_link_spans i inside (b # bs) =
     (case (if inside then None else deep_link_at (b # bs)) of
        Some n \<Rightarrow> (i, i + n) # deep_link_spans (i + n) True (drop n (b # bs))
      | None \<Rightarrow> deep_link_spans (i + 1) (token_byte b) bs)"
  by pat_completeness auto

termination
  by (relation "measure (\<lambda>(i, inside, bs). length bs)") (auto dest: deep_link_at_pos split: if_splits)

section \<open>Checks\<close>

text \<open>The checks read nothing of a store.\<close>

type_synonym ('s, 'a) check = "('s, control_error, 'a) cmd"

definition operation_id_of :: "string \<Rightarrow> ('s, string) check" where
  "operation_id_of v = seq (guard (valid_operation_id v) (ValueError ''operation_id is invalid'')) (\<lambda>_. ret v)"

definition digest_of :: "string \<Rightarrow> string \<Rightarrow> ('s, string) check" where
  "digest_of v name =
     seq (guard (valid_digest v) (ValueError (name @ '' must be a lowercase SHA-256 digest''))) (\<lambda>_. ret v)"

definition binding_digest_of :: "string \<Rightarrow> string \<Rightarrow> ('s, string) check" where
  "binding_digest_of v name =
     seq (guard (valid_binding_digest v) (ValueError (name @ '' must be a Control binding digest''))) (\<lambda>_. ret v)"

definition bounded_text :: "string \<Rightarrow> string \<Rightarrow> int \<Rightarrow> ('s, string) check" where
  "bounded_text v name maximum =
     seq (guard (1 \<le> int (length v) \<and> int (length v) \<le> maximum \<and> CHR 0x00 \<notin> set v)
            (ValueError (name @ '' is invalid''))) (\<lambda>_. ret v)"

text \<open>\<open>str\<close> of an index below 100.\<close>

definition decimal :: "int \<Rightarrow> string" where
  "decimal n = (if n < 10 then [char_of (48 + n)] else [char_of (48 + n div 10), char_of (48 + n mod 10)])"

definition transport_delivery_chunk_operation_id :: "string \<Rightarrow> int \<Rightarrow> ('s, string) check" where
  "transport_delivery_chunk_operation_id operation_id chunk_index =
     seq (operation_id_of operation_id) (\<lambda>_.
     seq (guard (0 \<le> chunk_index \<and> chunk_index < 100) (ValueError ''chunk_index must be between 0 and 99'')) (\<lambda>_.
     let derived = operation_id @ '':chunk:'' @ decimal chunk_index in
     seq (guard (valid_operation_id derived) (ValueError ''derived operation_id exceeds the safe bound'')) (\<lambda>_.
     ret derived)))"

definition occurs_in :: "string \<Rightarrow> string \<Rightarrow> bool" where
  "occurs_in p s = list_ex (\<lambda>i. take (length p) (drop i s) = p) [0..<Suc (length s)]"

text \<open>The base of a chunk's name when it has the form \<open>base:chunk:n\<close>.\<close>

definition chunk_operation_base :: "string \<Rightarrow> string option" where
  "chunk_operation_base v = (case partition_at (CHR '':'') v of (base, _, rest) \<Rightarrow>
     if base \<noteq> [] \<and> alnum (hd base) \<and> list_all wire_char base \<and> take 6 rest = ''chunk:''
        \<and> full_class is_digit 1 2 (drop 6 rest)
     then Some base else None)"

definition dots_for_colons :: "string \<Rightarrow> string" where
  "dots_for_colons v = map (\<lambda>c. if c = CHR '':'' then CHR ''.'' else c) v"

definition transport_delivery_chunk_wire_operation_id :: "string \<Rightarrow> ('s, string) check" where
  "transport_delivery_chunk_wire_operation_id chunk_operation_id =
     seq (operation_id_of chunk_operation_id) (\<lambda>_.
     seq (guard (case chunk_operation_base chunk_operation_id of None \<Rightarrow> False
             | Some base \<Rightarrow> \<not> occurs_in ''.chunk.'' base)
            (ValueError ''chunk operation_id is not a delivery chunk name'')) (\<lambda>_.
     let wire = dots_for_colons chunk_operation_id in
     seq (guard (full_ident alnum wire_char 127 wire) (ValueError ''wire operation_id is invalid'')) (\<lambda>_.
     ret wire)))"

section \<open>Validation of a chunk\<close>

definition validated_button :: "crypto \<Rightarrow> delivery_button \<Rightarrow> ('s, json \<times> string) check" where
  "validated_button x b =
     seq (guard (1 \<le> length (bt_label b) \<and> length (bt_label b) \<le> 64 \<and> CHR 0x00 \<notin> set (bt_label b)
            \<and> 1 \<le> length (utf8 (map code (bt_callback_data b)))
            \<and> length (utf8 (map code (bt_callback_data b))) \<le> 64 \<and> CHR 0x00 \<notin> set (bt_callback_data b))
            (ValueError ''button is invalid'')) (\<lambda>_.
     seq (digest_of (bt_token_digest b) ''button token_digest'') (\<lambda>token_digest.
     seq (guard (cx_sha256 x (utf8 (map code (bt_callback_data b))) = token_digest)
            (ValueError ''button token_digest does not match callback_data'')) (\<lambda>_.
     ret (JObj [(''label'', JStr (bt_label b)), (''callback_data'', JStr (bt_callback_data b)),
                (''token_digest'', JStr token_digest)], token_digest))))"

definition check_span :: "crypto \<Rightarrow> int list \<Rightarrow> int \<Rightarrow> int \<Rightarrow> string \<Rightarrow> ('s, unit) check" where
  "check_span x text_bytes start_offset end_offset token_digest =
     seq (guard (0 \<le> start_offset \<and> start_offset < end_offset \<and> end_offset \<le> int (length text_bytes))
            (ValueError ''deep_link capability span is invalid'')) (\<lambda>_.
     let token_bytes = drop (nat start_offset) (take (nat end_offset) text_bytes) in
     seq (guard (utf8_decode token_bytes \<noteq> None)
            (ValueError ''deep_link capability span crosses a UTF-8 boundary'')) (\<lambda>_.
     seq (guard (length token_bytes \<le> 128) (ValueError ''deep_link token must not exceed 128 bytes'')) (\<lambda>_.
     seq (guard (is_deep_link_token token_bytes)
            (ValueError ''deep_link capability span is not a token'')) (\<lambda>_.
     guard (cx_sha256 x token_bytes = token_digest)
       (ValueError ''deep_link capability span does not match token_digest'')))))"

text \<open>The value of a capability, and the span it declares (none for an action).\<close>

definition validated_capability ::
    "crypto \<Rightarrow> int list \<Rightarrow> delivery_capability \<Rightarrow> ('s, json \<times> (int \<times> int \<times> string) option) check" where
  "validated_capability x text_bytes c =
     seq (guard (cp_namespace c \<in> set [''action'', ''deep_link''])
            (ValueError ''capability namespace is invalid'')) (\<lambda>_.
     seq (digest_of (cp_token_digest c) ''capability token_digest'') (\<lambda>token_digest.
     seq (if cp_namespace c = ''action'' then
            seq (guard (cp_start_offset c = None \<and> cp_end_offset c = None)
                   (ValueError ''action capability offsets must be null'')) (\<lambda>_. ret None)
          else
            (case (cp_start_offset c, cp_end_offset c) of
               (Some a, Some b) \<Rightarrow>
                 seq (check_span x text_bytes a b token_digest) (\<lambda>_. ret (Some (a, b, token_digest)))
             | _ \<Rightarrow> raise (ValueError ''deep_link capability span is invalid''))) (\<lambda>span.
     ret (JObj [(''namespace'', JStr (cp_namespace c)), (''token_digest'', JStr token_digest),
                (''expires_at'', JTime (cp_expires_at c)), (''start_offset'', jint_opt (cp_start_offset c)),
                (''end_offset'', jint_opt (cp_end_offset c))], span))))"

definition embedded_spans :: "crypto \<Rightarrow> int list \<Rightarrow> (int \<times> int \<times> string) list" where
  "embedded_spans x text_bytes = map (\<lambda>(a, b). (int a, int b, cx_sha256 x (drop a (take b text_bytes))))
     (deep_link_spans 0 False text_bytes)"

definition validated_chunk :: "crypto \<Rightarrow> int \<Rightarrow> chunk_projection \<Rightarrow> ('s, json) check" where
  "validated_chunk x expected_index c =
     (let text_bytes = utf8 (map code (ck_text c)) in
     seq (guard (ck_chunk_index c = expected_index) (ValueError ''chunk_index must be contiguous from zero'')) (\<lambda>_.
     seq (operation_id_of (ck_operation_id c)) (\<lambda>operation_id.
     seq (guard (ck_text c \<noteq> [] \<and> length text_bytes \<le> 4096
            \<and> cx_nfc x (map code (ck_text c)) = map code (ck_text c)
            \<and> list_all (\<lambda>ch. 32 \<le> code ch \<or> code ch = 10 \<or> code ch = 9) (ck_text c))
            (ValueError ''chunk text is invalid'')) (\<lambda>_.
     seq (guard (ck_parse_mode c = ''MarkdownV2'') (ValueError ''parse_mode must be MarkdownV2'')) (\<lambda>_.
     seq (guard (length (ck_buttons c) \<le> 6) (ValueError ''buttons are invalid'')) (\<lambda>_.
     seq (guard (length (ck_capabilities c) \<le> 32) (ValueError ''capabilities are invalid'')) (\<lambda>_.
     seq (for_each (validated_button x) (ck_buttons c)) (\<lambda>buttons.
     seq (for_each (validated_capability x text_bytes) (ck_capabilities c)) (\<lambda>capabilities.
     seq (guard (map cp_token_digest (filter (\<lambda>p. cp_namespace p = ''action'') (ck_capabilities c)) = map snd buttons)
            (ValueError ''action capabilities must match buttons in order'')) (\<lambda>_.
     seq (guard (set (embedded_spans x text_bytes) = set (List.map_filter snd capabilities))
            (ValueError ''chunk contains an undeclared deep_link token'')) (\<lambda>_.
     ret (JObj [(''chunk_index'', JInt (ck_chunk_index c)), (''operation_id'', JStr operation_id),
                (''text'', JStr (ck_text c)), (''parse_mode'', JStr (ck_parse_mode c)),
                (''buttons'', JArr (map fst buttons)), (''capabilities'', JArr (map fst capabilities))]))))))))))))"

definition transport_delivery_chunk_hash :: "crypto \<Rightarrow> chunk_projection \<Rightarrow> ('s, string) check" where
  "transport_delivery_chunk_hash x c =
     seq (validated_chunk x (ck_chunk_index c) c) (\<lambda>value. ret (cx_canonical_digest x value))"

section \<open>Validation of a projection\<close>

definition validated_delivery_key :: "delivery_key \<Rightarrow> ('s, json) check" where
  "validated_delivery_key k =
     seq (guard (valid_transport (dk_transport k)) (ValueError ''delivery_key transport is invalid'')) (\<lambda>_.
     seq (binding_digest_of (dk_destination_digest k) ''delivery_key destination_digest'') (\<lambda>destination_digest.
     seq (bounded_text (dk_event_id k) ''delivery_key event_id'' 500) (\<lambda>event_id.
     seq (guard (1 \<le> dk_projection_version k) (ValueError ''delivery_key projection_version is invalid'')) (\<lambda>_.
     ret (JObj [(''transport'', JStr (dk_transport k)), (''destination_digest'', JStr destination_digest),
                (''event_id'', JStr event_id), (''projection_version'', JInt (dk_projection_version k))])))))"

definition optional :: "('a \<Rightarrow> ('s, 'b) check) \<Rightarrow> 'a option \<Rightarrow> ('s, 'b option) check" where
  "optional f v = (case v of None \<Rightarrow> ret None | Some a \<Rightarrow> seq (f a) (\<lambda>b. ret (Some b)))"

definition validated_registration ::
    "delivery_capability \<Rightarrow> string \<Rightarrow> target_registration \<Rightarrow> ('s, json) check" where
  "validated_registration capability destination_binding_digest r =
     (let target = tr_target r in
     seq (guard (tr_expires_at r = cp_expires_at capability)
            (ValueError ''opaque target expiry must match capability expiry'')) (\<lambda>_.
     seq (guard (ot_namespace target = cp_namespace capability)
            (ValueError ''opaque target namespace must match capability namespace'')) (\<lambda>_.
     seq (guard (tr_expires_at r = ot_expires_at target)
            (ValueError ''opaque target expiry must match target expiry'')) (\<lambda>_.
     seq (bounded_text (ot_purpose target) ''target purpose'' 100) (\<lambda>purpose.
     seq (bounded_text (ot_resource_kind target) ''target resource_kind'' 100) (\<lambda>resource_kind.
     seq (bounded_text (ot_resource_id target) ''target resource_id'' 500) (\<lambda>resource_id.
     seq (guard (valid_target_kind resource_kind) (ValueError ''target resource_kind is invalid'')) (\<lambda>_.
     seq (guard (valid_target_id resource_id) (ValueError ''target resource_id is invalid'')) (\<lambda>_.
     seq (guard (case ot_expected_revision target of None \<Rightarrow> True | Some n \<Rightarrow> 0 \<le> n)
            (ValueError ''target expected_revision is invalid'')) (\<lambda>_.
     seq (optional (\<lambda>v. bounded_text v ''target choice'' 200) (ot_choice target)) (\<lambda>choice.
     seq (optional (\<lambda>v. binding_digest_of v ''target scope_digest'') (ot_scope_digest target)) (\<lambda>scope_digest.
     seq (guard (cp_namespace capability = ''action'' \<longrightarrow> scope_digest = Some destination_binding_digest)
            (ValueError ''action target scope_digest must match destination binding'')) (\<lambda>_.
     ret (JObj [(''token_digest'', JStr (tr_token_digest r)), (''expires_at'', JTime (tr_expires_at r)),
       (''target'', JObj [(''namespace'', JStr (ot_namespace target)), (''purpose'', JStr purpose),
          (''resource_kind'', JStr resource_kind), (''resource_id'', JStr resource_id),
          (''expected_revision'', jint_opt (ot_expected_revision target)), (''choice'', jstr_opt choice),
          (''scope_digest'', jstr_opt scope_digest)])]))))))))))))))"

fun validated_registrations ::
    "(string \<times> delivery_capability) list \<Rightarrow> string \<Rightarrow> string list \<Rightarrow> target_registration list
      \<Rightarrow> ('s, json list \<times> string list) check" where
  "validated_registrations capabilities destination seen [] = ret ([], seen)"
| "validated_registrations capabilities destination seen (r # rs) =
     seq (digest_of (tr_token_digest r) ''opaque target token_digest'') (\<lambda>token_digest.
     (case (if token_digest \<in> set seen then None else map_of capabilities token_digest) of
        None \<Rightarrow> raise (ValueError ''opaque target registrations must match capabilities'')
      | Some capability \<Rightarrow>
          seq (validated_registration capability destination r) (\<lambda>v.
          seq (validated_registrations capabilities destination (token_digest # seen) rs) (\<lambda>(vs, seen).
          ret (v # vs, seen)))))"

definition validated_target_registrations ::
    "(string \<times> delivery_capability) list \<Rightarrow> string \<Rightarrow> target_registration list \<Rightarrow> ('s, json list) check" where
  "validated_target_registrations capabilities destination regs =
     seq (guard (length regs = length capabilities)
            (ValueError ''opaque target registrations must match capabilities'')) (\<lambda>_.
     seq (validated_registrations capabilities destination [] regs) (\<lambda>(values, seen).
     seq (guard (set seen = fst ` set capabilities)
            (ValueError ''opaque target registrations must match capabilities'')) (\<lambda>_.
     ret values)))"

text \<open>The loop over the capabilities of a chunk, which fills \<open>all_capabilities\<close>.\<close>

fun add_capabilities ::
    "(string \<times> delivery_capability) list \<Rightarrow> delivery_capability list
      \<Rightarrow> ('s, (string \<times> delivery_capability) list) check" where
  "add_capabilities known [] = ret known"
| "add_capabilities known (c # cs) =
     seq (guard (cp_token_digest c \<notin> fst ` set known) (ValueError ''capability token_digest must be unique'')) (\<lambda>_.
     add_capabilities (known @ [(cp_token_digest c, c)]) cs)"

fun validated_chunks ::
    "crypto \<Rightarrow> bool \<Rightarrow> string \<Rightarrow> int \<Rightarrow> (string \<times> delivery_capability) list \<Rightarrow> chunk_projection list
      \<Rightarrow> ('s, json list \<times> (string \<times> delivery_capability) list) check" where
  "validated_chunks x require_hashes operation_id index known [] = ret ([], known)"
| "validated_chunks x require_hashes operation_id index known (c # cs) =
     seq (transport_delivery_chunk_operation_id operation_id index) (\<lambda>expected_id.
     seq (guard (ck_operation_id c = expected_id) (ValueError ''chunk operation_id is not deterministic'')) (\<lambda>_.
     seq (validated_chunk x index c) (\<lambda>v.
     seq (guard (cs = [] \<or> ck_buttons c = []) (ValueError ''buttons are allowed only on the final chunk'')) (\<lambda>_.
     seq (if require_hashes then
            seq (digest_of (ck_chunk_hash c) ''chunk_hash'') (\<lambda>h.
            guard (h = cx_canonical_digest x v) (ValueError ''chunk_hash does not match the frozen chunk''))
          else ret ()) (\<lambda>_.
     seq (add_capabilities known (ck_capabilities c)) (\<lambda>known.
     seq (validated_chunks x require_hashes operation_id (index + 1) known cs) (\<lambda>(vs, known).
     ret (v # vs, known))))))))"

definition validated_projection ::
    "crypto \<Rightarrow> frozen_projection \<Rightarrow> target_registration list \<Rightarrow> bool \<Rightarrow> ('s, json \<times> json list) check" where
  "validated_projection x p opaque_targets require_hashes =
     seq (validated_delivery_key (fp_delivery_key p)) (\<lambda>key.
     seq (operation_id_of (fp_operation_id p)) (\<lambda>operation_id.
     seq (binding_digest_of (fp_destination_binding_digest p) ''destination_binding_digest'') (\<lambda>destination.
     seq (guard (destination = dk_destination_digest (fp_delivery_key p))
            (ValueError ''destination_binding_digest must match the delivery key'')) (\<lambda>_.
     seq (guard (fp_routing p \<in> set [''root'', ''topic'']) (ValueError ''routing is invalid'')) (\<lambda>_.
     seq (digest_of (fp_capability_binding_digest p) ''capability_binding_digest'') (\<lambda>capability_binding.
     seq (guard (1 \<le> fp_rpc_timeout_seconds p \<and> fp_rpc_timeout_seconds p \<le> 120)
            (ValueError ''rpc_timeout_seconds must be between 1 and 120'')) (\<lambda>_.
     seq (guard (1 \<le> length (fp_chunks p) \<and> length (fp_chunks p) \<le> 100)
            (ValueError ''chunks must contain between 1 and 100 items'')) (\<lambda>_.
     seq (validated_chunks x require_hashes operation_id 0 [] (fp_chunks p)) (\<lambda>(chunk_values, capabilities).
     seq (validated_target_registrations capabilities destination opaque_targets) (\<lambda>target_values.
     ret (JObj [(''delivery_key'', key), (''operation_id'', JStr operation_id),
                (''destination_binding_digest'', JStr destination), (''routing'', JStr (fp_routing p)),
                (''capability_binding_digest'', JStr capability_binding),
                (''rpc_timeout_seconds'', JInt (fp_rpc_timeout_seconds p)), (''chunks'', JArr chunk_values)],
          target_values)))))))))))"

definition transport_delivery_projection_hash ::
    "crypto \<Rightarrow> frozen_projection \<Rightarrow> target_registration list \<Rightarrow> ('s, string) check" where
  "transport_delivery_projection_hash x p opaque_targets =
     seq (validated_projection x p opaque_targets True) (\<lambda>(projected, target_values).
     ret (cx_canonical_digest x (JObj [(''projection'', projected), (''opaque_targets'', JArr target_values)])))"

definition validate_transport_delivery_projection ::
    "crypto \<Rightarrow> frozen_projection \<Rightarrow> target_registration list \<Rightarrow> ('s, frozen_projection) check" where
  "validate_transport_delivery_projection x p opaque_targets =
     seq (digest_of (fp_projection_hash p) ''projection_hash'') (\<lambda>_.
     seq (transport_delivery_projection_hash x p opaque_targets) (\<lambda>expected.
     seq (guard (fp_projection_hash p = expected)
            (ValueError ''projection_hash does not match the frozen projection'')) (\<lambda>_.
     ret p)))"

end
