(* ===== verification/Workflow_Models.thy ===== *)
theory Workflow_Models
  imports Transport_Models Control_Workflow
begin

text \<open>
  The typed requests and results of workflow effects (\<open>src/cortex_platform/product/workflows/models.py\<close>), with
  what of \<open>sources/models.py\<close> they check: source identities and engine references.

  A dataclass of the code that exists has passed its \<open>__post_init__\<close>: these are the predicates
  \<open>valid_...\<close>. On the wire a request or a result is a JSON object with a closed set of fields and a hash of
  its identity; \<open>request_from_dict\<close> and \<open>result_from_dict\<close> are the \<open>from_dict\<close> of the six classes each,
  chosen by the domain. \<open>sha\<close> is SHA-256 over the canonical JSON text of a value (\<open>_identity_hash\<close>).

  A text has the code points below 256: NFC leaves them as they are, and the ones of the Unicode category
  Other are the control characters and the soft hyphen.

  The lemmas: what is written is read back (\<open>request_roundtrip\<close>, \<open>result_roundtrip\<close>), and what is read is
  valid (\<open>request_from_dict_valid\<close>).
\<close>

section \<open>Fields\<close>

type_synonym ('s, 'a) reader = "('s, control_error, 'a) cmd"
type_synonym fields_list = "(string \<times> json) list"

definition field :: "string \<Rightarrow> fields_list \<Rightarrow> json" where
  "field k kvs = (case map_of kvs k of Some v \<Rightarrow> v | None \<Rightarrow> JNull)"

definition closed_fields :: "string list \<Rightarrow> string \<Rightarrow> json \<Rightarrow> ('s, fields_list) reader" where
  "closed_fields names name raw =
     (case raw of
        JObj kvs \<Rightarrow> seq (guard (set (map fst kvs) = set names)
                      (ValueError (name @ '' fields do not match schema''))) (\<lambda>_. ret kvs)
      | _ \<Rightarrow> raise (ValueError (name @ '' fields do not match schema'')))"

definition schema_v1 :: "fields_list \<Rightarrow> string \<Rightarrow> ('s, unit) reader" where
  "schema_v1 kvs name =
     guard (field ''schema_version'' kvs = JInt 1) (ValueError (''unsupported '' @ name @ '' schema''))"

text \<open>A field that has to be a text with a property.\<close>

definition text_field :: "(string \<Rightarrow> bool) \<Rightarrow> control_error \<Rightarrow> json \<Rightarrow> ('s, string) reader" where
  "text_field ok e j = (case j of JStr v \<Rightarrow> seq (guard (ok v) e) (\<lambda>_. ret v) | _ \<Rightarrow> raise e)"

definition identifier_field :: "json \<Rightarrow> string \<Rightarrow> ('s, string) reader" where
  "identifier_field j name = text_field is_identifier (ValueError (name @ '' must be a canonical identifier'')) j"

definition is_operation :: "string \<Rightarrow> bool" where
  "is_operation v = full_ident alnum operation_char 191 v"

definition operation_field :: "json \<Rightarrow> ('s, string) reader" where
  "operation_field j = text_field is_operation (ValueError ''operation_id must be a stable identifier'') j"

definition epoch_field :: "json \<Rightarrow> ('s, int) reader" where
  "epoch_field j =
     (case j of JInt n \<Rightarrow> seq (guard (1 \<le> n) (ValueError ''delivery_epoch must be a positive integer'')) (\<lambda>_. ret n)
      | _ \<Rightarrow> raise (ValueError ''delivery_epoch must be a positive integer''))"

definition sha_field :: "json \<Rightarrow> string \<Rightarrow> ('s, string) reader" where
  "sha_field j name = text_field valid_digest (ValueError (name @ '' must be a lowercase SHA-256'')) j"

definition other_char :: "char \<Rightarrow> bool" where
  "other_char c = (code c < 32 \<or> (127 \<le> code c \<and> code c \<le> 159) \<or> code c = 173)"

definition safe_text :: "int \<Rightarrow> string \<Rightarrow> bool" where
  "safe_text maximum v = (v = strip v \<and> v \<noteq> [] \<and> int (length v) \<le> maximum \<and> \<not> list_ex other_char v)"

definition safe_text_field :: "int \<Rightarrow> json \<Rightarrow> string \<Rightarrow> ('s, string) reader" where
  "safe_text_field maximum j name =
     (case j of JStr v \<Rightarrow> seq (guard (safe_text maximum v) (ValueError (name @ '' is not canonical safe text''))) (\<lambda>_. ret v)
      | _ \<Rightarrow> raise (TypeError (name @ '' must be text'')))"

text \<open>\<open>value not in\<close> a set of texts: a list or a dictionary is not hashable.\<close>

definition choice_field :: "string list \<Rightarrow> control_error \<Rightarrow> json \<Rightarrow> ('s, string) reader" where
  "choice_field options e j =
     (case j of JArr _ \<Rightarrow> raise (TypeError ''unhashable type'') | JObj _ \<Rightarrow> raise (TypeError ''unhashable type'')
      | _ \<Rightarrow> text_field (\<lambda>v. v \<in> set options) e j)"

definition bool_field :: "json \<Rightarrow> string \<Rightarrow> ('s, bool) reader" where
  "bool_field j name = (case j of JBool b \<Rightarrow> ret b | _ \<Rightarrow> raise (ValueError (name @ '' must be boolean'')))"

text \<open>The items a loop over the value sees; a loop over a dictionary sees its keys.\<close>

definition items_field :: "json \<Rightarrow> string \<Rightarrow> ('s, json list) reader" where
  "items_field j name =
     (case j of JArr xs \<Rightarrow> ret xs | JObj kvs \<Rightarrow> ret (map (JStr \<circ> fst) kvs)
      | _ \<Rightarrow> raise (TypeError (name @ '' must be a sequence of identifiers'')))"

fun texts_field :: "(string \<Rightarrow> bool) \<Rightarrow> control_error \<Rightarrow> json list \<Rightarrow> ('s, string list) reader" where
  "texts_field ok e [] = ret []"
| "texts_field ok e (j # js) = seq (text_field ok e j) (\<lambda>v. seq (texts_field ok e js) (\<lambda>vs. ret (v # vs)))"

definition identifiers_field :: "bool \<Rightarrow> json \<Rightarrow> string \<Rightarrow> ('s, string list) reader" where
  "identifiers_field allow_empty j name =
     seq (items_field j name) (\<lambda>js.
     seq (texts_field is_identifier (ValueError (name @ '' must be a canonical identifier'')) js) (\<lambda>vs.
     seq (guard (allow_empty \<or> vs \<noteq> []) (ValueError (name @ '' must not be empty''))) (\<lambda>_.
     seq (guard (distinct vs) (ValueError (name @ '' must not contain duplicates''))) (\<lambda>_.
     seq (guard (sorted vs) (ValueError (name @ '' must use canonical order''))) (\<lambda>_.
     ret vs)))))"

definition digests_field :: "json \<Rightarrow> string \<Rightarrow> ('s, string list) reader" where
  "digests_field j name =
     seq (items_field j name) (\<lambda>js.
     seq (texts_field valid_digest (ValueError ''dependency_result_id must be a lowercase SHA-256'') js) (\<lambda>vs.
     seq (guard (distinct vs \<and> sorted vs)
            (ValueError ''dependency_result_ids must be unique and canonically ordered'')) (\<lambda>_.
     ret vs)))"

section \<open>Identities of sources and of the research engine\<close>

text \<open>\<open>CandidateObservation.__post_init__\<close>: the identity that an authority gives a source.\<close>

definition printable :: "char \<Rightarrow> bool" where
  "printable c = (33 \<le> code c \<and> code c \<le> 126)"

definition arxiv_work :: "string \<Rightarrow> string option" where
  "arxiv_work v =
     (let w = (if lower (take 6 v) = ''arxiv:'' then drop 6 v else v);
          digits = takeWhile is_digit (drop 5 w);
          rest = drop (length digits) (drop 5 w)
      in if list_all is_digit (take 4 w) \<and> take 1 (drop 4 w) = ''.'' \<and> (length digits = 4 \<or> length digits = 5)
           \<and> (case rest of [] \<Rightarrow> True
              | c # ds \<Rightarrow> (c = CHR ''v'' \<or> c = CHR ''V'') \<and> ds \<noteq> [] \<and> hd ds \<noteq> CHR ''0'' \<and> list_all is_digit ds)
         then Some (take (5 + length digits) w) else None)"

definition doi_char :: "char \<Rightarrow> bool" where
  "doi_char c = (alnum c \<or> c \<in> set ''-._;()/:'')"

definition is_doi :: "string \<Rightarrow> bool" where
  "is_doi v =
     (let digits = takeWhile is_digit (drop 3 v); rest = drop (length digits) (drop 3 v)
      in take 3 v = ''10.'' \<and> 4 \<le> length digits \<and> length digits \<le> 9
         \<and> (case rest of [] \<Rightarrow> False | c # cs \<Rightarrow> c = CHR ''/'' \<and> cs \<noteq> [] \<and> list_all doi_char cs))"

definition observed_authority_id :: "string \<Rightarrow> string \<Rightarrow> string option" where
  "observed_authority_id authority v =
     (if \<not> full_class printable 1 500 v then None
      else if authority = ''arxiv'' then arxiv_work v
      else if authority = ''doi'' then (if is_doi v then Some (lower v) else None)
      else if authority = ''sha256'' then (if valid_digest (lower v) then Some (lower v) else None)
      else None)"

definition canonical_source_id :: "string \<Rightarrow> bool" where
  "canonical_source_id v =
     (safe_text 512 v
      \<and> (case partition_at (CHR '':'') v of (authority, sep, authority_id) \<Rightarrow>
           sep \<noteq> [] \<and> authority \<in> set [''arxiv'', ''doi'', ''sha256'']
           \<and> (case observed_authority_id authority authority_id of None \<Rightarrow> False
              | Some i \<Rightarrow> authority @ '':'' @ i = v)))"

definition canonical_source_field :: "json \<Rightarrow> ('s, string) reader" where
  "canonical_source_field j =
     (case j of JStr v \<Rightarrow> seq (guard (canonical_source_id v) (ValueError ''canonical_id is not in canonical form'')) (\<lambda>_. ret v)
      | _ \<Rightarrow> raise (TypeError ''canonical_id must be text''))"

definition engine_char :: "char \<Rightarrow> bool" where
  "engine_char c = (alnum c \<or> c \<in> set ''._/-'')"

fun contains_pair :: "char \<Rightarrow> string \<Rightarrow> bool" where
  "contains_pair c (x # y # zs) = ((x = c \<and> y = c) \<or> contains_pair c (y # zs))"
| "contains_pair c _ = False"

text \<open>\<open>validate_engine_ref\<close>: a namespace of at most 32 characters, a colon and a path.\<close>

definition is_namespace :: "string \<Rightarrow> bool" where
  "is_namespace v = full_ident is_lower_alpha (\<lambda>c. is_lower_alpha c \<or> is_digit c \<or> c = CHR ''_'' \<or> c = CHR ''-'') 31 v"

definition is_engine_ref :: "string \<Rightarrow> string \<Rightarrow> bool" where
  "is_engine_ref namespace v =
     (case partition_at (CHR '':'') v of (ns, sep, path) \<Rightarrow>
        sep \<noteq> [] \<and> is_namespace ns \<and> full_ident alnum engine_char 466 path
        \<and> \<not> contains_pair (CHR ''.'') v \<and> \<not> contains_pair (CHR ''/'') v \<and> ns = namespace)"

record engine_reference =
  en_kind :: string
  en_value :: string

definition engine_kind_prefix :: "string \<Rightarrow> string option" where
  "engine_kind_prefix kind = map_of [(''source'', ''paper''), (''lineage'', ''idea'')] kind"

definition valid_engine_reference :: "engine_reference \<Rightarrow> bool" where
  "valid_engine_reference e =
     (case engine_kind_prefix (en_kind e) of None \<Rightarrow> False | Some ns \<Rightarrow> is_engine_ref ns (en_value e))"

definition engine_reference_to_dict :: "engine_reference \<Rightarrow> json" where
  "engine_reference_to_dict e = JObj [(''kind'', JStr (en_kind e)), (''value'', JStr (en_value e))]"

definition engine_reference_from_dict :: "json \<Rightarrow> ('s, engine_reference) reader" where
  "engine_reference_from_dict raw =
     seq (closed_fields [''kind'', ''value''] ''engine reference'' raw) (\<lambda>kvs.
     seq (choice_field [''source'', ''lineage''] (ValueError ''engine reference kind is unsupported'')
            (field ''kind'' kvs)) (\<lambda>kind.
     seq (text_field (\<lambda>v. valid_engine_reference \<lparr>en_kind = kind, en_value = v\<rparr>)
            (ValueError ''engine reference namespace does not match its kind'') (field ''value'' kvs)) (\<lambda>v.
     ret \<lparr>en_kind = kind, en_value = v\<rparr>)))"

section \<open>Requests\<close>

text \<open>What a request of a runtime or of the artifact service is bound to.\<close>

record stage_binding =
  gb_run_id :: string
  gb_attempt_id :: string
  gb_stage_key :: string
  gb_effect_kind :: string
  gb_stage_input_hash :: string
  gb_dependency_result_ids :: "string list"

datatype request_body =
    Source_Binding_Request string string string string
  | Source_Import_Request string string
  | Lineage_Query_Request string "string list" string
  | Successor_Creation_Request string string "string list"
  | Runtime_Stage_Request stage_binding
  | Artifact_Workflow_Request stage_binding string string "string list"

record effect_request =
  eq_operation_id :: string
  eq_delivery_epoch :: int
  eq_body :: request_body

fun request_domain :: "request_body \<Rightarrow> string" where
  "request_domain (Source_Binding_Request _ _ _ _) = ''source_binding''"
| "request_domain (Source_Import_Request _ _) = ''source_import''"
| "request_domain (Lineage_Query_Request _ _ _) = ''lineage_query''"
| "request_domain (Successor_Creation_Request _ _ _) = ''successor_creation''"
| "request_domain (Runtime_Stage_Request _) = ''runtime_stage''"
| "request_domain (Artifact_Workflow_Request _ _ _ _) = ''artifact_workflow''"

definition artifact_effect_kinds :: "string list" where
  "artifact_effect_kinds = [''artifact_evidence'', ''artifact_living'', ''artifact_training'', ''artifact_snapshot'']"

definition max_artifact_versions_per_effect :: nat where
  "max_artifact_versions_per_effect = 500"

definition source_dispositions :: "string list" where
  "source_dispositions = [''reused'', ''imported'']"

definition ordered :: "string list \<Rightarrow> bool" where
  "ordered vs = (distinct vs \<and> sorted vs)"

definition valid_stage_binding :: "(string \<Rightarrow> bool) \<Rightarrow> stage_binding \<Rightarrow> bool" where
  "valid_stage_binding kind_ok g = (is_identifier (gb_run_id g) \<and> is_identifier (gb_attempt_id g)
     \<and> is_identifier (gb_stage_key g) \<and> is_identifier (gb_effect_kind g) \<and> kind_ok (gb_effect_kind g)
     \<and> valid_digest (gb_stage_input_hash g) \<and> list_all valid_digest (gb_dependency_result_ids g)
     \<and> ordered (gb_dependency_result_ids g))"

definition runtime_kind :: "string \<Rightarrow> bool" where
  "runtime_kind v = (take 8 v = ''runtime_'')"

definition artifact_kind :: "string \<Rightarrow> bool" where
  "artifact_kind v = (v \<in> set artifact_effect_kinds)"

fun valid_request_body :: "request_body \<Rightarrow> bool" where
  "valid_request_body (Source_Binding_Request run_id source_id canonical_id disposition) =
     (is_identifier run_id \<and> is_identifier source_id \<and> canonical_source_id canonical_id
      \<and> disposition \<in> set source_dispositions)"
| "valid_request_body (Source_Import_Request source_id canonical_id) =
     (is_identifier source_id \<and> canonical_source_id canonical_id)"
| "valid_request_body (Lineage_Query_Request run_id source_ids query) =
     (is_identifier run_id \<and> identifiers True source_ids \<and> source_ids \<noteq> [] \<and> safe_text 4000 query)"
| "valid_request_body (Successor_Creation_Request run_id title parents) =
     (is_identifier run_id \<and> safe_text 2000 title \<and> identifiers True parents \<and> parents \<noteq> [])"
| "valid_request_body (Runtime_Stage_Request g) = valid_stage_binding runtime_kind g"
| "valid_request_body (Artifact_Workflow_Request g plan_id plan_hash members) =
     (valid_stage_binding artifact_kind g \<and> is_identifier plan_id \<and> valid_digest plan_hash
      \<and> identifiers True members \<and> (members \<noteq> [] \<longleftrightarrow> gb_effect_kind g = ''artifact_snapshot'')
      \<and> length members \<le> max_artifact_versions_per_effect)"

definition valid_request :: "effect_request \<Rightarrow> bool" where
  "valid_request q = (is_operation (eq_operation_id q) \<and> 1 \<le> eq_delivery_epoch q \<and> valid_request_body (eq_body q))"

subsection \<open>On the wire\<close>

definition binding_payload :: "stage_binding \<Rightarrow> fields_list" where
  "binding_payload g = [(''run_id'', JStr (gb_run_id g)), (''attempt_id'', JStr (gb_attempt_id g)),
     (''stage_key'', JStr (gb_stage_key g)), (''effect_kind'', JStr (gb_effect_kind g)),
     (''stage_input_hash'', JStr (gb_stage_input_hash g)),
     (''dependency_result_ids'', jstrs (gb_dependency_result_ids g))]"

text \<open>\<open>_payload\<close> of the six classes.\<close>

fun request_payload :: "request_body \<Rightarrow> fields_list" where
  "request_payload (Source_Binding_Request run_id source_id canonical_id disposition) =
     [(''run_id'', JStr run_id), (''source_id'', JStr source_id), (''canonical_id'', JStr canonical_id),
      (''disposition'', JStr disposition)]"
| "request_payload (Source_Import_Request source_id canonical_id) =
     [(''source_id'', JStr source_id), (''canonical_id'', JStr canonical_id)]"
| "request_payload (Lineage_Query_Request run_id source_ids query) =
     [(''run_id'', JStr run_id), (''source_ids'', jstrs source_ids), (''query'', JStr query)]"
| "request_payload (Successor_Creation_Request run_id title parents) =
     [(''run_id'', JStr run_id), (''title'', JStr title), (''parent_node_ids'', jstrs parents)]"
| "request_payload (Runtime_Stage_Request g) = binding_payload g"
| "request_payload (Artifact_Workflow_Request g plan_id plan_hash members) =
     binding_payload g @ [(''plan_id'', JStr plan_id), (''plan_hash'', JStr plan_hash),
       (''snapshot_member_version_ids'', jstrs members)]"

definition identity_hash :: "(json \<Rightarrow> string) \<Rightarrow> string \<Rightarrow> fields_list \<Rightarrow> string" where
  "identity_hash sha domain payload =
     sha (JObj [(''schema_version'', JInt 1), (''domain'', JStr domain), (''payload'', JObj payload)])"

definition request_hash_of :: "(json \<Rightarrow> string) \<Rightarrow> effect_request \<Rightarrow> string" where
  "request_hash_of sha q = identity_hash sha (request_domain (eq_body q) @ ''.request'')
     ((''operation_id'', JStr (eq_operation_id q)) # request_payload (eq_body q))"

definition request_to_dict :: "(json \<Rightarrow> string) \<Rightarrow> effect_request \<Rightarrow> json" where
  "request_to_dict sha q = JObj ([(''schema_version'', JInt 1), (''domain'', JStr (request_domain (eq_body q))),
     (''operation_id'', JStr (eq_operation_id q)), (''delivery_epoch'', JInt (eq_delivery_epoch q)),
     (''request_hash'', JStr (request_hash_of sha q))] @ request_payload (eq_body q))"

definition wire_fields :: "string list" where
  "wire_fields = [''schema_version'', ''domain'', ''operation_id'', ''delivery_epoch'', ''request_hash'']"

definition binding_fields :: "string list" where
  "binding_fields = [''run_id'', ''attempt_id'', ''stage_key'', ''effect_kind'', ''stage_input_hash'',
     ''dependency_result_ids'']"

definition binding_from_dict :: "(string \<Rightarrow> bool) \<Rightarrow> control_error \<Rightarrow> fields_list \<Rightarrow> ('s, stage_binding) reader" where
  "binding_from_dict kind_ok unsupported kvs =
     seq (identifier_field (field ''run_id'' kvs) ''run_id'') (\<lambda>run_id.
     seq (identifier_field (field ''attempt_id'' kvs) ''attempt_id'') (\<lambda>attempt_id.
     seq (identifier_field (field ''stage_key'' kvs) ''stage_key'') (\<lambda>stage_key.
     seq (identifier_field (field ''effect_kind'' kvs) ''effect_kind'') (\<lambda>effect_kind.
     seq (guard (kind_ok effect_kind) unsupported) (\<lambda>_.
     seq (sha_field (field ''stage_input_hash'' kvs) ''stage_input_hash'') (\<lambda>stage_input_hash.
     seq (digests_field (field ''dependency_result_ids'' kvs) ''dependency_result_ids'') (\<lambda>dependencies.
     ret \<lparr>gb_run_id = run_id, gb_attempt_id = attempt_id, gb_stage_key = stage_key, gb_effect_kind = effect_kind,
          gb_stage_input_hash = stage_input_hash, gb_dependency_result_ids = dependencies\<rparr>)))))))"

text \<open>The fields of a class beside the common ones, and its constructor on a closed dictionary.\<close>

definition request_classes :: "(string \<times> string list) list" where
  "request_classes =
     [(''artifact_workflow'', binding_fields @ [''plan_id'', ''plan_hash'', ''snapshot_member_version_ids'']),
      (''source_binding'', [''run_id'', ''source_id'', ''canonical_id'', ''disposition'']),
      (''source_import'', [''source_id'', ''canonical_id'']),
      (''lineage_query'', [''run_id'', ''source_ids'', ''query'']),
      (''successor_creation'', [''run_id'', ''title'', ''parent_node_ids'']),
      (''runtime_stage'', binding_fields)]"

definition source_binding_request :: "fields_list \<Rightarrow> ('s, request_body) reader" where
  "source_binding_request kvs =
     seq (identifier_field (field ''run_id'' kvs) ''run_id'') (\<lambda>run_id.
     seq (identifier_field (field ''source_id'' kvs) ''source_id'') (\<lambda>source_id.
     seq (canonical_source_field (field ''canonical_id'' kvs)) (\<lambda>canonical_id.
     seq (choice_field source_dispositions (ValueError ''source disposition is unsupported'')
            (field ''disposition'' kvs)) (\<lambda>disposition.
     ret (Source_Binding_Request run_id source_id canonical_id disposition)))))"

definition source_import_request :: "fields_list \<Rightarrow> ('s, request_body) reader" where
  "source_import_request kvs =
     seq (identifier_field (field ''source_id'' kvs) ''source_id'') (\<lambda>source_id.
     seq (canonical_source_field (field ''canonical_id'' kvs)) (\<lambda>canonical_id.
     ret (Source_Import_Request source_id canonical_id)))"

definition lineage_query_request :: "fields_list \<Rightarrow> ('s, request_body) reader" where
  "lineage_query_request kvs =
     seq (identifier_field (field ''run_id'' kvs) ''run_id'') (\<lambda>run_id.
     seq (identifiers_field False (field ''source_ids'' kvs) ''lineage source_ids'') (\<lambda>source_ids.
     seq (safe_text_field 4000 (field ''query'' kvs) ''lineage query'') (\<lambda>query.
     ret (Lineage_Query_Request run_id source_ids query))))"

definition successor_creation_request :: "fields_list \<Rightarrow> ('s, request_body) reader" where
  "successor_creation_request kvs =
     seq (identifier_field (field ''run_id'' kvs) ''run_id'') (\<lambda>run_id.
     seq (safe_text_field 2000 (field ''title'' kvs) ''successor title'') (\<lambda>title.
     seq (identifiers_field False (field ''parent_node_ids'' kvs) ''successor parent_node_ids'') (\<lambda>parents.
     ret (Successor_Creation_Request run_id title parents))))"

definition runtime_stage_request :: "fields_list \<Rightarrow> ('s, request_body) reader" where
  "runtime_stage_request kvs =
     seq (binding_from_dict runtime_kind (ValueError ''runtime effect_kind must use the runtime namespace'') kvs)
       (\<lambda>g. ret (Runtime_Stage_Request g))"

definition artifact_workflow_request :: "fields_list \<Rightarrow> ('s, request_body) reader" where
  "artifact_workflow_request kvs =
     seq (binding_from_dict artifact_kind (ValueError ''artifact effect_kind is unsupported'') kvs) (\<lambda>g.
     seq (identifier_field (field ''plan_id'' kvs) ''artifact plan_id'') (\<lambda>plan_id.
     seq (sha_field (field ''plan_hash'' kvs) ''artifact plan_hash'') (\<lambda>plan_hash.
     seq (identifiers_field (gb_effect_kind g \<noteq> ''artifact_snapshot'') (field ''snapshot_member_version_ids'' kvs)
            ''snapshot members'') (\<lambda>members.
     seq (guard (gb_effect_kind g = ''artifact_snapshot'' \<or> members = [])
            (ValueError ''only artifact_snapshot requests may include snapshot members'')) (\<lambda>_.
     seq (guard (length members \<le> max_artifact_versions_per_effect)
            (ValueError ''artifact workflow request exceeds the snapshot member limit'')) (\<lambda>_.
     ret (Artifact_Workflow_Request g plan_id plan_hash members)))))))"

definition request_body_from :: "string \<Rightarrow> fields_list \<Rightarrow> ('s, request_body) reader" where
  "request_body_from domain kvs =
     (if domain = ''artifact_workflow'' then artifact_workflow_request kvs
      else if domain = ''source_binding'' then source_binding_request kvs
      else if domain = ''source_import'' then source_import_request kvs
      else if domain = ''lineage_query'' then lineage_query_request kvs
      else if domain = ''successor_creation'' then successor_creation_request kvs
      else runtime_stage_request kvs)"

text \<open>The \<open>from_dict\<close> of the class with this domain; the texts of the errors name the domain.\<close>

definition request_from_dict :: "(json \<Rightarrow> string) \<Rightarrow> string \<Rightarrow> string list \<Rightarrow> json \<Rightarrow> ('s, effect_request) reader" where
  "request_from_dict sha domain names raw =
     seq (closed_fields (wire_fields @ names) (domain @ '' request'') raw) (\<lambda>kvs.
     seq (schema_v1 kvs (domain @ '' request'')) (\<lambda>_.
     seq (guard (field ''domain'' kvs = JStr domain) (ValueError (domain @ '' request domain is invalid''))) (\<lambda>_.
     seq (operation_field (field ''operation_id'' kvs)) (\<lambda>operation_id.
     seq (epoch_field (field ''delivery_epoch'' kvs)) (\<lambda>delivery_epoch.
     seq (request_body_from domain kvs) (\<lambda>body.
     let q = \<lparr>eq_operation_id = operation_id, eq_delivery_epoch = delivery_epoch, eq_body = body\<rparr> in
     seq (guard (field ''request_hash'' kvs = JStr (request_hash_of sha q))
            (ValueError (domain @ '' request hash does not match''))) (\<lambda>_.
     ret q)))))))"

text \<open>The choice of the class by the domain, as \<open>_workflow_effect\<close> and \<open>EffectReconciliationRequest.from_dict\<close>
  make it.\<close>

definition typed_request :: "(json \<Rightarrow> string) \<Rightarrow> control_error \<Rightarrow> json \<Rightarrow> json \<Rightarrow> ('s, effect_request) reader" where
  "typed_request sha unsupported domain raw =
     (case domain of
        JStr d \<Rightarrow> (case map_of request_classes d of
            None \<Rightarrow> raise unsupported
          | Some names \<Rightarrow> request_from_dict sha d names raw)
      | JArr _ \<Rightarrow> raise (TypeError ''unhashable type'') | JObj _ \<Rightarrow> raise (TypeError ''unhashable type'')
      | _ \<Rightarrow> raise unsupported)"

subsection \<open>Reading back what was written\<close>

named_theorems reads

lemma seq_ret [reads]: "seq (ret x) f = f x"
  by (simp add: seq_def ret_def fun_eq_iff)

lemma guard_holds [reads]: "b \<Longrightarrow> guard b e = ret ()"
  by (simp add: guard_def)

lemma field_reads [reads]:
  "ok v \<Longrightarrow> text_field ok e (JStr v) = ret v"
  "is_identifier i \<Longrightarrow> identifier_field (JStr i) n = ret i"
  "is_operation p \<Longrightarrow> operation_field (JStr p) = ret p"
  "1 \<le> k \<Longrightarrow> epoch_field (JInt k) = ret k"
  "valid_digest d \<Longrightarrow> sha_field (JStr d) n = ret d"
  "safe_text m t \<Longrightarrow> safe_text_field m (JStr t) n = ret t"
  "c \<in> set cs \<Longrightarrow> choice_field cs e (JStr c) = ret c"
  "bool_field (JBool b) n = ret b"
  "canonical_source_id s \<Longrightarrow> canonical_source_field (JStr s) = ret s"
  by (simp_all add: text_field_def identifier_field_def operation_field_def epoch_field_def sha_field_def
      safe_text_field_def choice_field_def bool_field_def canonical_source_field_def seq_ret guard_holds)

lemma texts_read: "list_all ok vs \<Longrightarrow> texts_field ok e (map JStr vs) = ret vs"
  by (induction vs) (simp_all add: reads)

lemma lists_read [reads]:
  "identifiers True vs \<Longrightarrow> b \<or> vs \<noteq> [] \<Longrightarrow> identifiers_field b (jstrs vs) n = ret vs"
  "list_all valid_digest ds \<Longrightarrow> ordered ds \<Longrightarrow> digests_field (jstrs ds) n = ret ds"
  by (auto simp: identifiers_field_def digests_field_def jstrs_def items_field_def identifiers_def ordered_def
      texts_read reads)

lemma closed_reads [reads]: "map fst kvs = names \<Longrightarrow> closed_fields names n (JObj kvs) = ret kvs"
  by (simp add: closed_fields_def reads flip: set_map)

lemma field_Cons [reads]: "field k ((k', v) # kvs) = (if k = k' then v else field k kvs)"
  by (simp add: field_def)

lemma map_fst_binding: "map fst (binding_payload g) = binding_fields"
  by (simp add: binding_payload_def binding_fields_def)

lemma field_binding [reads]:
  "field ''run_id'' (binding_payload g @ kvs) = JStr (gb_run_id g)"
  "field ''attempt_id'' (binding_payload g @ kvs) = JStr (gb_attempt_id g)"
  "field ''stage_key'' (binding_payload g @ kvs) = JStr (gb_stage_key g)"
  "field ''effect_kind'' (binding_payload g @ kvs) = JStr (gb_effect_kind g)"
  "field ''stage_input_hash'' (binding_payload g @ kvs) = JStr (gb_stage_input_hash g)"
  "field ''dependency_result_ids'' (binding_payload g @ kvs) = jstrs (gb_dependency_result_ids g)"
  "k \<notin> set binding_fields \<Longrightarrow> field k (binding_payload g @ kvs) = field k kvs"
  by (simp_all add: binding_payload_def binding_fields_def field_def)

lemma binding_reads [reads]:
  "valid_stage_binding ok g \<Longrightarrow> binding_from_dict ok e (binding_payload g @ rest) = ret g"
  by (cases g) (simp add: binding_from_dict_def valid_stage_binding_def reads)

lemma binding_reads_wire [reads]:
  assumes "k \<notin> set binding_fields"
  shows "binding_from_dict ok e ((k, v) # kvs) = binding_from_dict ok e kvs"
proof -
  have "field b ((k, v) # kvs) = field b kvs" if "b \<in> set binding_fields" for b
    using assms that by (auto simp: field_Cons)
  then show ?thesis by (simp add: binding_from_dict_def binding_fields_def)
qed

lemma map_fst_payload: "map_of request_classes (request_domain b) = Some (map fst (request_payload b))"
  by (cases b) (simp_all add: request_classes_def map_fst_binding)

definition wire :: "json \<Rightarrow> json \<Rightarrow> json \<Rightarrow> json \<Rightarrow> json \<Rightarrow> fields_list \<Rightarrow> fields_list" where
  "wire a b c d e kvs = [(''schema_version'', a), (''domain'', b), (''operation_id'', c), (''delivery_epoch'', d),
     (''request_hash'', e)] @ kvs"

lemma field_wire [reads]:
  "field ''schema_version'' (wire a b c d e kvs) = a" "field ''domain'' (wire a b c d e kvs) = b"
  "field ''operation_id'' (wire a b c d e kvs) = c" "field ''delivery_epoch'' (wire a b c d e kvs) = d"
  "field ''request_hash'' (wire a b c d e kvs) = e"
  "k \<notin> set wire_fields \<Longrightarrow> field k (wire a b c d e kvs) = field k kvs"
  by (simp_all add: wire_def wire_fields_def reads)

lemma binding_skips_wire [reads]: "binding_from_dict ok x (wire a b c d e kvs) = binding_from_dict ok x kvs"
  by (simp add: wire_def binding_fields_def reads)

lemma not_wire [reads]: "k \<in> set [''run_id'', ''source_id'', ''canonical_id'', ''disposition'', ''source_ids'',
    ''query'', ''title'', ''parent_node_ids'', ''plan_id'', ''plan_hash'', ''snapshot_member_version_ids'']
    \<Longrightarrow> k \<notin> set wire_fields"
  by (auto simp: wire_fields_def)

lemma not_binding [reads]: "k \<in> set [''plan_id'', ''plan_hash'', ''snapshot_member_version_ids'']
    \<Longrightarrow> k \<notin> set binding_fields"
  by (auto simp: binding_fields_def)

lemma body_reads:
  assumes "valid_request_body b"
  shows "request_body_from (request_domain b) (wire a d p n h (request_payload b)) = ret b"
proof (cases b)
  case (Runtime_Stage_Request g)
  with assms show ?thesis
    by (simp add: request_body_from_def runtime_stage_request_def binding_reads[where rest = "[]", simplified] reads)
next
  case (Artifact_Workflow_Request g plan_id plan_hash members)
  with assms show ?thesis
    by (cases "members = []") (simp_all add: request_body_from_def artifact_workflow_request_def reads)
qed (use assms in \<open>simp_all add: request_body_from_def source_binding_request_def source_import_request_def
    lineage_query_request_def successor_creation_request_def reads\<close>)

lemma request_fields: "\<lparr>eq_operation_id = eq_operation_id q, eq_delivery_epoch = eq_delivery_epoch q, eq_body = eq_body q\<rparr> = q"
  by (cases q) simp

lemma request_roundtrip:
  assumes "valid_request q"
  shows "typed_request sha e (JStr (request_domain (eq_body q))) (request_to_dict sha q) = ret q"
proof -
  let ?b = "eq_body q"
  let ?kvs = "wire (JInt 1) (JStr (request_domain ?b)) (JStr (eq_operation_id q)) (JInt (eq_delivery_epoch q))
     (JStr (request_hash_of sha q)) (request_payload ?b)"
  have "map fst ?kvs = wire_fields @ map fst (request_payload ?b)" by (simp add: wire_def wire_fields_def)
  moreover have "request_to_dict sha q = JObj ?kvs" by (simp add: request_to_dict_def wire_def)
  ultimately show ?thesis using assms
    by (simp add: typed_request_def map_fst_payload request_from_dict_def schema_v1_def valid_request_def Let_def
        body_reads request_fields reads)
qed

section \<open>Results\<close>

record lineage_node =
  nd_node_id :: string
  nd_status :: string
  nd_title :: string
  nd_revision :: int
  nd_engine_reference :: engine_reference

record lineage_link =
  lk_link_id :: string
  lk_from_node_id :: string
  lk_to_node_id :: string
  lk_relation :: string

text \<open>The counts of an import: rows, chunks, directories.\<close>

record import_manifest =
  mf_chunks :: int
  mf_directories :: int
  mf_source_rows :: int

datatype result_body =
    Source_Binding_Result string engine_reference bool
  | Source_Import_Result string engine_reference import_manifest bool
  | Lineage_Query_Result "lineage_node list"
  | Successor_Creation_Result lineage_node "string list" "lineage_link list" bool
  | Runtime_Stage_Result string string string string string string
  | Artifact_Workflow_Result string string string "string list" "string option" bool

record effect_result =
  ez_operation_id :: string
  ez_delivery_epoch :: int
  ez_request_hash :: string
  ez_body :: result_body

fun result_domain :: "result_body \<Rightarrow> string" where
  "result_domain (Source_Binding_Result _ _ _) = ''source_binding''"
| "result_domain (Source_Import_Result _ _ _ _) = ''source_import''"
| "result_domain (Lineage_Query_Result _) = ''lineage_query''"
| "result_domain (Successor_Creation_Result _ _ _ _) = ''successor_creation''"
| "result_domain (Runtime_Stage_Result _ _ _ _ _ _) = ''runtime_stage''"
| "result_domain (Artifact_Workflow_Result _ _ _ _ _ _) = ''artifact_workflow''"

definition lineage_statuses :: "string list" where
  "lineage_statuses = [''awaiting_human'', ''incubating'', ''dormant'', ''graduated'', ''killed'', ''active'']"

definition valid_lineage_node :: "lineage_node \<Rightarrow> bool" where
  "valid_lineage_node n = (is_identifier (nd_node_id n) \<and> nd_status n \<in> set lineage_statuses
     \<and> safe_text 2000 (nd_title n) \<and> 1 \<le> nd_revision n \<and> valid_engine_reference (nd_engine_reference n)
     \<and> en_kind (nd_engine_reference n) = ''lineage'')"

definition valid_lineage_link :: "lineage_link \<Rightarrow> bool" where
  "valid_lineage_link l = (is_identifier (lk_link_id l) \<and> is_identifier (lk_from_node_id l)
     \<and> is_identifier (lk_to_node_id l) \<and> is_identifier (lk_relation l) \<and> lk_from_node_id l \<noteq> lk_to_node_id l)"

definition manifest_count :: "int \<Rightarrow> bool" where
  "manifest_count n = (0 \<le> n \<and> n \<le> 1000000)"

definition source_reference :: "engine_reference \<Rightarrow> bool" where
  "source_reference e = (valid_engine_reference e \<and> en_kind e = ''source'')"

fun valid_result_body :: "result_body \<Rightarrow> bool" where
  "valid_result_body (Source_Binding_Result source_id e _) = (is_identifier source_id \<and> source_reference e)"
| "valid_result_body (Source_Import_Result source_id e m _) = (is_identifier source_id \<and> source_reference e
     \<and> manifest_count (mf_chunks m) \<and> manifest_count (mf_directories m) \<and> manifest_count (mf_source_rows m))"
| "valid_result_body (Lineage_Query_Result nodes) =
     (list_all valid_lineage_node nodes \<and> ordered (map nd_node_id nodes))"
| "valid_result_body (Successor_Creation_Result node parents links _) = (valid_lineage_node node
     \<and> identifiers True parents \<and> parents \<noteq> [] \<and> links \<noteq> [] \<and> list_all valid_lineage_link links
     \<and> ordered (map lk_link_id links)
     \<and> list_all (\<lambda>l. lk_from_node_id l = nd_node_id node \<and> lk_relation l = ''successor_reuses'') links
     \<and> distinct (map lk_to_node_id links) \<and> sort (map lk_to_node_id links) = parents)"
| "valid_result_body (Runtime_Stage_Result attempt_id runtime_event_id stage_key effect_kind output_id output_hash) =
     (is_identifier attempt_id \<and> is_identifier runtime_event_id \<and> is_identifier stage_key
      \<and> is_identifier effect_kind \<and> runtime_kind effect_kind \<and> is_identifier output_id \<and> valid_digest output_hash)"
| "valid_result_body (Artifact_Workflow_Result attempt_id stage_key effect_kind versions snapshot_id _) =
     (is_identifier attempt_id \<and> is_identifier stage_key \<and> is_identifier effect_kind \<and> artifact_kind effect_kind
      \<and> identifiers True versions \<and> versions \<noteq> [] \<and> length versions \<le> max_artifact_versions_per_effect
      \<and> (case snapshot_id of None \<Rightarrow> effect_kind \<noteq> ''artifact_snapshot''
          | Some i \<Rightarrow> effect_kind = ''artifact_snapshot'' \<and> is_identifier i))"

definition valid_result :: "effect_result \<Rightarrow> bool" where
  "valid_result z = (is_operation (ez_operation_id z) \<and> 1 \<le> ez_delivery_epoch z
     \<and> valid_digest (ez_request_hash z) \<and> valid_result_body (ez_body z))"

subsection \<open>On the wire\<close>

definition lineage_node_to_dict :: "lineage_node \<Rightarrow> json" where
  "lineage_node_to_dict n = JObj [(''node_id'', JStr (nd_node_id n)), (''status'', JStr (nd_status n)),
     (''title'', JStr (nd_title n)), (''revision'', JInt (nd_revision n)),
     (''engine_reference'', engine_reference_to_dict (nd_engine_reference n))]"

definition lineage_link_to_dict :: "lineage_link \<Rightarrow> json" where
  "lineage_link_to_dict l = JObj [(''link_id'', JStr (lk_link_id l)), (''from_node_id'', JStr (lk_from_node_id l)),
     (''to_node_id'', JStr (lk_to_node_id l)), (''relation'', JStr (lk_relation l))]"

definition manifest_json :: "import_manifest \<Rightarrow> json" where
  "manifest_json m = JObj [(''chunks'', JInt (mf_chunks m)), (''directories'', JInt (mf_directories m)),
     (''source_rows'', JInt (mf_source_rows m))]"

text \<open>What \<open>_identity_payload\<close> of the six classes adds to the operation and the hash of the request.\<close>

fun result_payload :: "result_body \<Rightarrow> fields_list" where
  "result_payload (Source_Binding_Result source_id e _) =
     [(''source_id'', JStr source_id), (''engine_reference'', engine_reference_to_dict e)]"
| "result_payload (Source_Import_Result source_id e m _) =
     [(''source_id'', JStr source_id), (''engine_reference'', engine_reference_to_dict e),
      (''manifest'', manifest_json m)]"
| "result_payload (Lineage_Query_Result nodes) = [(''nodes'', JArr (map lineage_node_to_dict nodes))]"
| "result_payload (Successor_Creation_Result node parents links _) =
     [(''node'', lineage_node_to_dict node), (''parent_node_ids'', jstrs parents),
      (''links'', JArr (map lineage_link_to_dict links))]"
| "result_payload (Runtime_Stage_Result attempt_id runtime_event_id stage_key effect_kind output_id output_hash) =
     [(''attempt_id'', JStr attempt_id), (''runtime_event_id'', JStr runtime_event_id),
      (''stage_key'', JStr stage_key), (''effect_kind'', JStr effect_kind), (''output_id'', JStr output_id),
      (''output_hash'', JStr output_hash)]"
| "result_payload (Artifact_Workflow_Result attempt_id stage_key effect_kind versions snapshot_id _) =
     [(''attempt_id'', JStr attempt_id), (''stage_key'', JStr stage_key), (''effect_kind'', JStr effect_kind),
      (''artifact_version_ids'', jstrs versions), (''snapshot_id'', jstr_opt snapshot_id)]"

fun result_replayed :: "result_body \<Rightarrow> fields_list" where
  "result_replayed (Source_Binding_Result _ _ replayed) = [(''replayed'', JBool replayed)]"
| "result_replayed (Source_Import_Result _ _ _ replayed) = [(''replayed'', JBool replayed)]"
| "result_replayed (Lineage_Query_Result _) = []"
| "result_replayed (Successor_Creation_Result _ _ _ replayed) = [(''replayed'', JBool replayed)]"
| "result_replayed (Runtime_Stage_Result _ _ _ _ _ _) = []"
| "result_replayed (Artifact_Workflow_Result _ _ _ _ _ replayed) = [(''replayed'', JBool replayed)]"

definition result_identity :: "(json \<Rightarrow> string) \<Rightarrow> effect_result \<Rightarrow> string" where
  "result_identity sha z = identity_hash sha (result_domain (ez_body z) @ ''.result'')
     ([(''operation_id'', JStr (ez_operation_id z)), (''request_hash'', JStr (ez_request_hash z))]
      @ result_payload (ez_body z))"

definition result_to_dict :: "(json \<Rightarrow> string) \<Rightarrow> effect_result \<Rightarrow> json" where
  "result_to_dict sha z = JObj ([(''schema_version'', JInt 1), (''domain'', JStr (result_domain (ez_body z))),
     (''delivery_epoch'', JInt (ez_delivery_epoch z)), (''operation_id'', JStr (ez_operation_id z)),
     (''request_hash'', JStr (ez_request_hash z))] @ result_payload (ez_body z)
     @ [(''result_identity'', JStr (result_identity sha z))] @ result_replayed (ez_body z))"


definition lineage_node_from_dict :: "json \<Rightarrow> ('s, lineage_node) reader" where
  "lineage_node_from_dict raw =
     seq (closed_fields [''node_id'', ''status'', ''title'', ''revision'', ''engine_reference''] ''lineage node'' raw) (\<lambda>kvs.
     seq (engine_reference_from_dict (field ''engine_reference'' kvs)) (\<lambda>e.
     seq (identifier_field (field ''node_id'' kvs) ''lineage node_id'') (\<lambda>node_id.
     seq (choice_field lineage_statuses (ValueError ''lineage status is unsupported'') (field ''status'' kvs)) (\<lambda>status.
     seq (safe_text_field 2000 (field ''title'' kvs) ''lineage title'') (\<lambda>title.
     seq (case field ''revision'' kvs of
            JInt n \<Rightarrow> seq (guard (1 \<le> n) (ValueError ''lineage revision must be positive'')) (\<lambda>_. ret n)
          | _ \<Rightarrow> raise (ValueError ''lineage revision must be positive'')) (\<lambda>revision.
     seq (guard (en_kind e = ''lineage'') (ValueError ''lineage nodes require a lineage engine reference'')) (\<lambda>_.
     ret \<lparr>nd_node_id = node_id, nd_status = status, nd_title = title, nd_revision = revision,
          nd_engine_reference = e\<rparr>)))))))"

definition lineage_link_from_dict :: "json \<Rightarrow> ('s, lineage_link) reader" where
  "lineage_link_from_dict raw =
     seq (closed_fields [''link_id'', ''from_node_id'', ''to_node_id'', ''relation''] ''lineage link'' raw) (\<lambda>kvs.
     seq (identifier_field (field ''link_id'' kvs) ''lineage link_id'') (\<lambda>link_id.
     seq (identifier_field (field ''from_node_id'' kvs) ''lineage from_node_id'') (\<lambda>from_node_id.
     seq (identifier_field (field ''to_node_id'' kvs) ''lineage to_node_id'') (\<lambda>to_node_id.
     seq (identifier_field (field ''relation'' kvs) ''lineage relation'') (\<lambda>relation.
     seq (guard (from_node_id \<noteq> to_node_id) (ValueError ''lineage links cannot self-reference'')) (\<lambda>_.
     ret \<lparr>lk_link_id = link_id, lk_from_node_id = from_node_id, lk_to_node_id = to_node_id,
          lk_relation = relation\<rparr>))))))"

definition count_field :: "json \<Rightarrow> ('s, int) reader" where
  "count_field j =
     (case j of JInt n \<Rightarrow> seq (guard (manifest_count n) (ValueError ''source import manifest is invalid'')) (\<lambda>_. ret n)
      | _ \<Rightarrow> raise (ValueError ''source import manifest is invalid''))"

definition manifest_field :: "json \<Rightarrow> ('s, import_manifest) reader" where
  "manifest_field j =
     (case j of
        JObj kvs \<Rightarrow>
          seq (guard (set (map fst kvs) = set [''chunks'', ''directories'', ''source_rows''])
                 (ValueError ''source import manifest is invalid'')) (\<lambda>_.
          seq (count_field (field ''chunks'' kvs)) (\<lambda>chunks.
          seq (count_field (field ''directories'' kvs)) (\<lambda>directories.
          seq (count_field (field ''source_rows'' kvs)) (\<lambda>source_rows.
          ret \<lparr>mf_chunks = chunks, mf_directories = directories, mf_source_rows = source_rows\<rparr>))))
      | _ \<Rightarrow> raise (ValueError ''source import manifest is invalid''))"

fun each_field :: "(json \<Rightarrow> ('s, 'a) reader) \<Rightarrow> json list \<Rightarrow> ('s, 'a list) reader" where
  "each_field f [] = ret []"
| "each_field f (j # js) = seq (f j) (\<lambda>v. seq (each_field f js) (\<lambda>vs. ret (v # vs)))"

definition list_field :: "(json \<Rightarrow> ('s, 'a) reader) \<Rightarrow> json \<Rightarrow> string \<Rightarrow> ('s, 'a list) reader" where
  "list_field f j name =
     (case j of JArr js \<Rightarrow> each_field f js | _ \<Rightarrow> raise (TypeError (name @ '' must be a list'')))"

definition result_fields :: "string list" where
  "result_fields = [''schema_version'', ''domain'', ''delivery_epoch'', ''operation_id'', ''request_hash'']"

definition result_head :: "string \<Rightarrow> string list \<Rightarrow> json \<Rightarrow> ('s, fields_list) reader" where
  "result_head domain names raw =
     seq (closed_fields (result_fields @ names) (domain @ '' result'') raw) (\<lambda>kvs.
     seq (schema_v1 kvs (domain @ '' result'')) (\<lambda>_.
     seq (guard (field ''domain'' kvs = JStr domain) (ValueError (domain @ '' result domain is invalid''))) (\<lambda>_.
     ret kvs)))"

definition result_post :: "fields_list \<Rightarrow> ('s, result_body \<Rightarrow> effect_result) reader" where
  "result_post kvs =
     seq (operation_field (field ''operation_id'' kvs)) (\<lambda>operation_id.
     seq (epoch_field (field ''delivery_epoch'' kvs)) (\<lambda>delivery_epoch.
     seq (sha_field (field ''request_hash'' kvs) ''request_hash'') (\<lambda>request_hash.
     ret (\<lambda>body. \<lparr>ez_operation_id = operation_id, ez_delivery_epoch = delivery_epoch,
       ez_request_hash = request_hash, ez_body = body\<rparr>))))"

definition result_tail :: "(json \<Rightarrow> string) \<Rightarrow> fields_list \<Rightarrow> effect_result \<Rightarrow> ('s, effect_result) reader" where
  "result_tail sha kvs z =
     seq (guard (field ''result_identity'' kvs = JStr (result_identity sha z))
            (ValueError (result_domain (ez_body z) @ '' result identity does not match''))) (\<lambda>_.
     ret z)"

definition source_binding_result :: "(json \<Rightarrow> string) \<Rightarrow> json \<Rightarrow> ('s, effect_result) reader" where
  "source_binding_result sha raw =
     seq (result_head ''source_binding'' [''source_id'', ''engine_reference'', ''result_identity'', ''replayed''] raw) (\<lambda>kvs.
     seq (engine_reference_from_dict (field ''engine_reference'' kvs)) (\<lambda>e.
     seq (result_post kvs) (\<lambda>result.
     seq (identifier_field (field ''source_id'' kvs) ''source_id'') (\<lambda>source_id.
     seq (guard (en_kind e = ''source'') (ValueError ''source binding requires a source engine reference'')) (\<lambda>_.
     seq (bool_field (field ''replayed'' kvs) ''replayed'') (\<lambda>replayed.
     result_tail sha kvs (result (Source_Binding_Result source_id e replayed))))))))"

definition source_import_result :: "(json \<Rightarrow> string) \<Rightarrow> json \<Rightarrow> ('s, effect_result) reader" where
  "source_import_result sha raw =
     seq (result_head ''source_import''
            [''source_id'', ''engine_reference'', ''manifest'', ''result_identity'', ''replayed''] raw) (\<lambda>kvs.
     seq (engine_reference_from_dict (field ''engine_reference'' kvs)) (\<lambda>e.
     seq (result_post kvs) (\<lambda>result.
     seq (identifier_field (field ''source_id'' kvs) ''source_id'') (\<lambda>source_id.
     seq (guard (en_kind e = ''source'') (ValueError ''source import requires a source engine reference'')) (\<lambda>_.
     seq (manifest_field (field ''manifest'' kvs)) (\<lambda>manifest.
     seq (bool_field (field ''replayed'' kvs) ''replayed'') (\<lambda>replayed.
     result_tail sha kvs (result (Source_Import_Result source_id e manifest replayed)))))))))"

definition lineage_query_result :: "(json \<Rightarrow> string) \<Rightarrow> json \<Rightarrow> ('s, effect_result) reader" where
  "lineage_query_result sha raw =
     seq (result_head ''lineage_query'' [''nodes'', ''result_identity''] raw) (\<lambda>kvs.
     seq (list_field lineage_node_from_dict (field ''nodes'' kvs) ''lineage query nodes'') (\<lambda>nodes.
     seq (result_post kvs) (\<lambda>result.
     seq (guard (ordered (map nd_node_id nodes))
            (ValueError ''lineage nodes must be unique and canonically ordered'')) (\<lambda>_.
     result_tail sha kvs (result (Lineage_Query_Result nodes))))))"

definition successor_creation_result :: "(json \<Rightarrow> string) \<Rightarrow> json \<Rightarrow> ('s, effect_result) reader" where
  "successor_creation_result sha raw =
     seq (result_head ''successor_creation''
            [''node'', ''parent_node_ids'', ''links'', ''result_identity'', ''replayed''] raw) (\<lambda>kvs.
     seq (guard (case field ''links'' kvs of JArr _ \<Rightarrow> True | _ \<Rightarrow> False)
            (TypeError ''successor links must be a list'')) (\<lambda>_.
     seq (lineage_node_from_dict (field ''node'' kvs)) (\<lambda>node.
     seq (list_field lineage_link_from_dict (field ''links'' kvs) ''successor links'') (\<lambda>links.
     seq (result_post kvs) (\<lambda>result.
     seq (identifiers_field False (field ''parent_node_ids'' kvs) ''successor parent_node_ids'') (\<lambda>parents.
     seq (guard (links \<noteq> []) (TypeError ''successor links must be a non-empty typed sequence'')) (\<lambda>_.
     seq (guard (ordered (map lk_link_id links))
            (ValueError ''successor links must be unique and canonically ordered'')) (\<lambda>_.
     seq (guard (list_all (\<lambda>l. lk_from_node_id l = nd_node_id node \<and> lk_relation l = ''successor_reuses'') links)
            (ValueError ''successor links must be exact successor reuse links'')) (\<lambda>_.
     seq (guard (distinct (map lk_to_node_id links) \<and> sort (map lk_to_node_id links) = parents)
            (ValueError ''successor links must exactly cover the parent nodes'')) (\<lambda>_.
     seq (bool_field (field ''replayed'' kvs) ''replayed'') (\<lambda>replayed.
     result_tail sha kvs (result (Successor_Creation_Result node parents links replayed)))))))))))))"

definition runtime_stage_result :: "(json \<Rightarrow> string) \<Rightarrow> json \<Rightarrow> ('s, effect_result) reader" where
  "runtime_stage_result sha raw =
     seq (result_head ''runtime_stage'' [''attempt_id'', ''runtime_event_id'', ''stage_key'', ''effect_kind'',
            ''output_id'', ''output_hash'', ''result_identity''] raw) (\<lambda>kvs.
     seq (result_post kvs) (\<lambda>result.
     seq (identifier_field (field ''attempt_id'' kvs) ''attempt_id'') (\<lambda>attempt_id.
     seq (identifier_field (field ''runtime_event_id'' kvs) ''runtime_event_id'') (\<lambda>runtime_event_id.
     seq (identifier_field (field ''stage_key'' kvs) ''runtime stage_key'') (\<lambda>stage_key.
     seq (identifier_field (field ''effect_kind'' kvs) ''runtime effect_kind'') (\<lambda>effect_kind.
     seq (guard (runtime_kind effect_kind) (ValueError ''runtime effect_kind must use the runtime namespace'')) (\<lambda>_.
     seq (identifier_field (field ''output_id'' kvs) ''runtime output_id'') (\<lambda>output_id.
     seq (sha_field (field ''output_hash'' kvs) ''runtime output_hash'') (\<lambda>output_hash.
     result_tail sha kvs (result (Runtime_Stage_Result attempt_id runtime_event_id stage_key effect_kind output_id
       output_hash)))))))))))"

definition snapshot_field :: "string \<Rightarrow> json \<Rightarrow> ('s, string option) reader" where
  "snapshot_field effect_kind j =
     (if effect_kind = ''artifact_snapshot'' then
        seq (identifier_field j ''snapshot_id'') (\<lambda>i. ret (Some i))
      else seq (guard (j = JNull) (ValueError ''only artifact_snapshot results may include snapshot_id'')) (\<lambda>_. ret None))"

definition artifact_workflow_result :: "(json \<Rightarrow> string) \<Rightarrow> json \<Rightarrow> ('s, effect_result) reader" where
  "artifact_workflow_result sha raw =
     seq (result_head ''artifact_workflow'' [''attempt_id'', ''stage_key'', ''effect_kind'', ''artifact_version_ids'',
            ''snapshot_id'', ''result_identity'', ''replayed''] raw) (\<lambda>kvs.
     seq (result_post kvs) (\<lambda>result.
     seq (identifier_field (field ''attempt_id'' kvs) ''attempt_id'') (\<lambda>attempt_id.
     seq (identifier_field (field ''stage_key'' kvs) ''artifact stage_key'') (\<lambda>stage_key.
     seq (identifier_field (field ''effect_kind'' kvs) ''artifact effect_kind'') (\<lambda>effect_kind.
     seq (guard (artifact_kind effect_kind) (ValueError ''artifact effect_kind is unsupported'')) (\<lambda>_.
     seq (identifiers_field False (field ''artifact_version_ids'' kvs) ''artifact_version_ids'') (\<lambda>versions.
     seq (guard (length versions \<le> max_artifact_versions_per_effect)
            (ValueError ''artifact workflow result exceeds the version limit'')) (\<lambda>_.
     seq (snapshot_field effect_kind (field ''snapshot_id'' kvs)) (\<lambda>snapshot_id.
     seq (bool_field (field ''replayed'' kvs) ''replayed'') (\<lambda>replayed.
     result_tail sha kvs (result (Artifact_Workflow_Result attempt_id stage_key effect_kind versions snapshot_id
       replayed))))))))))))"

text \<open>The choice of the class by the domain, in \<open>EffectReconciliationResult.from_dict\<close>.\<close>

definition typed_result :: "(json \<Rightarrow> string) \<Rightarrow> string \<Rightarrow> json \<Rightarrow> ('s, effect_result) reader" where
  "typed_result sha domain raw =
     (if domain = ''source_binding'' then source_binding_result sha raw
      else if domain = ''source_import'' then source_import_result sha raw
      else if domain = ''lineage_query'' then lineage_query_result sha raw
      else if domain = ''successor_creation'' then successor_creation_result sha raw
      else if domain = ''runtime_stage'' then runtime_stage_result sha raw
      else if domain = ''artifact_workflow'' then artifact_workflow_result sha raw
      else raise (ValueError ''reconciliation domain is unsupported''))"

subsection \<open>Reading back a result\<close>

lemma engine_reference_reads [reads]:
  "valid_engine_reference e \<Longrightarrow> engine_reference_from_dict (engine_reference_to_dict e) = ret e"
  by (cases e) (auto simp: engine_reference_from_dict_def engine_reference_to_dict_def valid_engine_reference_def
      engine_kind_prefix_def reads split: option.splits if_splits)

lemma node_reads [reads]: "valid_lineage_node n \<Longrightarrow> lineage_node_from_dict (lineage_node_to_dict n) = ret n"
  by (cases n) (simp add: lineage_node_from_dict_def lineage_node_to_dict_def valid_lineage_node_def reads)

lemma link_reads [reads]: "valid_lineage_link l \<Longrightarrow> lineage_link_from_dict (lineage_link_to_dict l) = ret l"
  by (cases l) (simp add: lineage_link_from_dict_def lineage_link_to_dict_def valid_lineage_link_def reads)

lemma manifest_reads [reads]:
  "manifest_count (mf_chunks m) \<Longrightarrow> manifest_count (mf_directories m) \<Longrightarrow> manifest_count (mf_source_rows m)
     \<Longrightarrow> manifest_field (manifest_json m) = ret m"
  by (cases m) (simp add: manifest_field_def manifest_json_def count_field_def reads)

lemma each_reads: "(\<And>x. x \<in> set xs \<Longrightarrow> f (g x) = ret x) \<Longrightarrow> each_field f (map g xs) = ret xs"
  by (induction xs) (simp_all add: reads)

lemma list_reads [reads]:
  "list_all valid_lineage_node ns \<Longrightarrow> list_field lineage_node_from_dict (JArr (map lineage_node_to_dict ns)) x = ret ns"
  "list_all valid_lineage_link ls \<Longrightarrow> list_field lineage_link_from_dict (JArr (map lineage_link_to_dict ls)) x = ret ls"
  by (auto simp: list_field_def list_all_iff reads intro!: each_reads)

definition result_wire :: "json \<Rightarrow> json \<Rightarrow> json \<Rightarrow> json \<Rightarrow> json \<Rightarrow> fields_list \<Rightarrow> fields_list" where
  "result_wire v d e p h kvs = [(''schema_version'', v), (''domain'', d), (''delivery_epoch'', e), (''operation_id'', p),
     (''request_hash'', h)] @ kvs"

lemma result_heads [reads]:
  "names = map fst kvs \<Longrightarrow> result_head d names (JObj (result_wire (JInt 1) (JStr d) e p h kvs))
   = ret (result_wire (JInt 1) (JStr d) e p h kvs)"
  by (simp add: result_head_def result_wire_def result_fields_def schema_v1_def reads)

lemma result_posts [reads]:
  "is_operation p \<Longrightarrow> 1 \<le> e \<Longrightarrow> valid_digest h
     \<Longrightarrow> result_post (result_wire v d (JInt e) (JStr p) (JStr h) kvs)
     = ret (\<lambda>b. \<lparr>ez_operation_id = p, ez_delivery_epoch = e, ez_request_hash = h, ez_body = b\<rparr>)"
  by (simp add: result_post_def result_wire_def reads)

lemma field_result [reads]:
  "k \<notin> set result_fields \<Longrightarrow> field k (result_wire a b c d e kvs) = field k kvs"
  by (simp add: result_fields_def result_wire_def reads)

lemma result_to_dict_wire: "result_to_dict sha z = JObj (result_wire (JInt 1) (JStr (result_domain (ez_body z)))
    (JInt (ez_delivery_epoch z)) (JStr (ez_operation_id z)) (JStr (ez_request_hash z))
    (result_payload (ez_body z) @ [(''result_identity'', JStr (result_identity sha z))] @ result_replayed (ez_body z)))"
  by (simp add: result_to_dict_def result_wire_def)

lemma result_not_null: "result_to_dict sha z \<noteq> JNull"
  by (simp add: result_to_dict_def)

lemma result_roundtrip:
  assumes "valid_result z"
  shows "typed_result sha (result_domain (ez_body z)) (result_to_dict sha z) = ret z"
proof (cases z)
  case (fields p e h b)
  with assms show ?thesis
    by (cases b) (auto simp: typed_result_def source_binding_result_def source_import_result_def
      lineage_query_result_def successor_creation_result_def runtime_stage_result_def artifact_workflow_result_def
      snapshot_field_def result_to_dict_wire result_tail_def valid_result_def source_reference_def result_fields_def
      identifiers_def ordered_def jstr_opt_def reads split: option.splits)
qed

subsection \<open>What matches a request\<close>

text \<open>\<open>validate_result\<close> of the six classes of requests.\<close>

fun body_matches :: "request_body \<Rightarrow> result_body \<Rightarrow> bool" where
  "body_matches (Source_Binding_Request _ source_id _ _) (Source_Binding_Result source_id' _ _) = (source_id' = source_id)"
| "body_matches (Source_Import_Request source_id _) (Source_Import_Result source_id' _ _ _) = (source_id' = source_id)"
| "body_matches (Lineage_Query_Request _ _ _) (Lineage_Query_Result _) = True"
| "body_matches (Successor_Creation_Request _ title parents) (Successor_Creation_Result node parents' _ _) =
     (parents' = parents \<and> nd_title node = title)"
| "body_matches (Runtime_Stage_Request g) (Runtime_Stage_Result attempt_id _ stage_key effect_kind _ _) =
     (attempt_id = gb_attempt_id g \<and> stage_key = gb_stage_key g \<and> effect_kind = gb_effect_kind g)"
| "body_matches (Artifact_Workflow_Request g _ _ _) (Artifact_Workflow_Result attempt_id stage_key effect_kind _ _ _) =
     (attempt_id = gb_attempt_id g \<and> stage_key = gb_stage_key g \<and> effect_kind = gb_effect_kind g)"
| "body_matches _ _ = False"

fun members_match :: "request_body \<Rightarrow> result_body \<Rightarrow> bool" where
  "members_match (Artifact_Workflow_Request g _ _ members) (Artifact_Workflow_Result _ _ _ versions _ _) =
     (gb_effect_kind g = ''artifact_snapshot'' \<longrightarrow> versions = members)"
| "members_match _ _ = True"

definition request_matches :: "(json \<Rightarrow> string) \<Rightarrow> effect_request \<Rightarrow> effect_result \<Rightarrow> bool" where
  "request_matches sha q z = (ez_operation_id z = eq_operation_id q \<and> ez_delivery_epoch z = eq_delivery_epoch q
     \<and> ez_request_hash z = request_hash_of sha q \<and> body_matches (eq_body q) (ez_body z)
     \<and> members_match (eq_body q) (ez_body z))"

definition validate_result :: "(json \<Rightarrow> string) \<Rightarrow> effect_request \<Rightarrow> effect_result \<Rightarrow> ('s, unit) reader" where
  "validate_result sha q z =
     seq (guard (request_domain (eq_body q) = result_domain (ez_body z))
            (TypeError (request_domain (eq_body q) @ '' result must be typed''))) (\<lambda>_.
     seq (guard (ez_operation_id z = eq_operation_id q \<and> ez_delivery_epoch z = eq_delivery_epoch q
            \<and> ez_request_hash z = request_hash_of sha q \<and> body_matches (eq_body q) (ez_body z))
            (ValueError (request_domain (eq_body q) @ '' result does not match its request''))) (\<lambda>_.
     guard (members_match (eq_body q) (ez_body z))
       (ValueError ''artifact result does not match requested snapshot members'')))"

lemma body_matches_domain: "body_matches b c \<Longrightarrow> request_domain b = result_domain c"
  by (cases "(b, c)" rule: body_matches.cases) simp_all

lemma validate_result_returns: "validate_result sha q z s = Inr (r, s') \<longleftrightarrow> request_matches sha q z \<and> s' = s"
  by (auto simp: validate_result_def request_matches_def guard_def ret_def raise_def seq_def
      dest: body_matches_domain split: if_splits)

section \<open>Reconciliation\<close>

record reconciliation_request =
  er_effect_request :: effect_request
  er_delivery_epoch :: int

definition valid_reconciliation_request :: "reconciliation_request \<Rightarrow> bool" where
  "valid_reconciliation_request r = (valid_request (er_effect_request r) \<and> 1 \<le> er_delivery_epoch r
     \<and> eq_delivery_epoch (er_effect_request r) \<le> er_delivery_epoch r)"

definition reconciliation_request_to_dict :: "(json \<Rightarrow> string) \<Rightarrow> reconciliation_request \<Rightarrow> json" where
  "reconciliation_request_to_dict sha r =
     (let q = er_effect_request r in
      JObj [(''schema_version'', JInt 1), (''domain'', JStr (request_domain (eq_body q))),
        (''operation_id'', JStr (eq_operation_id q)), (''request_hash'', JStr (request_hash_of sha q)),
        (''delivery_epoch'', JInt (er_delivery_epoch r)), (''effect_request'', request_to_dict sha q)])"

definition reconciliation_request_from_dict ::
    "(json \<Rightarrow> string) \<Rightarrow> json \<Rightarrow> ('s, reconciliation_request) reader" where
  "reconciliation_request_from_dict sha raw =
     seq (closed_fields [''schema_version'', ''domain'', ''operation_id'', ''request_hash'', ''delivery_epoch'',
            ''effect_request''] ''effect reconciliation request'' raw) (\<lambda>kvs.
     seq (schema_v1 kvs ''effect reconciliation request'') (\<lambda>_.
     seq (typed_request sha (ValueError ''reconciliation domain is unsupported'') (field ''domain'' kvs)
            (field ''effect_request'' kvs)) (\<lambda>q.
     seq (epoch_field (field ''delivery_epoch'' kvs)) (\<lambda>delivery_epoch.
     seq (guard (eq_delivery_epoch q \<le> delivery_epoch)
            (ValueError ''reconciliation delivery_epoch cannot precede its effect'')) (\<lambda>_.
     seq (guard (field ''operation_id'' kvs = JStr (eq_operation_id q)
                 \<and> field ''request_hash'' kvs = JStr (request_hash_of sha q))
            (ValueError ''reconciliation request identity does not match'')) (\<lambda>_.
     ret \<lparr>er_effect_request = q, er_delivery_epoch = delivery_epoch\<rparr>))))))"

lemma reconciliation_request_roundtrip:
  assumes "valid_reconciliation_request r"
  shows "reconciliation_request_from_dict sha (reconciliation_request_to_dict sha r) = ret r"
  using assms by (cases r) (simp add: reconciliation_request_from_dict_def reconciliation_request_to_dict_def
      valid_reconciliation_request_def schema_v1_def Let_def request_roundtrip reads)

record reconciliation_result =
  rz_domain :: string
  rz_operation_id :: string
  rz_request_hash :: string
  rz_delivery_epoch :: int
  rz_disposition :: string
  rz_result :: "effect_result option"

definition mutation_domains :: "string list" where
  "mutation_domains = [''source_binding'', ''source_import'', ''lineage_query'', ''successor_creation'',
     ''runtime_stage'', ''artifact_workflow'']"

definition reconciliation_dispositions :: "string list" where
  "reconciliation_dispositions = [''committed'', ''not_found'', ''unknown'']"

text \<open>The last checks of \<open>__post_init__\<close>: a result exactly when committed, and the result of this request.\<close>

definition reconciled :: "reconciliation_result \<Rightarrow> ('s, unit) reader" where
  "reconciled r =
     (if rz_disposition r = ''committed'' then
        (case rz_result r of
           None \<Rightarrow> raise (ValueError ''committed reconciliation requires its typed result'')
         | Some z \<Rightarrow>
             seq (guard (result_domain (ez_body z) = rz_domain r)
                    (ValueError ''committed reconciliation requires its typed result'')) (\<lambda>_.
             guard (ez_operation_id z = rz_operation_id r \<and> ez_request_hash z = rz_request_hash r
                    \<and> ez_delivery_epoch z \<le> rz_delivery_epoch r)
               (ValueError ''reconciled result identity does not match'')))
      else guard (rz_result r = None) (ValueError ''uncommitted reconciliation cannot carry a result''))"

definition valid_reconciliation_result :: "reconciliation_result \<Rightarrow> bool" where
  "valid_reconciliation_result r = (rz_domain r \<in> set mutation_domains \<and> is_operation (rz_operation_id r)
     \<and> valid_digest (rz_request_hash r) \<and> 1 \<le> rz_delivery_epoch r
     \<and> rz_disposition r \<in> set reconciliation_dispositions
     \<and> (rz_disposition r = ''committed'' \<longleftrightarrow> rz_result r \<noteq> None)
     \<and> (case rz_result r of None \<Rightarrow> True
        | Some z \<Rightarrow> valid_result z \<and> result_domain (ez_body z) = rz_domain r \<and> ez_operation_id z = rz_operation_id r
            \<and> ez_request_hash z = rz_request_hash r \<and> ez_delivery_epoch z \<le> rz_delivery_epoch r))"

definition reconciliation_identity :: "(json \<Rightarrow> string) \<Rightarrow> reconciliation_result \<Rightarrow> string" where
  "reconciliation_identity sha r = identity_hash sha (rz_domain r @ ''.reconciliation'')
     [(''operation_id'', JStr (rz_operation_id r)), (''request_hash'', JStr (rz_request_hash r)),
      (''delivery_epoch'', JInt (rz_delivery_epoch r)), (''disposition'', JStr (rz_disposition r)),
      (''effect_result_identity'', case rz_result r of None \<Rightarrow> JNull | Some z \<Rightarrow> JStr (result_identity sha z))]"

definition reconciliation_result_to_dict :: "(json \<Rightarrow> string) \<Rightarrow> reconciliation_result \<Rightarrow> json" where
  "reconciliation_result_to_dict sha r =
     JObj [(''schema_version'', JInt 1), (''domain'', JStr (rz_domain r)), (''operation_id'', JStr (rz_operation_id r)),
       (''request_hash'', JStr (rz_request_hash r)), (''delivery_epoch'', JInt (rz_delivery_epoch r)),
       (''disposition'', JStr (rz_disposition r)),
       (''result'', case rz_result r of None \<Rightarrow> JNull | Some z \<Rightarrow> result_to_dict sha z),
       (''result_identity'', JStr (reconciliation_identity sha r))]"

definition optional_result :: "(json \<Rightarrow> string) \<Rightarrow> string \<Rightarrow> json \<Rightarrow> ('s, effect_result option) reader" where
  "optional_result sha domain j =
     (if j = JNull then ret None else seq (typed_result sha domain j) (\<lambda>z. ret (Some z)))"

definition reconciliation_result_from_dict ::
    "(json \<Rightarrow> string) \<Rightarrow> json \<Rightarrow> ('s, reconciliation_result) reader" where
  "reconciliation_result_from_dict sha raw =
     seq (closed_fields [''schema_version'', ''domain'', ''operation_id'', ''request_hash'', ''delivery_epoch'',
            ''disposition'', ''result'', ''result_identity''] ''effect reconciliation result'' raw) (\<lambda>kvs.
     seq (schema_v1 kvs ''effect reconciliation result'') (\<lambda>_.
     seq (choice_field mutation_domains (ValueError ''reconciliation domain is unsupported'')
            (field ''domain'' kvs)) (\<lambda>domain.
     seq (optional_result sha domain (field ''result'' kvs)) (\<lambda>result.
     seq (operation_field (field ''operation_id'' kvs)) (\<lambda>operation_id.
     seq (sha_field (field ''request_hash'' kvs) ''request_hash'') (\<lambda>request_hash.
     seq (epoch_field (field ''delivery_epoch'' kvs)) (\<lambda>delivery_epoch.
     seq (choice_field reconciliation_dispositions (ValueError ''reconciliation disposition is unsupported'')
            (field ''disposition'' kvs)) (\<lambda>disposition.
     let r = \<lparr>rz_domain = domain, rz_operation_id = operation_id, rz_request_hash = request_hash,
       rz_delivery_epoch = delivery_epoch, rz_disposition = disposition, rz_result = result\<rparr> in
     seq (reconciled r) (\<lambda>_.
     seq (guard (field ''result_identity'' kvs = JStr (reconciliation_identity sha r))
            (ValueError ''reconciliation result identity does not match'')) (\<lambda>_.
     ret r))))))))))"

lemma reconciliation_result_roundtrip:
  assumes "valid_reconciliation_result r"
  shows "reconciliation_result_from_dict sha (reconciliation_result_to_dict sha r) = ret r"
  using assms by (cases r) (auto simp: reconciliation_result_from_dict_def reconciliation_result_to_dict_def
      valid_reconciliation_result_def optional_result_def reconciled_def schema_v1_def result_not_null
      result_roundtrip reads split: option.splits)

text \<open>\<open>EffectReconciliationRequest.validate_result\<close>: the result of an earlier delivery is checked against the
  request of that delivery.\<close>

definition validate_reconciliation ::
    "(json \<Rightarrow> string) \<Rightarrow> reconciliation_request \<Rightarrow> reconciliation_result \<Rightarrow> ('s, unit) reader" where
  "validate_reconciliation sha r z =
     (let q = er_effect_request r in
      seq (guard (rz_domain z = request_domain (eq_body q) \<and> rz_operation_id z = eq_operation_id q
                  \<and> rz_request_hash z = request_hash_of sha q \<and> rz_delivery_epoch z = er_delivery_epoch r)
             (ValueError ''reconciliation result does not match its request'')) (\<lambda>_.
      case rz_result z of
        Some e \<Rightarrow> if rz_disposition z = ''committed''
                  then validate_result sha (q\<lparr>eq_delivery_epoch := ez_delivery_epoch e\<rparr>) e else ret ()
      | None \<Rightarrow> ret ()))"

section \<open>What is read is valid\<close>

named_theorems read_ok

lemma yields_text [read_ok]:
  "yields ok (text_field ok e j)" "yields is_identifier (identifier_field j n)" "yields is_operation (operation_field j)"
  "yields (\<lambda>k. 1 \<le> k) (epoch_field j)" "yields valid_digest (sha_field j n)" "yields (safe_text m) (safe_text_field m j n)"
  "yields (\<lambda>c. c \<in> set cs) (choice_field cs e j)" "yields (\<lambda>_. True) (bool_field j n)"
  "yields canonical_source_id (canonical_source_field j)"
  by (cases j; simp add: text_field_def identifier_field_def operation_field_def epoch_field_def sha_field_def
      safe_text_field_def choice_field_def bool_field_def canonical_source_field_def yields_def wp_rules)+

lemma yields_guard_only [read_ok]: "yields (\<lambda>_. b) (guard b e)"
  by (simp add: yields_def wp_rules)

lemma yields_texts [read_ok]: "yields (list_all ok) (texts_field ok e js)"
proof (induction js)
  case (Cons j js)
  then show ?case unfolding texts_field.simps
    by (intro yields_bind[OF yields_text(1)] yields_bind[OF Cons.IH] yields_ret) simp
qed (simp add: yields_ret)

lemma yields_identifiers [read_ok]: "yields (\<lambda>vs. identifiers True vs \<and> (b \<or> vs \<noteq> [])) (identifiers_field b j n)"
  unfolding identifiers_field_def
  by (rule yields_seq, (rule yields_bind, rule read_ok)+, rule yields_ret) (simp add: identifiers_def)

lemma yields_digests [read_ok]: "yields (\<lambda>vs. list_all valid_digest vs \<and> ordered vs) (digests_field j n)"
  unfolding digests_field_def
  by (rule yields_seq, (rule yields_bind, rule read_ok)+, rule yields_ret) (simp add: ordered_def)

lemma yields_binding [read_ok]: "yields (valid_stage_binding ok) (binding_from_dict ok e kvs)"
  unfolding binding_from_dict_def
  by ((rule yields_bind, rule read_ok)+, rule yields_ret) (simp add: valid_stage_binding_def)

lemma yields_bodies:
  "yields valid_request_body (source_binding_request kvs)" "yields valid_request_body (source_import_request kvs)"
  "yields valid_request_body (lineage_query_request kvs)" "yields valid_request_body (successor_creation_request kvs)"
  "yields valid_request_body (runtime_stage_request kvs)" "yields valid_request_body (artifact_workflow_request kvs)"
  unfolding source_binding_request_def source_import_request_def lineage_query_request_def
    successor_creation_request_def runtime_stage_request_def artifact_workflow_request_def
  by ((rule yields_bind, rule read_ok)+, rule yields_ret, auto)+

lemma request_body_valid: "yields valid_request_body (request_body_from domain kvs)"
  by (simp add: request_body_from_def yields_bodies)

lemma request_from_dict_valid: "yields valid_request (request_from_dict sha d names raw)"
  unfolding request_from_dict_def Let_def
  by (rule yields_seq, rule yields_seq, (rule yields_bind, rule read_ok)+, rule yields_bind[OF request_body_valid],
      rule yields_seq, rule yields_ret) (simp add: valid_request_def)

lemma typed_request_valid: "yields valid_request (typed_request sha e d raw)"
  by (auto simp: typed_request_def request_from_dict_valid yields_raise split: json.split option.split)
end
