(* ===== verification/Workflow_Effects.thy ===== *)
theory Workflow_Effects
  imports Workflow_Models Control_Decisions
begin

text \<open>
  The effects of workflow stages: the durable commands behind which a stage hides what it does to the world
  (\<open>ControlStore.create_workflow_effect\<close> to \<open>complete_workflow_effect_reconciliation\<close>, with
  \<open>_workflow_effect\<close>, \<open>_expect_workflow_effect_claim\<close>, \<open>_expect_workflow_effect_result\<close> and
  \<open>_settle_workflow_failure\<close>), over the table \<open>workflow_effect_commands\<close> with its triggers.

  An effect is pending, claimed by a worker, completed or failed; a mutation whose claim ran out, or whose worker
  does not know what happened, has an unknown outcome, is reconciled, and goes back to pending only when the
  reconciliation found that it never happened. The worker's token is the pair of epochs of its claim.

  The operations take the Python objects they are given: a request or a result that exists has passed the checks
  of its constructor (\<open>valid_request\<close>, \<open>valid_result\<close>). What an operation answers with is the row of the effect,
  the request as an object and the number of dispatches noted in the audit trail.
\<close>

section \<open>Reading an effect\<close>

record effect_view =
  fx_row :: workflow_effect
  fx_request :: effect_request
  fx_dispatch_attempt_count :: nat

definition request_effect_kind :: "effect_request \<Rightarrow> string" where
  "request_effect_kind q =
     (case eq_body q of
        Runtime_Stage_Request g \<Rightarrow> gb_effect_kind g
      | Artifact_Workflow_Request g _ _ _ \<Rightarrow> gb_effect_kind g
      | b \<Rightarrow> request_domain b)"

definition dispatch_attempt_count :: "string \<Rightarrow> store \<Rightarrow> nat" where
  "dispatch_attempt_count effect_id s = length (filter (\<lambda>a. au_aggregate_type a = ''workflow_effect''
     \<and> au_aggregate_id a = effect_id \<and> au_type a = ''workflow.effect.dispatched'') (control_audit s))"

text \<open>\<open>_workflow_effect\<close>: the stored request is parsed again, its hash included.\<close>

definition get_workflow_effect :: "string \<Rightarrow> effect_view op" where
  "get_workflow_effect effect_id =
     seq (fetch (NotFound ''workflow effect'' effect_id) effects wx_id effect_id) (\<lambda>x.
     seq (gets st_sha256_json) (\<lambda>sha.
     seq (case wx_request x of
            JObj kvs \<Rightarrow> typed_request sha (InvalidTransition ''unsupported_effect_kind'' ''loaded'')
              (field ''domain'' kvs) (wx_request x)
          | _ \<Rightarrow> raise (RuntimeError ''AttributeError'')) (\<lambda>q.
     seq (guard (wx_effect_kind x = request_effect_kind q)
            (InvalidTransition ''effect_kind_mismatch'' ''loaded'')) (\<lambda>_.
     seq (gets (dispatch_attempt_count effect_id)) (\<lambda>count.
     ret \<lparr>fx_row = x, fx_request = q, fx_dispatch_attempt_count = count\<rparr>)))))"

text \<open>\<open>str(claim_expires_at) <= now\<close> on a claimed effect, which has an expiry.\<close>

definition claim_over :: "workflow_effect \<Rightarrow> instant \<Rightarrow> bool" where
  "claim_over x now = (case wx_claim_expires_at x of None \<Rightarrow> False | Some t \<Rightarrow> text_le t now)"

definition expect_workflow_effect_claim ::
    "workflow_effect \<Rightarrow> string \<Rightarrow> int \<Rightarrow> int \<Rightarrow> effect_state \<Rightarrow> bool \<Rightarrow> unit op" where
  "expect_workflow_effect_claim x worker_id claim_epoch delivery_epoch state require_unexpired =
     (let stale = InvalidTransition ''stale_claim'' ''completed'' in
      seq (guard (wx_state x = state \<and> wx_claim_owner x = Some worker_id \<and> wx_claim_epoch x = claim_epoch
                  \<and> wx_delivery_epoch x = delivery_epoch) stale) (\<lambda>_.
      if require_unexpired
      then seq utc_now (\<lambda>now. guard (unexpired (wx_claim_expires_at x) now) stale)
      else ret ()))"

section \<open>Results\<close>

definition artifact_version_of :: "run \<Rightarrow> string \<Rightarrow> string \<Rightarrow> string \<Rightarrow> unit op" where
  "artifact_version_of run attempt_id target version_id =
     seq (gets (\<lambda>s. find_row av_id version_id (artifact_versions s))) (\<lambda>row. case row of
       None \<Rightarrow> raise (InvalidTransition ''artifact_version_missing'' target)
     | Some v \<Rightarrow>
         guard (av_run_id v = rn_id run \<and> av_attempt_id v = attempt_id \<and> av_state v = P_committed)
           (InvalidTransition ''artifact_version_identity_mismatch'' target))"

definition snapshot_members :: "string \<Rightarrow> store \<Rightarrow> string list" where
  "snapshot_members snapshot_id s = map am_artifact_version_id
     (select_by am_artifact_version_id (\<lambda>m. am_snapshot_id m = snapshot_id) (artifact_snapshot_members (library s)))"

definition snapshot_announced :: "string \<Rightarrow> string \<Rightarrow> string \<Rightarrow> store \<Rightarrow> bool" where
  "snapshot_announced run_id attempt_id snapshot_id s =
     list_ex (\<lambda>e. ev_run_id e = run_id \<and> ev_attempt_id e = Some attempt_id \<and> ev_type e = ''artifact.snapshot_created''
        \<and> jget ''snapshot_id'' (ev_payload e) = Some (JStr snapshot_id)) (run_events s)"

definition artifact_snapshot_of ::
    "run \<Rightarrow> string \<Rightarrow> string \<Rightarrow> string list \<Rightarrow> string \<Rightarrow> unit op" where
  "artifact_snapshot_of run attempt_id target versions snapshot_id =
     seq (gets (\<lambda>s. find_row as_id snapshot_id (artifact_snapshots (library s)))) (\<lambda>row. case row of
       None \<Rightarrow> raise (InvalidTransition ''artifact_snapshot_missing'' target)
     | Some snapshot \<Rightarrow>
         seq (get_thread (rn_thread_id run)) (\<lambda>thread.
         seq (guard (as_workspace_id snapshot = th_workspace_id thread \<and> as_committed snapshot)
                (InvalidTransition ''artifact_snapshot_identity_mismatch'' target)) (\<lambda>_.
         seq (gets (snapshot_announced (rn_id run) attempt_id snapshot_id)) (\<lambda>announced.
         seq (guard announced (InvalidTransition ''artifact_snapshot_identity_mismatch'' target)) (\<lambda>_.
         seq (gets (snapshot_members snapshot_id)) (\<lambda>members.
         guard (members = versions) (InvalidTransition ''artifact_snapshot_members_mismatch'' target)))))))"

definition expect_workflow_artifact_result ::
    "effect_view \<Rightarrow> string \<Rightarrow> string \<Rightarrow> string list \<Rightarrow> string option \<Rightarrow> unit op" where
  "expect_workflow_artifact_result effect target attempt_id versions snapshot_id =
     (case eq_body (fx_request effect) of
        Artifact_Workflow_Request g _ _ members \<Rightarrow>
          seq (get_workflow_row (wx_workflow_id (fx_row effect))) (\<lambda>workflow.
          seq (get_run (wf_run_id workflow)) (\<lambda>run.
          seq (guard (attempt_id = gb_attempt_id g
                      \<and> (target = ''stage_completed'' \<longrightarrow> rn_active_attempt_id run = Some attempt_id))
                 (InvalidTransition ''artifact_attempt_mismatch'' target)) (\<lambda>_.
          seq (guard (gb_effect_kind g = ''artifact_snapshot'' \<longrightarrow> versions = members)
                 (InvalidTransition ''artifact_snapshot_members_mismatch'' target)) (\<lambda>_.
          seq (for_each (artifact_version_of run attempt_id target) versions) (\<lambda>_.
          (case snapshot_id of None \<Rightarrow> ret ()
           | Some i \<Rightarrow> artifact_snapshot_of run attempt_id target versions i))))))
      | _ \<Rightarrow> raise (InvalidTransition ''artifact_request_mismatch'' target))"

definition is_runtime_event :: "string \<Rightarrow> bool" where
  "is_runtime_event event_type = (take 8 event_type = ''runtime.'')"

definition expect_workflow_runtime_result ::
    "effect_view \<Rightarrow> string \<Rightarrow> string \<Rightarrow> string \<Rightarrow> string \<Rightarrow> unit op" where
  "expect_workflow_runtime_result effect target operation_id attempt_id runtime_event_id =
     (let x = fx_row effect in
      case eq_body (fx_request effect) of
        Runtime_Stage_Request g \<Rightarrow>
          seq (get_workflow_row (wx_workflow_id x)) (\<lambda>workflow.
          seq (get_run (wf_run_id workflow)) (\<lambda>run.
          seq (guard (attempt_id = gb_attempt_id g
                      \<and> (target = ''stage_completed'' \<longrightarrow> rn_active_attempt_id run = Some attempt_id))
                 (InvalidTransition (if target = ''stage_completed'' then ''runtime_event_attempt_mismatch''
                    else ''runtime_attempt_mismatch'') target)) (\<lambda>_.
          seq (gets (\<lambda>s. find_row ev_id runtime_event_id (run_events s))) (\<lambda>row. case row of
            None \<Rightarrow> raise (InvalidTransition ''runtime_event_missing'' target)
          | Some event \<Rightarrow>
              seq (guard (ev_run_id event = rn_id run \<and> ev_attempt_id event = Some attempt_id)
                     (InvalidTransition ''runtime_event_identity_mismatch'' target)) (\<lambda>_.
              seq (guard (ev_causation_id event = Some (wx_operation_id x) \<and> operation_id = wx_operation_id x)
                     (InvalidTransition ''runtime_event_causation_mismatch'' target)) (\<lambda>_.
              seq (gets (\<lambda>s. list_ex (\<lambda>r. ib_attempt_id r = attempt_id
                          \<and> ib_adapter_event_id r = wx_operation_id x) (runtime_event_inbox s))) (\<lambda>received.
              seq (guard received (InvalidTransition ''runtime_event_inbox_missing'' target)) (\<lambda>_.
              guard (is_runtime_event (ev_type event))
                (InvalidTransition ''runtime_event_type_mismatch'' target)))))))))
      | _ \<Rightarrow> raise (InvalidTransition ''runtime_request_mismatch'' target))"

definition expect_workflow_effect_result :: "effect_view \<Rightarrow> effect_result \<Rightarrow> string \<Rightarrow> unit op" where
  "expect_workflow_effect_result effect z target =
     (case ez_body z of
        Artifact_Workflow_Result attempt_id _ _ versions snapshot_id _ \<Rightarrow>
          expect_workflow_artifact_result effect target attempt_id versions snapshot_id
      | Runtime_Stage_Result attempt_id runtime_event_id _ _ _ _ \<Rightarrow>
          expect_workflow_runtime_result effect target (ez_operation_id z) attempt_id runtime_event_id
      | _ \<Rightarrow> ret ())"

section \<open>Statements\<close>

text \<open>The \<open>CHECK\<close> clauses, the insertion guards and the guard of settled effects.\<close>

definition effect_checks :: "workflow_effect \<Rightarrow> bool" where
  "effect_checks x = (effect_row_ok x \<and> valid_digest (wx_request_hash x) \<and> 0 \<le> wx_claim_epoch x
     \<and> 0 \<le> wx_delivery_epoch x
     \<and> (case wx_result_identity x of None \<Rightarrow> True | Some d \<Rightarrow> valid_digest d))"

definition effect_required :: "workflow_effect \<Rightarrow> store \<Rightarrow> bool" where
  "effect_required x s = list_ex (\<lambda>r. sr_workflow_id r = wx_workflow_id x \<and> sr_stage_id r = wx_stage_id x
     \<and> sr_value r = wx_effect_kind x)
     (if wx_effect_class x = ''mutation'' then workflow_stage_receipt_requirements s
      else workflow_stage_result_requirements s)"

definition same_effect :: "string \<Rightarrow> string \<Rightarrow> string \<Rightarrow> string \<Rightarrow> workflow_effect \<Rightarrow> bool" where
  "same_effect workflow_id stage_id effect_kind effect_key x = (wx_workflow_id x = workflow_id
     \<and> wx_stage_id x = stage_id \<and> wx_effect_kind x = effect_kind \<and> wx_effect_key x = effect_key)"

definition insert_effect :: "workflow_effect \<Rightarrow> unit op" where
  "insert_effect x =
     seq (gets (\<lambda>s. effect_required x s \<and> effect_checks x
        \<and> \<not> list_ex (\<lambda>y. wx_operation_id y = wx_operation_id x
              \<or> same_effect (wx_workflow_id x) (wx_stage_id x) (wx_effect_kind x) (wx_effect_key x) y) (effects s)))
       (\<lambda>ok_row.
     seq (guard ok_row IntegrityError) (\<lambda>_.
     sql_insert IntegrityError effects effects_update wx_id x))"

definition update_effects :: "(workflow_effect \<Rightarrow> bool) \<Rightarrow> (workflow_effect \<Rightarrow> workflow_effect) \<Rightarrow> nat op" where
  "update_effects P f =
     seq (gets (\<lambda>s. list_all (\<lambda>x. P x \<longrightarrow> \<not> effect_terminal (wx_state x) \<and> effect_checks (f x)) (effects s)))
       (\<lambda>ok_rows.
     seq (guard ok_rows IntegrityError) (\<lambda>_.
     sql_update effects effects_update P f))"

definition claim_effect_row :: "effect_state \<Rightarrow> string \<Rightarrow> instant \<Rightarrow> workflow_effect \<Rightarrow> workflow_effect" where
  "claim_effect_row state worker_id expires_at x = x\<lparr>wx_state := state, wx_claim_owner := Some worker_id,
     wx_claim_epoch := wx_claim_epoch x + 1, wx_delivery_epoch := wx_delivery_epoch x + 1,
     wx_claim_expires_at := Some expires_at\<rparr>"

definition free_effect_row :: "effect_state \<Rightarrow> workflow_effect \<Rightarrow> workflow_effect" where
  "free_effect_row state x = x\<lparr>wx_state := state, wx_claim_owner := None, wx_claim_expires_at := None\<rparr>"

definition complete_effect_row :: "string \<Rightarrow> json \<Rightarrow> instant \<Rightarrow> workflow_effect \<Rightarrow> workflow_effect" where
  "complete_effect_row identity receipt now x = x\<lparr>wx_state := E_completed, wx_claim_owner := None,
     wx_claim_expires_at := None, wx_result_identity := Some identity, wx_receipt := Some receipt,
     wx_completed_at := Some now\<rparr>"

definition fail_effect_row :: "effect_state \<Rightarrow> string \<Rightarrow> instant \<Rightarrow> workflow_effect \<Rightarrow> workflow_effect" where
  "fail_effect_row state category now x = x\<lparr>wx_state := state, wx_claim_owner := None,
     wx_claim_expires_at := None, wx_failure_category := Some category, wx_completed_at := Some now\<rparr>"

definition held_by :: "string \<Rightarrow> effect_state \<Rightarrow> string \<Rightarrow> int \<Rightarrow> int \<Rightarrow> workflow_effect \<Rightarrow> bool" where
  "held_by effect_id state worker_id claim_epoch delivery_epoch x = (wx_id x = effect_id \<and> wx_state x = state
     \<and> wx_claim_owner x = Some worker_id \<and> wx_claim_epoch x = claim_epoch \<and> wx_delivery_epoch x = delivery_epoch)"

text \<open>\<open>replace(request, delivery_epoch=...)\<close>, with the checks of the constructor.\<close>

definition with_delivery_epoch :: "effect_request \<Rightarrow> int \<Rightarrow> effect_request op" where
  "with_delivery_epoch q delivery_epoch =
     seq (guard (1 \<le> delivery_epoch) (ValueError ''delivery_epoch must be a positive integer'')) (\<lambda>_.
     ret (q\<lparr>eq_delivery_epoch := delivery_epoch\<rparr>))"

definition new_reconciliation_request :: "effect_request \<Rightarrow> int \<Rightarrow> reconciliation_request op" where
  "new_reconciliation_request q delivery_epoch =
     seq (guard (1 \<le> delivery_epoch) (ValueError ''delivery_epoch must be a positive integer'')) (\<lambda>_.
     seq (guard (eq_delivery_epoch q \<le> delivery_epoch)
            (ValueError ''reconciliation delivery_epoch cannot precede its effect'')) (\<lambda>_.
     ret \<lparr>er_effect_request = q, er_delivery_epoch = delivery_epoch\<rparr>))"

definition lease_of_effect :: "int \<Rightarrow> unit op" where
  "lease_of_effect lease_seconds = guard (1 \<le> lease_seconds \<and> lease_seconds \<le> 3600)
     (ValueError ''lease_seconds must be between 1 and 3600'')"

section \<open>Creation\<close>

definition workflow_json :: "workflow_instance \<Rightarrow> json" where
  "workflow_json w = JObj [(''id'', JStr (wf_id w)), (''run_id'', JStr (wf_run_id w)),
     (''definition_id'', JStr (wf_definition_id w)), (''definition_version'', JInt (wf_definition_version w)),
     (''definition_sealed'', JInt (if wf_definition_sealed w then 1 else 0)),
     (''state'', JStr (case wf_state w of W_running \<Rightarrow> ''running'' | W_waiting \<Rightarrow> ''waiting''
        | W_completed \<Rightarrow> ''completed'' | W_failed \<Rightarrow> ''failed'' | W_manual_recovery \<Rightarrow> ''manual_recovery'')),
     (''current_stage_key'', jstr_opt (wf_current_stage_key w)), (''revision'', JInt (wf_revision w)),
     (''created_at'', JTime (wf_created_at w)), (''updated_at'', JTime (wf_updated_at w))]"

definition stage_json :: "stage_instance \<Rightarrow> json" where
  "stage_json g = JObj [(''id'', JStr (sg_id g)), (''workflow_id'', JStr (sg_workflow_id g)),
     (''stage_key'', JStr (sg_stage_key g)), (''position'', JInt (sg_position g)), (''effect'', JStr (sg_effect g)),
     (''checkpoint_enabled'', JInt (if sg_checkpoint_enabled g then 1 else 0)),
     (''input_hash'', jstr_opt (sg_input_hash g)), (''state'', JStr (stage_state_name (sg_state g))),
     (''attempt'', JInt (sg_attempt g)), (''revision'', JInt (sg_revision g)),
     (''started_at'', jtime_opt (sg_started_at g)), (''completed_at'', jtime_opt (sg_completed_at g))]"

fun request_run_id :: "request_body \<Rightarrow> string option" where
  "request_run_id (Source_Binding_Request run_id _ _ _) = Some run_id"
| "request_run_id (Source_Import_Request _ _) = None"
| "request_run_id (Lineage_Query_Request run_id _ _) = Some run_id"
| "request_run_id (Successor_Creation_Request run_id _ _) = Some run_id"
| "request_run_id (Runtime_Stage_Request g) = Some (gb_run_id g)"
| "request_run_id (Artifact_Workflow_Request g _ _ _) = Some (gb_run_id g)"

fun request_stage_effect :: "request_body \<Rightarrow> string" where
  "request_stage_effect (Runtime_Stage_Request _) = ''runtime''"
| "request_stage_effect (Artifact_Workflow_Request _ _ _ _) = ''artifact''"
| "request_stage_effect (Lineage_Query_Request _ _ _) = ''engine_query''"
| "request_stage_effect _ = ''engine_mutation''"

fun request_binding :: "request_body \<Rightarrow> stage_binding option" where
  "request_binding (Runtime_Stage_Request g) = Some g"
| "request_binding (Artifact_Workflow_Request g _ _ _) = Some g"
| "request_binding _ = None"

definition request_effect_class :: "request_body \<Rightarrow> string" where
  "request_effect_class b = (if request_stage_effect b = ''engine_query'' then ''query'' else ''mutation'')"

text \<open>The identities of the results of the stages a stage depends on, in order (a join of the edges of the
  stage with the completed effects of the stages they name).\<close>

definition dependency_results :: "string \<Rightarrow> store \<Rightarrow> string list" where
  "dependency_results stage_id s = sort (concat (map
     (\<lambda>e. map (\<lambda>x. case wx_result_identity x of Some i \<Rightarrow> i | None \<Rightarrow> ''None'')
        (filter (\<lambda>x. wx_stage_id x = sr_value e \<and> wx_state x = E_completed) (effects s)))
     (filter (\<lambda>e. sr_stage_id e = stage_id) (workflow_stage_dependencies s))))"

definition check_binding :: "workflow_instance \<Rightarrow> stage_instance \<Rightarrow> string \<Rightarrow> stage_binding \<Rightarrow> unit op" where
  "check_binding workflow stage stage_key g =
     seq (get_run (wf_run_id workflow)) (\<lambda>run.
     seq (guard (Some (gb_attempt_id g) = rn_active_attempt_id run)
            (InvalidTransition ''request_attempt_mismatch'' ''effect_pending'')) (\<lambda>_.
     seq (guard (gb_stage_key g = stage_key)
            (InvalidTransition ''request_stage_mismatch'' ''effect_pending'')) (\<lambda>_.
     seq (guard (Some (gb_stage_input_hash g) = sg_input_hash stage)
            (InvalidTransition ''request_input_mismatch'' ''effect_pending'')) (\<lambda>_.
     seq (gets (dependency_results (sg_id stage))) (\<lambda>results.
     guard (gb_dependency_result_ids g = results)
       (InvalidTransition ''dependency_result_mismatch'' ''effect_pending''))))))"

definition create_workflow_effect ::
    "string \<Rightarrow> string \<Rightarrow> string \<Rightarrow> effect_request \<Rightarrow> int \<Rightarrow> int \<Rightarrow> string \<Rightarrow> effect_view op" where
  "create_workflow_effect workflow_id stage_key effect_key q expected_workflow_revision expected_stage_revision
       expected_stage_input_hash =
     seq (required_text effect_key ''effect_key'' 500) (\<lambda>effect_key.
     seq (required_text expected_stage_input_hash ''expected_stage_input_hash'' 64) (\<lambda>expected_stage_input_hash.
     let effect_class = request_effect_class (eq_body q); effect_kind = request_effect_kind q in
     seq (get_workflow_row workflow_id) (\<lambda>workflow.
     seq (workflow_stage_row workflow_id stage_key) (\<lambda>stage.
     seq (guard (case request_run_id (eq_body q) of None \<Rightarrow> True | Some r \<Rightarrow> r = wf_run_id workflow)
            (InvalidTransition ''request_run_mismatch'' ''effect_pending'')) (\<lambda>_.
     seq (guard (sg_effect stage = request_stage_effect (eq_body q))
            (InvalidTransition ''request_effect_mismatch'' ''effect_pending'')) (\<lambda>_.
     seq (gets (\<lambda>s. list_ex (\<lambda>r. sr_workflow_id r = workflow_id \<and> sr_stage_id r = sg_id stage
            \<and> sr_value r = effect_kind)
            (if effect_class = ''query'' then workflow_stage_result_requirements s
             else workflow_stage_receipt_requirements s))) (\<lambda>required.
     seq (guard required (InvalidTransition ''effect_not_required'' ''effect_pending'')) (\<lambda>_.
     seq (gets (\<lambda>s. find (same_effect workflow_id (sg_id stage) effect_kind effect_key) (effects s))) (\<lambda>existing.
     case existing of
       Some x \<Rightarrow>
         seq (get_workflow_effect (wx_id x)) (\<lambda>v.
         seq (gets st_sha256_json) (\<lambda>sha.
         seq (guard (wx_operation_id (fx_row v) = eq_operation_id q
                     \<and> wx_request_hash (fx_row v) = request_hash_of sha q
                     \<and> request_to_dict sha (fx_request v) = request_to_dict sha q)
                (InvalidTransition ''effect_identity_drift'' ''effect_replay'')) (\<lambda>_.
         ret v)))
     | None \<Rightarrow>
         seq (case request_binding (eq_body q) of None \<Rightarrow> ret ()
              | Some g \<Rightarrow> check_binding workflow stage stage_key g) (\<lambda>_.
         seq (expect_revision (wf_revision workflow) (workflow_json workflow) expected_workflow_revision) (\<lambda>_.
         seq (expect_revision (sg_revision stage) (stage_json stage) expected_stage_revision) (\<lambda>_.
         seq (guard (sg_input_hash stage = Some expected_stage_input_hash)
                (InvalidTransition ''stage_input_drift'' ''effect_pending'')) (\<lambda>_.
         seq (get_run (wf_run_id workflow)) (\<lambda>run.
         seq (expect_workflow_run_open run) (\<lambda>_.
         seq (guard (wf_definition_sealed workflow \<and> sg_state stage = S_active)
                (InvalidTransition (stage_state_name (sg_state stage)) ''effect_pending'')) (\<lambda>_.
         seq (gets (\<lambda>s. list_ex (\<lambda>x. wx_operation_id x = eq_operation_id q) (effects s))) (\<lambda>collision.
         seq (guard (\<not> collision) (InvalidTransition ''effect_identity_drift'' ''effect_replay'')) (\<lambda>_.
         seq (new_id ''workflow_effect'') (\<lambda>effect_id.
         seq (gets st_sha256_json) (\<lambda>sha.
         seq utc_now (\<lambda>now.
         seq (insert_effect
                \<lparr>wx_id = effect_id, wx_operation_id = eq_operation_id q, wx_workflow_id = workflow_id,
                 wx_stage_id = sg_id stage, wx_effect_class = effect_class, wx_effect_kind = effect_kind,
                 wx_effect_key = effect_key, wx_request_hash = request_hash_of sha q,
                 wx_request = request_to_dict sha q, wx_state = E_pending, wx_claim_owner = None,
                 wx_claim_epoch = 0, wx_delivery_epoch = 0, wx_claim_expires_at = None, wx_result_identity = None,
                 wx_receipt = None, wx_failure_category = None, wx_created_at = now, wx_completed_at = None\<rparr>) (\<lambda>_.
         get_workflow_effect effect_id))))))))))))))))))))))"

section \<open>Claims\<close>

definition workflow_run_of :: "workflow_effect \<Rightarrow> (workflow_instance \<times> run) op" where
  "workflow_run_of x =
     seq (get_workflow_row (wx_workflow_id x)) (\<lambda>workflow.
     seq (get_run (wf_run_id workflow)) (\<lambda>run. ret (workflow, run)))"

definition claimable :: "string \<Rightarrow> instant \<Rightarrow> workflow_effect \<Rightarrow> bool" where
  "claimable effect_id now x = (wx_id x = effect_id \<and> (wx_state x = E_pending
     \<or> wx_state x = E_claimed \<and> wx_effect_class x = ''query'' \<and> claim_over x now))"

definition claim_workflow_effect :: "string \<Rightarrow> string \<Rightarrow> int \<Rightarrow> effect_view op" where
  "claim_workflow_effect effect_id worker_id lease_seconds =
     seq (required_text worker_id ''worker_id'' 200) (\<lambda>worker_id.
     seq (lease_of_effect lease_seconds) (\<lambda>_.
     seq (get_workflow_effect effect_id) (\<lambda>effect.
     seq utc_now (\<lambda>now.
     let x = fx_row effect in
     if wx_state x = E_claimed \<and> claim_over x now \<and> wx_effect_class x = ''mutation'' then
       seq (update_effects (\<lambda>y. wx_id y = effect_id) (free_effect_row E_outcome_unknown)) (\<lambda>_.
       get_workflow_effect effect_id)
     else
       seq (workflow_run_of x) (\<lambda>(workflow, run).
       seq (expect_workflow_run_open run) (\<lambda>_.
       seq (if wx_state x = E_claimed
            then guard (claim_over x now) (InvalidTransition ''claimed'' ''claimed'')
            else guard (wx_state x = E_pending) (InvalidTransition (effect_state_name (wx_state x)) ''claimed'')) (\<lambda>_.
       seq (update_effects (claimable effect_id now)
              (claim_effect_row E_claimed worker_id (now + seconds lease_seconds))) (\<lambda>rowcount.
       seq (guard (rowcount = 1) (InvalidTransition (effect_state_name (wx_state x)) ''claimed'')) (\<lambda>_.
       seq (if wx_effect_class x = ''mutation'' then
              audit ''workflow_effect'' effect_id ''workflow.effect.dispatched''
                (JObj [(''claim_epoch'', JInt (wx_claim_epoch x + 1)),
                       (''delivery_epoch'', JInt (wx_delivery_epoch x + 1))])
            else ret ()) (\<lambda>_.
       seq (get_workflow_effect effect_id) (\<lambda>v.
       seq (with_delivery_epoch (fx_request v) (wx_delivery_epoch (fx_row v))) (\<lambda>q.
       ret (v\<lparr>fx_request := q\<rparr>)))))))))))))"

definition complete_workflow_effect ::
    "string \<Rightarrow> string \<Rightarrow> int \<Rightarrow> int \<Rightarrow> effect_result \<Rightarrow> effect_view op" where
  "complete_workflow_effect effect_id worker_id claim_epoch delivery_epoch result =
     seq (required_text worker_id ''worker_id'' 200) (\<lambda>worker_id.
     seq (get_workflow_effect effect_id) (\<lambda>effect.
     seq (expect_workflow_effect_claim (fx_row effect) worker_id claim_epoch delivery_epoch E_claimed True) (\<lambda>_.
     seq (with_delivery_epoch (fx_request effect) delivery_epoch) (\<lambda>q.
     seq (gets st_sha256_json) (\<lambda>sha.
     seq (validate_result sha q result) (\<lambda>_.
     seq (expect_workflow_effect_result effect result ''effect_completed'') (\<lambda>_.
     seq utc_now (\<lambda>now.
     seq (update_effects (\<lambda>x. held_by effect_id E_claimed worker_id claim_epoch delivery_epoch x
            \<and> unexpired (wx_claim_expires_at x) now)
            (complete_effect_row (result_identity sha result) (result_to_dict sha result) now)) (\<lambda>rowcount.
     seq (guard (rowcount = 1) (InvalidTransition ''stale_claim'' ''completed'')) (\<lambda>_.
     get_workflow_effect effect_id))))))))))"

definition mark_workflow_effect_outcome_unknown :: "string \<Rightarrow> string \<Rightarrow> int \<Rightarrow> int \<Rightarrow> effect_view op" where
  "mark_workflow_effect_outcome_unknown effect_id worker_id claim_epoch delivery_epoch =
     seq (required_text worker_id ''worker_id'' 200) (\<lambda>worker_id.
     seq (get_workflow_effect effect_id) (\<lambda>effect.
     seq (guard (wx_effect_class (fx_row effect) = ''mutation'') (InvalidTransition ''query'' ''outcome_unknown'')) (\<lambda>_.
     seq (expect_workflow_effect_claim (fx_row effect) worker_id claim_epoch delivery_epoch E_claimed False) (\<lambda>_.
     seq (update_effects (held_by effect_id E_claimed worker_id claim_epoch delivery_epoch)
            (free_effect_row E_outcome_unknown)) (\<lambda>_.
     get_workflow_effect effect_id)))))"

section \<open>Failures\<close>

definition failure_char :: "char \<Rightarrow> bool" where
  "failure_char c = (is_lower_alpha c \<or> is_digit c \<or> c \<in> set ''_.-'')"

definition is_failure_category :: "string \<Rightarrow> bool" where
  "is_failure_category v = (v \<noteq> [] \<and> is_lower_alpha (hd v) \<and> full_class failure_char 0 99 (tl v))"

definition settle_workflow_failure ::
    "string \<Rightarrow> workflow_instance \<Rightarrow> stage_instance \<Rightarrow> run \<Rightarrow> string \<Rightarrow> instant \<Rightarrow> unit op" where
  "settle_workflow_failure effect_id workflow stage run failure_category now =
     (let active = rn_active_attempt_id run in
     seq (sql_update workflow_stage_instances workflow_stage_instances_update
            (\<lambda>g. sg_id g = sg_id stage \<and> sg_state g \<in> {S_active, S_waiting})
            (\<lambda>g. g\<lparr>sg_state := S_failed, sg_revision := sg_revision g + 1\<rparr>)) (\<lambda>_.
     seq (sql_update workflow_instances workflow_instances_update
            (\<lambda>w. wf_id w = wf_id workflow \<and> wf_state w \<in> {W_running, W_waiting, W_manual_recovery})
            (\<lambda>w. w\<lparr>wf_state := W_failed, wf_revision := wf_revision w + 1, wf_updated_at := now\<rparr>)) (\<lambda>_.
     if R_failed \<in> set (run_transitions (rn_state run)) \<and> rn_state run \<notin> set workflow_fenced_run_states then
       seq (case active of None \<Rightarrow> ret [] | Some i \<Rightarrow> fail_pending_runtime_actions (rn_id run) i now) (\<lambda>failed_ids.
       seq (close_source_work_for_run (rn_id run) now) (\<lambda>closed_source_work.
       seq (expire_decisions_of (rn_id run) now) (\<lambda>expired.
       seq (update_runs (\<lambda>r. rn_id r = rn_id run)
              (\<lambda>r. r\<lparr>rn_state := R_failed, rn_revision := rn_revision r + 1, rn_updated_at := now\<rparr>)) (\<lambda>_.
       seq (case active of None \<Rightarrow> ret 0
            | Some i \<Rightarrow> sql_update attempts attempts_update (\<lambda>a. at_id a = i)
                (\<lambda>a. a\<lparr>at_state := R_failed, at_finished_at := Some now, at_dispatch_owner := None,
                       at_dispatch_expires_at := None\<rparr>)) (\<lambda>_.
       seq (sql_update threads threads_update
              (\<lambda>t. th_id t = rn_thread_id run \<and> th_active_run_id t = Some (rn_id run))
              (\<lambda>t. t\<lparr>th_status := ''failed'', th_active_run_id := None, th_revision := th_revision t + 1,
                     th_updated_at := now\<rparr>)) (\<lambda>_.
       seq (case active of None \<Rightarrow> ret None
            | Some i \<Rightarrow>
                seq (get_attempt i) (\<lambda>attempt.
                if at_runtime_identity_version attempt = 1 \<and> at_runtime_release_id attempt \<noteq> None
                   \<and> at_state_generation_id attempt \<noteq> None
                then seq (insert_pin_release (rn_id run) attempt now) (\<lambda>p. ret (Some p))
                else ret None)) (\<lambda>pin_id.
       seq (insert_event (rn_id run) active ''run.failed''
              (JObj (add_if (pin_id \<noteq> None) ''pin_release_action_id'' (jstr_opt pin_id)
                (add_if (closed_source_work \<noteq> []) ''closed_source_work'' (JObj closed_source_work)
                (add_if (expired \<noteq> []) ''expired_decision_ids'' (jstrs expired)
                (add_if (failed_ids \<noteq> []) ''failed_runtime_action_ids'' (jstrs failed_ids)
                [(''from'', JStr (run_state_name (rn_state run))), (''state'', JStr ''failed''),
                 (''category'', JStr failure_category), (''workflow_effect_id'', JStr effect_id),
                 (''retryable'', JBool False)]))))) None) (\<lambda>_.
       ret ()))))))))
     else ret ())))"

definition get_workflow_stage_row :: "string \<Rightarrow> stage_instance op" where
  "get_workflow_stage_row i = fetch (NotFound ''workflow stage'' i) workflow_stage_instances sg_id i"

text \<open>A rejection while reconciling needs the finding that the mutation never happened.\<close>

definition rejection_allowed ::
    "effect_view \<Rightarrow> int \<Rightarrow> reconciliation_result option \<Rightarrow> unit op" where
  "rejection_allowed effect delivery_epoch found =
     (if wx_state (fx_row effect) = E_reconciling then
        seq (new_reconciliation_request (fx_request effect) delivery_epoch) (\<lambda>r.
        (case found of
           None \<Rightarrow> raise (TypeError ''reconciliation result must be typed'')
         | Some z \<Rightarrow>
             seq (gets st_sha256_json) (\<lambda>sha.
             seq (validate_reconciliation sha r z) (\<lambda>_.
             guard (rz_disposition z = ''not_found'') (InvalidTransition (rz_disposition z) ''failed'')))))
      else guard (found = None) (ValueError ''reconciliation_result requires a reconciling effect''))"

definition reject_workflow_effect ::
    "string \<Rightarrow> string \<Rightarrow> int \<Rightarrow> int \<Rightarrow> string \<Rightarrow> reconciliation_result option \<Rightarrow> effect_view op" where
  "reject_workflow_effect effect_id worker_id claim_epoch delivery_epoch failure_category found =
     seq (required_text worker_id ''worker_id'' 200) (\<lambda>worker_id.
     seq (required_text failure_category ''failure_category'' 100) (\<lambda>failure_category.
     seq (guard (is_failure_category failure_category \<and> failure_category \<noteq> ''outcome_unknown'')
            (ValueError ''failure_category is invalid'')) (\<lambda>_.
     seq (get_workflow_effect effect_id) (\<lambda>effect.
     let x = fx_row effect in
     seq (guard (wx_state x \<in> {E_claimed, E_reconciling}) (InvalidTransition ''stale_claim'' ''failed'')) (\<lambda>_.
     seq (expect_workflow_effect_claim x worker_id claim_epoch delivery_epoch (wx_state x) True) (\<lambda>_.
     seq (rejection_allowed effect delivery_epoch found) (\<lambda>_.
     seq (get_workflow_row (wx_workflow_id x)) (\<lambda>workflow.
     seq (get_workflow_stage_row (wx_stage_id x)) (\<lambda>stage.
     seq (get_run (wf_run_id workflow)) (\<lambda>run.
     let fenced = (rn_state run \<in> set workflow_fenced_run_states) in
     seq (guard (fenced \<or> sg_state stage \<in> {S_active, S_waiting})
            (InvalidTransition (stage_state_name (sg_state stage)) ''failed'')) (\<lambda>_.
     seq utc_now (\<lambda>now.
     seq (update_effects (\<lambda>y. held_by effect_id (wx_state x) worker_id claim_epoch delivery_epoch y
            \<and> unexpired (wx_claim_expires_at y) now) (fail_effect_row E_failed failure_category now)) (\<lambda>rowcount.
     seq (guard (rowcount = 1) (InvalidTransition ''stale_claim'' ''failed'')) (\<lambda>_.
     seq (if fenced then ret ()
          else if rn_state run = R_paused then
            audit ''workflow_effect'' effect_id ''workflow.effect.failure_deferred''
              (JObj [(''failure_category'', JStr failure_category)])
          else settle_workflow_failure effect_id workflow stage run failure_category now) (\<lambda>_.
     get_workflow_effect effect_id)))))))))))))))"

definition superseded_categories :: "string list" where
  "superseded_categories = [''runtime_attempt_superseded'', ''artifact_attempt_superseded'']"

definition settle_workflow_effect_failure :: "string \<Rightarrow> effect_view op" where
  "settle_workflow_effect_failure effect_id =
     seq (get_workflow_effect effect_id) (\<lambda>effect.
     let x = fx_row effect in
     seq (guard (wx_state x = E_failed) (InvalidTransition (effect_state_name (wx_state x)) ''failed'')) (\<lambda>_.
     let category = (case wx_failure_category x of Some c \<Rightarrow> c | None \<Rightarrow> ''None'') in
     if category \<in> set superseded_categories then ret effect
     else
       seq (get_workflow_row (wx_workflow_id x)) (\<lambda>workflow.
       seq (get_workflow_stage_row (wx_stage_id x)) (\<lambda>stage.
       seq (get_run (wf_run_id workflow)) (\<lambda>run.
       if rn_state run = R_paused \<or> rn_state run \<in> set workflow_fenced_run_states then ret effect
       else if wf_state workflow = W_failed \<and> sg_state stage = S_failed then ret effect
       else
         seq (guard (sg_state stage \<in> {S_active, S_waiting})
                (InvalidTransition (stage_state_name (sg_state stage)) ''failed'')) (\<lambda>_.
         seq utc_now (\<lambda>now.
         seq (settle_workflow_failure effect_id workflow stage run category now) (\<lambda>_.
         get_workflow_effect effect_id))))))))"

section \<open>Reconciliation\<close>

definition claim_workflow_effect_reconciliation ::
    "string \<Rightarrow> string \<Rightarrow> int \<Rightarrow> (effect_view \<times> reconciliation_request) op" where
  "claim_workflow_effect_reconciliation effect_id worker_id lease_seconds =
     seq (required_text worker_id ''worker_id'' 200) (\<lambda>worker_id.
     seq (lease_of_effect lease_seconds) (\<lambda>_.
     seq (get_workflow_effect effect_id) (\<lambda>effect.
     let x = fx_row effect in
     seq (guard (wx_effect_class x = ''mutation'') (InvalidTransition ''query'' ''reconciling'')) (\<lambda>_.
     seq utc_now (\<lambda>now.
     seq (guard (wx_state x = E_reconciling \<longrightarrow> claim_over x now)
            (InvalidTransition ''reconciling'' ''reconciling'')) (\<lambda>_.
     seq (guard (wx_state x \<in> {E_outcome_unknown, E_reconciling})
            (InvalidTransition (effect_state_name (wx_state x)) ''reconciling'')) (\<lambda>_.
     seq (update_effects (\<lambda>y. wx_id y = effect_id \<and> (wx_state y = E_outcome_unknown
            \<or> wx_state y = E_reconciling \<and> claim_over y now))
            (claim_effect_row E_reconciling worker_id (now + seconds lease_seconds))) (\<lambda>rowcount.
     seq (guard (rowcount = 1) (InvalidTransition (effect_state_name (wx_state x)) ''reconciling'')) (\<lambda>_.
     seq (get_workflow_effect effect_id) (\<lambda>v.
     seq (new_reconciliation_request (fx_request effect) (wx_delivery_epoch (fx_row v))) (\<lambda>r.
     ret (v, r))))))))))))"

text \<open>The three outcomes: it never happened, it did and this is its result, or a person has to look.\<close>

definition reconcile_row ::
    "effect_view \<Rightarrow> reconciliation_result \<Rightarrow> instant \<Rightarrow> (workflow_effect \<Rightarrow> workflow_effect) op" where
  "reconcile_row effect z now =
     (if rz_disposition z = ''not_found'' then ret (free_effect_row E_pending)
      else if rz_disposition z = ''committed'' then
        (case rz_result z of
           None \<Rightarrow> raise (RuntimeError ''AssertionError'')
         | Some result \<Rightarrow>
             seq (expect_workflow_effect_result effect result ''effect_reconciled'') (\<lambda>_.
             seq (gets st_sha256_json) (\<lambda>sha.
             ret (complete_effect_row (result_identity sha result) (result_to_dict sha result) now))))
      else ret (fail_effect_row E_manual_required ''outcome_unknown'' now))"

definition complete_workflow_effect_reconciliation ::
    "string \<Rightarrow> string \<Rightarrow> int \<Rightarrow> int \<Rightarrow> reconciliation_result \<Rightarrow> effect_view op" where
  "complete_workflow_effect_reconciliation effect_id worker_id claim_epoch delivery_epoch z =
     seq (required_text worker_id ''worker_id'' 200) (\<lambda>worker_id.
     seq (get_workflow_effect effect_id) (\<lambda>effect.
     seq (expect_workflow_effect_claim (fx_row effect) worker_id claim_epoch delivery_epoch E_reconciling True) (\<lambda>_.
     seq (new_reconciliation_request (fx_request effect) delivery_epoch) (\<lambda>r.
     seq (gets st_sha256_json) (\<lambda>sha.
     seq (validate_reconciliation sha r z) (\<lambda>_.
     seq utc_now (\<lambda>now.
     seq (reconcile_row effect z now) (\<lambda>f.
     seq (update_effects (\<lambda>x. wx_id x = effect_id) f) (\<lambda>_.
     get_workflow_effect effect_id)))))))))"

section \<open>Rebinding to another attempt\<close>

text \<open>The loop that collects the attempts an attempt descends from; the set of those it has seen ends it in a
  cycle.\<close>

function walk_ancestors :: "attempt list \<Rightarrow> string list \<Rightarrow> string option \<Rightarrow> control_error + string list" where
  "walk_ancestors rows seen None = Inr seen"
| "walk_ancestors rows seen (Some i) =
     (if i \<in> set seen then Inl (InvalidTransition ''attempt_lineage_cycle'' ''superseded'')
      else case find_row at_id i rows of
        None \<Rightarrow> Inl (NotFound ''attempt'' i)
      | Some a \<Rightarrow> walk_ancestors rows (i # seen) (at_source_attempt_id a))"
  by pat_completeness auto

termination
  by (relation "measure (\<lambda>(rows, seen, _). length (filter (\<lambda>x. at_id x \<notin> set seen) rows))")
    (auto intro: unseen_attempts_decrease)

definition supersede_workflow_attempt_effect :: "string \<Rightarrow> string \<Rightarrow> effect_view op" where
  "supersede_workflow_attempt_effect effect_id replacement_attempt_id =
     seq (get_workflow_effect effect_id) (\<lambda>effect.
     (case request_binding (eq_body (fx_request effect)) of
        None \<Rightarrow> raise (InvalidTransition ''non_attempt_effect'' ''superseded'')
      | Some g \<Rightarrow>
          (let x = fx_row effect;
               kind = (case eq_body (fx_request effect) of Artifact_Workflow_Request _ _ _ _ \<Rightarrow> ''artifact''
                       | _ \<Rightarrow> ''runtime'');
               superseded = kind @ ''_attempt_superseded'';
               unsettled = InvalidTransition (kind @ ''_effect_unsettled'') ''superseded'' in
           seq (workflow_run_of x) (\<lambda>(workflow, run).
           seq (expect_workflow_run_open run) (\<lambda>_.
           seq (guard (rn_active_attempt_id run = Some replacement_attempt_id)
                  (InvalidTransition ''replacement_attempt_mismatch'' ''superseded'')) (\<lambda>_.
           if gb_attempt_id g = replacement_attempt_id then ret effect
           else
             seq (get_attempt replacement_attempt_id) (\<lambda>replacement.
             seq (gets (\<lambda>s. walk_ancestors (attempts s) [] (at_source_attempt_id replacement))) (\<lambda>walk.
             seq (lift_result walk) (\<lambda>ancestors.
             seq (guard (gb_attempt_id g \<in> set ancestors)
                    (InvalidTransition (kind @ ''_attempt_not_ancestor'') ''superseded'')) (\<lambda>_.
             if wx_state x = E_completed \<or> wx_state x = E_failed \<and> wx_failure_category x = Some superseded
             then ret effect
             else
               seq (guard (wx_state x = E_pending) unsettled) (\<lambda>_.
               seq utc_now (\<lambda>now.
               seq (update_effects (\<lambda>y. wx_id y = effect_id \<and> wx_state y = E_pending)
                      (\<lambda>y. y\<lparr>wx_state := E_failed, wx_failure_category := Some superseded,
                             wx_completed_at := Some now\<rparr>)) (\<lambda>rowcount.
               seq (guard (rowcount = 1) unsettled) (\<lambda>_.
               seq (audit ''workflow_effect'' effect_id ''workflow.effect.superseded''
                      (JObj [(''attempt_id'', JStr (gb_attempt_id g)),
                             (''replacement_attempt_id'', JStr replacement_attempt_id)])) (\<lambda>_.
               get_workflow_effect effect_id)))))))))))))))"

definition supersede_workflow_runtime_effect :: "string \<Rightarrow> string \<Rightarrow> effect_view op" where
  "supersede_workflow_runtime_effect effect_id replacement_attempt_id =
     seq (get_workflow_effect effect_id) (\<lambda>effect.
     (case eq_body (fx_request effect) of
        Runtime_Stage_Request _ \<Rightarrow> supersede_workflow_attempt_effect effect_id replacement_attempt_id
      | _ \<Rightarrow> raise (InvalidTransition ''non_runtime_effect'' ''superseded'')))"

section \<open>Digests and lists\<close>

definition record_effect_watch_digests :: "string \<Rightarrow> json \<Rightarrow> json op" where
  "record_effect_watch_digests effect_id digests =
     seq (get_workflow_effect effect_id) (\<lambda>_.
     seq (audit ''workflow_effect'' effect_id ''workflow.effect.watch_digests'' digests) (\<lambda>_.
     ret digests))"

definition effect_watch_digests :: "string \<Rightarrow> json list op" where
  "effect_watch_digests effect_id = gets (\<lambda>s. map au_payload (filter
     (\<lambda>a. au_aggregate_type a = ''workflow_effect'' \<and> au_aggregate_id a = effect_id
        \<and> au_type a = ''workflow.effect.watch_digests'') (control_audit s)))"

definition effect_order :: "workflow_effect \<Rightarrow> int \<times> string" where
  "effect_order x = (text_key (wx_created_at x), wx_id x)"

definition list_workflow_effects :: "string \<Rightarrow> string option \<Rightarrow> effect_view list op" where
  "list_workflow_effects workflow_id stage_key =
     seq (get_workflow_row workflow_id) (\<lambda>workflow.
     seq (case stage_key of None \<Rightarrow> ret (\<lambda>x. True)
          | Some k \<Rightarrow> seq (workflow_stage_row workflow_id k) (\<lambda>stage. ret (\<lambda>x. wx_stage_id x = sg_id stage))) (\<lambda>in_stage.
     seq (gets (\<lambda>s. map wx_id (select_by effect_order
            (\<lambda>x. wx_workflow_id x = wf_id workflow \<and> in_stage x) (effects s)))) (\<lambda>ids.
     for_each get_workflow_effect ids)))"

text \<open>The state of the run an effect belongs to, through the join of the tables.\<close>

definition effect_run_state :: "workflow_effect \<Rightarrow> store \<Rightarrow> run_state option" where
  "effect_run_state x s =
     (case find_row wf_id (wx_workflow_id x) (workflow_instances s) of
        None \<Rightarrow> None
      | Some w \<Rightarrow> map_option rn_state (find_row rn_id (wf_run_id w) (runs s)))"

definition dispatchable :: "instant \<Rightarrow> store \<Rightarrow> workflow_effect \<Rightarrow> bool" where
  "dispatchable now s x =
     ((case effect_run_state x s of None \<Rightarrow> False
       | Some r \<Rightarrow> r \<notin> set [R_cancel_requested, R_canceled, R_completed, R_failed])
      \<and> (wx_state x = E_pending
         \<or> wx_state x = E_claimed \<and> wx_effect_class x = ''query'' \<and> claim_over x now))"

definition list_dispatchable_workflow_effects :: "effect_view list op" where
  "list_dispatchable_workflow_effects =
     seq utc_now (\<lambda>now.
     seq (gets (\<lambda>s. map wx_id (select_by effect_order (dispatchable now s) (effects s)))) (\<lambda>ids.
     for_each get_workflow_effect ids))"

datatype effect_class = Fenced | Pending | Claimed | Unknown | Terminal

definition classify_effect :: "instant \<Rightarrow> bool \<Rightarrow> workflow_effect \<Rightarrow> effect_class" where
  "classify_effect now run_fenced x =
     (let expired = (case wx_claim_expires_at x of None \<Rightarrow> True | Some t \<Rightarrow> text_le t now) in
      case wx_state x of
        E_pending \<Rightarrow> if run_fenced then Fenced else Pending
      | E_claimed \<Rightarrow>
          if expired \<and> wx_effect_class x = ''mutation'' then Unknown
          else if expired \<and> run_fenced then Fenced
          else if expired then Pending else Claimed
      | E_outcome_unknown \<Rightarrow> Unknown
      | E_reconciling \<Rightarrow> Unknown
      | _ \<Rightarrow> Terminal)"

definition classify_workflow_recovery :: "(string \<times> effect_state \<times> effect_class) list op" where
  "classify_workflow_recovery =
     seq utc_now (\<lambda>now.
     seq (gets (\<lambda>s. List.map_filter (\<lambda>x. map_option (\<lambda>r. (wx_id x, r)) (effect_run_state x s))
            (select_by effect_order (\<lambda>_. True) (effects s)))) (\<lambda>rows.
     for_each (\<lambda>(effect_id, run_state).
       seq (get_workflow_effect effect_id) (\<lambda>v.
       ret (effect_id, wx_state (fx_row v),
            classify_effect now (run_state \<in> set workflow_fenced_run_states) (fx_row v)))) rows))"

section \<open>What the operations leave alone\<close>

subsection \<open>Readers\<close>

lemma keeps_text_fields [keeps]:
  "preserves I (text_field ok e j)" "preserves I (identifier_field j n)" "preserves I (operation_field j)"
  "preserves I (epoch_field j)" "preserves I (sha_field j n)" "preserves I (safe_text_field m j n)"
  "preserves I (choice_field cs e j)" "preserves I (bool_field j n)" "preserves I (canonical_source_field j)"
  "preserves I (closed_fields ns n j)" "preserves I (schema_v1 kvs n)" "preserves I (items_field j n)"
  unfolding text_field_def identifier_field_def operation_field_def epoch_field_def sha_field_def
    safe_text_field_def choice_field_def bool_field_def canonical_source_field_def closed_fields_def schema_v1_def
    items_field_def
  by (cases j; simp add: preserves_def wp_rules)+

lemma keeps_texts_field [keeps]: "preserves I (texts_field ok e js)"
  by (induction js) (auto intro!: keeps)

lemma keeps_lists [keeps]:
  "preserves I (identifiers_field b j n)" "preserves I (digests_field j n)" "preserves I (binding_from_dict ok e kvs)"
  "preserves I (engine_reference_from_dict j)"
  unfolding identifiers_field_def digests_field_def binding_from_dict_def engine_reference_from_dict_def
  by (intro keeps)+

lemma keeps_request_body [keeps]: "preserves I (request_body_from d kvs)"
  unfolding request_body_from_def source_binding_request_def source_import_request_def lineage_query_request_def
    successor_creation_request_def runtime_stage_request_def artifact_workflow_request_def
  by (intro keeps)

lemma keeps_typed_request [keeps]: "preserves I (typed_request sha e d raw)"
  unfolding typed_request_def request_from_dict_def Let_def by (auto intro!: keeps split: json.split option.split)

lemma keeps_result_parts [keeps]:
  "preserves I (result_head d ns j)" "preserves I (result_post kvs)" "preserves I (result_tail sha kvs z)"
  "preserves I (snapshot_field k j)"
  unfolding result_head_def result_post_def result_tail_def snapshot_field_def by (intro keeps)+

lemma keeps_stage_results [keeps]:
  "preserves I (runtime_stage_result sha j)" "preserves I (artifact_workflow_result sha j)"
  unfolding runtime_stage_result_def artifact_workflow_result_def by (intro keeps)+

lemma keeps_get_workflow_row [keeps]: "preserves I (get_workflow_row i)" "preserves I (get_workflow_stage_row i)"
  unfolding get_workflow_row_def get_workflow_stage_row_def by (intro keeps)+

lemma keeps_expect_open [keeps]: "preserves I (expect_workflow_run_open r)"
  unfolding expect_workflow_run_open_def by (intro keeps)

lemma keeps_get_workflow_effect [keeps]: "preserves I (get_workflow_effect i)"
  unfolding get_workflow_effect_def by (auto intro!: keeps split: json.split)

lemma keeps_validation [keeps]:
  "preserves I (validate_result sha q z)" "preserves I (validate_reconciliation sha r y)"
  "preserves I (with_delivery_epoch q e)" "preserves I (new_reconciliation_request q e)" "preserves I (lease_of_effect n)"
  unfolding validate_reconciliation_def validate_result_def with_delivery_epoch_def new_reconciliation_request_def
    lease_of_effect_def Let_def
  by (intro keeps)+

lemma keeps_artifact_checks [keeps]:
  "preserves I (artifact_version_of r a t v)" "preserves I (artifact_snapshot_of r a t vs i)"
  unfolding artifact_version_of_def artifact_snapshot_of_def by (intro keeps)+

lemma keeps_expect_result [keeps]: "preserves I (expect_workflow_effect_result v z t)"
  unfolding expect_workflow_effect_result_def expect_workflow_artifact_result_def expect_workflow_runtime_result_def Let_def
  by (auto intro!: keeps split: result_body.split request_body.split)

lemma keeps_effect_reads [keeps]:
  "preserves I (workflow_run_of x)" "preserves I (check_binding w g k b)" "preserves I (reconcile_row v z n)"
  "preserves I (rejection_allowed v e f)"
  unfolding workflow_run_of_def check_binding_def reconcile_row_def rejection_allowed_def by (intro keeps)+

lemma get_workflow_effect_row: "wp (get_workflow_effect i) (\<lambda>v s'. find_row wx_id i (effects s') = Some (fx_row v)) s"
proof -
  have "wp (typed_request sha e d raw) Q s" if "\<And>q. Q q s" for sha e d raw Q and s :: store
  proof -
    have "wp (typed_request sha e d raw) (\<lambda>_ t. t = s) s" by (rule preservesD[OF keeps_typed_request]) simp
    then show ?thesis by (rule wp_mono) (simp add: that)
  qed
  then show ?thesis
    by (auto simp: get_workflow_effect_def wp_rules split: json.split dest: find_row_SomeD)
qed

lemma preserves_checked: "(b \<Longrightarrow> preserves I (f ())) \<Longrightarrow> preserves I (seq (guard b e) f)"
  by (simp add: preserves_def wp_rules)

context bookkeeping
begin

lemma keeps_expect_claim [keeps]: "preserves I (expect_workflow_effect_claim x w c d st b)"
  unfolding expect_workflow_effect_claim_def Let_def by (intro keeps)

end

subsection \<open>Statements on effects\<close>

lemma effect_checks_row: "effect_checks x \<Longrightarrow> effect_row_ok x"
  by (simp add: effect_checks_def)

lemma new_effect_state: "wp (insert_effect x) Q s \<longleftrightarrow>
    (effect_required x s \<and> effect_checks x \<and> wx_id x \<notin> wx_id ` set (effects s)
       \<and> \<not> list_ex (\<lambda>y. wx_operation_id y = wx_operation_id x
              \<or> same_effect (wx_workflow_id x) (wx_stage_id x) (wx_effect_kind x) (wx_effect_key x) y) (effects s)
     \<longrightarrow> Q () (effects_update (\<lambda>xs. xs @ [x]) s))"
  by (auto simp: insert_effect_def wp_rules)

lemma wp_update_effects: "wp (update_effects P f) Q s \<longleftrightarrow>
    ((\<forall>x \<in> set (effects s). P x \<longrightarrow> \<not> effect_terminal (wx_state x) \<and> effect_checks (f x))
     \<longrightarrow> Q (row_count P (effects s)) (effects_update (update_where P f) s))"
  by (simp add: update_effects_def wp_rules list_all_iff)

context side_frame
begin

lemma keeps_insert_effect [keeps]: "fresh_effect x \<Longrightarrow> preserves I (insert_effect x)"
  by (rule preservesI) (simp add: new_effect_state I_new_effect)

lemma keeps_update_effects [keeps]:
  assumes "\<And>x. P x \<Longrightarrow> effect_checks (f x) \<Longrightarrow> onward x (f x)"
  shows "preserves I (update_effects P f)"
  by (rule preservesI) (use assms in \<open>auto simp: wp_update_effects intro!: I_effect\<close>)

text \<open>The effect that was read is the one the statement finds.\<close>

definition known_effect :: "workflow_effect \<Rightarrow> store \<Rightarrow> bool" where
  "known_effect x s \<longleftrightarrow> I s \<and> find_row wx_id (wx_id x) (effects s) = Some x"

lemma keeps_known [keeps]: "preserves (known_effect x) utc_now"
  by (rule preservesI) (simp add: known_effect_def wp_rules I_ticks)

lemma keeps_known_claim [keeps]: "preserves (known_effect x) (expect_workflow_effect_claim y w c d st b)"
  unfolding expect_workflow_effect_claim_def Let_def by (intro keeps)

lemma hoare_read_effect:
  assumes "\<And>v. wx_id (fx_row v) = i \<Longrightarrow> hoare (known_effect (fx_row v)) (f v) Q"
  shows "hoare I (seq (get_workflow_effect i) f) Q"
proof (rule hoareI)
  fix s assume "I s"
  then have "wp (get_workflow_effect i) (\<lambda>v s'. find_row wx_id i (effects s') = Some (fx_row v) \<and> I s') s"
    using get_workflow_effect_row by (simp add: wp_conj preservesD[OF keeps_get_workflow_effect])
  then have "wp (get_workflow_effect i) (\<lambda>v s'. wx_id (fx_row v) = i \<and> known_effect (fx_row v) s') s"
    by (rule wp_mono) (auto simp: known_effect_def dest: find_row_SomeD)
  then show "wp (seq (get_workflow_effect i) f) (\<lambda>_. Q) s" unfolding wp_seq
    by (rule wp_mono) (use assms in \<open>auto simp: hoare_def\<close>)
qed

lemma hoare_update_effect_by:
  assumes "\<And>y. P y \<Longrightarrow> wx_id y = wx_id x" and "effect_checks (f x) \<Longrightarrow> step x (f x)"
    and "\<And>s. (distinct (map wx_id (effects s)) \<Longrightarrow> \<forall>y \<in> set (effects s). P y \<longrightarrow> step y (f y)) \<Longrightarrow> I s
      \<Longrightarrow> I (effects_update (update_where P f) s)"
  shows "hoare (known_effect x) (update_effects P f) I"
proof (rule hoareI)
  fix s assume k: "known_effect x s"
  have "step y (f y)" if "distinct (map wx_id (effects s))" "y \<in> set (effects s)" "P y" "effect_checks (f y)" for y
  proof -
    have "find_row wx_id (wx_id y) (effects s) = Some y" using that by (simp add: find_row_unique)
    moreover have "find_row wx_id (wx_id x) (effects s) = Some x" using k unfolding known_effect_def by (rule conjunct2)
    ultimately have "y = x" using assms(1)[OF that(3)] by (metis option.inject)
    with assms(2) that(4) show ?thesis by simp
  qed
  then have "I (effects_update (update_where P f) s)"
    if "\<forall>x \<in> set (effects s). P x \<longrightarrow> \<not> effect_terminal (wx_state x) \<and> effect_checks (f x)"
    using that k by (intro assms(3)) (simp_all add: known_effect_def)
  then show "wp (update_effects P f) (\<lambda>_. I) s" unfolding wp_update_effects by blast
qed

lemma hoare_update_effect:
  assumes "\<And>y. P y \<Longrightarrow> wx_id y = wx_id x" and "effect_checks (f x) \<Longrightarrow> onward x (f x)"
  shows "hoare (known_effect x) (update_effects P f) I"
  by (rule hoare_update_effect_by[where step = onward]) (use assms in \<open>(blast intro: I_effect)+\<close>)

lemma hoare_known: "preserves I m \<Longrightarrow> hoare (known_effect x) m I"
  by (auto simp: hoare_def known_effect_def dest: preservesD)

end

subsection \<open>The operations\<close>

lemmas effect_row_defs = claim_effect_row_def free_effect_row_def complete_effect_row_def fail_effect_row_def

lemma effect_stepI:
  assumes "effect_checks y" and "effect_identity y = effect_identity x"
    and "(wx_state x, wx_state y) \<in> effect_moves \<or> wx_effect_class x = ''query'' \<and> wx_state x = E_claimed \<and> wx_state y = E_claimed"
    and "if wx_state y \<in> {E_claimed, E_reconciling}
        then wx_claim_epoch y = wx_claim_epoch x + 1 \<and> wx_delivery_epoch y = wx_delivery_epoch x + 1
        else wx_claim_epoch y = wx_claim_epoch x \<and> wx_delivery_epoch y = wx_delivery_epoch x"
  shows "effect_step x y"
  using assms by (auto simp: effect_step_def effect_checks_def effect_row_ok_def split: if_splits)

lemma onwardI: "effect_step x y \<Longrightarrow> wx_state y \<noteq> E_pending \<Longrightarrow> onward x y"
  by (simp add: onward_def)

lemma effect_steps:
  "claimable i n x \<Longrightarrow> effect_checks (claim_effect_row E_claimed w t x) \<Longrightarrow> onward x (claim_effect_row E_claimed w t x)"
  "held_by i E_claimed w c d x \<Longrightarrow> effect_checks (free_effect_row E_outcome_unknown x)
     \<Longrightarrow> onward x (free_effect_row E_outcome_unknown x)"
  "held_by i E_claimed w c d x \<Longrightarrow> effect_checks (complete_effect_row z j t x) \<Longrightarrow> onward x (complete_effect_row z j t x)"
  "wx_state x \<in> {E_claimed, E_reconciling} \<Longrightarrow> effect_checks (fail_effect_row E_failed f t x)
     \<Longrightarrow> onward x (fail_effect_row E_failed f t x)"
  by (rule onwardI, rule effect_stepI; auto simp: effect_row_defs effect_identity_def claimable_def held_by_def effect_moves_def)+

definition reconcile_step :: "reconciliation_result \<Rightarrow> workflow_effect \<Rightarrow> workflow_effect \<Rightarrow> bool" where
  "reconcile_step z x y \<longleftrightarrow> (if rz_disposition z = ''not_found'' then effect_step x y else onward x y)"

lemma reconcile_steps:
  assumes "wx_state x = E_reconciling"
  shows "yields (\<lambda>f. effect_checks (f x) \<longrightarrow> reconcile_step z x (f x)) (reconcile_row v z n)"
proof -
  have step: "effect_checks (f x) \<longrightarrow> effect_step x (f x)"
    if "f = free_effect_row E_pending \<or> f = complete_effect_row i j n \<or> f = fail_effect_row E_manual_required c n" for f i j c
    using that assms
    by (intro impI effect_stepI) (auto simp: effect_row_defs effect_identity_def effect_moves_def)
  show ?thesis unfolding reconcile_row_def reconcile_step_def
    by (auto intro!: yields_ret yields_seq yields_raise onwardI step[rule_format] simp: effect_row_defs split: option.split)
qed

context side_frame
begin

lemma keeps_claim_workflow_effect [keeps]: "preserves I (claim_workflow_effect i w l)"
  unfolding claim_workflow_effect_def Let_def
  apply (rule preserves_seq, rule preserves_required_text, rule preserves_seq, rule keeps_validation(5))
  apply (rule hoare_preserves, rule hoare_read_effect, rule hoare_skip, (intro keeps; fail))
  apply (rule hoare_if)
   apply (rule hoare_seq[OF hoare_update_effect])
     apply simp
    apply (rule onwardI, rule effect_stepI; simp add: effect_row_defs effect_identity_def effect_moves_def)
   apply (intro hoare_rest keeps)
  apply (intro hoare_known keeps; erule (1) effect_steps)
  done

lemma keeps_complete_workflow_effect [keeps]: "preserves I (complete_workflow_effect i w c d z)"
  unfolding complete_workflow_effect_def by (intro keeps; elim conjE; erule (1) effect_steps)

lemma keeps_mark_outcome_unknown [keeps]: "preserves I (mark_workflow_effect_outcome_unknown i w c d)"
  unfolding mark_workflow_effect_outcome_unknown_def by (intro keeps; erule (1) effect_steps)

lemma keeps_claim_effect_reconciliation [keeps]: "preserves I (claim_workflow_effect_reconciliation i w l)"
  unfolding claim_workflow_effect_reconciliation_def Let_def
  by (intro keeps; rule onwardI, rule effect_stepI; auto simp: effect_row_defs effect_identity_def effect_moves_def)

lemma keeps_create_workflow_effect [keeps]: "preserves I (create_workflow_effect w k ek q ew es h)"
  unfolding create_workflow_effect_def Let_def
  by (intro keeps; simp add: fresh_effect_def effect_row_ok_def effect_terminal_def)

lemma keeps_supersede [keeps]:
  "preserves I (supersede_workflow_attempt_effect i r)" "preserves I (supersede_workflow_runtime_effect i r)"
proof -
  show *: "preserves I (supersede_workflow_attempt_effect i r)"
    unfolding supersede_workflow_attempt_effect_def Let_def
    by (intro keeps; rule onwardI, rule effect_stepI; auto simp: effect_identity_def effect_moves_def)
  show "preserves I (supersede_workflow_runtime_effect i r)"
    unfolding supersede_workflow_runtime_effect_def by (auto intro!: keeps * split: request_body.split)
qed

lemma keeps_digests [keeps]: "preserves I (record_effect_watch_digests i j)" "preserves I (effect_watch_digests i)"
  unfolding record_effect_watch_digests_def effect_watch_digests_def by (intro keeps)+

lemma keeps_effect_lists [keeps]:
  "preserves I (list_workflow_effects w k)" "preserves I list_dispatchable_workflow_effects"
  "preserves I classify_workflow_recovery"
  unfolding list_workflow_effects_def list_dispatchable_workflow_effects_def classify_workflow_recovery_def
  by (intro keeps)+

lemma hoare_claimed:
  assumes "wx_state x = st \<Longrightarrow> hoare (known_effect x) (f ()) Q"
  shows "hoare (known_effect x) (seq (expect_workflow_effect_claim x w c d st b) f) Q"
proof (rule hoare_yields[of "\<lambda>_. wx_state x = st"])
  show "yields (\<lambda>_. wx_state x = st) (expect_workflow_effect_claim x w c d st b)"
    unfolding expect_workflow_effect_claim_def Let_def
    by (intro yields_guard) (auto intro!: yields_ret yields_seq simp: yields_def wp_rules)
qed (use assms in \<open>auto intro: keeps\<close>)

text \<open>The one operation that makes an effect pending again: when the answer is \<open>not_found\<close>.\<close>

lemma keeps_complete_reconciliation:
  assumes "\<And>s f. rz_disposition z = ''not_found'' \<Longrightarrow>
      (distinct (map wx_id (effects s)) \<Longrightarrow> \<forall>x \<in> set (effects s). wx_id x = i \<longrightarrow> effect_step x (f x)) \<Longrightarrow> I s
      \<Longrightarrow> I (effects_update (update_where (\<lambda>x. wx_id x = i) f) s)"
  shows "preserves I (complete_workflow_effect_reconciliation i w c d z)"
proof -
  have update: "hoare (known_effect x) (update_effects (\<lambda>y. wx_id y = i) f) I"
    if "effect_checks (f x) \<longrightarrow> reconcile_step z x (f x)" "wx_id x = i" for x f
    by (rule hoare_update_effect_by[where step = "reconcile_step z"])
      (use that assms I_effect in \<open>auto simp: reconcile_step_def split: if_splits\<close>)
  show ?thesis
    unfolding complete_workflow_effect_reconciliation_def
    apply (rule preserves_seq, rule preserves_required_text)
    apply (rule hoare_preserves, rule hoare_read_effect, rule hoare_claimed)
    apply (rule hoare_skip, (intro keeps; fail), rule hoare_skip, (intro keeps; fail),
        rule hoare_skip, (intro keeps; fail), rule hoare_skip, (intro keeps; fail))
    apply (rule hoare_yields[OF reconcile_steps], assumption, (intro keeps; fail))
    apply (rule hoare_seq, rule update, assumption, assumption)
    apply (intro hoare_rest keeps)
    done
qed

end
context ingest_journal
begin

lemma keeps_settle_workflow_failure [keeps]: "preserves I (settle_workflow_failure i w g r c n)"
  unfolding settle_workflow_failure_def Let_def
  by (intro keeps; simp add: run_step_def)

lemma keeps_reject_workflow_effect [keeps]: "preserves I (reject_workflow_effect i w c d f z)"
  unfolding reject_workflow_effect_def Let_def
  apply (rule preserves_seq, rule keeps, rule preserves_seq, rule keeps, rule preserves_seq, rule keeps,
      rule preserves_seq, rule keeps, rule preserves_checked)
  apply (intro keeps)
  apply (auto simp: held_by_def intro: effect_steps)
  done

lemma keeps_settle_effect_failure [keeps]: "preserves I (settle_workflow_effect_failure i)"
  unfolding settle_workflow_effect_failure_def Let_def by (intro keeps)

lemmas keeps_effect_commands = keeps_claim_workflow_effect keeps_complete_workflow_effect keeps_mark_outcome_unknown
  keeps_claim_effect_reconciliation keeps_create_workflow_effect keeps_supersede keeps_digests
  keeps_reject_workflow_effect keeps_settle_effect_failure

end

subsection \<open>The links of threads\<close>

lemma hoare_end_run_id:
  assumes "\<And>r. run_link (f r) = (rn_id r, rn_thread_id r, False)"
  shows "hoare (run_known r0) (update_runs (\<lambda>r. rn_id r = rn_id r0) f) (run_ending (rn_id r0) (rn_thread_id r0))"
proof (rule hoareI)
  fix s assume k: "run_known r0 s"
  have same: "wp (update_runs P f) (\<lambda>_. run_ending i t) s \<longleftrightarrow> (one_active_per_thread (update_where P f (runs s))
      \<longrightarrow> links_ok [] [i] (map thread_link (threads s)) (map run_link (update_where P f (runs s)))
        \<and> (i, t, False) \<in> set (map run_link (update_where P f (runs s))))" for P i t
    by (simp add: update_runs_def wp_rules run_ending_def links_inv_def del: set_map)
  have "update_where (\<lambda>r. rn_id r = rn_id r0) f (runs s) = update_where (at_revision r0) f (runs s)"
    unfolding update_where_def
    by (intro map_cong[OF refl]) (auto dest!: run_knownD[OF k] simp: run_view_def)
  then show "wp (update_runs (\<lambda>r. rn_id r = rn_id r0) f) (\<lambda>_. run_ending (rn_id r0) (rn_thread_id r0)) s"
    using hoareD[OF hoare_end_run[of f r0, OF assms] k] unfolding same by simp
qed

lemma settle_failure_links: "hoare (run_known r) (settle_workflow_failure i w g r c n) thread_inv"
  unfolding settle_workflow_failure_def Let_def
  apply (rule hoare_skip, (intro keeps; fail), rule hoare_skip, (intro keeps; fail))
  apply (rule hoare_if)
   apply (rule hoare_skip, (intro keeps; fail), rule hoare_skip, (intro keeps; fail), rule hoare_skip, (intro keeps; fail))
   apply (rule hoare_seq[OF hoare_end_run_id])
    apply (simp add: run_link_def run_live_def terminal_run_states_def)
   apply (rule hoare_skip, (intro keeps; fail))
   apply (rule hoare_seq[OF hoare_unlink])
    apply (simp add: thread_link_def)
   apply (intro hoare_rest keeps)
  apply (simp add: hoare_def wp_rules run_known_def)
  done

lemma hoare_run_known_rest: "preserves thread_inv m \<Longrightarrow> hoare (run_known r) m thread_inv"
  by (rule hoare_pre[of _ thread_inv]) (auto simp: run_known_def intro: hoare_rest)

lemma reject_links: "preserves thread_inv (reject_workflow_effect i w c d f z)"
proof -
  have tail: "hoare (run_known r) (seq (if b then ret () else if b' then audit t i e p
      else settle_workflow_failure i wf g r fc n) (\<lambda>_. get_workflow_effect i)) thread_inv"
    for r b b' t e p wf g fc n
    by (rule hoare_seq[of _ _ thread_inv])
      (auto intro: settle_failure_links hoare_run_known_rest keeps tinv.keeps_audit hoare_rest)
  show ?thesis
    unfolding reject_workflow_effect_def Let_def
    apply (rule hoare_preserves)
    apply (rule hoare_skip, rule keeps, rule hoare_skip, rule keeps, rule hoare_guard, rule hoare_skip, rule keeps,
        rule hoare_guard, rule hoare_skip, (intro keeps; fail), rule hoare_skip, rule keeps, rule hoare_skip, rule keeps,
        rule hoare_skip, rule keeps, rule hoare_get_run, rule hoare_guard, rule hoare_skip, (intro keeps; fail))
    apply (rule hoare_skip, rule rknown.keeps_update_effects)
     apply (auto simp: held_by_def intro: effect_steps)[1]
    apply (rule hoare_guard, rule tail)
    done
qed

lemma settle_effect_links: "preserves thread_inv (settle_workflow_effect_failure i)"
  unfolding settle_workflow_effect_failure_def Let_def
  apply (rule hoare_preserves)
  apply (rule hoare_skip, rule keeps, rule hoare_guard, rule hoare_if)
   apply (intro hoare_rest keeps)
  apply (rule hoare_skip, rule keeps, rule hoare_skip, rule keeps, rule hoare_get_run, rule hoare_if)
   apply (intro hoare_run_known_rest keeps)
  apply (rule hoare_if)
   apply (intro hoare_run_known_rest keeps)
  apply (rule hoare_guard, rule hoare_skip, (intro keeps; fail))
  apply (rule hoare_seq[OF settle_failure_links])
  apply (intro hoare_rest keeps)
  done

end
