(* ===== verification/Workflow_Stages.thy ===== *)
theory Workflow_Stages
  imports Workflow_Effects
begin

text \<open>
  The stages of a workflow: \<open>ControlStore.activate_workflow_stage\<close>, \<open>create_workflow_decision\<close>,
  \<open>complete_workflow_stage\<close>, \<open>get_workflow\<close> and \<open>get_workflow_for_run\<close>, with the insertion triggers of
  references, decision references and checkpoints.

  A stage is pending until all stages it depends on are completed, then ready; it is activated with an input,
  may wait for a decision, and is completed when its effects are, with references to what they produced. Stages
  become ready as soon as their dependencies are completed, and the workflow is completed with its last stage.

  The \<open>CHECK\<close> clauses of the tables of stages and workflows follow from the guards of these operations and are
  not part of the statements.
\<close>

section \<open>Workflows as responses\<close>

record stage_view =
  sv_row :: stage_instance
  sv_dependencies :: "string list"
  sv_required_receipts :: "string list"
  sv_required_results :: "string list"

record workflow_view =
  wv_row :: workflow_instance
  wv_stages :: "stage_view list"

definition get_workflow_stage :: "string \<Rightarrow> stage_view op" where
  "get_workflow_stage stage_id =
     seq (get_workflow_stage_row stage_id) (\<lambda>g.
     gets (\<lambda>s. \<lparr>sv_row = g, sv_dependencies = stage_dependencies stage_id s,
       sv_required_receipts = stage_required_receipts stage_id s,
       sv_required_results = stage_required_results stage_id s\<rparr>))"

definition get_workflow :: "string \<Rightarrow> workflow_view op" where
  "get_workflow workflow_id =
     seq (get_workflow_row workflow_id) (\<lambda>w.
     seq (gets (\<lambda>s. map sg_id (workflow_stage_rows workflow_id s))) (\<lambda>ids.
     seq (for_each get_workflow_stage ids) (\<lambda>stages.
     ret \<lparr>wv_row = w, wv_stages = stages\<rparr>)))"

definition get_workflow_for_run :: "string \<Rightarrow> workflow_view op" where
  "get_workflow_for_run run_id =
     seq (gets (\<lambda>s. find_row wf_run_id run_id (workflow_instances s))) (\<lambda>row. case row of
       None \<Rightarrow> raise (NotFound ''workflow for run'' run_id)
     | Some w \<Rightarrow> get_workflow (wf_id w))"

text \<open>The two statements that every operation on a stage ends with, each on the revision it was given.\<close>

definition step_stage ::
    "stage_instance \<Rightarrow> string \<Rightarrow> string \<Rightarrow> int \<Rightarrow> stage_state \<Rightarrow> (stage_instance \<Rightarrow> stage_instance) \<Rightarrow> unit op" where
  "step_stage stage workflow_id stage_key expected_revision state f =
     seq (sql_update workflow_stage_instances workflow_stage_instances_update
            (\<lambda>g. sg_id g = sg_id stage \<and> sg_revision g = expected_revision \<and> sg_state g = state) f) (\<lambda>rowcount.
     if rowcount \<noteq> 1 then
       seq (workflow_stage_row workflow_id stage_key) (\<lambda>g. raise (RevisionConflict (stage_json g)))
     else ret ())"

definition step_workflow ::
    "string \<Rightarrow> int \<Rightarrow> (workflow_instance \<Rightarrow> workflow_instance) \<Rightarrow> unit op" where
  "step_workflow workflow_id expected_revision f =
     seq (sql_update workflow_instances workflow_instances_update
            (\<lambda>w. wf_id w = workflow_id \<and> wf_revision w = expected_revision) f) (\<lambda>rowcount.
     if rowcount \<noteq> 1 then
       seq (get_workflow_row workflow_id) (\<lambda>w. raise (RevisionConflict (workflow_json w)))
     else ret ())"

section \<open>Activation\<close>

text \<open>Some stage that this one depends on is not completed (a join of the edges with the stages).\<close>

definition dependencies_incomplete :: "string \<Rightarrow> store \<Rightarrow> bool" where
  "dependencies_incomplete stage_id s = list_ex (\<lambda>e. sr_stage_id e = stage_id
     \<and> list_ex (\<lambda>g. sg_id g = sr_value e \<and> sg_state g \<noteq> S_completed) (workflow_stage_instances s))
     (workflow_stage_dependencies s)"

definition activate_row :: "string \<Rightarrow> instant \<Rightarrow> stage_instance \<Rightarrow> stage_instance" where
  "activate_row input_hash now g = g\<lparr>sg_state := S_active, sg_input_hash := Some input_hash,
     sg_attempt := sg_attempt g + 1, sg_revision := sg_revision g + 1, sg_started_at := Some now\<rparr>"

definition activate_workflow_stage ::
    "string \<Rightarrow> string \<Rightarrow> (string \<times> json) list \<Rightarrow> int \<Rightarrow> int \<Rightarrow> (workflow_view \<times> stage_view) op" where
  "activate_workflow_stage workflow_id stage_key input_value expected_workflow_revision expected_stage_revision =
     seq (gets (request_hash (JObj input_value))) (\<lambda>input_hash.
     seq (get_workflow_row workflow_id) (\<lambda>workflow.
     seq (expect_revision (wf_revision workflow) (workflow_json workflow) expected_workflow_revision) (\<lambda>_.
     seq (get_run (wf_run_id workflow)) (\<lambda>run.
     seq (expect_workflow_run_open run) (\<lambda>_.
     seq (workflow_stage_row workflow_id stage_key) (\<lambda>stage.
     seq (expect_revision (sg_revision stage) (stage_json stage) expected_stage_revision) (\<lambda>_.
     seq (gets (dependencies_incomplete (sg_id stage))) (\<lambda>incomplete.
     seq (guard (\<not> incomplete \<and> sg_state stage \<noteq> S_pending)
            (InvalidTransition ''dependencies_incomplete'' ''active'')) (\<lambda>_.
     seq (guard (sg_state stage = S_ready)
            (InvalidTransition (stage_state_name (sg_state stage)) ''active'')) (\<lambda>_.
     seq utc_now (\<lambda>now.
     seq (step_stage stage workflow_id stage_key expected_stage_revision S_ready (activate_row input_hash now)) (\<lambda>_.
     seq (step_workflow workflow_id expected_workflow_revision
            (\<lambda>w. w\<lparr>wf_state := W_running, wf_current_stage_key := Some stage_key,
                   wf_revision := wf_revision w + 1, wf_updated_at := now\<rparr>)) (\<lambda>_.
     seq (get_workflow workflow_id) (\<lambda>v.
     seq (get_workflow_stage (sg_id stage)) (\<lambda>g.
     ret (v, g))))))))))))))))"

section \<open>A decision\<close>

record decision_answer =
  da_decision :: json
  da_decision_ref :: workflow_decision_ref
  da_workflow :: workflow_view
  da_stage :: stage_view

definition get_workflow_decision_ref :: "string \<Rightarrow> workflow_decision_ref op" where
  "get_workflow_decision_ref i =
     fetch (NotFound ''workflow decision reference'' i) workflow_decision_refs wd_id i"

definition decision_answer_of :: "string \<Rightarrow> string \<Rightarrow> string \<Rightarrow> string \<Rightarrow> decision_answer op" where
  "decision_answer_of decision_id decision_ref_id workflow_id stage_id =
     seq (get_decision decision_id) (\<lambda>decision.
     seq (get_workflow_decision_ref decision_ref_id) (\<lambda>r.
     seq (get_workflow workflow_id) (\<lambda>workflow.
     seq (get_workflow_stage stage_id) (\<lambda>stage.
     ret \<lparr>da_decision = decision_json decision, da_decision_ref = r, da_workflow = workflow,
          da_stage = stage\<rparr>))))"

text \<open>The trigger on the references: a decision stage of the workflow, and a decision of its run.\<close>

definition decision_ref_ok :: "workflow_decision_ref \<Rightarrow> store \<Rightarrow> bool" where
  "decision_ref_ok r s =
     (list_ex (\<lambda>w. wf_id w = wd_workflow_id r
        \<and> list_ex (\<lambda>g. sg_workflow_id g = wf_id w \<and> sg_id g = wd_stage_id r \<and> sg_effect g = ''decision'')
            (workflow_stage_instances s)
        \<and> list_ex (\<lambda>d. de_id d = wd_decision_id r \<and> de_run_id d = wf_run_id w
              \<and> list_ex (\<lambda>a. at_id a = de_attempt_id d \<and> at_run_id a = wf_run_id w) (attempts s)) (decisions s))
        (workflow_instances s)
      \<and> \<not> list_ex (\<lambda>x. wd_stage_id x = wd_stage_id r \<or> wd_decision_id x = wd_decision_id r)
            (workflow_decision_refs s))"

definition insert_decision_ref :: "workflow_decision_ref \<Rightarrow> unit op" where
  "insert_decision_ref r =
     seq (gets (decision_ref_ok r)) (\<lambda>ok_row.
     seq (guard ok_row IntegrityError) (\<lambda>_.
     sql_insert IntegrityError workflow_decision_refs workflow_decision_refs_update wd_id r))"

definition create_workflow_decision ::
    "string \<Rightarrow> string \<Rightarrow> int \<Rightarrow> int \<Rightarrow> string \<Rightarrow> string \<Rightarrow> json list \<Rightarrow> decision_answer op" where
  "create_workflow_decision workflow_id stage_key expected_workflow_revision expected_stage_revision kind prompt
       options =
     seq (required_text kind ''kind'' 100) (\<lambda>kind.
     seq (public_decision_text (Some (JStr prompt)) ''prompt'' 20000) (\<lambda>prompt.
     seq (validate_decision_options options) (\<lambda>options.
     seq (get_workflow_row workflow_id) (\<lambda>workflow.
     seq (workflow_stage_row workflow_id stage_key) (\<lambda>stage.
     seq (gets (\<lambda>s. find (\<lambda>r. wd_workflow_id r = workflow_id \<and> wd_stage_id r = sg_id stage
            \<and> list_ex (\<lambda>d. de_id d = wd_decision_id r) (decisions s)) (workflow_decision_refs s))) (\<lambda>existing.
     case existing of
       Some r \<Rightarrow>
         seq (get_decision (wd_decision_id r)) (\<lambda>decision.
         seq (guard (de_kind decision = kind \<and> de_prompt decision = prompt
                     \<and> de_options decision = JArr options)
                (InvalidTransition ''decision_identity_drift'' ''decision_replay'')) (\<lambda>_.
         decision_answer_of (wd_decision_id r) (wd_id r) workflow_id (sg_id stage)))
     | None \<Rightarrow>
         seq (expect_revision (wf_revision workflow) (workflow_json workflow) expected_workflow_revision) (\<lambda>_.
         seq (get_run (wf_run_id workflow)) (\<lambda>run.
         seq (expect_workflow_run_open run) (\<lambda>_.
         seq (expect_revision (sg_revision stage) (stage_json stage) expected_stage_revision) (\<lambda>_.
         seq (guard (sg_effect stage = ''decision'' \<and> sg_state stage = S_active)
                (InvalidTransition (stage_state_name (sg_state stage)) ''waiting'')) (\<lambda>_.
         seq (get_attempt (case rn_active_attempt_id run of Some i \<Rightarrow> i | None \<Rightarrow> ''None'')) (\<lambda>attempt.
         seq utc_now (\<lambda>now.
         seq (new_id ''decision'') (\<lambda>decision_id.
         seq (new_id ''workflow_decision_ref'') (\<lambda>decision_ref_id.
         seq (sql_insert IntegrityError decisions decisions_update de_id
                \<lparr>de_id = decision_id, de_run_id = rn_id run, de_attempt_id = at_id attempt, de_kind = kind,
                 de_prompt = prompt, de_options = JArr options, de_state = D_pending, de_resolution = None,
                 de_revision = 0, de_created_at = now, de_resolved_at = None, de_runtime_decision_ref = None,
                 de_runtime_decision_revision = None\<rparr>) (\<lambda>_.
         seq (insert_decision_ref
                \<lparr>wd_id = decision_ref_id, wd_workflow_id = workflow_id, wd_stage_id = sg_id stage,
                 wd_decision_id = decision_id, wd_expected_revision = 0, wd_resolved_revision = None,
                 wd_selected_choice = None, wd_state = F_pending, wd_created_at = now, wd_resolved_at = None\<rparr>) (\<lambda>_.
         seq (sql_update workflow_stage_instances workflow_stage_instances_update
                (\<lambda>g. sg_id g = sg_id stage \<and> sg_revision g = expected_stage_revision \<and> sg_state g = S_active)
                (\<lambda>g. g\<lparr>sg_state := S_waiting, sg_revision := sg_revision g + 1\<rparr>)) (\<lambda>stages.
         seq (sql_update workflow_instances workflow_instances_update
                (\<lambda>w. wf_id w = workflow_id \<and> wf_revision w = expected_workflow_revision)
                (\<lambda>w. w\<lparr>wf_state := W_waiting, wf_revision := wf_revision w + 1, wf_updated_at := now\<rparr>)) (\<lambda>workflows.
         seq (if stages \<noteq> 1 \<or> workflows \<noteq> 1 then
                seq (get_workflow_row workflow_id) (\<lambda>w. raise (RevisionConflict (workflow_json w)))
              else ret ()) (\<lambda>_.
         seq (update_runs (\<lambda>r. rn_id r = rn_id run)
                (\<lambda>r. r\<lparr>rn_state := R_waiting_for_decision, rn_revision := rn_revision r + 1,
                       rn_updated_at := now\<rparr>)) (\<lambda>_.
         seq (sql_update attempts attempts_update (\<lambda>a. at_id a = at_id attempt)
                (\<lambda>a. a\<lparr>at_state := R_waiting_for_decision\<rparr>)) (\<lambda>_.
         seq (insert_event (rn_id run) (Some (at_id attempt)) ''decision.required''
                (JObj [(''decision_id'', JStr decision_id), (''kind'', JStr kind), (''prompt'', JStr prompt),
                       (''options'', JArr options)]) None) (\<lambda>_.
         decision_answer_of decision_id decision_ref_id workflow_id (sg_id stage))))))))))))))))))))))))"

section \<open>Completion\<close>

record reference_input =
  ri_kind :: string
  ri_id :: string
  ri_metadata :: json

type_synonym reference_identity = "string \<times> string"

definition reference_identity_of :: "reference_input \<Rightarrow> reference_identity" where
  "reference_identity_of r = (ri_kind r, ri_id r)"

definition reference_json :: "reference_input \<Rightarrow> json" where
  "reference_json r = JObj [(''kind'', JStr (ri_kind r)), (''id'', JStr (ri_id r)), (''metadata'', ri_metadata r)]"

definition normalize_reference :: "json \<Rightarrow> reference_input op" where
  "normalize_reference reference =
     (case reference of
        JObj kvs \<Rightarrow>
          seq (guard (set (map fst kvs) = set [''kind'', ''id'', ''metadata''])
                 (ValueError ''workflow reference is invalid'')) (\<lambda>_.
          seq (required_text_json (map_of kvs ''kind'') ''reference.kind'' 100) (\<lambda>kind.
          seq (required_text_json (map_of kvs ''id'') ''reference.id'' 1000) (\<lambda>reference_id.
          (case map_of kvs ''metadata'' of
             Some (JObj m) \<Rightarrow> ret \<lparr>ri_kind = kind, ri_id = reference_id, ri_metadata = JObj m\<rparr>
           | _ \<Rightarrow> raise (TypeError ''reference.metadata must be a mapping'')))))
      | _ \<Rightarrow> raise (ValueError ''workflow reference is invalid''))"

subsection \<open>Which effects count\<close>

definition bound_attempt :: "effect_view \<Rightarrow> string option" where
  "bound_attempt v = map_option gb_attempt_id (request_binding (eq_body (fx_request v)))"

definition is_artifact :: "effect_view \<Rightarrow> bool" where
  "is_artifact v = (case eq_body (fx_request v) of Artifact_Workflow_Request _ _ _ _ \<Rightarrow> True | _ \<Rightarrow> False)"

definition superseded :: "effect_view \<Rightarrow> bool" where
  "superseded v = (wx_state (fx_row v) = E_failed \<and> wx_failure_category (fx_row v)
     = Some (if is_artifact v then ''artifact_attempt_superseded'' else ''runtime_attempt_superseded''))"

text \<open>When an effect is bound to the active attempt, those of earlier attempts have to be settled, and only the
  ones of the active attempt count.\<close>

definition counting_effects :: "run \<Rightarrow> effect_view list \<Rightarrow> effect_view list op" where
  "counting_effects run views =
     (let bound = filter (\<lambda>v. bound_attempt v \<noteq> None) views;
          active = filter (\<lambda>v. bound_attempt v = rn_active_attempt_id run) bound;
          stale = filter (\<lambda>v. bound_attempt v \<noteq> rn_active_attempt_id run) bound
      in if active = [] then ret views
         else
           seq (guard (list_all (\<lambda>v. wx_state (fx_row v) = E_completed \<or> superseded v) stale)
                  (InvalidTransition (if list_ex is_artifact stale then ''artifact_effect_unsettled''
                     else ''runtime_effect_unsettled'') ''completed'')) (\<lambda>_.
           ret active))"

definition required_kinds :: "string \<Rightarrow> store \<Rightarrow> string list" where
  "required_kinds stage_id s = map sr_value (filter (\<lambda>r. sr_stage_id r = stage_id)
     (workflow_stage_receipt_requirements s @ workflow_stage_result_requirements s))"

definition all_completed :: "string list \<Rightarrow> effect_view list \<Rightarrow> bool" where
  "all_completed kinds views =
     (list_all (\<lambda>k. list_ex (\<lambda>v. wx_effect_kind (fx_row v) = k \<and> wx_state (fx_row v) = E_completed) views) kinds
      \<and> list_all (\<lambda>v. wx_state (fx_row v) = E_completed) views)"

subsection \<open>Which references are due\<close>

definition engine_value :: "json \<Rightarrow> string list" where
  "engine_value j =
     (case jget ''engine_reference'' j of None \<Rightarrow> []
      | Some e \<Rightarrow> (case jget ''value'' e of Some (JStr v) \<Rightarrow> if v = [] then [] else [v] | _ \<Rightarrow> []))"

definition engine_references :: "string \<Rightarrow> json \<Rightarrow> reference_identity list" where
  "engine_references effect_kind receipt =
     (if effect_kind = ''source_binding'' \<or> effect_kind = ''source_import''
      then map (\<lambda>v. (''engine_source'', v)) (engine_value receipt)
      else if effect_kind = ''lineage_query''
      then (case jget ''nodes'' receipt of
              Some (JArr nodes) \<Rightarrow> map (\<lambda>v. (''lineage_node'', v)) (concat (map engine_value nodes))
            | _ \<Rightarrow> [])
      else if effect_kind = ''successor_creation''
      then (case jget ''node'' receipt of
              Some node \<Rightarrow> map (\<lambda>v. (''lineage_node'', v)) (engine_value node)
            | None \<Rightarrow> [])
      else [])"

text \<open>The references an effect requires, and those among them that are artifacts; a result of a runtime or of
  the artifact service is checked again.\<close>

definition effect_references ::
    "effect_view \<Rightarrow> (reference_identity list \<times> reference_identity list) op" where
  "effect_references v =
     (let x = fx_row v; receipt = (case wx_receipt x of None \<Rightarrow> JObj [] | Some j \<Rightarrow> j);
          engine = engine_references (wx_effect_kind x) receipt in
      seq (gets st_sha256_json) (\<lambda>sha.
      case eq_body (fx_request v) of
        Runtime_Stage_Request _ \<Rightarrow>
          seq (runtime_stage_result sha receipt) (\<lambda>z.
          seq (expect_workflow_effect_result v z ''stage_completed'') (\<lambda>_.
          (case ez_body z of
             Runtime_Stage_Result _ runtime_event_id _ _ _ _ \<Rightarrow>
               ret (engine @ [(''runtime_event'', runtime_event_id)], [])
           | _ \<Rightarrow> ret (engine, []))))
      | Artifact_Workflow_Request _ _ _ _ \<Rightarrow>
          seq (artifact_workflow_result sha receipt) (\<lambda>z.
          seq (expect_workflow_effect_result v z ''stage_completed'') (\<lambda>_.
          (case ez_body z of
             Artifact_Workflow_Result _ _ _ versions snapshot_id _ \<Rightarrow>
               (let found = map (\<lambda>i. (''artifact_version'', i)) versions
                  @ (case snapshot_id of None \<Rightarrow> [] | Some i \<Rightarrow> [(''snapshot'', i)])
                in ret (engine @ found, found))
           | _ \<Rightarrow> ret (engine, []))))
      | _ \<Rightarrow> ret (engine, [])))"

text \<open>The decision of a decision stage is added to the references.\<close>

definition decision_reference :: "stage_instance \<Rightarrow> reference_input list op" where
  "decision_reference stage =
     (if sg_effect stage \<noteq> ''decision'' then ret []
      else seq (gets (\<lambda>s. find (\<lambda>r. wd_stage_id r = sg_id stage \<and> wd_state r = F_resolved)
             (workflow_decision_refs s))) (\<lambda>row. case row of
        None \<Rightarrow> raise (InvalidTransition ''decision_unresolved'' ''completed'')
      | Some r \<Rightarrow> ret [\<lparr>ri_kind = ''decision'', ri_id = wd_decision_id r,
          ri_metadata = JObj [(''choice'', jstr_opt (wd_selected_choice r))]\<rparr>]))"

definition workflow_exact_reference_kinds :: "string list" where
  "workflow_exact_reference_kinds = [''decision'', ''engine_source'', ''lineage_node'']"

definition workflow_context_reference_kinds :: "string list" where
  "workflow_context_reference_kinds = [''source_resolution'', ''source'', ''source_binding'', ''artifact_version'',
     ''snapshot'', ''event'', ''runtime_event'']"

definition references_complete :: "reference_identity list \<Rightarrow> reference_identity list \<Rightarrow> bool" where
  "references_complete required supplied = (set required \<subseteq> set supplied)"

definition references_extra ::
    "reference_identity list \<Rightarrow> reference_identity list \<Rightarrow> reference_identity list \<Rightarrow> bool" where
  "references_extra required artifacts supplied =
     (list_ex (\<lambda>i. fst i \<in> set workflow_exact_reference_kinds \<and> i \<notin> set required) supplied
      \<or> list_ex (\<lambda>i. fst i = ''runtime_event'' \<and> i \<notin> set required) supplied
      \<or> (artifacts \<noteq> [] \<and> set supplied \<noteq> set required)
      \<or> list_ex (\<lambda>i. fst i \<notin> set workflow_exact_reference_kinds \<and> fst i \<notin> set workflow_context_reference_kinds)
          supplied)"

definition check_runtime_event :: "run \<Rightarrow> reference_identity \<Rightarrow> unit op" where
  "check_runtime_event run i =
     (if fst i \<noteq> ''runtime_event'' then ret ()
      else
        seq (gets (\<lambda>s. find_row ev_id (snd i) (run_events s))) (\<lambda>row. case row of
          None \<Rightarrow> raise (InvalidTransition ''runtime_event_identity_mismatch'' ''completed'')
        | Some event \<Rightarrow>
            seq (guard (ev_run_id event = rn_id run)
                   (InvalidTransition ''runtime_event_identity_mismatch'' ''completed'')) (\<lambda>_.
            seq (guard (rn_active_attempt_id run \<noteq> None \<and> ev_attempt_id event = rn_active_attempt_id run)
                   (InvalidTransition ''runtime_event_attempt_mismatch'' ''completed'')) (\<lambda>_.
            guard (is_runtime_event (ev_type event))
              (InvalidTransition ''runtime_event_type_mismatch'' ''completed'')))))"

subsection \<open>References and checkpoints\<close>

text \<open>The trigger on references of the research engine, which spells out the pattern of \<open>validate_engine_ref\<close>.\<close>

definition engine_path_ok :: "string \<Rightarrow> nat \<Rightarrow> string \<Rightarrow> bool" where
  "engine_path_ok namespace maximum v =
     (let n = length namespace in n < length v \<and> length v \<le> maximum \<and> take n v = namespace
       \<and> alnum (v ! n) \<and> list_all engine_char (drop n v) \<and> \<not> contains_pair (CHR ''.'') v
       \<and> \<not> contains_pair (CHR ''/'') v)"

text \<open>The trigger on references to other tables: the row is one of the run of the workflow.\<close>

definition reference_consistent :: "string \<Rightarrow> string \<Rightarrow> string \<Rightarrow> store \<Rightarrow> bool" where
  "reference_consistent run_id kind i s =
     (if kind = ''decision'' then list_ex (\<lambda>d. de_id d = i \<and> de_run_id d = run_id) (decisions s)
      else if kind = ''source_resolution'' then
        list_ex (\<lambda>x. sx_id x = i \<and> list_ex (\<lambda>n. si_id n = sx_intent_id x \<and> si_run_id n = run_id) (source_intents s))
          (source_resolutions (library s))
      else if kind = ''source'' then
        list_ex (\<lambda>b. sb_source_id b = i \<and> sb_run_id b = run_id) (run_source_bindings (library s))
      else if kind = ''source_binding'' then
        list_ex (\<lambda>b. sb_id b = i \<and> sb_run_id b = run_id) (run_source_bindings (library s))
      else if kind = ''artifact_version'' then
        list_ex (\<lambda>v. av_id v = i \<and> av_run_id v = run_id) (artifact_versions s)
      else if kind = ''snapshot'' then
        list_ex (\<lambda>m. am_snapshot_id m = i \<and> list_ex (\<lambda>v. av_id v = am_artifact_version_id m \<and> av_run_id v = run_id)
          (artifact_versions s)) (artifact_snapshot_members (library s))
      else if kind = ''event'' \<or> kind = ''runtime_event'' then
        list_ex (\<lambda>e. ev_id e = i \<and> ev_run_id e = run_id) (run_events s)
      else True)"

definition reference_ok :: "stage_reference \<Rightarrow> store \<Rightarrow> bool" where
  "reference_ok r s =
     (wr_reference_kind r \<in> set (workflow_exact_reference_kinds @ workflow_context_reference_kinds)
      \<and> valid_digest (wr_identity_hash r)
      \<and> (wr_reference_kind r = ''engine_source'' \<longrightarrow> engine_path_ok ''paper:'' 473 (wr_reference_id r))
      \<and> (wr_reference_kind r = ''lineage_node'' \<longrightarrow> engine_path_ok ''idea:'' 472 (wr_reference_id r))
      \<and> \<not> list_ex (\<lambda>x. wr_workflow_id x = wr_workflow_id r \<and> wr_stage_id x = wr_stage_id r
            \<and> wr_reference_kind x = wr_reference_kind r \<and> wr_reference_id x = wr_reference_id r)
          (workflow_stage_references (flow s))
      \<and> list_ex (\<lambda>w. wf_id w = wr_workflow_id r
            \<and> reference_consistent (wf_run_id w) (wr_reference_kind r) (wr_reference_id r) s) (workflow_instances s))"

definition insert_reference :: "stage_reference \<Rightarrow> unit op" where
  "insert_reference r =
     seq (gets (\<lambda>s. reference_ok r s \<and> wr_id r \<notin> set (map wr_id (workflow_stage_references (flow s))))) (\<lambda>ok_row.
     seq (guard ok_row IntegrityError) (\<lambda>_.
     modify (flow_update (workflow_stage_references_update (\<lambda>rs. rs @ [r])))))"

definition get_workflow_reference :: "string \<Rightarrow> stage_reference op" where
  "get_workflow_reference i =
     fetch (NotFound ''workflow reference'' i) (\<lambda>s. workflow_stage_references (flow s)) wr_id i"

fun insert_references ::
    "string \<Rightarrow> string \<Rightarrow> instant \<Rightarrow> reference_identity list \<Rightarrow> reference_input list \<Rightarrow> stage_reference list op" where
  "insert_references workflow_id stage_id now seen [] = ret []"
| "insert_references workflow_id stage_id now seen (r # rs) =
     seq (guard (reference_identity_of r \<notin> set seen) (ValueError ''workflow references must be unique'')) (\<lambda>_.
     seq (new_id ''workflow_reference'') (\<lambda>reference_id.
     seq (gets (request_hash (reference_json r))) (\<lambda>identity.
     seq (insert_reference
            \<lparr>wr_id = reference_id, wr_workflow_id = workflow_id, wr_stage_id = stage_id, wr_reference_kind = ri_kind r,
             wr_reference_id = ri_id r, wr_identity_hash = identity, wr_metadata = ri_metadata r,
             wr_created_at = now\<rparr>) (\<lambda>_.
     seq (get_workflow_reference reference_id) (\<lambda>row.
     seq (insert_references workflow_id stage_id now (reference_identity_of r # seen) rs) (\<lambda>rows.
     ret (row # rows)))))))"

definition insert_checkpoint :: "workflow_checkpoint \<Rightarrow> unit op" where
  "insert_checkpoint c =
     seq (gets (\<lambda>s. \<not> list_ex (\<lambda>x. wk_id x = wk_id c \<or> wk_stage_id x = wk_stage_id c) (workflow_checkpoints (flow s))
        \<and> valid_digest (wk_state_hash c) \<and> valid_digest (wk_references_hash c) \<and> 0 \<le> wk_workflow_revision c
        \<and> list_ex (\<lambda>g. sg_workflow_id g = wk_workflow_id c \<and> sg_id g = wk_stage_id c \<and> sg_checkpoint_enabled g
              \<and> sg_state g = S_completed) (workflow_stage_instances s))) (\<lambda>ok_row.
     seq (guard ok_row IntegrityError) (\<lambda>_.
     modify (flow_update (workflow_checkpoints_update (\<lambda>cs. cs @ [c])))))"

definition get_workflow_checkpoint :: "string \<Rightarrow> workflow_checkpoint op" where
  "get_workflow_checkpoint i =
     fetch (NotFound ''workflow checkpoint'' i) (\<lambda>s. workflow_checkpoints (flow s)) wk_id i"

definition references_document :: "stage_reference list \<Rightarrow> json" where
  "references_document rows = JArr (map (\<lambda>r. JObj [(''kind'', JStr (wr_reference_kind r)),
     (''id'', JStr (wr_reference_id r)), (''identity_hash'', JStr (wr_identity_hash r))])
     (sort_key (\<lambda>r. (wr_reference_kind r, wr_reference_id r)) rows))"

definition take_checkpoint ::
    "string \<Rightarrow> string \<Rightarrow> int \<Rightarrow> json option \<Rightarrow> stage_reference list \<Rightarrow> instant \<Rightarrow> workflow_checkpoint option op" where
  "take_checkpoint workflow_id stage_id revision state references now =
     (case state of None \<Rightarrow> ret None
      | Some v \<Rightarrow>
          seq (new_id ''workflow_checkpoint'') (\<lambda>checkpoint_id.
          seq (gets (request_hash (references_document references))) (\<lambda>references_hash.
          seq (gets (request_hash v)) (\<lambda>state_hash.
          seq (insert_checkpoint
                 \<lparr>wk_id = checkpoint_id, wk_workflow_id = workflow_id, wk_stage_id = stage_id,
                  wk_workflow_revision = revision, wk_state_hash = state_hash, wk_state = v,
                  wk_references_hash = references_hash, wk_created_at = now\<rparr>) (\<lambda>_.
          seq (get_workflow_checkpoint checkpoint_id) (\<lambda>c. ret (Some c)))))))"

subsection \<open>The operation\<close>

text \<open>The stages whose dependencies are completed become ready; the first of them is the next one.\<close>

definition release_stages :: "string \<Rightarrow> unit op" where
  "release_stages workflow_id =
     seq (gets (\<lambda>s. map sg_id (filter (\<lambda>g. sg_workflow_id g = workflow_id \<and> sg_state g = S_pending
            \<and> \<not> dependencies_incomplete (sg_id g) s) (workflow_stage_instances s)))) (\<lambda>ids.
     seq (sql_update workflow_stage_instances workflow_stage_instances_update
            (\<lambda>g. sg_id g \<in> set ids \<and> sg_workflow_id g = workflow_id \<and> sg_state g = S_pending)
            (\<lambda>g. g\<lparr>sg_state := S_ready\<rparr>)) (\<lambda>_. ret ()))"

definition next_ready :: "string \<Rightarrow> store \<Rightarrow> string option" where
  "next_ready workflow_id s = map_option sg_stage_key (first_by sg_position
     (\<lambda>g. sg_workflow_id g = workflow_id \<and> sg_state g = S_ready) (workflow_stage_instances s))"

definition unfinished :: "string \<Rightarrow> store \<Rightarrow> nat" where
  "unfinished workflow_id s = row_count (\<lambda>g. sg_workflow_id g = workflow_id \<and> sg_state g \<noteq> S_completed)
     (workflow_stage_instances s)"

record completion =
  co_workflow :: workflow_view
  co_stage :: stage_view
  co_references :: "stage_reference list"
  co_checkpoint :: "workflow_checkpoint option"

text \<open>The references of a completion: those that are supplied, the decision, and what is due.\<close>

definition gather_references ::
    "run \<Rightarrow> stage_instance \<Rightarrow> reference_input list \<Rightarrow> reference_input list op" where
  "gather_references run stage supplied =
     seq (gets (\<lambda>s. map wx_id (filter (\<lambda>x. wx_stage_id x = sg_id stage) (effects s)))) (\<lambda>ids.
     seq (for_each get_workflow_effect ids) (\<lambda>views.
     seq (counting_effects run views) (\<lambda>counted.
     seq (gets (required_kinds (sg_id stage))) (\<lambda>kinds.
     seq (guard (all_completed kinds counted)
            (InvalidTransition ''effect_requirements_missing'' ''completed'')) (\<lambda>_.
     seq (for_each effect_references counted) (\<lambda>found.
     seq (decision_reference stage) (\<lambda>decision.
     let references = supplied @ decision;
         required = concat (map fst found) @ map reference_identity_of decision;
         artifacts = concat (map snd found);
         identities = map reference_identity_of references in
     seq (guard (references_complete required identities)
            (InvalidTransition ''references_missing'' ''completed'')) (\<lambda>_.
     seq (guard (\<not> references_extra required artifacts identities)
            (InvalidTransition ''references_extra'' ''completed'')) (\<lambda>_.
     seq (for_each (check_runtime_event run) identities) (\<lambda>_.
     ret references))))))))))"

definition complete_workflow_stage ::
    "string \<Rightarrow> string \<Rightarrow> int \<Rightarrow> int \<Rightarrow> json list \<Rightarrow> json option \<Rightarrow> completion op" where
  "complete_workflow_stage workflow_id stage_key expected_workflow_revision expected_stage_revision references
       checkpoint_state =
     seq (for_each normalize_reference references) (\<lambda>supplied.
     seq (guard (case checkpoint_state of None \<Rightarrow> True | Some (JObj _) \<Rightarrow> True | Some _ \<Rightarrow> False)
            (TypeError ''checkpoint_state must be a mapping'')) (\<lambda>_.
     seq (get_workflow_row workflow_id) (\<lambda>workflow.
     seq (expect_revision (wf_revision workflow) (workflow_json workflow) expected_workflow_revision) (\<lambda>_.
     seq (get_run (wf_run_id workflow)) (\<lambda>run.
     seq (expect_workflow_run_open run) (\<lambda>_.
     seq (workflow_stage_row workflow_id stage_key) (\<lambda>stage.
     seq (expect_revision (sg_revision stage) (stage_json stage) expected_stage_revision) (\<lambda>_.
     seq (guard (sg_state stage = S_active)
            (InvalidTransition (stage_state_name (sg_state stage)) ''completed'')) (\<lambda>_.
     seq (gather_references run stage supplied) (\<lambda>all_references.
     seq (guard (sg_checkpoint_enabled stage = (checkpoint_state \<noteq> None))
            (InvalidTransition ''checkpoint_requirement_mismatch'' ''completed'')) (\<lambda>_.
     seq utc_now (\<lambda>now.
     seq (insert_references workflow_id (sg_id stage) now [] all_references) (\<lambda>inserted.
     seq (step_stage stage workflow_id stage_key expected_stage_revision S_active
            (\<lambda>g. g\<lparr>sg_state := S_completed, sg_revision := sg_revision g + 1, sg_completed_at := Some now\<rparr>)) (\<lambda>_.
     seq (take_checkpoint workflow_id (sg_id stage) (expected_workflow_revision + 1) checkpoint_state inserted now)
       (\<lambda>checkpoint.
     seq (release_stages workflow_id) (\<lambda>_.
     seq (gets (next_ready workflow_id)) (\<lambda>next_stage_key.
     seq (gets (unfinished workflow_id)) (\<lambda>open_stages.
     seq (step_workflow workflow_id expected_workflow_revision
            (\<lambda>w. w\<lparr>wf_state := (if open_stages = 0 then W_completed else W_running),
                   wf_current_stage_key := next_stage_key, wf_revision := wf_revision w + 1,
                   wf_updated_at := now\<rparr>)) (\<lambda>_.
     seq (get_workflow workflow_id) (\<lambda>v.
     seq (get_workflow_stage (sg_id stage)) (\<lambda>g.
     ret \<lparr>co_workflow = v, co_stage = g, co_references = inserted, co_checkpoint = checkpoint\<rparr>)))))))))))))))))))))"

section \<open>What the operations leave alone\<close>

lemma keeps_stage_reads [keeps]:
  "preserves I (get_workflow_stage i)" "preserves I (get_workflow i)" "preserves I (get_workflow_for_run r)"
  "preserves I (get_workflow_decision_ref i)" "preserves I (get_workflow_reference i)"
  "preserves I (get_workflow_checkpoint i)"
  unfolding get_workflow_stage_def get_workflow_def get_workflow_for_run_def get_workflow_decision_ref_def
    get_workflow_reference_def get_workflow_checkpoint_def
  by (intro keeps)+

lemma keeps_decision_answer [keeps]: "preserves I (decision_answer_of d r w g)"
  unfolding decision_answer_of_def by (intro keeps)

lemma keeps_normalize_reference [keeps]: "preserves I (normalize_reference j)"
  unfolding normalize_reference_def required_text_json_def
  by (auto intro!: keeps split: json.split option.split)

lemma keeps_gathering [keeps]:
  "preserves I (counting_effects r vs)" "preserves I (effect_references v)" "preserves I (decision_reference g)"
  "preserves I (check_runtime_event r i)" "preserves I (gather_references r g rs)"
proof -
  show 1: "preserves I (counting_effects r vs)" for I r vs unfolding counting_effects_def Let_def by (intro keeps)
  show 2: "preserves I (effect_references v)" for I v unfolding effect_references_def Let_def
    by (auto intro!: keeps split: request_body.split result_body.split)
  show 3: "preserves I (decision_reference g)" for I g unfolding decision_reference_def by (intro keeps)
  show 4: "preserves I (check_runtime_event r i)" for I r i unfolding check_runtime_event_def by (intro keeps)
  show "preserves I (gather_references r g rs)" unfolding gather_references_def Let_def by (intro keeps 1 2 3 4)
qed

context workflow_frame
begin

lemma keeps_stage_steps [keeps]:
  "preserves I (step_stage g w k e st f)" "preserves I (step_workflow w e f')" "preserves I (release_stages w)"
  unfolding step_stage_def step_workflow_def release_stages_def by (intro keeps)+

lemma keeps_activate_workflow_stage [keeps]: "preserves I (activate_workflow_stage w k v ew es)"
  unfolding activate_workflow_stage_def by (intro keeps)

end

context side_frame
begin

lemma keeps_insert_reference [keeps]: "preserves I (insert_reference r)"
  unfolding insert_reference_def by (intro keeps preserves_modify I_references)

lemma keeps_insert_references [keeps]: "preserves I (insert_references w g n seen rs)"
  by (induction rs arbitrary: seen) (auto intro!: keeps)

lemma keeps_take_checkpoint [keeps]: "preserves I (take_checkpoint w g n v rs t)"
  unfolding take_checkpoint_def insert_checkpoint_def by (intro keeps preserves_modify I_checkpoints)

lemma keeps_insert_decision_ref [keeps]: "preserves I (insert_decision_ref r)"
  unfolding insert_decision_ref_def by (intro keeps)

end

context ingest_journal
begin

lemma keeps_complete_workflow_stage [keeps]: "preserves I (complete_workflow_stage w k ew es rs c)"
  unfolding complete_workflow_stage_def by (intro keeps)

lemma keeps_create_workflow_decision [keeps]: "preserves I (create_workflow_decision w k ew es kd p os)"
  unfolding create_workflow_decision_def by (intro keeps; simp add: run_step_def)

lemmas keeps_flow_commands = keeps_effect_commands keeps_activate_workflow_stage keeps_create_workflow_decision
  keeps_complete_workflow_stage

end

section \<open>The commands on workflows\<close>

text \<open>The requests and results are objects, so they have passed the checks of their constructors.\<close>

inductive flow_cmd :: "store \<Rightarrow> store \<Rightarrow> bool" where
  activate: "leads (activate_workflow_stage w k v ew es) s s' \<Longrightarrow> flow_cmd s s'"
| decide: "leads (create_workflow_decision w k ew es kd p os) s s' \<Longrightarrow> flow_cmd s s'"
| complete_stage: "leads (complete_workflow_stage w k ew es rs c) s s' \<Longrightarrow> flow_cmd s s'"
| create_effect: "leads (create_workflow_effect w k ek q ew es h) s s' \<Longrightarrow> valid_request q \<Longrightarrow> flow_cmd s s'"
| claim_effect: "leads (claim_workflow_effect i wk l) s s' \<Longrightarrow> flow_cmd s s'"
| complete_effect: "leads (complete_workflow_effect i wk c' d z) s s' \<Longrightarrow> valid_result z \<Longrightarrow> flow_cmd s s'"
| outcome_unknown: "leads (mark_workflow_effect_outcome_unknown i wk c' d) s s' \<Longrightarrow> flow_cmd s s'"
| reject_effect: "leads (reject_workflow_effect i wk c' d ct f) s s' \<Longrightarrow> pred_option valid_reconciliation_result f
    \<Longrightarrow> flow_cmd s s'"
| settle_failure: "leads (settle_workflow_effect_failure i) s s' \<Longrightarrow> flow_cmd s s'"
| claim_reconciliation: "leads (claim_workflow_effect_reconciliation i wk l) s s' \<Longrightarrow> flow_cmd s s'"
| complete_reconciliation: "leads (complete_workflow_effect_reconciliation i wk c' d y) s s'
    \<Longrightarrow> valid_reconciliation_result y \<Longrightarrow> flow_cmd s s'"
| supersede: "leads (supersede_workflow_attempt_effect i r) s s' \<Longrightarrow> flow_cmd s s'"
| supersede_runtime: "leads (supersede_workflow_runtime_effect i r) s s' \<Longrightarrow> flow_cmd s s'"
| watch_digests: "leads (record_effect_watch_digests i j) s s' \<Longrightarrow> flow_cmd s s'"

text \<open>The step that makes an effect pending again: a reconciliation that found no trace of it.\<close>

definition recalls :: "string \<Rightarrow> store \<Rightarrow> store \<Rightarrow> bool" where
  "recalls i s s' \<longleftrightarrow> (\<exists>w c d z. rz_disposition z = ''not_found'' \<and> valid_reconciliation_result z
     \<and> leads (complete_workflow_effect_reconciliation i w c d z) s s')"

context ingest_journal
begin

lemma complete_reconciliation_keeps:
  assumes "leads (complete_workflow_effect_reconciliation i w c d z) s s'" and "valid_reconciliation_result z" and "I s"
  shows "I s' \<or> recalls i s s'"
proof (cases "rz_disposition z = ''not_found''")
  case False
  then have "preserves I (complete_workflow_effect_reconciliation i w c d z)"
    by (intro keeps_complete_reconciliation) simp
  with assms show ?thesis by (blast intro: preserves_leads)
qed (use assms in \<open>auto simp: recalls_def\<close>)

lemma flow_cmd_keeps_but: "flow_cmd s s' \<Longrightarrow> I s \<Longrightarrow> I s' \<or> (\<exists>i. recalls i s s')"
proof (erule flow_cmd.cases)
  fix i w c d z t t'
  assume "s = t" "s' = t'" "leads (complete_workflow_effect_reconciliation i w c d z) t t'" "valid_reconciliation_result z" "I s"
  then show ?thesis using complete_reconciliation_keeps by blast
qed (blast intro: preserves_leads keeps_flow_commands)+

end

text \<open>Predicates that this step keeps, too.\<close>

locale flow_frame = ingest_journal +
  assumes I_recall: "(distinct (map wx_id (effects s)) \<Longrightarrow> \<forall>x \<in> set (effects s). wx_id x = i \<longrightarrow> effect_step x (f x))
     \<Longrightarrow> I s \<Longrightarrow> I (effects_update (update_where (\<lambda>x. wx_id x = i) f) s)"
begin

lemma recalls_keeps: "recalls i s s' \<Longrightarrow> I s \<Longrightarrow> I s'"
  unfolding recalls_def
  by (elim exE conjE, erule (1) preserves_leads[rotated], rule keeps_complete_reconciliation) (rule I_recall)

lemma flow_cmd_keeps: "flow_cmd s s' \<Longrightarrow> I s \<Longrightarrow> I s'"
  using flow_cmd_keeps_but recalls_keeps by blast

end

lemma complete_stage_links: "preserves thread_inv (complete_workflow_stage w k ew es rs c)"
  unfolding complete_workflow_stage_def by (intro keeps)

lemma hoare_open_run:
  "(run_live r \<Longrightarrow> hoare P (f ()) Q) \<Longrightarrow> hoare P (seq (expect_workflow_run_open r) f) Q"
  unfolding expect_workflow_run_open_def
  by (rule hoare_guard) (simp add: run_live_def terminal_run_states_def workflow_fenced_run_states_def)

lemma hoare_option:
  "(x = None \<Longrightarrow> hoare P m Q) \<Longrightarrow> (\<And>y. x = Some y \<Longrightarrow> hoare P (f y) Q)
     \<Longrightarrow> hoare P (case x of None \<Rightarrow> m | Some y \<Rightarrow> f y) Q"
  by (cases x) simp_all

lemma create_workflow_decision_links: "preserves thread_inv (create_workflow_decision w k ew es kd p os)"
  unfolding create_workflow_decision_def
  apply (rule hoare_preserves)
  apply (rule hoare_skip, rule keeps, rule hoare_skip, rule keeps, rule hoare_skip, rule keeps, rule hoare_skip, rule keeps,
      rule hoare_skip, rule keeps, rule hoare_skip, rule keeps)
  apply (rule hoare_option)
   apply (rule hoare_expect, rule hoare_get_run, rule hoare_open_run, rule hoare_expect, rule hoare_guard)
   apply (rule hoare_skip, (intro keeps; fail))+
   apply (rule hoare_seq[OF hoare_live_run[where P = "\<lambda>_. True", simplified]])
     apply assumption
    apply (rule waiting_link)
   apply (intro hoare_rest keeps)+
  done

lemma complete_reconciliation_links: "preserves thread_inv (complete_workflow_effect_reconciliation i w c d z)"
  by (rule tinv.keeps_complete_reconciliation) (simp add: thread_inv_def links_inv_def)

lemma flow_cmd_links: "flow_cmd s s' \<Longrightarrow> thread_inv s \<Longrightarrow> thread_inv s'"
  by (erule flow_cmd.cases)
    (blast intro: preserves_leads tinv.keeps_activate_workflow_stage create_workflow_decision_links complete_stage_links
      tinv.keeps_create_workflow_effect tinv.keeps_claim_workflow_effect tinv.keeps_complete_workflow_effect
      tinv.keeps_mark_outcome_unknown reject_links settle_effect_links tinv.keeps_claim_effect_reconciliation
      complete_reconciliation_links tinv.keeps_supersede tinv.keeps_digests)+

end
