(* ===== verification/Control_Plane.thy ===== *)
theory Control_Plane
  imports Control_Bindings Control_Captures Control_Recovery Control_Gates Control_Observations Workflow_Stages
begin

text \<open>
  The control store as one state machine: \<open>control_cmd\<close> is a step of any command of any component, in any
  order and with any arguments, and \<open>reachable\<close> what such steps lead to from a fresh store. A command runs
  in one transaction (\<open>BEGIN IMMEDIATE\<close>), so commands do not overlap; a command that raises leaves the store
  as it was.

  What the components keep of each other's invariants comes from the locales: predicates about threads and
  runs, about the event log, about captures, about the gates and about the leased work are instances of the
  frames of \<open>Control_Threads\<close>, \<open>Control_Gates\<close> and \<open>capture_frame\<close> here.
\<close>

section \<open>What captures leave alone\<close>

locale capture_frame = bookkeeping +
  assumes I_captures: "I s \<Longrightarrow> I (captures_update f s)"
begin

lemma keeps_capture_statements [keeps]:
  "preserves I (sql_update captures captures_update P f)" "preserves I (sql_insert e captures captures_update k x)"
  by (rule preserves_sql_update preserves_sql_insert, erule I_captures)+

lemma keeps_capture_helpers [keeps]:
  "preserves I (capture_note n)" "preserves I (insert_capture p n k key)" "preserves I sweep_expired_captures"
  "preserves I (validate_capture_sources ids)" "preserves I (open_capture key)" "preserves I (known_capture_source p)"
  unfolding capture_note_def insert_capture_def sweep_expired_captures_def validate_capture_sources_def
    open_capture_def known_capture_source_def
  by (intro keeps)+

lemma capture_ops:
  "preserves I (create_capture p n a k)" "preserves I (stage_capture p n)" "preserves I (approve_capture i r a k)"
  "preserves I (dismiss_capture i r a k)" "preserves I (reopen_capture i r b a k)"
  "preserves I (list_pending_captures m)" "preserves I (claim_capture i w l a k)"
  "preserves I (complete_capture i w e out ids cat d a k)"
  unfolding create_capture_def stage_capture_def approve_capture_def dismiss_capture_def reopen_capture_def
    list_pending_captures_def claim_capture_def complete_capture_def Let_def
  by (intro keeps capture_outcome_keeps)+

lemma capture_cmd_keeps: "capture_cmd s s' \<Longrightarrow> I s \<Longrightarrow> I s'"
  by (erule capture_cmd.cases) (auto intro: capture_ops[THEN preserves_leads])

end

section \<open>Predicates about one table\<close>

text \<open>A predicate that says nothing about threads, runs and events at all, and about the leased work only what
  the contract of leases allows. A \<open>loose_frame\<close> need not survive that an effect is made pending again.\<close>

locale loose_frame = ingest_frame + workflow_frame +
  assumes I_event_rows: "I s \<Longrightarrow> I (run_events_update v0 s)"
    and I_thread_rows: "I s \<Longrightarrow> I (threads_update v1 s)"
    and I_run_rows: "I s \<Longrightarrow> I (runs_update v2 s)"
begin

lemma keeps_any_event: "preserves I (insert_event r a t p c)"
  unfolding insert_event_def Let_def
  by (intro keeps preserves_sql_insert preserves_sql_update; erule I_event_rows I_run_rows)

end

sublocale loose_frame \<subseteq> ingest_journal
  by unfold_locales (fact keeps_any_event | erule I_thread_rows I_run_rows)+

locale apart_frame = loose_frame +
  assumes I_recalled: "(distinct (map wx_id (effects s)) \<Longrightarrow> \<forall>x \<in> set (effects s). wx_id x = i \<longrightarrow> effect_step x (f x))
     \<Longrightarrow> I s \<Longrightarrow> I (effects_update (update_where (\<lambda>x. wx_id x = i) f) s)"

sublocale apart_frame \<subseteq> flow_frame
  by unfold_locales (rule I_recalled)

section \<open>The commands on runs\<close>

inductive run_cmd :: "store \<Rightarrow> store \<Rightarrow> bool" where
  create_workspace: "leads (create_workspace t a k) s s' \<Longrightarrow> run_cmd s s'"
| rename_workspace: "leads (rename_workspace w t e a k) s s' \<Longrightarrow> run_cmd s s'"
| create_thread: "leads (create_thread w t e a k) s s' \<Longrightarrow> run_cmd s s'"
| rename_thread: "leads (rename_thread i t e a k) s s' \<Longrightarrow> run_cmd s s'"
| archive_thread: "leads (archive_thread i e a k) s s' \<Longrightarrow> run_cmd s s'"
| unarchive_thread: "leads (unarchive_thread i e a k) s s' \<Longrightarrow> run_cmd s s'"
| append_message: "leads (append_message i r c e a k) s s' \<Longrightarrow> run_cmd s s'"
| create_run: "leads (create_run i e a k w') s s' \<Longrightarrow> run_cmd s s'"
| create_runtime_binding: "leads (create_runtime_binding i ad sr g v p a k) s s' \<Longrightarrow> run_cmd s s'"
| reserve_attempt_dispatch: "leads (reserve_attempt_dispatch r at wk l g sl d pr e ls a k) s s' \<Longrightarrow> run_cmd s s'"
| pin_attempt_runtime: "leads (pin_attempt_runtime r at b l e g wk a k) s s' \<Longrightarrow> run_cmd s s'"
| transition_run: "leads (transition_run r tg e a k st p' rf ev) s s' \<Longrightarrow> run_cmd s s'"
| append_runtime_message: "leads (append_runtime_message r at b l g' c e a k ev) s s' \<Longrightarrow> run_cmd s s'"
| record_runtime_observation: "leads (record_runtime_observation ps r at b l g' et p' e a k ev) s s' \<Longrightarrow> run_cmd s s'"
| commit_checkpoint: "leads (commit_checkpoint nfc r at b l u e a k g' ev) s s' \<Longrightarrow> run_cmd s s'"
| fail_unbound_run: "leads (fail_unbound_run r at e c w2 rb a k) s s' \<Longrightarrow> run_cmd s s'"
| resume_run: "leads (resume_run r e a k) s s' \<Longrightarrow> run_cmd s s'"
| retry_run: "leads (retry_run r e a k re) s s' \<Longrightarrow> run_cmd s s'"
| create_decision: "leads (create_decision r at b l e kd pm os a k g' ev dr dv) s s' \<Longrightarrow> run_cmd s s'"
| resolve_decision: "leads (resolve_decision i c e a k) s s' \<Longrightarrow> run_cmd s s'"
| claim_runtime_action: "leads (claim_runtime_action i wk ls a k) s s' \<Longrightarrow> run_cmd s s'"
| acknowledge_runtime_action: "leads (acknowledge_runtime_action i r at b l e a k g' ow ep) s s' \<Longrightarrow> run_cmd s s'"
| fail_runtime_action: "leads (fail_runtime_action i wk ep e ct a k) s s' \<Longrightarrow> run_cmd s s'"
| reject_runtime_action: "leads (reject_runtime_action i wk ep e ct a k) s s' \<Longrightarrow> run_cmd s s'"
| mark_outcome_unknown: "leads (mark_runtime_action_outcome_unknown i wk ep e ct a k) s s' \<Longrightarrow> run_cmd s s'"
| claim_reconciliation: "leads (claim_runtime_action_reconciliation i wk ls a k) s s' \<Longrightarrow> run_cmd s s'"
| defer_reconciliation: "leads (defer_runtime_action_reconciliation i wk ep e ct a k) s s' \<Longrightarrow> run_cmd s s'"
| retry_delivery: "leads (retry_runtime_action_delivery i wk ep e a k) s s' \<Longrightarrow> run_cmd s s'"
| claim_pin_release: "leads (claim_pin_release i wk ls a k) s s' \<Longrightarrow> run_cmd s s'"
| acknowledge_pin_release: "leads (acknowledge_pin_release i wk ep e a k) s s' \<Longrightarrow> run_cmd s s'"
| fail_pin_release: "leads (fail_pin_release i wk ep e ct a k) s s' \<Longrightarrow> run_cmd s s'"
| retry_pin_release: "leads (retry_pin_release i e a k) s s' \<Longrightarrow> run_cmd s s'"
| schedule_runtime_recovery: "leads (schedule_runtime_recovery r at e a k) s s' \<Longrightarrow> run_cmd s s'"
| claim_runtime_recovery: "leads (claim_runtime_recovery i wk ls a k) s s' \<Longrightarrow> run_cmd s s'"
| record_recovery_outcome: "leads (record_runtime_recovery_outcome i wk ep oc e d' a k) s s' \<Longrightarrow> run_cmd s s'"
| bind_transport: "leads (bind_transport dg tn sc i a k) s s' \<Longrightarrow> run_cmd s s'"
| record_transport_command: "leads (record_transport_command tn ck h rsp) s s' \<Longrightarrow> run_cmd s s'"
| on_workflows: "flow_cmd s s' \<Longrightarrow> run_cmd s s'"

context ingest_journal
begin

lemmas run_ops = keeps_thread_commands keeps_create_run keeps_create_runtime_binding keeps_run_commands keeps_ingest_commands
  keeps_create_decision keeps_resolve_decision keeps_action_claims keeps_action_commands keeps_pin_recovery_claims
  keeps_pin_settlements keeps_recovery_commands keeps_observations
  keeps_bind_transport keeps_record_transport_command

lemma run_cmd_keeps_but: "run_cmd s s' \<Longrightarrow> I s \<Longrightarrow> I s' \<or> (\<exists>i. recalls i s s')"
  by (erule run_cmd.cases) (blast intro: preserves_leads run_ops dest: flow_cmd_keeps_but)+

end

context flow_frame
begin

lemma run_cmd_keeps: "run_cmd s s' \<Longrightarrow> I s \<Longrightarrow> I s'"
  using run_cmd_keeps_but recalls_keeps by blast

end

lemmas link_ops = tinv.keeps_thread_edits create_thread_links create_run_links tinv.keeps_create_runtime_binding
  tinv.keeps_reserve_attempt_dispatch tinv.keeps_pin_attempt_runtime transition_run_links
  append_runtime_message_links fail_unbound_run_links resume_run_links retry_run_links create_decision_links
  resolve_decision_links tinv.keeps_action_claims acknowledge_links settle_links tinv.keeps_pin_recovery_claims
  tinv.keeps_pin_settlements tinv.keeps_recovery_commands commit_checkpoint_links record_runtime_observation_links
  tinv.keeps_bind_transport tinv.keeps_record_transport_command

lemma run_cmd_links: "run_cmd s s' \<Longrightarrow> thread_inv s \<Longrightarrow> thread_inv s'"
  by (erule run_cmd.cases) (blast intro: preserves_leads link_ops flow_cmd_links)+

section \<open>All commands\<close>

inductive control_cmd :: "store \<Rightarrow> store \<Rightarrow> bool" where
  on_runs: "run_cmd s s' \<Longrightarrow> control_cmd s s'"
| on_captures: "capture_cmd s s' \<Longrightarrow> control_cmd s s'"
| on_gates: "gate_cmd s s' \<Longrightarrow> control_cmd s s'"
| reading: "control_cmd s (s\<lparr>st_ticks := st_ticks s + n\<rparr>)"

definition reachable :: "store \<Rightarrow> bool" where
  "reachable s \<longleftrightarrow> (\<exists>clk ids sha ok. control_cmd\<^sup>*\<^sup>* (empty_store clk ids sha ok) s)"

lemma reachable_induct [consumes 1, case_names start step]:
  assumes "reachable s" and "\<And>clk ids sha ok. P (empty_store clk ids sha ok)"
    and "\<And>s s'. reachable s \<Longrightarrow> P s \<Longrightarrow> control_cmd s s' \<Longrightarrow> P s'"
  shows "P s"
proof -
  obtain clk ids sha ok where "control_cmd\<^sup>*\<^sup>* (empty_store clk ids sha ok) s" using assms(1) by (auto simp: reachable_def)
  then show ?thesis
  proof (induction rule: rtranclp_induct)
    case (step s1 s2)
    then have "reachable s1" by (auto simp: reachable_def)
    with step assms(3) show ?case by blast
  qed (rule assms(2))
qed

lemma reachable_step: "reachable s \<Longrightarrow> control_cmd s s' \<Longrightarrow> reachable s'"
  unfolding reachable_def by (meson rtranclp.rtrancl_into_rtrancl)

lemma reachable_steps: "control_cmd\<^sup>*\<^sup>* s s' \<Longrightarrow> reachable s \<Longrightarrow> reachable s'"
  by (induction rule: rtranclp_induct) (auto intro: reachable_step)

text \<open>The interpretations: what each predicate has to ignore.\<close>

interpretation tinv_cap: capture_frame thread_inv
  by unfold_locales (simp add: thread_inv_def links_inv_def)

interpretation tinv_gate: gate_frame thread_inv
  by unfold_locales (simp_all add: thread_inv_def links_inv_def)

interpretation log_cap: capture_frame events_inv
  by unfold_locales (simp add: events_inv_def events_of_def)

interpretation log_gate: gate_frame events_inv
  by unfold_locales (simp_all add: events_inv_def events_of_def)

interpretation capinv: apart_frame capture_inv
  by unfold_locales (simp_all add: capture_inv_def)

interpretation capinv_gate: gate_frame capture_inv
  by unfold_locales (simp_all add: capture_inv_def)

interpretation capevo: apart_frame "captures_evolved old" for old
  by unfold_locales simp_all

interpretation capevo_gate: gate_frame "captures_evolved old" for old
  by unfold_locales simp_all

interpretation gatesinv: apart_frame gates_inv
  by unfold_locales (simp_all add: gates_inv_def)

interpretation gatesinv_cap: capture_frame gates_inv
  by unfold_locales (simp_all add: gates_inv_def)

lemma control_links: "control_cmd s s' \<Longrightarrow> thread_inv s \<Longrightarrow> thread_inv s'"
  by (erule control_cmd.cases)
    (auto intro: run_cmd_links tinv_cap.capture_cmd_keeps tinv_gate.gate_cmd_keeps tinv.I_ticks)

interpretation journal_flow: flow_frame events_inv
  by unfold_locales (simp add: events_inv_def events_of_def)

lemma control_log: "control_cmd s s' \<Longrightarrow> events_inv s \<Longrightarrow> events_inv s'"
  by (erule control_cmd.cases)
    (auto intro: journal_flow.run_cmd_keeps log_cap.capture_cmd_keeps log_gate.gate_cmd_keeps journal.I_ticks)

lemma control_captures: "control_cmd s s' \<Longrightarrow> capture_inv s \<Longrightarrow> capture_inv s'"
  by (erule control_cmd.cases)
    (auto intro: capinv.run_cmd_keeps capture_cmd_inv capinv_gate.gate_cmd_keeps cap.I_ticks)

lemma control_gates: "control_cmd s s' \<Longrightarrow> gates_inv s \<Longrightarrow> gates_inv s'"
  by (erule control_cmd.cases)
    (auto intro: gatesinv.run_cmd_keeps gatesinv_cap.capture_cmd_keeps gates.gate_cmd_keeps gates.I_ticks)

lemma reachable_inv: "reachable s \<Longrightarrow> thread_inv s \<and> events_inv s \<and> capture_inv s \<and> gates_inv s"
proof (induction rule: reachable_induct)
  case (start clk ids sha ok)
  show ?case
    by (simp add: empty_store_def thread_inv_def links_inv_def links_ok_def events_inv_def capture_inv_def gates_inv_def)
next
  case (step s s')
  then show ?case using control_links control_log control_captures control_gates by blast
qed

section \<open>How the rows of work evolve\<close>

locale loose_plane = loose_frame + capture_frame + gate_frame
begin

lemma control_cmd_keeps_but: "control_cmd s s' \<Longrightarrow> I s \<Longrightarrow> I s' \<or> (\<exists>i. recalls i s s')"
  by (erule control_cmd.cases) (auto intro: capture_cmd_keeps gate_cmd_keeps I_ticks dest: run_cmd_keeps_but)

end

text \<open>A predicate about the leased work alone.\<close>

locale plane_frame = apart_frame + capture_frame + gate_frame
begin

lemma control_cmd_keeps: "control_cmd s s' \<Longrightarrow> I s \<Longrightarrow> I s'"
  by (erule control_cmd.cases) (auto intro: run_cmd_keeps capture_cmd_keeps gate_cmd_keeps I_ticks)

lemma control_cmds_keep: "control_cmd\<^sup>*\<^sup>* s s' \<Longrightarrow> I s \<Longrightarrow> I s'"
  by (induction rule: rtranclp_induct) (auto intro: control_cmd_keeps)

lemma reachable_keeps: "reachable s \<Longrightarrow> (\<And>clk ids sha ok. I (empty_store clk ids sha ok)) \<Longrightarrow> I s"
  unfolding reachable_def using control_cmds_keep by blast

end

interpretation acts_plane: plane_frame "acts.evolved old" for old
  by unfold_locales
    ((rule acts.evolved_update; blast) | (erule (1) acts.evolved_insert) | simp add: acts.evolved_def)+

lemma actions_evolve: "reachable s \<Longrightarrow> control_cmd\<^sup>*\<^sup>* s s' \<Longrightarrow> acts.evolved (runtime_actions s) s'"
  by (rule acts_plane.control_cmds_keep[rotated, OF acts.evolved_refl[OF acts.evolved_distinct[OF acts_plane.reachable_keeps]]])
    (simp_all add: acts.evolved_def empty_store_def rows_evolve_def)

interpretation pins_plane: plane_frame "pins.evolved old" for old
  by unfold_locales
    ((rule pins.evolved_update; blast) | (erule (1) pins.evolved_insert) | simp add: pins.evolved_def)+

lemma pins_evolve: "reachable s \<Longrightarrow> control_cmd\<^sup>*\<^sup>* s s' \<Longrightarrow> pins.evolved (runtime_pin_releases s) s'"
  by (rule pins_plane.control_cmds_keep[rotated, OF pins.evolved_refl[OF pins.evolved_distinct[OF pins_plane.reachable_keeps]]])
    (simp_all add: pins.evolved_def empty_store_def rows_evolve_def)

interpretation recs_plane: plane_frame "recs.evolved old" for old
  by unfold_locales
    ((rule recs.evolved_update; blast) | (erule (1) recs.evolved_insert) | simp add: recs.evolved_def)+

lemma recoverys_evolve: "reachable s \<Longrightarrow> control_cmd\<^sup>*\<^sup>* s s' \<Longrightarrow> recs.evolved (runtime_recovery_commands s) s'"
  by (rule recs_plane.control_cmds_keep[rotated, OF recs.evolved_refl[OF recs.evolved_distinct[OF recs_plane.reachable_keeps]]])
    (simp_all add: recs.evolved_def empty_store_def rows_evolve_def)

interpretation decs_plane: plane_frame "decs.evolved old" for old
  by unfold_locales
    ((rule decs.evolved_update; blast) | (erule (1) decs.evolved_insert) | simp add: decs.evolved_def)+

lemma decisions_evolve: "reachable s \<Longrightarrow> control_cmd\<^sup>*\<^sup>* s s' \<Longrightarrow> decs.evolved (decisions s) s'"
  by (rule decs_plane.control_cmds_keep[rotated, OF decs.evolved_refl[OF decs.evolved_distinct[OF decs_plane.reachable_keeps]]])
    (simp_all add: decs.evolved_def empty_store_def rows_evolve_def)

end
