(* ===== verification/Control_Safety.thy ===== *)
theory Control_Safety
  imports Control_Plane
begin

text \<open>
  What holds of every store that commands can reach: one live run for each thread, a gapless event log,
  leases that cannot be used once they were overtaken, and settled work that stays as it is.

  The examples run a script of commands from a fresh store (\<open>demo_run\<close>, \<open>demo_action\<close>): a workspace, a
  thread and a run; then a binding to a runtime, a pause request and a worker that claims it.
\<close>

section \<open>Scripts\<close>

fun script :: "command_result op list \<Rightarrow> unit op" where
  "script [] = ret ()"
| "script (m # ms) = seq m (\<lambda>_. script ms)"

lemma script_runs:
  assumes "leads (script ms) s s'" and "list_all (\<lambda>m. \<forall>s s'. leads m s s' \<longrightarrow> run_cmd s s') ms"
  shows "control_cmd\<^sup>*\<^sup>* s s'"
  using assms
proof (induction ms arbitrary: s)
  case (Cons m ms)
  then obtain s1 where "leads m s s1" "leads (script ms) s1 s'" by (auto simp: leads_def seq_Inr)
  with Cons have "control_cmd s s1" "control_cmd\<^sup>*\<^sup>* s1 s'" by (auto intro: on_runs)
  then show ?case by (rule converse_rtranclp_into_rtranclp)
qed (simp add: leads_def ret_def)

lemma reachable_demo_store: "reachable demo_store"
  unfolding reachable_def demo_store_def by blast

lemma reachable_script:
  assumes "succeeds (script ms) demo_store" and "list_all (\<lambda>m. \<forall>s s'. leads m s s' \<longrightarrow> run_cmd s s') ms"
  shows "reachable (state_after (script ms) demo_store)"
  using reachable_steps[OF script_runs[OF leads_after[OF assms(1)] assms(2)] reachable_demo_store] .

definition demo_start :: "command_result op list" where
  "demo_start = [create_workspace ''w'' ''op'' demo_key, create_thread ''ws_'' ''t'' 0 ''op'' demo_key,
     create_run ''thread_00'' 0 ''op'' demo_key None]"

definition no_event :: event_ref where
  "no_event = \<lparr>er_adapter_event_id = None, er_adapter_event_sequence = None,
     er_caused_by_adapter_operation_id = None, er_caused_by_delivery_epoch = None\<rparr>"

definition no_ref :: runtime_ref where
  "no_ref = \<lparr>rf_attempt_id = None, rf_runtime_binding_id = None, rf_runtime_release_id = None,
     rf_state_generation_id = None\<rparr>"

definition demo_ref :: runtime_ref where
  "demo_ref = exact_ref ''attempt_00000'' ''runtime_binding_0000000'' ''rel'' (Some ''gen'')"

definition demo_pausing :: "command_result op list" where
  "demo_pausing = demo_start @ [create_runtime_binding ''thread_00'' ''ad'' ''ses'' 0 ''v1'' None ''op'' demo_key,
     reserve_attempt_dispatch ''run_0000'' ''attempt_00000'' ''wk'' ''rel'' ''gen'' ''slot'' ''dig'' ''pr'' 0 60 ''op'' demo_key,
     pin_attempt_runtime ''run_0000'' ''attempt_00000'' ''runtime_binding_0000000'' ''rel'' 1 (Some ''gen'')
       (Some ''wk'') ''op'' demo_key,
     transition_run ''run_0000'' R_starting 2 ''op'' demo_key None [] demo_ref no_event,
     transition_run ''run_0000'' R_running 3 ''op'' demo_key None [] demo_ref no_event,
     transition_run ''run_0000'' R_pause_requested 4 ''op'' demo_key None [] no_ref no_event]"

definition demo_action_id :: string where
  "demo_action_id = ''runtime_action_000000000000''"

definition demo_claim :: "command_result op" where
  "demo_claim = claim_runtime_action demo_action_id ''wk'' 60 ''op'' demo_key"

definition demo_run :: store where
  "demo_run = state_after (script demo_start) demo_store"

definition demo_unsure :: store where
  "demo_unsure = state_after (script (demo_pausing @ [demo_claim,
     mark_runtime_action_outcome_unknown demo_action_id ''wk'' 1 5 ''timeout'' ''op'' demo_key])) demo_store"

lemma demo_commands:
  "list_all (\<lambda>m. \<forall>s s'. leads m s s' \<longrightarrow> run_cmd s s') (demo_pausing @ [demo_claim,
     mark_runtime_action_outcome_unknown demo_action_id ''wk'' 1 5 ''timeout'' ''op'' demo_key])"
  by (auto simp: demo_pausing_def demo_start_def demo_claim_def intro: run_cmd.intros)

lemma reachable_demo_run: "reachable demo_run"
  unfolding demo_run_def
proof (rule reachable_script)
  show "succeeds (script demo_start) demo_store" by code_simp
qed (use demo_commands in \<open>simp add: demo_pausing_def\<close>)

lemma reachable_demo_unsure: "reachable demo_unsure"
  unfolding demo_unsure_def by (rule reachable_script[OF _ demo_commands]) code_simp

section \<open>Threads and their runs\<close>

lemma thread_inv_iff:
  assumes "thread_inv s" and "t \<in> set (threads s)" and "r \<in> set (runs s)" and "rn_thread_id r = th_id t"
  shows "th_active_run_id t = Some (rn_id r) \<longleftrightarrow> run_live r"
proof -
  have ok: "links_ok [] [] (map thread_link (threads s)) (map run_link (runs s))"
    using assms(1) by (simp add: thread_inv_def links_inv_def)
  have t: "(th_id t, th_active_run_id t) \<in> set (map thread_link (threads s))"
    and r: "(rn_id r, th_id t, run_live r) \<in> set (map run_link (runs s))"
    using assms(2-4) by (force simp: thread_link_def run_link_def)+
  show ?thesis
  proof
    assume "th_active_run_id t = Some (rn_id r)"
    with t have "(rn_id r, th_id t, True) \<in> set (map run_link (runs s))" using links_okD(4)[OF ok] by fastforce
    with r show "run_live r" using eq_key_imp_eq_value[OF links_okD(2)[OF ok]] by fastforce
  next
    assume "run_live r"
    with r have "(th_id t, Some (rn_id r)) \<in> set (map thread_link (threads s))" using links_okD(3)[OF ok] by fastforce
    with t show "th_active_run_id t = Some (rn_id r)" using eq_key_imp_eq_value[OF links_okD(1)[OF ok]] by fastforce
  qed
qed

lemma thread_inv_one_active:
  assumes "thread_inv s"
  shows "one_active_per_thread (runs s)"
proof -
  have ok: "links_ok [] [] (map thread_link (threads s)) (map run_link (runs s))"
    using assms by (simp add: thread_inv_def links_inv_def)
  have "rn_id r = rn_id q" if "r \<in> set (runs s)" "q \<in> set (runs s)" "run_live r" "run_live q"
      "rn_thread_id r = rn_thread_id q" for r q
  proof -
    have "(rn_id x, rn_thread_id x, True) \<in> set (map run_link (runs s))" if "x \<in> set (runs s)" "run_live x" for x
      using that by (force simp: run_link_def)
    with that have "(rn_thread_id q, Some (rn_id r)) \<in> set (map thread_link (threads s))"
      "(rn_thread_id q, Some (rn_id q)) \<in> set (map thread_link (threads s))"
      using links_okD(3)[OF ok] by fastforce+
    then show ?thesis using eq_key_imp_eq_value[OF links_okD(1)[OF ok]] by fastforce
  qed
  then have "inj_on rn_thread_id (set (filter run_live (runs s)))"
    using map_key_unique[OF thread_inv_distinct(1)[OF assms]] by (auto intro!: inj_onI)
  moreover have "distinct (runs s)" using thread_inv_distinct(1)[OF assms] by (simp add: distinct_map)
  ultimately show ?thesis by (simp add: one_active_per_thread_def distinct_map)
qed

text \<open>C1. One live run for each thread. Whatever commands are executed, a thread names a run as its active run
  exactly when that run belongs to it and has not ended, and no thread has two runs that have not ended: the
  unique index on the runs of a thread is never what refuses a command.\<close>

theorem one_live_run:
  assumes "reachable s"
  shows "one_active_per_thread (runs s)
    \<and> (\<forall>t \<in> set (threads s). \<forall>r \<in> set (runs s). rn_thread_id r = th_id t \<longrightarrow>
         (th_active_run_id t = Some (rn_id r) \<longleftrightarrow> run_live r))
    \<and> (\<forall>t \<in> set (threads s). \<forall>i. th_active_run_id t = Some i \<longrightarrow>
         (\<exists>r \<in> set (runs s). rn_id r = i \<and> rn_thread_id r = th_id t \<and> run_live r))"
proof (intro conjI ballI impI allI)
  have inv: "thread_inv s" using reachable_inv[OF assms] by blast
  then show "one_active_per_thread (runs s)" by (rule thread_inv_one_active)
  fix t assume t: "t \<in> set (threads s)"
  {
    fix r assume "r \<in> set (runs s)" "rn_thread_id r = th_id t"
    with thread_inv_iff[OF inv t] show "th_active_run_id t = Some (rn_id r) \<longleftrightarrow> run_live r" .
  next
    fix i assume "th_active_run_id t = Some i"
    with t have "(th_id t, Some i) \<in> set (map thread_link (threads s))" by (force simp: thread_link_def)
    with inv have "(i, th_id t, True) \<in> set (map run_link (runs s))"
      unfolding thread_inv_def links_inv_def by (auto dest: links_okD(4) simp del: set_map)
    then show "\<exists>r \<in> set (runs s). rn_id r = i \<and> rn_thread_id r = th_id t \<and> run_live r"
      by (auto simp: run_link_def)
  }
qed

theorem one_live_run_witness:
  "map th_active_run_id (threads demo_run) = [Some ''run_0000''] \<and> one_active_per_thread (runs demo_run)"
proof -
  have "map th_active_run_id (threads demo_run) = [Some ''run_0000'']" by code_simp
  with one_live_run[OF reachable_demo_run] show ?thesis by blast
qed

text \<open>C2. The event log has no gaps. In every reachable store the events of a run are numbered 1, 2, 3 and so on
  in the order they were recorded, the run carries the number of its last event, and no event belongs to a
  run that does not exist; so a reader that remembers the last number it saw misses nothing.\<close>

theorem event_log_gapless:
  assumes "reachable s"
  shows "(\<forall>r \<in> set (runs s). map ev_sequence (events_of (rn_id r) s) = [1..rn_latest_sequence r])
    \<and> (\<forall>e \<in> set (run_events s). \<exists>r \<in> set (runs s). ev_run_id e = rn_id r)"
  using reachable_inv[OF assms] by (auto simp: events_inv_def)

theorem event_log_gapless_witness:
  "map ev_sequence (events_of ''run_0000'' demo_unsure) = [1..7]"
proof -
  have "map (\<lambda>r. (rn_id r, rn_latest_sequence r)) (runs demo_unsure) = [(''run_0000'', 7)]" by code_simp
  then obtain r where "r \<in> set (runs demo_unsure)" "rn_id r = ''run_0000''" "rn_latest_sequence r = 7"
    by (auto simp: map_eq_Cons_conv)
  then show ?thesis using conjunct1[OF event_log_gapless[OF reachable_demo_unsure]] by metis
qed

end
