(* ===== verification/Control_History.thy ===== *)
theory Control_History
  imports Control_Safety "HOL-Library.Sublist"
begin

text \<open>
  What the store never forgets. The audit trail, the event log, the messages, the inbox of runtime events and
  the tables of gate decisions are append-only; the receipts of commands stay (only a release decision
  replaces its own), so a command that committed is answered from its receipt however much later it is
  repeated (\<open>once\<close>; \<open>once_while\<close> for commands that hand out a lease, \<open>repeats\<close> for decisions about gates); the
  revision of a run never falls, so a request made with a revision that was overtaken is refused for ever; and a
  window of a transport that a restart aborted does not authorize again.
\<close>

section \<open>Append-only tables\<close>

definition extends :: "store \<Rightarrow> store \<Rightarrow> bool" where
  "extends old s \<longleftrightarrow> prefix (control_audit old) (control_audit s) \<and> prefix (run_events old) (run_events s)
     \<and> prefix (messages old) (messages s) \<and> prefix (runtime_event_inbox old) (runtime_event_inbox s)
     \<and> prefix (runtime_release_approvals old) (runtime_release_approvals s)
     \<and> prefix (runtime_activation_decisions old) (runtime_activation_decisions s)
     \<and> prefix (transport_activation_decisions old) (transport_activation_decisions s)"

lemma extends_event: "preserves (extends old) (insert_event r a t p c)"
  by (rule preservesI) (auto simp: insert_event_def get_run_def wp_rules Let_def extends_def)

interpretation hist: flow_frame "extends old" for old
  by unfold_locales (rule extends_event | simp add: extends_def)+

interpretation hist_cap: capture_frame "extends old" for old
  by unfold_locales (simp add: extends_def)

interpretation hist_gate: gate_frame "extends old" for old
  by unfold_locales (simp_all add: extends_def)

lemma control_extends: "control_cmd s s' \<Longrightarrow> extends old s \<Longrightarrow> extends old s'"
  by (erule control_cmd.cases)
    (auto intro: hist.run_cmd_keeps hist_cap.capture_cmd_keeps hist_gate.gate_cmd_keeps hist.I_ticks)

lemma controls_extend: "control_cmd\<^sup>*\<^sup>* s s' \<Longrightarrow> extends s s'"
  by (induction rule: rtranclp_induct) (auto intro: control_extends simp: extends_def[of s s])

section \<open>Receipts\<close>

text \<open>An operation whose receipts no command replaces.\<close>

definition lasting :: "string \<Rightarrow> bool" where
  "lasting operation \<longleftrightarrow> take 25 operation \<noteq> ''INTERNAL:runtime-release/''"

definition remembers :: "receipt \<Rightarrow> (json \<Rightarrow> string) \<Rightarrow> (string \<Rightarrow> bool) \<Rightarrow> store \<Rightarrow> bool" where
  "remembers x sha ok s \<longleftrightarrow> lasting (rt_operation x) \<and> st_sha256_json s = sha \<and> st_netloc_ok s = ok
     \<and> find_row receipt_key (receipt_key x) (idempotency_receipts s) = Some x"

lemma find_row_filter:
  "(\<And>r. key r = k \<Longrightarrow> P r) \<Longrightarrow> find_row key k (filter P rows) = find_row key k rows"
  by (induction rows) auto

interpretation mem: plane_frame "remembers x sha ok" for x sha ok
proof unfold_locales
  fix s a d k
  assume "remembers x sha ok s"
  moreover from this have "receipt_key r = receipt_key x \<Longrightarrow> receipt_key r \<noteq> (a, ''INTERNAL:runtime-release/'' @ d, k)" for r
    by (auto simp: remembers_def lasting_def receipt_key_def)
  ultimately show "remembers x sha ok (idempotency_receipts_update
      (filter (\<lambda>r. receipt_key r \<noteq> (a, ''INTERNAL:runtime-release/'' @ d, k))) s)"
    by (simp add: remembers_def find_row_filter)
qed (auto simp: remembers_def find_row_append)

text \<open>The stores that come later, as far as a command that repeats can tell.\<close>

definition later :: "store \<Rightarrow> store \<Rightarrow> bool" where
  "later s t \<longleftrightarrow> st_sha256_json t = st_sha256_json s \<and> st_netloc_ok t = st_netloc_ok s
     \<and> (\<forall>x. lasting (rt_operation x) \<and> find_row receipt_key (receipt_key x) (idempotency_receipts s) = Some x
          \<longrightarrow> find_row receipt_key (receipt_key x) (idempotency_receipts t) = Some x)"

interpretation env: plane_frame "\<lambda>s. st_sha256_json s = sha \<and> st_netloc_ok s = ok" for sha ok
  by unfold_locales simp_all

lemma laterI:
  assumes "st_sha256_json t = st_sha256_json s \<and> st_netloc_ok t = st_netloc_ok s"
    and "\<And>x. remembers x (st_sha256_json s) (st_netloc_ok s) s \<Longrightarrow> remembers x (st_sha256_json s) (st_netloc_ok s) t"
  shows "later s t"
  using assms unfolding later_def remembers_def by blast

lemma later_trans: "later s t \<Longrightarrow> later t u \<Longrightarrow> later s u"
  by (simp add: later_def)

lemma control_later: "control_cmd\<^sup>*\<^sup>* s t \<Longrightarrow> later s t"
  by (rule laterI) (erule env.control_cmds_keep, simp, erule (1) mem.control_cmds_keep)

lemma save_event_later: "save_runtime_event i e q req res s = Inr ((), s') \<Longrightarrow> later s s'"
  by (rule laterI) (rule preserves_Inr[OF env.keeps_save_runtime_event]
      preserves_Inr[OF mem.keeps_save_runtime_event]; simp)+

section \<open>Commands that commit once\<close>

text \<open>A check of the arguments: its outcome depends on nothing that changes, and it changes nothing.\<close>

definition same_env :: "store \<Rightarrow> store \<Rightarrow> bool" where
  "same_env s t \<longleftrightarrow> st_sha256_json t = st_sha256_json s \<and> st_netloc_ok t = st_netloc_ok s"

definition steady :: "'a op \<Rightarrow> bool" where
  "steady p \<longleftrightarrow> (\<forall>s t x s'. same_env s t \<longrightarrow> p s = Inr (x, s') \<longrightarrow> s' = s \<and> p t = Inr (x, t))"

named_theorems steadily

lemma steady_basic [steadily]:
  "steady (ret x)" "steady (raise e)" "steady (guard b e)" "steady (required_text v n m)"
  "steady (required_text_opt ov n m)"
  by (auto simp: steady_def cmd_defs required_text_def required_text_opt_def split: option.splits if_splits)

lemma steady_seq [steadily]: "steady p \<Longrightarrow> (\<And>x. steady (f x)) \<Longrightarrow> steady (seq p f)"
  unfolding steady_def seq_Inr by blast

lemma steady_gets [steadily]: "(\<And>s t. same_env s t \<Longrightarrow> f t = f s) \<Longrightarrow> steady (gets f)"
  by (auto simp: steady_def gets_def)

lemma steady_cases [steadily]:
  "steady p \<Longrightarrow> steady q \<Longrightarrow> steady (if b then p else q)"
  "steady p \<Longrightarrow> (\<And>x. steady (f x)) \<Longrightarrow> steady (case ov of None \<Rightarrow> p | Some x \<Rightarrow> f x)"
  "(\<And>x y. steady (g x y)) \<Longrightarrow> steady (case u of (x, y) \<Rightarrow> g x y)"
  by (auto split: option.split prod.split)

lemma steady_for_each [steadily]: "(\<And>x. steady (f x)) \<Longrightarrow> steady (for_each f xs)"
  by (induction xs) (auto intro!: steadily)

lemma steady_json [steadily]:
  assumes "steady p" "\<And>x. steady (f1 x)" "\<And>x. steady (f2 x)" "\<And>x. steady (f3 x)" "\<And>x. steady (f4 x)"
    "\<And>x. steady (f5 x)" "\<And>x. steady (f6 x)"
  shows "steady (case j of JNull \<Rightarrow> p | JBool x \<Rightarrow> f1 x | JInt x \<Rightarrow> f2 x | JStr x \<Rightarrow> f3 x | JTime x \<Rightarrow> f4 x
    | JArr x \<Rightarrow> f5 x | JObj x \<Rightarrow> f6 x)"
  using assms by (simp split: json.split)

lemma steady_texts [steadily]:
  "steady (required_text_json v n m)" "steady (capture_note n')" "steady (positive_epoch e)"
  unfolding required_text_json_def capture_note_def positive_epoch_def by (intro steadily)+

lemma steady_public_text [steadily]: "steady (public_decision_text v n m)" "steady (clean_field ps f d)"
  unfolding public_decision_text_def clean_field_def by (intro steadily)+

lemma steady_optional_field [steadily]: "steady (optional_field d f n m)"
  unfolding optional_field_def by (intro steadily)

lemma steady_capture_args [steadily]:
  "steady (capture_source_ids ids)" "steady (capture_detail dt)" "steady (validate_decision_option seen j)"
  unfolding capture_source_ids_def capture_detail_def validate_decision_option_def by (intro steadily)+

lemma steady_capture_outcome [steadily]: "steady (capture_outcome oc ids cat)"
  unfolding capture_outcome_def by (intro steadily)

lemma steady_options [steadily]: "steady (validate_decision_option_list seen js)" "steady (validate_decision_options js)"
proof -
  show "steady (validate_decision_option_list seen js)" for seen
    by (induction js arbitrary: seen) (simp_all only: validate_decision_option_list.simps, (intro steadily; blast)+)
  then show "steady (validate_decision_options js)" unfolding validate_decision_options_def by (intro steadily)
qed

lemma steady_details [steadily]: "steady (validate_recovery_details d)"
  unfolding validate_recovery_details_def by (intro steadily)

lemma steady_checkpoint_root [steadily]:
  "steady (case parse_resource_uri nfc uri of Inl msg \<Rightarrow> raise (ValueError msg) | Inr (root, ss) \<Rightarrow> guard (P root) e)"
  by (auto intro!: steadily split: sum.split prod.split)

text \<open>A command whose first answer is its answer in every later store.\<close>

definition once :: "command_result op \<Rightarrow> bool" where
  "once m \<longleftrightarrow> (\<forall>s r s' t. m s = Inr (r, s') \<longrightarrow> \<not> cr_replayed r \<longrightarrow> same_env s s' \<longrightarrow> later s' t
     \<longrightarrow> m t = Inr (r\<lparr>cr_replayed := True\<rparr>, t))"

lemma onceI:
  assumes "\<And>s r s' t. m s = Inr (r, s') \<Longrightarrow> \<not> cr_replayed r \<Longrightarrow> same_env s s' \<Longrightarrow> later s' t
     \<Longrightarrow> m t = Inr (r\<lparr>cr_replayed := True\<rparr>, t)"
  shows "once m"
  using assms unfolding once_def by blast

lemma once_seq [steadily]: "steady p \<Longrightarrow> (\<And>x. once (f x)) \<Longrightarrow> once (seq p f)"
proof (rule onceI)
  fix s r s' t
  assume p: "steady p" and f: "\<And>x. once (f x)" and run: "seq p f s = Inr (r, s')" "\<not> cr_replayed r"
    and env: "same_env s s'" "later s' t"
  from run(1) obtain x s1 where "p s = Inr (x, s1)" and fx: "f x s1 = Inr (r, s')" unfolding seq_Inr by blast
  moreover have "same_env s t" using env by (auto simp: same_env_def later_def)
  ultimately have "s1 = s" "p t = Inr (x, t)" using p unfolding steady_def by blast+
  moreover have "f x t = Inr (r\<lparr>cr_replayed := True\<rparr>, t)" using f fx \<open>s1 = s\<close> run(2) env unfolding once_def by blast
  ultimately show "seq p f t = Inr (r\<lparr>cr_replayed := True\<rparr>, t)" unfolding seq_Inr by blast
qed

lemma once_prod [steadily]: "(\<And>x y. once (g x y)) \<Longrightarrow> once (case u of (x, y) \<Rightarrow> g x y)"
  by (simp split: prod.split)

lemma receipt_found:
  assumes saved: "save_receipt a p k req v st s = Inr (r, s')" and "later s' t" and "lasting p" and "valid_key k"
  shows "find_receipt a p k req t = Inr (Some (r\<lparr>cr_replayed := True\<rparr>), t)"
proof -
  from save_receipt_find[OF saved] assms(2,3) obtain x where
    "find_row receipt_key (a, p, k) (idempotency_receipts t) = Some x" "rt_request_hash x = request_hash req t"
    and "rt_response x = v" "rt_status_code x = st" "r = \<lparr>cr_value = v, cr_status_code = st, cr_replayed = False\<rparr>"
    unfolding later_def request_hash_def
    by (metis (no_types, lifting) receipt.select_convs(2,4,5,6) receipt_key_fields)
  with assms(4) show ?thesis by (simp add: find_receipt_def validate_key_def cmd_defs)
qed

lemma once_command [steadily]: "lasting p \<Longrightarrow> once (command a p k req st body)"
proof (rule onceI)
  fix s r s' t
  assume p: "lasting p" and run: "command a p k req st body s = Inr (r, s')" "\<not> cr_replayed r" and "later s' t"
  from run obtain v s1 where "valid_key k" and "save_receipt a p k req v st s1 = Inr (r, s')"
    by (auto simp: command_def find_receipt_def validate_key_def cmd_defs split: if_splits sum.splits option.splits)
  from receipt_found[OF this(2) \<open>later s' t\<close> p this(1)]
  show "command a p k req st body t = Inr (r\<lparr>cr_replayed := True\<rparr>, t)"
    by (simp add: command_def seq_def ret_def)
qed

lemma runtime_command_fresh:
  assumes "runtime_command a p k req i ev st body s = Inr (r, s')" and "\<not> cr_replayed r"
  shows "\<exists>v i' s1 s2. valid_key k \<and> body s = Inr ((v, i'), s1) \<and> save_receipt a p k (JObj req) v st s1 = Inr (r, s2)
    \<and> save_runtime_event i' (er_adapter_event_id ev) (er_adapter_event_sequence ev)
        ((''operation'', JStr p) # req) r s2 = Inr ((), s')"
proof -
  obtain replay s0 where replay: "find_receipt a p k (JObj req) s = Inr (replay, s0)"
    using assms(1) unfolding runtime_command_def seq_Inr by blast
  then have key: "valid_key k" "s0 = s" and hit: "\<And>x. replay = Some x \<Longrightarrow> cr_replayed x"
    by (auto simp: find_receipt_def validate_key_def cmd_defs split: if_splits option.splits)
  have "replay = None" using assms hit replay by (auto simp: runtime_command_def seq_def ret_def split: option.splits)
  then obtain inbox s0' where inbox: "runtime_event_replay i (er_adapter_event_id ev) (er_adapter_event_sequence ev)
      ((''operation'', JStr p) # req) s = Inr (inbox, s0')"
    using assms(1) replay key(2) by (auto simp: runtime_command_def seq_Inr Let_def)
  then have "s0' = s" and "\<And>x. inbox = Some x \<Longrightarrow> cr_replayed x"
    by (auto simp: runtime_event_replay_def validate_adapter_event_id_def Let_def cmd_defs
        split: if_splits option.splits sum.splits)
  then show ?thesis
    using assms replay key inbox \<open>replay = None\<close>
    by (cases inbox) (fastforce simp: runtime_command_def seq_Inr Let_def ret_def)+
qed

lemma once_runtime_command [steadily]: "lasting p \<Longrightarrow> once (runtime_command a p k req i ev st body)"
proof (rule onceI)
  fix s r s' t
  assume p: "lasting p" and run: "runtime_command a p k req i ev st body s = Inr (r, s')" "\<not> cr_replayed r"
    and "later s' t"
  from run obtain v s1 s2 i' where key: "valid_key k" and saved: "save_receipt a p k (JObj req) v st s1 = Inr (r, s2)"
    and "save_runtime_event i' (er_adapter_event_id ev) (er_adapter_event_sequence ev)
      ((''operation'', JStr p) # req) r s2 = Inr ((), s')"
    using runtime_command_fresh by blast
  from save_event_later[OF this(3)] \<open>later s' t\<close> have "later s2 t" by (rule later_trans)
  from receipt_found[OF saved this p key]
  show "runtime_command a p k req i ev st body t = Inr (r\<lparr>cr_replayed := True\<rparr>, t)"
    by (simp add: runtime_command_def seq_def ret_def)
qed

text \<open>Commands with a body of their own that ends by keeping a receipt.\<close>

definition saves :: "string \<Rightarrow> string \<Rightarrow> string \<Rightarrow> json \<Rightarrow> command_result op \<Rightarrow> bool" where
  "saves a p k req m \<longleftrightarrow> (\<forall>s r s'. m s = Inr (r, s') \<longrightarrow> (\<exists>v st s1. save_receipt a p k req v st s1 = Inr (r, s')))"

lemma saves_rules:
  "saves a p k req (save_receipt a p k req v st)" "(\<And>x. saves a p k req (f x)) \<Longrightarrow> saves a p k req (seq m f)"
  "saves a p k req m1 \<Longrightarrow> (\<And>x. saves a p k req (f x)) \<Longrightarrow> saves a p k req (case ov of None \<Rightarrow> m1 | Some x \<Rightarrow> f x)"
  "(\<And>x y. saves a p k req (g x y)) \<Longrightarrow> saves a p k req (case u of (x, y) \<Rightarrow> g x y)"
  by (auto simp: saves_def seq_Inr split: option.split prod.split)

lemma once_saves:
  assumes p: "lasting p" and body: "saves a p k req body"
  shows "once (seq (find_receipt a p k req) (\<lambda>replay. case replay of Some r \<Rightarrow> ret r | None \<Rightarrow> body))"
proof (rule onceI)
  fix s r s' t
  assume run: "seq (find_receipt a p k req) (\<lambda>replay. case replay of Some r \<Rightarrow> ret r | None \<Rightarrow> body) s = Inr (r, s')"
      "\<not> cr_replayed r" and "later s' t"
  from run have key: "valid_key k" and "body s = Inr (r, s')"
    by (auto simp: find_receipt_def validate_key_def cmd_defs split: if_splits sum.splits option.splits)
  then obtain v st s1 where "save_receipt a p k req v st s1 = Inr (r, s')" using body unfolding saves_def by blast
  from receipt_found[OF this \<open>later s' t\<close> p key]
  show "seq (find_receipt a p k req) (\<lambda>replay. case replay of Some r \<Rightarrow> ret r | None \<Rightarrow> body) t
      = Inr (r\<lparr>cr_replayed := True\<rparr>, t)" by (simp add: seq_def ret_def)
qed

text \<open>Commands that hand out a lease: they answer from the receipt only while the lease stands.\<close>

definition once_while :: "command_result op \<Rightarrow> bool" where
  "once_while m \<longleftrightarrow> (\<forall>s r s' t. m s = Inr (r, s') \<longrightarrow> \<not> cr_replayed r \<longrightarrow> same_env s s' \<longrightarrow> later s' t
     \<longrightarrow> wp m (\<lambda>r' t'. r' = r\<lparr>cr_replayed := True\<rparr> \<and> t'\<lparr>st_ticks := st_ticks t\<rparr> = t) t)"

definition looks :: "'a op \<Rightarrow> bool" where
  "looks m \<longleftrightarrow> (\<forall>t. wp m (\<lambda>_ t'. t'\<lparr>st_ticks := st_ticks t\<rparr> = t) t)"

named_theorems looking

lemma looks_rules [looking]:
  "looks (ret x)" "looks (raise e)" "looks (guard b e)" "looks (gets g)" "looks utc_now" "looks (fetch e g' key i)"
  "looks m \<Longrightarrow> looks n \<Longrightarrow> looks (if b then m else n)"
  by (auto simp: looks_def wp_rules)

lemma looks_seq [looking]:
  assumes m: "looks m" and f: "\<And>x. looks (f x)"
  shows "looks (seq m f)"
  unfolding looks_def wp_seq
proof (intro allI, rule wp_mono[OF m[unfolded looks_def, THEN spec]])
  fix t x and t' :: store assume t': "t'\<lparr>st_ticks := st_ticks t\<rparr> = t"
  show "wp (f x) (\<lambda>_ u :: store. u\<lparr>st_ticks := st_ticks t\<rparr> = t) t'"
  proof (rule wp_mono[OF f[unfolded looks_def, THEN spec]])
    fix y and u :: store assume "u\<lparr>st_ticks := st_ticks t'\<rparr> = t'"
    from arg_cong[OF this, of "\<lambda>z. z\<lparr>st_ticks := st_ticks t\<rparr>"]
    have "u\<lparr>st_ticks := st_ticks t\<rparr> = t'\<lparr>st_ticks := st_ticks t\<rparr>" by simp
    with t' show "u\<lparr>st_ticks := st_ticks t\<rparr> = t" by simp
  qed
qed

lemma once_while_seq [steadily]: "steady p \<Longrightarrow> (\<And>x. once_while (f x)) \<Longrightarrow> once_while (seq p f)"
  unfolding once_while_def
proof (intro allI impI)
  fix s r s' t
  assume p: "steady p" and f: "\<And>x. \<forall>s r s' t. f x s = Inr (r, s') \<longrightarrow> \<not> cr_replayed r \<longrightarrow> same_env s s' \<longrightarrow> later s' t
      \<longrightarrow> wp (f x) (\<lambda>r' t'. r' = r\<lparr>cr_replayed := True\<rparr> \<and> t'\<lparr>st_ticks := st_ticks t\<rparr> = t) t"
    and run: "seq p f s = Inr (r, s')" "\<not> cr_replayed r" and env: "same_env s s'" "later s' t"
  from run(1) obtain x s1 where "p s = Inr (x, s1)" and fx: "f x s1 = Inr (r, s')" unfolding seq_Inr by blast
  moreover have "same_env s t" using env by (auto simp: same_env_def later_def)
  ultimately have "s1 = s" and pt: "p t = Inr (x, t)" using p unfolding steady_def by blast+
  have "wp (f x) (\<lambda>r' t'. r' = r\<lparr>cr_replayed := True\<rparr> \<and> t'\<lparr>st_ticks := st_ticks t\<rparr> = t) t"
    using f fx \<open>s1 = s\<close> run(2) env by blast
  with pt show "wp (seq p f) (\<lambda>r' t'. r' = r\<lparr>cr_replayed := True\<rparr> \<and> t'\<lparr>st_ticks := st_ticks t\<rparr> = t) t"
    unfolding wp_seq by (simp add: wp_def)
qed

lemma once_while_checked [steadily]:
  assumes "lasting p" and "\<And>x. looks (current x)"
  shows "once_while (command_checked a p k req st current stale body)"
  unfolding once_while_def
proof (intro allI impI)
  fix s r s' t
  assume run: "command_checked a p k req st current stale body s = Inr (r, s')" "\<not> cr_replayed r" and "later s' t"
  let ?r = "r\<lparr>cr_replayed := True\<rparr>"
  have hit: "cr_replayed c" if "find_receipt a p k req s = Inr (Some c, u)" for c u
    using that by (auto simp: find_receipt_def validate_key_def cmd_defs split: if_splits option.splits)
  obtain replay s0 where first: "find_receipt a p k req s = Inr (replay, s0)"
    using run(1) unfolding command_checked_def seq_Inr by blast
  then have "valid_key k" by (auto simp: find_receipt_def validate_key_def cmd_defs split: if_splits)
  moreover have "replay = None"
    using run first hit
    by (auto simp: command_checked_def seq_Inr ret_def raise_def split: option.splits if_splits)
  then obtain v s1 where "save_receipt a p k req v st s1 = Inr (r, s')"
    using run(1) first by (auto simp: command_checked_def seq_Inr)
  ultimately have found: "find_receipt a p k req t = Inr (Some ?r, t)"
    using receipt_found[OF _ \<open>later s' t\<close> assms(1)] by blast
  have "wp (seq (current ?r) (\<lambda>ok. if ok then ret ?r else raise stale))
      (\<lambda>r' t'. r' = ?r \<and> t'\<lparr>st_ticks := st_ticks t\<rparr> = t) t"
    unfolding wp_seq
    by (rule wp_mono[OF assms(2)[unfolded looks_def, THEN spec]]) (auto simp: wp_rules)
  moreover have "wp (find_receipt a p k req) Q t = Q (Some ?r) t" for Q using found by (simp add: wp_def)
  ultimately show "wp (command_checked a p k req st current stale body)
      (\<lambda>r' t'. r' = ?r \<and> t'\<lparr>st_ticks := st_ticks t\<rparr> = t) t"
    unfolding command_checked_def by (subst wp_seq) simp
qed

lemma lasting_post [simp]: "lasting (''POST:'' @ x)" "lasting (CHR ''P'' # x)"
  by (simp_all add: lasting_def)

lemma once_threads:
  "once (create_workspace t a k)" "once (create_thread w t e a k)" "once (rename_workspace w t e a k)"
  "once (rename_thread i t e a k)" "once (archive_thread i e a k)" "once (unarchive_thread i e a k)"
  "once (append_message i r c e a k)" "once (create_run i e a k w2)"
  unfolding create_workspace_def create_thread_def rename_workspace_def rename_thread_def archive_thread_def
    unarchive_thread_def set_thread_archived_def append_message_def create_run_def Let_def
  by (intro steadily; simp)+

lemma once_restart: "lasting p \<Longrightarrow> once (restart_attempt r e a k ss tg p reason)"
  unfolding restart_attempt_def Let_def by (intro steadily; simp)

lemma once_runs:
  "once (create_runtime_binding i ad sr g v p a k)" "once (pin_attempt_runtime r at b l e g' wk a k)"
  "once (transition_run r tg e a k st py rf ev)" "once (append_runtime_message r at b l gi c e a k ev)"
  "once (fail_unbound_run r at e c dw rb a k)" "once (resume_run r e a k)" "once (retry_run r e a k re)"
  "once (commit_checkpoint nfc r at b l u e a k gi ev)"
  unfolding create_runtime_binding_def pin_attempt_runtime_def transition_run_def append_runtime_message_def
    fail_unbound_run_def resume_run_def retry_run_def commit_checkpoint_def
  by (intro steadily once_restart; simp add: transition_operation_def)+

lemma once_observation: "once (record_runtime_observation ps r at b l gi et py e a k ev)"
proof (cases "observation_fields et")
  case None
  then show ?thesis by (simp add: record_runtime_observation_def once_def raise_def)
qed (simp add: record_runtime_observation_def, intro steadily; simp)

lemma once_decisions:
  "once (create_decision r at b l e kd pm os a k gi ev dr dv)" "once (resolve_decision i c e a k)"
  unfolding create_decision_def resolve_decision_def by (intro steadily; simp)+

lemma once_actions:
  "once (acknowledge_runtime_action i r at b l e a k gi ow ep)" "once (fail_runtime_action i wk ep e ct a k)"
  "once (reject_runtime_action i wk ep e ct a k)" "once (mark_runtime_action_outcome_unknown i wk ep e ct a k)"
  "once (defer_runtime_action_reconciliation i wk ep e ct a k)" "once (retry_runtime_action_delivery i wk ep e a k)"
  unfolding acknowledge_runtime_action_def fail_runtime_action_def reject_runtime_action_def
    mark_runtime_action_outcome_unknown_def defer_runtime_action_reconciliation_def retry_runtime_action_delivery_def
  by (intro steadily; simp)+

lemma once_recovery:
  "once (acknowledge_pin_release i wk ep e a k)" "once (fail_pin_release i wk ep e ct a k)"
  "once (retry_pin_release i e a k)" "once (record_runtime_recovery_outcome i wk ep oc e d a k)"
  unfolding acknowledge_pin_release_def fail_pin_release_def settle_pin_release_def retry_pin_release_def
    record_runtime_recovery_outcome_def Let_def
  by (intro steadily; simp)+

lemma once_captures:
  "once (create_capture p n a k)" "once (approve_capture i e a k)" "once (dismiss_capture i e a k)"
  "once (reopen_capture i e b a k)" "once (complete_capture i wk ep out ids cat d a k)"
  unfolding create_capture_def approve_capture_def dismiss_capture_def reopen_capture_def complete_capture_def Let_def
  by (intro steadily; simp add: same_env_def)+

lemma once_bodies: "once (schedule_runtime_recovery r at e a k)" "once (bind_transport d tn sc i a k)"
  unfolding schedule_runtime_recovery_def bind_transport_def Let_def
  by (intro steadily once_saves saves_rules; simp)+

lemma once_leases:
  "once_while (claim_runtime_action i wk ls a k)" "once_while (claim_runtime_action_reconciliation i wk ls a k)"
  "once_while (claim_pin_release i wk ls a k)" "once_while (claim_runtime_recovery i wk ls a k)"
  "once_while (claim_capture i wk ls a k)" "once_while (reserve_attempt_dispatch r at wk l g sl d pr e ls a k)"
  unfolding claim_runtime_action_def claim_runtime_action_reconciliation_def claim_pin_release_def
    claim_runtime_recovery_def claim_capture_def reserve_attempt_dispatch_def action_replay_is_current_def
    claim_replay_is_current_def claim_fence_is_current_def lease_seconds_ok_def getter_defs
  by (intro steadily looking; simp)+

lemmas once_all = once_threads once_runs once_observation once_decisions once_actions once_recovery once_captures once_bodies

text \<open>The commands that answer from a receipt without a further check, and those that hand out a lease.\<close>

inductive recorded :: "command_result op \<Rightarrow> bool" where
  "recorded (create_workspace t a k)" | "recorded (create_thread w t e a k)"
| "recorded (rename_workspace w t e a k)" | "recorded (rename_thread i t e a k)"
| "recorded (archive_thread i e a k)" | "recorded (unarchive_thread i e a k)"
| "recorded (append_message i r c e a k)" | "recorded (create_run i e a k w2)"
| "recorded (create_runtime_binding i ad sr g v p a k)" | "recorded (pin_attempt_runtime r at b l e g' wk a k)"
| "recorded (transition_run r tg e a k st py rf ev)" | "recorded (append_runtime_message r at b l gi c e a k ev)"
| "recorded (fail_unbound_run r at e c dw rb a k)" | "recorded (resume_run r e a k)" | "recorded (retry_run r e a k re)"
| "recorded (commit_checkpoint nfc r at b l u e a k gi ev)"
| "recorded (record_runtime_observation ps r at b l gi et py e a k ev)"
| "recorded (create_decision r at b l e kd pm os a k gi ev dr dv)" | "recorded (resolve_decision i c e a k)"
| "recorded (acknowledge_runtime_action i r at b l e a k gi ow ep)" | "recorded (fail_runtime_action i wk ep e ct a k)"
| "recorded (reject_runtime_action i wk ep e ct a k)" | "recorded (mark_runtime_action_outcome_unknown i wk ep e ct a k)"
| "recorded (defer_runtime_action_reconciliation i wk ep e ct a k)"
| "recorded (retry_runtime_action_delivery i wk ep e a k)"
| "recorded (acknowledge_pin_release i wk ep e a k)" | "recorded (fail_pin_release i wk ep e ct a k)"
| "recorded (retry_pin_release i e a k)" | "recorded (record_runtime_recovery_outcome i wk ep oc e d a k)"
| "recorded (create_capture p n a k)" | "recorded (approve_capture i e a k)" | "recorded (dismiss_capture i e a k)"
| "recorded (reopen_capture i e b a k)" | "recorded (complete_capture i wk ep out ids cat d a k)"
| "recorded (schedule_runtime_recovery r at e a k)" | "recorded (bind_transport dg tn sc i a k)"

inductive leasing :: "command_result op \<Rightarrow> bool" where
  "leasing (claim_runtime_action i wk ls a k)" | "leasing (claim_runtime_action_reconciliation i wk ls a k)"
| "leasing (claim_pin_release i wk ls a k)" | "leasing (claim_runtime_recovery i wk ls a k)"
| "leasing (claim_capture i wk ls a k)" | "leasing (reserve_attempt_dispatch r at wk l g sl d pr e ls a k)"

lemma recorded_once: "recorded m \<Longrightarrow> once m"
  by (erule recorded.cases) (simp_all only: once_all)

lemma recorded_cmd: "recorded m \<Longrightarrow> leads m s s' \<Longrightarrow> control_cmd s s'"
  by (erule recorded.cases) (blast intro: on_runs on_captures run_cmd.intros capture_cmd.intros)+

lemma leasing_once: "leasing m \<Longrightarrow> once_while m"
  by (erule leasing.cases) (simp_all only: once_leases)

lemma leasing_cmd: "leasing m \<Longrightarrow> leads m s s' \<Longrightarrow> control_cmd s s'"
  by (erule leasing.cases) (blast intro: on_runs on_captures run_cmd.intros capture_cmd.intros)+

section \<open>Revisions of runs\<close>

interpretation rns: leased_table runs runs_update rn_id "\<lambda>_. (None, 0)" run_step
  by unfold_locales (auto simp: run_step_def)

lemma rns_event: "preserves (rns.evolved old) (insert_event i a t p c)"
proof (rule preservesI)
  fix s assume inv: "rns.evolved old s"
  have bump: "rns.evolved old (runs_update (update_where (\<lambda>x. rn_id x = i) (\<lambda>x. x\<lparr>rn_latest_sequence := rn_latest_sequence r + 1\<rparr>)) s)"
    if "find_row rn_id i (runs s) = Some r" for r
  proof -
    have "x = r" if "x \<in> set (runs s)" "rn_id x = i" for x
      using that find_row_SomeD[OF \<open>find_row rn_id i (runs s) = Some r\<close>] rns.evolved_distinct[OF inv]
      by (auto simp: distinct_map dest: inj_onD)
    then have "update_where (\<lambda>x. rn_id x = i) (\<lambda>x. x\<lparr>rn_latest_sequence := rn_latest_sequence r + 1\<rparr>) (runs s)
        = update_where (\<lambda>x. rn_id x = i) (\<lambda>x. x\<lparr>rn_latest_sequence := rn_latest_sequence x + 1\<rparr>) (runs s)"
      by (auto simp: update_where_def)
    with rns.evolved_update[OF _ inv, of "\<lambda>x. rn_id x = i" "\<lambda>x. x\<lparr>rn_latest_sequence := rn_latest_sequence x + 1\<rparr>"]
    show ?thesis by (simp add: rns.evolved_def run_step_def)
  qed
  show "wp (insert_event i a t p c) (\<lambda>_. rns.evolved old) s"
    using bump by (auto simp: insert_event_def get_run_def wp_rules Let_def rns.evolved_def)
qed

interpretation runrows: flow_frame "rns.evolved old" for old
  by unfold_locales
    (rule rns_event | (rule rns.evolved_update; blast) | (erule (1) rns.evolved_insert) | simp add: rns.evolved_def)+

interpretation runrows_cap: capture_frame "rns.evolved old" for old
  by unfold_locales (simp add: rns.evolved_def)

interpretation runrows_gate: gate_frame "rns.evolved old" for old
  by unfold_locales (simp_all add: rns.evolved_def)

lemma control_runs_evolve: "control_cmd s s' \<Longrightarrow> rns.evolved old s \<Longrightarrow> rns.evolved old s'"
  by (erule control_cmd.cases)
    (auto intro: runrows.run_cmd_keeps runrows_cap.capture_cmd_keeps runrows_gate.gate_cmd_keeps runrows.I_ticks)

lemma runs_evolve: "reachable s \<Longrightarrow> control_cmd\<^sup>*\<^sup>* s s' \<Longrightarrow> rns.evolved (runs s) s'"
proof -
  assume "reachable s" and steps: "control_cmd\<^sup>*\<^sup>* s s'"
  then have "thread_inv s" by (simp add: reachable_inv)
  then have "rns.evolved (runs s) s" by (intro rns.evolved_refl)
    (simp add: thread_inv_def links_inv_def links_ok_def comp_def run_link_def)
  with steps show ?thesis by (induction rule: rtranclp_induct) (auto intro: control_runs_evolve)
qed

section \<open>Refusals\<close>

text \<open>A command that can only answer with an earlier receipt.\<close>

definition refused :: "command_result op \<Rightarrow> store \<Rightarrow> bool" where
  "refused m s \<longleftrightarrow> wp m (\<lambda>r s'. cr_replayed r \<and> s' = s) s"

lemma refused_command: "wp body (\<lambda>_ _. False) s \<Longrightarrow> refused (command a p k req st body) s"
  unfolding refused_def by (rule command_refused)

lemma refused_text: "(strip v \<noteq> [] \<Longrightarrow> refused (f (strip v)) s) \<Longrightarrow> refused (seq (required_text v n m) f) s"
  by (simp add: refused_def wp_rules)

lemma refused_epoch: "refused (f ()) s \<Longrightarrow> refused (seq (positive_epoch e) f) s"
  by (simp add: refused_def wp_rules positive_epoch_def)

lemma refused_guard: "refused (f ()) s \<Longrightarrow> refused (seq (guard b e) f) s"
  by (simp add: refused_def wp_rules)

lemma refused_runtime_command: "wp body (\<lambda>_ _. False) s \<Longrightarrow> refused (runtime_command a p k req i ev st body) s"
proof -
  assume body: "wp body (\<lambda>_ _. False) s"
  have "cr_replayed r \<and> s' = s" if run: "runtime_command a p k req i ev st body s = Inr (r, s')" for r s'
  proof (cases "cr_replayed r")
    case False
    from runtime_command_fresh[OF run this] body show ?thesis by (auto dest: wpD)
  next
    case True
    have "s' = s \<or> (\<exists>x t. body s = Inr (x, t))"
      using run by (auto simp: runtime_command_def find_receipt_def validate_key_def runtime_event_replay_def
          validate_adapter_event_id_def Let_def cmd_defs split: if_splits option.splits sum.splits)
    with True body show ?thesis by (auto dest: wpD)
  qed
  then show ?thesis unfolding refused_def wp_def by (auto split: sum.split)
qed

lemma refused_steady: "steady p \<Longrightarrow> (\<And>x. refused (f x) s) \<Longrightarrow> refused (seq p f) s"
  unfolding refused_def steady_def wp_def seq_def same_env_def by (fastforce split: sum.splits)

definition stale :: "string \<Rightarrow> int \<Rightarrow> store \<Rightarrow> bool" where
  "stale i e s \<longleftrightarrow> (\<forall>r \<in> set (runs s). rn_id r = i \<longrightarrow> rn_revision r \<noteq> e)"

lemma stale_body:
  "stale i e s \<Longrightarrow> wp (seq (get_run i) (\<lambda>r. seq (expect_revision (rn_revision r) (j r) e) (f r))) (\<lambda>_ _. False) s"
  by (auto simp: stale_def wp_rules get_run_def dest!: find_row_SomeD)

lemma stale_admit:
  "stale i e s \<Longrightarrow> wp (seq (get_run i) (\<lambda>r. seq (admit_transition r t a e rf ev) (f r))) (\<lambda>_ _. False) s"
  by (auto simp: stale_def wp_rules get_run_def admit_transition_def engine_owned_run_def dest!: find_row_SomeD)

section \<open>Nothing is forgotten\<close>

lemma leads_script_append:
  "leads (script (ms @ ns)) s u \<longleftrightarrow> (\<exists>t. leads (script ms) s t \<and> leads (script ns) t u)"
  by (induction ms arbitrary: s) (auto simp: leads_def seq_Inr ret_def)

definition demo_rest :: "command_result op list" where
  "demo_rest = drop 3 (demo_pausing @ [demo_claim,
     mark_runtime_action_outcome_unknown demo_action_id ''wk'' 1 5 ''timeout'' ''op'' demo_key])"

lemma demo_split: "demo_pausing @ [demo_claim,
     mark_runtime_action_outcome_unknown demo_action_id ''wk'' 1 5 ''timeout'' ''op'' demo_key] = demo_start @ demo_rest"
  by (simp add: demo_rest_def demo_pausing_def demo_start_def)

lemma demo_run_to_unsure: "control_cmd\<^sup>*\<^sup>* demo_run demo_unsure"
proof -
  have "succeeds (script (demo_start @ demo_rest)) demo_store" by code_simp
  then have "leads (script (demo_start @ demo_rest)) demo_store demo_unsure"
    unfolding demo_unsure_def demo_split by (rule leads_after)
  then obtain t where t: "leads (script demo_start) demo_store t" and rest: "leads (script demo_rest) t demo_unsure"
    unfolding leads_script_append by blast
  from t have "t = demo_run" by (auto simp: demo_run_def leads_def state_after_def)
  with rest show ?thesis using script_runs demo_commands unfolding demo_split list_all_append by blast
qed

text \<open>C10. The records of the store are append-only. Whatever commands follow, the audit trail, the event log,
  the messages, the inbox of runtime events and the decisions of the three gates of an earlier store are
  initial segments of the later ones: nothing that was recorded is changed, reordered or lost.\<close>

theorem history_append_only:
  assumes "control_cmd\<^sup>*\<^sup>* s s'"
  shows "prefix (control_audit s) (control_audit s') \<and> prefix (run_events s) (run_events s')
    \<and> prefix (messages s) (messages s') \<and> prefix (runtime_event_inbox s) (runtime_event_inbox s')
    \<and> prefix (runtime_release_approvals s) (runtime_release_approvals s')
    \<and> prefix (runtime_activation_decisions s) (runtime_activation_decisions s')
    \<and> prefix (transport_activation_decisions s) (transport_activation_decisions s')"
  using controls_extend[OF assms] unfolding extends_def .

theorem history_append_only_witness:
  "map ev_type (run_events demo_run) = [''run.queued''] \<and> prefix (run_events demo_run) (run_events demo_unsure)"
proof -
  have "map ev_type (run_events demo_run) = [''run.queued'']" by code_simp
  with history_append_only[OF demo_run_to_unsure] show ?thesis by blast
qed

text \<open>C6. A command that committed answers the same for ever. Take any of the thirty-six commands that answer from
  their receipt (\<open>recorded\<close>), let it commit, and let any commands follow: presented again with the same arguments it
  answers with the value and the status it answered first, marked as a replay, and it changes nothing. The six
  commands that hand out a lease (\<open>leasing\<close>) are executed at most once as well, but answer from the receipt only
  while the lease stands: presented again, such a command is refused, or gives that very answer, and reads the clock
  at most. So a client that did not see the answer may always ask again.\<close>

theorem committed_command_replays:
  assumes "m s = Inr (r, s')" and "\<not> cr_replayed r" and "control_cmd\<^sup>*\<^sup>* s' t"
  shows "(recorded m \<longrightarrow> m t = Inr (r\<lparr>cr_replayed := True\<rparr>, t))
    \<and> (leasing m \<longrightarrow> wp m (\<lambda>r' t'. r' = r\<lparr>cr_replayed := True\<rparr> \<and> t'\<lparr>st_ticks := st_ticks t\<rparr> = t) t)"
proof -
  have env: "same_env s s'" if "control_cmd s s'"
    unfolding same_env_def by (rule env.control_cmd_keeps[OF that]) simp
  note follows = control_later[OF assms(3)]
  have "m t = Inr (r\<lparr>cr_replayed := True\<rparr>, t)" if "recorded m"
    using recorded_once[OF that] env[OF recorded_cmd[OF that leadsI[of m, OF assms(1)]]] follows assms(1,2)
    unfolding once_def by blast
  moreover have "wp m (\<lambda>r' t'. r' = r\<lparr>cr_replayed := True\<rparr> \<and> t'\<lparr>st_ticks := st_ticks t\<rparr> = t) t" if "leasing m"
    using leasing_once[OF that] env[OF leasing_cmd[OF that leadsI[of m, OF assms(1)]]] follows assms(1,2)
    unfolding once_while_def by blast
  ultimately show ?thesis by blast
qed

theorem committed_command_replays_witness:
  "\<exists>r. answer (create_workspace ''w'' ''op'' demo_key) demo_store = Some r \<and> \<not> cr_replayed r
     \<and> create_workspace ''w'' ''op'' demo_key demo_run = Inr (r\<lparr>cr_replayed := True\<rparr>, demo_run)"
proof -
  let ?m = "create_workspace ''w'' ''op'' demo_key" and ?ms = "drop 1 demo_start"
  have "map_option cr_replayed (answer ?m demo_store) = Some False" by code_simp
  then obtain r s' where r: "?m demo_store = Inr (r, s')" "\<not> cr_replayed r" "answer ?m demo_store = Some r"
    by (auto simp: answer_def split: sum.splits)
  have "succeeds (script ([?m] @ ?ms)) demo_store" by code_simp
  then have "leads (script ([?m] @ ?ms)) demo_store demo_run"
    unfolding demo_run_def demo_start_def by (auto dest: leads_after)
  from this[unfolded leads_script_append] obtain t where
    t: "leads (script [?m]) demo_store t" "leads (script ?ms) t demo_run" by blast
  from t(1) r(1) have "t = s'" by (auto simp: leads_def seq_Inr ret_def)
  moreover have "list_all (\<lambda>m. \<forall>s s'. leads m s s' \<longrightarrow> run_cmd s s') ?ms"
    by (auto simp: demo_start_def intro: run_cmd.intros)
  ultimately have "control_cmd\<^sup>*\<^sup>* s' demo_run" using script_runs[OF t(2)] by simp
  from committed_command_replays[of ?m, OF r(1,2) this] recorded.intros(1) r(2,3) show ?thesis by blast
qed

lemma stale_later:
  assumes "reachable s" and "control_cmd\<^sup>*\<^sup>* s s'" and "x \<in> set (runs s)" and "e < rn_revision x"
  shows "stale (rn_id x) e s'"
  unfolding stale_def
proof (intro ballI impI)
  fix r assume "r \<in> set (runs s')" "rn_id r = rn_id x"
  with rns.evolved_row[OF runs_evolve[OF assms(1,2)] assms(3)] have "run_step\<^sup>*\<^sup>* x r" by blast
  then have "rn_revision x \<le> rn_revision r" by (induction rule: rtranclp_induct) (auto simp: run_step_def)
  with assms(4) show "rn_revision r \<noteq> e" by simp
qed

lemmas refused_intros = refused_steady refused_command refused_runtime_command stale_body stale_admit

lemma stale_commands_refused:
  assumes "stale i e s"
  shows "refused (transition_run i tg e a k st py rf ev) s" "refused (append_runtime_message i at b l g c e a k ev) s"
    "refused (commit_checkpoint nfc i at b l u e a k g ev) s" "refused (pin_attempt_runtime i at b l e g w a k) s"
    "refused (fail_unbound_run i at e c' dw rb a k) s" "refused (resume_run i e a k) s" "refused (retry_run i e a k re) s"
    "refused (create_decision i at b l e kd pm os a k g ev dr dv) s"
  unfolding transition_run_def append_runtime_message_def commit_checkpoint_def pin_attempt_runtime_def
    fail_unbound_run_def resume_run_def retry_run_def restart_attempt_def create_decision_def
  by (intro refused_intros steadily assms)+

lemma stale_observation_refused:
  assumes "stale i e s"
  shows "refused (record_runtime_observation ps i at b l g et py e a k ev) s"
proof (cases "observation_fields et")
  case None
  then show ?thesis by (simp add: record_runtime_observation_def refused_def wp_rules)
qed (simp add: record_runtime_observation_def, intro refused_intros steadily assms)



section \<open>Gate decisions\<close>

text \<open>A request about a gate answers the same for ever once it committed.\<close>

definition repeats :: "'r op \<Rightarrow> bool" where
  "repeats m \<longleftrightarrow> (\<forall>s r s' t. m s = Inr (r, s') \<longrightarrow> same_env s s' \<longrightarrow> later s' t \<longrightarrow> m t = Inr (r, t))"

lemma repeats_seq:
  assumes p: "steady p" and f: "\<And>x. repeats (f x)"
  shows "repeats (seq p f)"
  unfolding repeats_def
proof (intro allI impI)
  fix s r s' t assume run: "seq p f s = Inr (r, s')" and env: "same_env s s'" "later s' t"
  from run obtain x s1 where "p s = Inr (x, s1)" and fx: "f x s1 = Inr (r, s')" unfolding seq_Inr by blast
  moreover have "same_env s t" using env by (auto simp: same_env_def later_def)
  ultimately have "s1 = s" "p t = Inr (x, t)" using p unfolding steady_def by blast+
  moreover have "f x t = Inr (r, t)" using f fx \<open>s1 = s\<close> env unfolding repeats_def by blast
  ultimately show "seq p f t = Inr (r, t)" unfolding seq_Inr by blast
qed

lemma find_receipt_later:
  assumes "find_receipt a p k req s = Inr (Some c, s1)" and "later s t" and "lasting p"
  shows "s1 = s" and "find_receipt a p k req t = Inr (Some c, t)"
proof -
  obtain x where x: "find_row receipt_key (a, p, k) (idempotency_receipts s) = Some x" "valid_key k" "s1 = s"
      "rt_request_hash x = request_hash req s" "c = \<lparr>cr_value = rt_response x, cr_status_code = rt_status_code x, cr_replayed = True\<rparr>"
    using assms(1) by (auto simp: find_receipt_def validate_key_def cmd_defs split: if_splits option.splits)
  then have "receipt_key x = (a, p, k)" by (auto dest: find_row_SomeD)
  with x assms(2,3) have "find_row receipt_key (a, p, k) (idempotency_receipts t) = Some x"
    "request_hash req t = request_hash req s"
    by (auto simp: later_def receipt_key_def request_hash_def)
  with x show "s1 = s" "find_receipt a p k req t = Inr (Some c, t)"
    by (simp_all add: find_receipt_def validate_key_def cmd_defs)
qed

lemma repeats_gate:
  assumes p: "lasting p" and reads: "\<And>x. decode (encode x) = ret x" and decode: "\<And>j. steady (decode j)"
  shows "repeats (gate_command a p k req decode encode body)"
  unfolding repeats_def
proof (intro allI impI)
  fix s r s' t
  assume run: "gate_command a p k req decode encode body s = Inr (r, s')" and env: "same_env s s'" "later s' t"
  obtain replay s0 where first: "find_receipt a p k req s = Inr (replay, s0)"
    using run unfolding gate_command_def seq_Inr by blast
  then have key: "valid_key k" "s0 = s" by (auto simp: find_receipt_def validate_key_def cmd_defs split: if_splits option.splits)
  show "gate_command a p k req decode encode body t = Inr (r, t)"
  proof (cases replay)
    case None
    then obtain c s1 where saved: "save_receipt a p k req (encode r) 201 s1 = Inr (c, s')"
      using run first by (auto simp: gate_command_def seq_Inr ret_def)
    then have "cr_value c = encode r" using save_receipt_find by fastforce
    with receipt_found[OF saved env(2) p key(1)] show ?thesis by (simp add: gate_command_def seq_def reads ret_def)
  next
    case (Some c)
    then have "decode (cr_value c) s = Inr (r, s')" using run first key by (auto simp: gate_command_def seq_def)
    moreover have "same_env s t" using env by (auto simp: same_env_def later_def)
    ultimately have "s' = s" and again: "decode (cr_value c) t = Inr (r, t)" using decode unfolding steady_def by blast+
    then have "find_receipt a p k req t = Inr (Some c, t)" using find_receipt_later[OF first[unfolded Some]] env(2) p by blast
    with again show ?thesis by (simp add: gate_command_def seq_def)
  qed
qed

lemma steady_receipts: "steady (activation_receipt j)" "steady (transport_receipt j)"
  unfolding activation_receipt_def transport_receipt_def by (intro steadily)+

lemma steady_window: "steady (check_window n t mx md w)" "steady (check_activation_transport p)"
  unfolding check_window_def check_activation_transport_def by (intro steadily)+

lemma gates_repeat:
  "repeats (enable_runtime_activation md w a k)" "repeats (disable_runtime_activation a k)"
  "repeats (enable_transport_activation p md w a k)" "repeats (disable_transport_activation p a k)"
  unfolding enable_runtime_activation_def disable_runtime_activation_def enable_transport_activation_def
    disable_transport_activation_def
  by (intro repeats_seq repeats_gate steady_receipts steady_window receipts_read_back; simp add: lasting_def)+

lemma repeated:
  assumes "repeats m" and "m s = Inr (r, s')" and "gate_cmd s s'" and "control_cmd\<^sup>*\<^sup>* s' t"
  shows "m t = Inr (r, t)"
proof -
  have "same_env s s'" unfolding same_env_def by (rule env.control_cmd_keeps[OF on_gates[OF assms(3)]]) simp
  with assms(1,2) control_later[OF assms(4)] show ?thesis unfolding repeats_def by blast
qed

text \<open>C24. A decision about a gate is made once for each key. When a request to enable or to disable the dispatch of
  runtimes or of a transport has committed, repeating it with its key, in whatever store later commands lead to,
  answers with the decision it recorded and changes nothing: no second row, no second audit entry, and a gate that was
  closed (or opened) since stays so.\<close>

theorem activation_retry:
  assumes "control_cmd\<^sup>*\<^sup>* s' t"
  shows "(enable_runtime_activation mode w actor key s = Inr (r, s')
        \<longrightarrow> enable_runtime_activation mode w actor key t = Inr (r, t))
    \<and> (disable_runtime_activation actor key s = Inr (r, s') \<longrightarrow> disable_runtime_activation actor key t = Inr (r, t))
    \<and> (enable_transport_activation transport scope w actor key s = Inr (q, s')
        \<longrightarrow> enable_transport_activation transport scope w actor key t = Inr (q, t))
    \<and> (disable_transport_activation transport actor key s = Inr (q, s')
        \<longrightarrow> disable_transport_activation transport actor key t = Inr (q, t))"
proof (intro conjI impI)
  assume run: "enable_runtime_activation mode w actor key s = Inr (r, s')"
  show "enable_runtime_activation mode w actor key t = Inr (r, t)"
    by (rule repeated[OF gates_repeat(1) run enable_runtime[OF leadsI] assms]) (rule run)
next
  assume run: "disable_runtime_activation actor key s = Inr (r, s')"
  show "disable_runtime_activation actor key t = Inr (r, t)"
    by (rule repeated[OF gates_repeat(2) run disable_runtime[OF leadsI] assms]) (rule run)
next
  assume run: "enable_transport_activation transport scope w actor key s = Inr (q, s')"
  show "enable_transport_activation transport scope w actor key t = Inr (q, t)"
    by (rule repeated[OF gates_repeat(3) run enable_transport[OF leadsI] assms]) (rule run)
next
  assume run: "disable_transport_activation transport actor key s = Inr (q, s')"
  show "disable_transport_activation transport actor key t = Inr (q, t)"
    by (rule repeated[OF gates_repeat(4) run disable_transport[OF leadsI] assms]) (rule run)
qed

theorem activation_retry_witness:
  "\<exists>r t. enable_runtime_activation ''window'' (Some 60) ''operator'' demo_key t = Inr (r, t)
     \<and> answer runtime_dispatch_enabled t = Some False \<and> rv_decision r = ''enable''"
proof -
  let ?off = "disable_runtime_activation ''operator'' demo_key"
  let ?both = "seq demo_window (\<lambda>r. seq ?off (\<lambda>_. ret r))"
  have "wp ?both (\<lambda>r t. rv_decision r = ''enable'' \<and> answer runtime_dispatch_enabled t = Some False) demo_store
      \<and> succeeds ?both demo_store" by code_simp
  then obtain r t where run: "?both demo_store = Inr (r, t)" "rv_decision r = ''enable''"
      "answer runtime_dispatch_enabled t = Some False"
    by (auto simp: wp_def succeeds_def split: sum.splits)
  then obtain s' q where "demo_window demo_store = Inr (r, s')" and off: "?off s' = Inr (q, t)"
    by (auto simp: seq_Inr ret_def)
  moreover have "control_cmd\<^sup>*\<^sup>* s' t" using off by (auto intro: on_gates gate_cmd.intros leadsI)
  ultimately have "enable_runtime_activation ''window'' (Some 60) ''operator'' demo_key t = Inr (r, t)"
    using activation_retry[of s' t, THEN conjunct1, of "''window''" "Some 60" "''operator''" demo_key demo_store r]
    by (simp add: demo_window_def)
  with run(2,3) show ?thesis by blast
qed

text \<open>What the loop of \<open>abort_open_transport_windows\<close> establishes for a window, and keeps: it is accounted for,
  and if it is still the last decision of its transport then a reading of the clock since \<open>n\<close> found that it has run
  out.\<close>

definition window_settled :: "nat \<Rightarrow> transport_activation \<Rightarrow> store \<Rightarrow> bool" where
  "window_settled n x s \<longleftrightarrow> tv_id x \<in> set (accounted_windows s) \<and>
     (case latest (\<lambda>r. tv_transport r = tv_transport x) (transport_activation_decisions s) of
        None \<Rightarrow> True
      | Some r \<Rightarrow> tv_id r = tv_id x \<and> tv_decision r = ''enable''
          \<longrightarrow> (\<exists>e k. tv_expires_at r = Some e \<and> n \<le> k \<and> k < st_ticks s \<and> e \<le> st_clock s k))"

definition windows :: "store \<Rightarrow> transport_activation list" where
  "windows s = filter (\<lambda>r. tv_scope r = Some ''window'' \<and> tv_decision r = ''enable'') (transport_activation_decisions s)"

lemmas abort_wp = abort_window_def insert_transport_activation_def actor_ok_def audit_def
  transport_activation_in_force_def unless_run_out_def

lemmas window_simps = wp_rules window_settled_def accounted_windows_def transport_window_aggregate_def latest_append
  windows_def

lemma later_reading:
  "n \<le> k \<Longrightarrow> k < m \<Longrightarrow> e \<le> st_clock s k \<Longrightarrow> \<exists>k \<ge> n. k < Suc m \<and> e \<le> st_clock s k"
  "n \<le> k \<Longrightarrow> k < m \<Longrightarrow> e \<le> st_clock s k \<Longrightarrow> \<exists>k \<ge> n. k < Suc (Suc m) \<and> e \<le> st_clock s k"
  "n \<le> k \<Longrightarrow> k < m \<Longrightarrow> e \<le> st_clock s k \<Longrightarrow> \<exists>k \<ge> n. k < Suc (Suc (Suc m)) \<and> e \<le> st_clock s k"
  "n \<le> k \<Longrightarrow> k < m \<Longrightarrow> e \<le> st_clock s k \<Longrightarrow> \<exists>k \<ge> n. k < Suc (Suc (Suc (Suc m))) \<and> e \<le> st_clock s k"
  by (meson less_SucI)+

lemma abort_window_settles:
  "n \<le> st_ticks s \<Longrightarrow> wp (abort_window r a x) (\<lambda>_. window_settled n x) s"
  unfolding abort_wp by (auto simp: window_simps split: option.splits)

lemma abort_window_keeps_settled: "preserves (window_settled n y) (abort_window r a x)"
  unfolding abort_wp by (auto intro!: preservesI simp: window_simps split: option.splits) (blast intro: later_reading)+

lemma abort_window_keeps:
  "preserves (\<lambda>s. windows s = ws) (abort_window r a x)" "preserves (\<lambda>s. n \<le> st_ticks s) (abort_window r a x)"
  "preserves (\<lambda>s. i \<in> set (accounted_windows s)) (abort_window r a x)"
  unfolding abort_wp by (auto intro!: preservesI simp: window_simps split: option.splits)

lemma abort_loop:
  "n \<le> st_ticks s \<Longrightarrow> wp (for_each (abort_window r a) xs) (\<lambda>_ s'. \<forall>x \<in> set xs. window_settled n x s') s"
proof (induction xs arbitrary: s)
  case (Cons x xs)
  have "wp (abort_window r a x) (\<lambda>_ s'. window_settled n x s' \<and> n \<le> st_ticks s') s"
    using preservesD[OF abort_window_keeps(2) Cons.prems] abort_window_settles[OF Cons.prems] by (simp add: wp_conj)
  then show ?case
    unfolding for_each.simps wp_seq
  proof (rule wp_mono)
    fix y s' assume s': "window_settled n x s' \<and> n \<le> st_ticks s'"
    have "wp (for_each (abort_window r a) xs) (\<lambda>_. window_settled n x) s'"
      using s' by (intro preservesD[OF preserves_for_each] abort_window_keeps_settled) simp
    with Cons.IH[of s'] s' have "wp (for_each (abort_window r a) xs)
        (\<lambda>_ s'. window_settled n x s' \<and> (\<forall>x\<in>set xs. window_settled n x s')) s'" by (simp add: wp_conj)
    then show "wp (for_each (abort_window r a) xs) (\<lambda>ys. wp (ret (y # ys)) (\<lambda>_ s'. \<forall>x\<in>set (x # xs). window_settled n x s')) s'"
      by (rule wp_mono) (simp add: wp_ret)
  qed
qed (simp add: wp_rules)

interpretation clock: plane_frame "\<lambda>s. st_clock s = c" for c
  by unfold_locales simp_all

lemma control_gates_inv: "control_cmd\<^sup>*\<^sup>* s t \<Longrightarrow> gates_inv s \<Longrightarrow> gates_inv t"
  by (induction rule: rtranclp_induct) (auto intro: control_gates)

lemma find_append: "find P (xs @ ys) = (case find P xs of None \<Rightarrow> find P ys | Some x \<Rightarrow> Some x)"
  by (induction xs) auto

text \<open>The last decision of a transport, when it is one that an earlier store had, was the last then.\<close>

lemma latest_before:
  assumes "latest P (xs @ ys) = Some q" and "distinct (map key (xs @ ys))" and "q \<in> set xs"
  shows "latest P xs = Some q"
proof -
  have "q \<notin> set ys" using assms(2,3) by auto
  moreover have "find P (rev ys) = Some z \<Longrightarrow> z \<in> set ys" for z by (metis find_Some_iff nth_mem set_rev)
  ultimately show ?thesis using assms(1) by (auto simp: latest_def find_append split: option.splits)
qed

lemma aborted_windows:
  assumes "abort_open_transport_windows reason actor s = Inr (ids, s')"
  shows "ids = map tv_id (open_windows s)" and "windows s' = windows s" and "open_windows s' = []"
    and "\<forall>x \<in> set (open_windows s). window_settled (st_ticks s) x s'"
proof -
  obtain r a ys where loop: "for_each (abort_window r a) (open_windows s) s = Inr (ys, s')"
    and ids: "ids = map tv_id (open_windows s)"
    using assms
    by (auto simp: abort_open_transport_windows_def required_text_def cmd_defs split: if_splits sum.splits)
  show settled: "\<forall>x \<in> set (open_windows s). window_settled (st_ticks s) x s'" using wpD[OF abort_loop[OF order_refl] loop] .
  show same: "windows s' = windows s" using preserves_Inr[OF preserves_for_each[OF abort_window_keeps(1)] _ loop] by blast
  have "i \<in> set (accounted_windows s')" if "i \<in> set (accounted_windows s)" for i
    using preserves_Inr[OF preserves_for_each[OF abort_window_keeps(3)] that loop] .
  moreover have "open_windows t = filter (\<lambda>r. tv_id r \<notin> set (accounted_windows t)) (windows t)" for t
    by (simp add: open_windows_def windows_def filter_filter)
  ultimately show "open_windows s' = []" using settled same by (auto simp: filter_empty_conv window_settled_def)
  show "ids = map tv_id (open_windows s)" by (rule ids)
qed

lemma authorizing_aborted:
  assumes abort: "abort_open_transport_windows reason actor s = Inr (ids, s')" and inv: "gates_inv s"
    and later: "control_cmd\<^sup>*\<^sup>* s' t"
    and answer: "answer (transport_activation_in_force p) t = Some (Some q)" and aborted: "tv_id q \<in> set ids"
  shows "\<exists>e k. tv_expires_at q = Some e \<and> st_ticks s \<le> k \<and> k < st_ticks s' \<and> e \<le> st_clock s k
    \<and> st_clock s (st_ticks t) < e"
proof -
  note facts = aborted_windows[OF abort]
  have step: "control_cmd s s'" using abort by (auto intro: on_gates gate_cmd.intros leadsI)
  have clocks: "st_clock s' = st_clock s" "st_clock t = st_clock s"
    using clock.control_cmd_keeps[OF step, of "st_clock s"] clock.control_cmds_keep[OF later, of "st_clock s"] by simp_all
  have inv': "gates_inv t" using control_gates_inv[OF later control_gates[OF step inv]] .
  obtain zs where more: "transport_activation_decisions t = transport_activation_decisions s' @ zs"
    using controls_extend[OF later] by (auto simp: extends_def prefix_def)
  have q: "latest (\<lambda>r. tv_transport r = p) (transport_activation_decisions t) = Some q" "tv_decision q = ''enable''"
    "\<forall>e. tv_expires_at q = Some e \<longrightarrow> st_clock t (st_ticks t) < e"
    using answer by (auto simp: answer_def transport_activation_in_force_def unless_run_out_def utc_now_def cmd_defs
        split: option.splits if_splits)
  then have "q \<in> set (transport_activation_decisions t)" and "tv_transport q = p"
    unfolding latest_def find_Some_iff by (metis nth_mem set_rev, blast)
  obtain x where x: "x \<in> set (open_windows s)" "tv_id x = tv_id q" using aborted facts(1) by auto
  then have "x \<in> set (windows s')" unfolding facts(2) by (simp add: windows_def open_windows_def)
  then have old: "x \<in> set (transport_activation_decisions s')" by (simp add: windows_def)
  have distinct: "distinct (map tv_id (transport_activation_decisions t))" using inv' by (simp add: gates_inv_def)
  have "q = x" using distinct old x(2) \<open>q \<in> set (transport_activation_decisions t)\<close>
    by (auto simp: more distinct_map dest: inj_onD)
  with latest_before[OF q(1)[unfolded more] distinct[unfolded more]] old
  have "latest (\<lambda>r. tv_transport r = p) (transport_activation_decisions s') = Some q" by simp
  moreover have "window_settled (st_ticks s) q s'" using facts(4) x(1) \<open>q = x\<close> by blast
  ultimately show ?thesis using q(2,3) \<open>tv_transport q = p\<close> by (auto simp: window_settled_def clocks)
qed

text \<open>C23. A restart accounts for every window it cannot prove was released. \<open>abort_open_transport_windows\<close> answers
  with the windows that no closing or aborting entry accounted for and leaves none such behind. In every later store
  none of the windows it aborted authorizes a send, unless the clock was set back: if one does, then a reading of the
  clock during the restart found that the window had ended, and the clock now reads an instant before its end. So
  with a clock that does not run backwards, none authorizes at any later reading.\<close>

theorem abort_accounts_for_windows:
  assumes "abort_open_transport_windows reason actor s = Inr (ids, s')" and "gates_inv s" and "control_cmd\<^sup>*\<^sup>* s' t"
  shows "ids = map tv_id (open_windows s) \<and> open_windows s' = []
    \<and> (\<forall>p r. answer (transport_activation_in_force p) t = Some (Some r) \<and> tv_id r \<in> set ids
         \<longrightarrow> (\<exists>e k. tv_expires_at r = Some e \<and> st_ticks s \<le> k \<and> k < st_ticks s' \<and> e \<le> st_clock s k
                \<and> st_clock s (st_ticks t) < e))
    \<and> (mono (st_clock s) \<and> st_ticks s' \<le> st_ticks t
         \<longrightarrow> (\<forall>p r. answer (transport_activation_in_force p) t = Some (Some r) \<longrightarrow> tv_id r \<notin> set ids))"
proof -
  note past = authorizing_aborted[OF assms]
  have "tv_id r \<notin> set ids"
    if "mono (st_clock s)" "st_ticks s' \<le> st_ticks t" "answer (transport_activation_in_force p) t = Some (Some r)" for p r
  proof
    assume "tv_id r \<in> set ids"
    from past[OF that(3) this] obtain e k where "k < st_ticks s'" "e \<le> st_clock s k" "st_clock s (st_ticks t) < e" by blast
    moreover from this that(2) have "st_clock s k \<le> st_clock s (st_ticks t)" by (intro monoD[OF that(1)]) simp
    ultimately show False by simp
  qed
  then show ?thesis using aborted_windows(1,3)[OF assms(1)] past by blast
qed

definition demo_open :: "store" where
  "demo_open = state_after (enable_transport_activation ''telegram'' ''window'' (Some 600) ''operator'' demo_key) demo_store"

theorem abort_accounts_for_windows_witness:
  "length (open_windows demo_open) = 1
   \<and> open_windows (state_after (abort_open_transport_windows ''restart'' ''operator'') demo_open) = []
   \<and> \<not> (\<exists>t p r. control_cmd\<^sup>*\<^sup>* (state_after (abort_open_transport_windows ''restart'' ''operator'') demo_open) t
        \<and> st_ticks (state_after (abort_open_transport_windows ''restart'' ''operator'') demo_open) \<le> st_ticks t
        \<and> answer (transport_activation_in_force p) t = Some (Some r) \<and> tv_id r \<in> set (map tv_id (open_windows demo_open)))"
proof -
  let ?m = "abort_open_transport_windows ''restart'' ''operator''"
  have ans: "answer ?m demo_open = Some (map tv_id (open_windows demo_open))"
    and inv: "gates_inv demo_open" and one: "length (open_windows demo_open) = 1"
    by code_simp+
  have "succeeds (enable_transport_activation ''telegram'' ''window'' (Some 600) ''operator'' demo_key) demo_store"
    by code_simp
  then have "control_cmd demo_store demo_open" unfolding demo_open_def by (rule on_gates[OF enable_transport[OF leads_after]])
  from clock.control_cmd_keeps[OF this, of "st_clock demo_store"]
  have mono: "mono (st_clock demo_open)" by (simp add: demo_store_def empty_store_def mono_def)
  note run = abort_accounts_for_windows[OF answer_after[OF ans] inv]
  show ?thesis
    using one run[OF rtranclp.rtrancl_refl, THEN conjunct2, THEN conjunct1]
      run[THEN conjunct2, THEN conjunct2, THEN conjunct2] mono by blast
qed

end
