(* ===== verification/Control_Tokens.thy ===== *)
theory Control_Tokens
  imports Control_History
begin

text \<open>
  Tokens of leases. A worker proves that it holds a lease by the owner and the epoch that its claim gave it.
  Once a row has been claimed again, given back or settled, the old token is worth nothing, in whatever
  happens later: every command that presents it is refused, or answers with the receipt of an earlier use of
  its key. And work that was settled stays as it is.
\<close>

definition no_lease :: "('r \<Rightarrow> string) \<Rightarrow> ('r \<Rightarrow> lease) \<Rightarrow> string \<Rightarrow> string \<Rightarrow> int \<Rightarrow> 'r list \<Rightarrow> bool" where
  "no_lease key lease i w e rows \<longleftrightarrow> (\<forall>r \<in> set rows. key r = i \<longrightarrow> lease r \<noteq> (Some w, e))"

section \<open>Runtime actions\<close>

lemma settle_action_refused:
  assumes "no_lease ra_id action_lease i w e (runtime_actions s)"
  shows "wp (settle_action i tg os w e v f after) (\<lambda>_ _. False) s"
  using assms unfolding settle_action_def
  by (auto simp: wp_rules get_runtime_action_def holds_action_def claim_fence_is_current_def no_lease_def
      action_lease_def dest!: find_row_SomeD)

lemma acknowledge_refused:
  assumes "no_lease ra_id action_lease i (strip w) e (runtime_actions s)"
  shows "refused (acknowledge_runtime_action i r at b l v a k g (Some w) e) s"
  unfolding acknowledge_runtime_action_def required_text_opt_def option.case
  using assms
  by (auto intro!: refused_text refused_epoch refused_command simp: wp_rules get_runtime_action_def holds_action_def
      claim_fence_is_current_def no_lease_def action_lease_def dest!: find_row_SomeD)

text \<open>C3. A token that was overtaken is worth nothing. Take a runtime action and a token (a worker and an epoch)
  that is not its lease and is not ahead of it: the lease was handed on, given back, or the action was
  settled. Then in every later store, each of the six commands that settle an action, presented with this
  token, is refused, or answers with the receipt of an earlier use of its key and changes nothing.\<close>

theorem stale_action_token:
  assumes "reachable s" and "control_cmd\<^sup>*\<^sup>* s s'" and "x \<in> set (runtime_actions s)"
    and "overtaken (strip w) e (action_lease x)"
  shows "\<forall>m \<in> set [acknowledge_runtime_action (ra_id x) r at b l v a k g (Some w) e,
      fail_runtime_action (ra_id x) w e v c a k, reject_runtime_action (ra_id x) w e v c a k,
      mark_runtime_action_outcome_unknown (ra_id x) w e v c a k,
      defer_runtime_action_reconciliation (ra_id x) w e v c a k,
      retry_runtime_action_delivery (ra_id x) w e v a k]. refused m s'"
proof -
  have none: "no_lease ra_id action_lease (ra_id x) (strip w) e (runtime_actions s')"
    unfolding no_lease_def
    using acts.overtaken_token[OF actions_evolve[OF assms(1,2)] assms(3) _ _ assms(4)] by blast
  show ?thesis
    unfolding fail_runtime_action_def reject_runtime_action_def mark_runtime_action_outcome_unknown_def
      defer_runtime_action_reconciliation_def retry_runtime_action_delivery_def
    by (auto intro!: acknowledge_refused[OF none] refused_text refused_epoch refused_command
        settle_action_refused[OF none])
qed

theorem stale_action_token_witness:
  "refused (retry_runtime_action_delivery demo_action_id ''wk'' 1 6 ''op'' demo_key) demo_unsure"
proof -
  have "map (\<lambda>a. (ra_id a, action_lease a)) (runtime_actions demo_unsure) = [(demo_action_id, (None, 1))]"
    by code_simp
  then obtain x where x: "x \<in> set (runtime_actions demo_unsure)" "ra_id x = demo_action_id" "action_lease x = (None, 1)"
    by (auto simp: map_eq_Cons_conv)
  moreover have "strip ''wk'' = ''wk''" by code_simp
  ultimately show ?thesis
    using stale_action_token[OF reachable_demo_unsure rtranclp.rtrancl_refl x(1), of "''wk''" 1]
    by (simp add: overtaken_def)
qed

section \<open>Pin releases and recovery commands\<close>

lemma settle_pin_refused:
  assumes "no_lease pr_id pin_lease i (strip w) e (runtime_pin_releases s)"
  shows "refused (settle_pin_release i w e v t c a k) s"
  unfolding settle_pin_release_def Let_def using assms
  by (auto intro!: refused_text refused_epoch refused_command simp: wp_rules get_pin_release_def
      claim_fence_is_current_def no_lease_def pin_lease_def dest!: find_row_SomeD)

lemma record_recovery_refused:
  assumes "no_lease rc_id recovery_lease i (strip w) e (runtime_recovery_commands s)"
  shows "refused (record_runtime_recovery_outcome i w e oc v d a k) s"
proof -
  have details: "wp (validate_recovery_details d) (\<lambda>_ s'. s' = s) s"
    using preservesD[OF keeps_validate_recovery_details[of "\<lambda>s'. s' = s" d]] by blast
  have valid: "refused (seq (validate_recovery_details d) f) s" if "\<And>x. refused (f x) s" for f
    unfolding refused_def wp_seq using details by (rule wp_mono) (use that in \<open>simp add: refused_def\<close>)
  show ?thesis
    unfolding record_runtime_recovery_outcome_def Let_def using assms
    by (auto intro!: valid refused_text refused_epoch refused_guard refused_command simp: wp_rules get_recovery_command_def
        claim_fence_is_current_def no_lease_def recovery_lease_def dest!: find_row_SomeD)
qed

definition demo_recovery :: "command_result op list" where
  "demo_recovery = demo_start @ [schedule_runtime_recovery ''run_0000'' ''attempt_00000'' 0 ''op'' demo_key,
     claim_runtime_recovery ''recovery_0000000'' ''wk'' 60 ''op'' demo_key,
     record_runtime_recovery_outcome ''recovery_0000000'' ''wk'' 1 ''recovered'' 1 [] ''op'' demo_key]"

definition demo_recovered :: store where
  "demo_recovered = state_after (script demo_recovery) demo_store"

definition demo_pins :: "command_result op list" where
  "demo_pins = demo_start @ [
     reserve_attempt_dispatch ''run_0000'' ''attempt_00000'' ''wk'' ''rel'' ''gen'' ''slot'' ''dig'' ''pr'' 0 60 ''op'' demo_key,
     fail_unbound_run ''run_0000'' ''attempt_00000'' 1 ''gone'' (Some ''wk'') True ''op'' demo_key,
     claim_pin_release ''pin_release_00000000'' ''wk'' 60 ''op'' demo_key,
     acknowledge_pin_release ''pin_release_00000000'' ''wk'' 1 2 ''op'' demo_key]"

definition demo_released :: store where
  "demo_released = state_after (script demo_pins) demo_store"

lemma reachable_demo_recovered: "reachable demo_recovered"
  unfolding demo_recovered_def
proof (rule reachable_script)
  show "succeeds (script demo_recovery) demo_store" by code_simp
qed (auto simp: demo_recovery_def demo_start_def intro: run_cmd.intros)

lemma reachable_demo_released: "reachable demo_released"
  unfolding demo_released_def
proof (rule reachable_script)
  show "succeeds (script demo_pins) demo_store" by code_simp
qed (auto simp: demo_pins_def demo_start_def intro: run_cmd.intros)

text \<open>C19. The same for the release of a runtime pin: a worker whose lease was overtaken can neither acknowledge
  nor fail a pin release at any later time; the most it gets is the receipt of what it already did under the
  same key. (A failed release may be retried, but under a new lease.)\<close>

theorem stale_pin_token:
  assumes "reachable s" and "control_cmd\<^sup>*\<^sup>* s s'" and "p \<in> set (runtime_pin_releases s)"
    and "overtaken (strip w) e (pin_lease p)"
  shows "refused (acknowledge_pin_release (pr_id p) w e v a k) s'
    \<and> refused (fail_pin_release (pr_id p) w e v c a k) s'"
proof -
  have "no_lease pr_id pin_lease (pr_id p) (strip w) e (runtime_pin_releases s')"
    unfolding no_lease_def using pins.overtaken_token[OF pins_evolve[OF assms(1,2)] assms(3) _ _ assms(4)] by blast
  then show ?thesis
    unfolding acknowledge_pin_release_def fail_pin_release_def by (auto intro!: refused_text settle_pin_refused)
qed

theorem stale_pin_token_witness:
  "refused (fail_pin_release ''pin_release_00000000'' ''wk'' 1 3 ''late'' ''op'' demo_key) demo_released"
proof -
  have "map (\<lambda>p. (pr_id p, pin_lease p)) (runtime_pin_releases demo_released) = [(''pin_release_00000000'', (None, 1))]"
    by code_simp
  then obtain p where p: "p \<in> set (runtime_pin_releases demo_released)" "pr_id p = ''pin_release_00000000''"
    "pin_lease p = (None, 1)"
    by (auto simp: map_eq_Cons_conv)
  moreover have "strip ''wk'' = ''wk''" by code_simp
  ultimately show ?thesis
    using stale_pin_token[OF reachable_demo_released rtranclp.rtrancl_refl p(1), of "''wk''" 1]
    by (simp add: overtaken_def)
qed

text \<open>C20. And for the recovery of a run: no outcome is recorded with a token that was overtaken.\<close>

theorem stale_recovery_token:
  assumes "reachable s" and "control_cmd\<^sup>*\<^sup>* s s'" and "x \<in> set (runtime_recovery_commands s)"
    and "overtaken (strip w) e (recovery_lease x)"
  shows "refused (record_runtime_recovery_outcome (rc_id x) w e oc v d a k) s'"
proof (rule record_recovery_refused)
  show "no_lease rc_id recovery_lease (rc_id x) (strip w) e (runtime_recovery_commands s')"
    unfolding no_lease_def using recs.overtaken_token[OF recoverys_evolve[OF assms(1,2)] assms(3) _ _ assms(4)] by blast
qed

theorem stale_recovery_token_witness:
  "refused (record_runtime_recovery_outcome ''recovery_0000000'' ''wk'' 1 ''inactive'' 2 [] ''op'' demo_key) demo_recovered"
proof -
  have "map (\<lambda>c. (rc_id c, recovery_lease c)) (runtime_recovery_commands demo_recovered) = [(''recovery_0000000'', (None, 1))]"
    by code_simp
  then obtain x where x: "x \<in> set (runtime_recovery_commands demo_recovered)" "rc_id x = ''recovery_0000000''"
    "recovery_lease x = (None, 1)"
    by (auto simp: map_eq_Cons_conv)
  moreover have "strip ''wk'' = ''wk''" by code_simp
  ultimately show ?thesis
    using stale_recovery_token[OF reachable_demo_recovered rtranclp.rtrancl_refl x(1), of "''wk''" 1]
    by (simp add: overtaken_def)
qed

section \<open>Settled work\<close>

lemma settled_stays:
  assumes "rows_evolve R old new" and "\<And>x y. R x y \<Longrightarrow> P x \<Longrightarrow> y = x" and "x \<in> set old" and "P x"
  shows "x \<in> set new"
  using rows_evolve_in[OF assms(1,3)] assms(2,4) by blast

lemmas evolved_rows = actions_evolve[unfolded acts.evolved_def, THEN conjunct1]
  recoverys_evolve[unfolded recs.evolved_def, THEN conjunct1] pins_evolve[unfolded pins.evolved_def, THEN conjunct1]
  decisions_evolve[unfolded decs.evolved_def, THEN conjunct1]



end
