(* ===== verification/Control_Readers.thy ===== *)
theory Control_Readers
  imports Control_Tokens
begin

text \<open>
  What \<open>ControlStore\<close> answers to readers: the event stream and its cursors, lists of threads, runs, decisions and
  messages with their pages, and who a thread, a run or a workspace belongs to. Reading changes nothing.

  Shown here: a reader that follows the cursors sees the event stream as an append-only list; a scope of a
  transport stays bound to its thread; the answer to a command of a transport is given once.
\<close>

section \<open>Events\<close>

text \<open>\<open>global_cursor\<close> is assigned by the database from 1 on and no event is ever deleted, so it is the position in
  the table.\<close>

definition cursored :: "store \<Rightarrow> (int \<times> run_event) list" where
  "cursored s = map (\<lambda>k. (int k + 1, run_events s ! k)) [0..<length (run_events s)]"

definition list_events :: "int \<Rightarrow> int \<Rightarrow> (int \<times> run_event) list op" where
  "list_events after_cursor limit =
     seq (guard (1 \<le> limit \<and> limit \<le> 1000) (ValueError ''limit must be between 1 and 1000'')) (\<lambda>_.
     gets (\<lambda>s. take (nat limit) (filter (\<lambda>(c, e). after_cursor < c) (cursored s))))"

definition list_run_events :: "string \<Rightarrow> int \<Rightarrow> (int \<times> run_event) list op" where
  "list_run_events run_id after_sequence =
     seq (get_run run_id) (\<lambda>_.
     gets (\<lambda>s. select_by (\<lambda>(c, e). ev_sequence e) (\<lambda>(c, e). ev_run_id e = run_id \<and> after_sequence < ev_sequence e)
       (cursored s)))"

definition latest_event_cursor :: "int op" where
  "latest_event_cursor = gets (\<lambda>s. case cursored s of [] \<Rightarrow> 0 | _ \<Rightarrow> Max (fst ` set (cursored s)))"

definition get_run_event :: "string \<Rightarrow> (int \<times> run_event) op" where
  "get_run_event event_id =
     seq (required_text event_id ''event_id'' 500) (\<lambda>event_id.
     fetch (NotFound ''run event'' event_id) cursored (\<lambda>(c, e). ev_id e) event_id)"

section \<open>Lists\<close>

definition latest_runtime_binding :: "string \<Rightarrow> string \<Rightarrow> runtime_binding option op" where
  "latest_runtime_binding thread_id adapter_id =
     seq (get_thread thread_id) (\<lambda>_.
     gets (\<lambda>s. last_by (\<lambda>b. (rb_generation b, text_key (rb_created_at b), rb_id b))
       (\<lambda>b. rb_thread_id b = thread_id \<and> rb_adapter_id b = adapter_id) (runtime_bindings s)))"

definition list_workspaces :: "workspace list op" where
  "list_workspaces = gets (\<lambda>s. select_by (\<lambda>w. (text_key (ws_created_at w), ws_id w)) (\<lambda>_. True) (workspaces s))"

definition thread_page_limit :: int where
  "thread_page_limit = 500"

definition thread_order :: "thread \<Rightarrow> int \<times> string" where
  "thread_order t = (text_key (th_created_at t), th_id t)"

text \<open>The page and the cursor of the next: the last row of a page that is not the last one.\<close>

definition paged :: "('r \<Rightarrow> string) \<Rightarrow> nat \<Rightarrow> 'r list \<Rightarrow> 'r list \<times> string option" where
  "paged key limit rows = (let items = take limit rows in
     (items, if limit < length rows \<and> items \<noteq> [] then Some (key (last items)) else None))"

definition list_threads :: "string \<Rightarrow> string option \<Rightarrow> int option \<Rightarrow> bool \<Rightarrow> (thread list \<times> string option) op" where
  "list_threads workspace_id after_id limit include_archived =
     seq (guard (case limit of None \<Rightarrow> True | Some n \<Rightarrow> 1 \<le> n \<and> n \<le> thread_page_limit)
            (ValueError ''limit must be between 1 and 500'')) (\<lambda>_.
     seq (get_workspace workspace_id) (\<lambda>_.
     seq (case after_id of
            None \<Rightarrow> ret (\<lambda>t. True)
          | Some i \<Rightarrow>
              seq (get_thread i) (\<lambda>after.
              seq (guard (th_workspace_id after = workspace_id) (ValueError ''after_id does not belong to workspace'')) (\<lambda>_.
              ret (\<lambda>t. thread_order after < thread_order t)))) (\<lambda>beyond.
     seq (gets (\<lambda>s. select_by thread_order (\<lambda>t. th_workspace_id t = workspace_id
            \<and> (include_archived \<or> th_archived_at t = None) \<and> beyond t) (threads s))) (\<lambda>rows.
     ret (case limit of None \<Rightarrow> (rows, None) | Some n \<Rightarrow> paged th_id (nat n) (take (nat (n + 1)) rows))))))"

text \<open>Runs are listed newest first, by the time itself (the texts are brought to one form first).\<close>

definition run_order :: "run \<Rightarrow> instant \<times> string" where
  "run_order r = (rn_created_at r, rn_id r)"

definition list_thread_runs :: "string \<Rightarrow> string option \<Rightarrow> int \<Rightarrow> (run list \<times> string option) op" where
  "list_thread_runs thread_id after_id limit =
     seq (guard (1 \<le> limit \<and> limit \<le> 100) (ValueError ''limit must be between 1 and 100'')) (\<lambda>_.
     seq (get_thread thread_id) (\<lambda>_.
     seq (case after_id of
            None \<Rightarrow> ret (\<lambda>r. True)
          | Some i \<Rightarrow>
              seq (get_run i) (\<lambda>after.
              seq (guard (rn_thread_id after = thread_id) (ValueError ''after_id does not belong to thread'')) (\<lambda>_.
              ret (\<lambda>r. run_order r < run_order after)))) (\<lambda>beyond.
     seq (gets (\<lambda>s. rev (select_by run_order (\<lambda>r. rn_thread_id r = thread_id \<and> beyond r) (runs s)))) (\<lambda>rows.
     ret (paged rn_id (nat limit) (take (nat (limit + 1)) rows))))))"

definition list_decisions :: "decision_state \<Rightarrow> decision list op" where
  "list_decisions state = gets (\<lambda>s. select_by (\<lambda>d. (text_key (de_created_at d), de_id d)) (\<lambda>d. de_state d = state)
     (decisions s))"

definition list_messages :: "string \<Rightarrow> message list op" where
  "list_messages thread_id =
     seq (get_thread thread_id) (\<lambda>_.
     gets (\<lambda>s. select_by ms_position (\<lambda>m. ms_thread_id m = thread_id) (messages s)))"

section \<open>Whose it is\<close>

text \<open>\<open>_receipt_subject_id\<close>: the resource a receipt names.\<close>

definition receipt_subject_id :: "receipt \<Rightarrow> string option" where
  "receipt_subject_id c = (case jget ''id'' (rt_response c) of Some (JStr i) \<Rightarrow> Some i | _ \<Rightarrow> None)"

definition filed_by :: "string \<Rightarrow> string \<Rightarrow> store \<Rightarrow> string option" where
  "filed_by operation i s = map_option rt_actor_id
     (first_by (\<lambda>c. (text_key (rt_created_at c), rt_actor_id c))
        (\<lambda>c. rt_operation c = operation \<and> receipt_subject_id c = Some i) (idempotency_receipts s))"

definition drivable_thread :: "string \<Rightarrow> store \<Rightarrow> bool" where
  "drivable_thread thread_id s =
     (list_ex (\<lambda>m. ms_thread_id m = thread_id \<and> ms_role m = ''user'') (messages s)
      \<or> list_ex (\<lambda>b. tb_thread_id b = thread_id) (bindings s))"

definition consumer_filed :: "string \<Rightarrow> string \<Rightarrow> store \<Rightarrow> bool" where
  "consumer_filed operation i s = list_ex (\<lambda>c. rt_actor_id c = capture_consumer_actor \<and> rt_operation c = operation
     \<and> receipt_subject_id c = Some i) (idempotency_receipts s)"

definition machine_thread :: "thread \<Rightarrow> store \<Rightarrow> bool" where
  "machine_thread t s =
     (consumer_filed (''POST:/api/v1/workspaces/'' @ th_workspace_id t @ ''/threads'') (th_id t) s
      \<or> list_ex (\<lambda>r. rn_thread_id r = th_id t \<and> list_ex (\<lambda>w. wf_run_id w = rn_id r) (workflow_instances s)) (runs s))"

definition machine_workspace :: "workspace \<Rightarrow> store \<Rightarrow> bool" where
  "machine_workspace w s = consumer_filed ''POST:/api/v1/workspaces'' (ws_id w) s"

definition conversation_run :: "run \<Rightarrow> store \<Rightarrow> bool" where
  "conversation_run r s =
     (\<not> list_ex (\<lambda>w. wf_run_id w = rn_id r) (workflow_instances s)
      \<and> \<not> list_ex (\<lambda>t. th_id t = rn_thread_id r \<and> machine_thread t s) (threads s)
      \<and> drivable_thread (rn_thread_id r) s)"

definition thread_is_machine :: "string \<Rightarrow> bool op" where
  "thread_is_machine thread_id = gets (\<lambda>s. list_ex (\<lambda>t. th_id t = thread_id \<and> machine_thread t s) (threads s))"

definition machine_thread_ids :: "string \<Rightarrow> string list option \<Rightarrow> string list op" where
  "machine_thread_ids workspace_id thread_ids =
     seq (get_workspace workspace_id) (\<lambda>_.
     gets (\<lambda>s. map th_id (filter (\<lambda>t. th_workspace_id t = workspace_id
       \<and> (case thread_ids of None \<Rightarrow> True | Some ids \<Rightarrow> th_id t \<in> set ids) \<and> machine_thread t s) (threads s))))"

definition workspace_is_machine :: "string \<Rightarrow> bool op" where
  "workspace_is_machine workspace_id =
     gets (\<lambda>s. list_ex (\<lambda>w. ws_id w = workspace_id \<and> machine_workspace w s) (workspaces s))"

definition machine_workspace_ids :: "string list op" where
  "machine_workspace_ids = gets (\<lambda>s. map ws_id (filter (\<lambda>w. machine_workspace w s) (workspaces s)))"

definition workspace_creator :: "string \<Rightarrow> string option op" where
  "workspace_creator workspace_id =
     seq (get_workspace workspace_id) (\<lambda>_. gets (filed_by ''POST:/api/v1/workspaces'' workspace_id))"

definition thread_can_carry_a_turn :: "string \<Rightarrow> bool op" where
  "thread_can_carry_a_turn thread_id =
     seq (get_thread thread_id) (\<lambda>t. gets (drivable_thread thread_id))"

definition run_creator :: "string \<Rightarrow> string option op" where
  "run_creator run_id =
     seq (get_run run_id) (\<lambda>r. gets (filed_by (''POST:/api/v1/threads/'' @ rn_thread_id r @ ''/runs'') run_id))"

definition thread_creator :: "string \<Rightarrow> string option op" where
  "thread_creator thread_id =
     seq (get_thread thread_id) (\<lambda>t.
     gets (filed_by (''POST:/api/v1/workspaces/'' @ th_workspace_id t @ ''/threads'') thread_id))"

definition run_owns_workflow :: "string \<Rightarrow> bool op" where
  "run_owns_workflow run_id =
     seq (get_run run_id) (\<lambda>_. gets (\<lambda>s. list_ex (\<lambda>w. wf_run_id w = run_id) (workflow_instances s)))"

definition machine_run_ids :: "string \<Rightarrow> string list option \<Rightarrow> string list op" where
  "machine_run_ids thread_id run_ids =
     seq (get_thread thread_id) (\<lambda>_.
     gets (\<lambda>s. map rn_id (filter (\<lambda>r. rn_thread_id r = thread_id
       \<and> (case run_ids of None \<Rightarrow> True | Some ids \<Rightarrow> rn_id r \<in> set ids) \<and> machine_run_predicate None r s) (runs s))))"

definition run_is_conversation :: "string \<Rightarrow> bool op" where
  "run_is_conversation run_id = gets (\<lambda>s. list_ex (\<lambda>r. rn_id r = run_id \<and> conversation_run r s) (runs s))"

definition converged_states :: "run_state list" where
  "converged_states = [R_completed, R_failed, R_canceled, R_paused, R_waiting_for_decision]"

definition list_recoverable_runs :: "bool \<Rightarrow> run list op" where
  "list_recoverable_runs conversations_only =
     gets (\<lambda>s. select_by (\<lambda>r. (text_key (rn_created_at r), rn_id r))
       (\<lambda>r. rn_state r \<notin> set converged_states \<and> (conversations_only \<longrightarrow> conversation_run r s)) (runs s))"

section \<open>The event stream\<close>

lemma cursors_after:
  "0 \<le> c \<Longrightarrow> filter (\<lambda>(k, e). c < k) (map (\<lambda>k. (int k + 1, f k)) [0..<n]) = drop (nat c) (map (\<lambda>k. (int k + 1, f k)) [0..<n])"
proof (induction n)
  case (Suc n)
  have "c < int n + 1 \<longleftrightarrow> nat c \<le> n" using Suc.prems by linarith
  with Suc show ?case by auto
qed simp

lemma list_events_page:
  assumes "0 \<le> c" and "1 \<le> n" and "n \<le> 1000"
  shows "list_events c n s = Inr (take (nat n) (drop (nat c) (cursored s)), s)"
  using assms by (simp add: list_events_def cursored_def cursors_after guard_def gets_def seq_def ret_def)

lemma cursored_append:
  assumes "run_events s' = run_events s @ zs"
  shows "\<exists>ws. cursored s' = cursored s @ ws"
proof -
  let ?f = "\<lambda>s k. (int k + 1, run_events s ! k)"
  have upto: "[0..<length (run_events s')] = [0..<length (run_events s)] @ [length (run_events s)..<length (run_events s')]"
    using upt_add_eq_append[of 0 "length (run_events s)" "length zs"] by (simp only: assms length_append le0)
  have same: "map (?f s') [0..<length (run_events s)] = map (?f s) [0..<length (run_events s)]"
    by (rule map_cong) (simp_all add: assms nth_append)
  have "cursored s' = cursored s @ map (?f s') [length (run_events s)..<length (run_events s')]"
    unfolding cursored_def upto map_append same ..
  then show ?thesis ..
qed

lemma later_cursored: "control_cmd\<^sup>*\<^sup>* s s' \<Longrightarrow> \<exists>ws. cursored s' = cursored s @ ws"
proof -
  assume "control_cmd\<^sup>*\<^sup>* s s'"
  then have "extends s s'"
  proof (induction rule: rtranclp_induct)
    case (step t t')
    then show ?case by (blast intro: control_extends)
  qed (simp add: extends_def)
  then obtain zs where "run_events s' = run_events s @ zs" by (auto simp: extends_def prefix_def)
  then show ?thesis by (rule cursored_append)
qed

lemma nth_cursored: "k < length (cursored s) \<Longrightarrow> fst (cursored s ! k) = int k + 1"
  by (simp add: cursored_def)

text \<open>A reader: it polls stores that follow each other, and takes the cursor of the last event it got to the next
  poll.\<close>

fun follow :: "(store \<times> int) list \<Rightarrow> int \<Rightarrow> (int \<times> run_event) list option" where
  "follow [] c = Some []"
| "follow ((s, limit) # polls) c = (case list_events c limit s of
     Inl _ \<Rightarrow> None
   | Inr (page, _) \<Rightarrow> map_option (\<lambda>rest. page @ rest) (follow polls (if page = [] then c else fst (last page))))"

fun later_polls :: "store \<Rightarrow> (store \<times> int) list \<Rightarrow> bool" where
  "later_polls s [] \<longleftrightarrow> True"
| "later_polls s ((t, limit) # polls) \<longleftrightarrow> control_cmd\<^sup>*\<^sup>* s t \<and> 1 \<le> limit \<and> limit \<le> 1000 \<and> later_polls t polls"

lemma polled_later: "later_polls s polls \<Longrightarrow> polls \<noteq> [] \<Longrightarrow> control_cmd\<^sup>*\<^sup>* s (fst (last polls))"
proof (induction polls arbitrary: s)
  case (Cons p polls)
  then show ?case by (cases p; cases polls) (auto intro: rtranclp_trans)
qed simp

lemma last_cursor:
  assumes "page = take n (drop c (cursored s))" and "page \<noteq> []"
  shows "fst (last page) = int (c + length page)"
proof -
  have "c + length page \<le> length (cursored s)" "0 < length page" using assms by auto
  moreover have "last page = cursored s ! (c + length page - 1)"
    using assms calculation by (simp add: last_conv_nth)
  ultimately show ?thesis using nth_cursored[of "c + length page - 1" s] by (cases "length page") simp_all
qed

lemma follow_stream:
  assumes "later_polls s polls" and "0 \<le> c" and "polls \<noteq> []"
  shows "\<exists>k. follow polls c = Some (take k (drop (nat c) (cursored (fst (last polls)))))
    \<and> (int (length (cursored (fst (last polls)))) - c \<le> snd (last polls)
       \<longrightarrow> length (cursored (fst (last polls))) \<le> nat c + k)"
  using assms
proof (induction polls arbitrary: s c)
  case (Cons p polls)
  obtain t n where p: "p = (t, n)" by (cases p)
  define page where "page = take (nat n) (drop (nat c) (cursored t))"
  have poll: "list_events c n t = Inr (page, t)" and later: "later_polls t polls"
    using Cons.prems p by (auto simp: page_def list_events_page)
  define c' where "c' = (if page = [] then c else fst (last page))"
  have c': "0 \<le> c'" "nat c' = nat c + length page"
    using last_cursor[OF page_def] Cons.prems(2) by (auto simp: c'_def)
  show ?case
  proof (cases "polls = []")
    case True
    then have "follow (p # polls) c = Some (take (nat n) (drop (nat c) (cursored t)))" using poll p by (simp add: page_def)
    with True p show ?thesis by (intro exI[of _ "nat n"]) auto
  next
    case False
    then obtain k where k: "follow polls c' = Some (take k (drop (nat c') (cursored (fst (last polls)))))"
        "int (length (cursored (fst (last polls)))) - c' \<le> snd (last polls)
         \<Longrightarrow> length (cursored (fst (last polls))) \<le> nat c' + k"
      using Cons.IH[OF later c'(1)] by blast
    have "c \<le> c'" using c' Cons.prems(2) by linarith
    obtain zs where zs: "cursored (fst (last polls)) = cursored t @ zs"
      using later_cursored[OF polled_later[OF later False]] by blast
    have "length page \<le> length (drop (nat c) (cursored t))" "take (length page) (drop (nat c) (cursored t)) = page"
      unfolding page_def by (simp_all add: min_def)
    then have "page = take (length page) (drop (nat c) (cursored (fst (last polls))))"
      by (simp add: zs)
    then have "page @ take k (drop (nat c') (cursored (fst (last polls))))
        = take (length page + k) (drop (nat c) (cursored (fst (last polls))))"
      unfolding c'(2) take_add drop_drop add.commute[of "nat c"] by simp
    then have "follow (p # polls) c = Some (take (length page + k) (drop (nat c) (cursored (fst (last polls)))))"
      using k(1) poll p by (simp add: c'_def)
    with k(2) \<open>c \<le> c'\<close> c'(2) p False show ?thesis by (intro exI[of _ "length page + k"]) auto
  qed
qed simp

text \<open>C13. The event stream that readers see refines an append-only list. The events of a store, with their cursors,
  are the list of all events numbered from 1 on; a reader that polls at stores that follow each other, with any page
  sizes, and continues each time after the last cursor it got, receives a section of the list of the last store that
  begins right after its first cursor, without gap, repetition or change, whatever was written between the polls; and
  it has received everything when the last page was large enough.\<close>

theorem event_stream_followed:
  assumes "later_polls s polls" and "polls \<noteq> []" and "0 \<le> c"
  shows "map snd (cursored t) = run_events t \<and> map fst (cursored t) = [1..int (length (run_events t))]
    \<and> (\<exists>k. follow polls c = Some (take k (drop (nat c) (cursored (fst (last polls))))))
    \<and> (int (length (cursored (fst (last polls)))) - c \<le> snd (last polls)
       \<longrightarrow> follow polls c = Some (drop (nat c) (cursored (fst (last polls)))))"
proof (intro conjI impI)
  show "map snd (cursored t) = run_events t" by (simp add: cursored_def map_nth comp_def)
  show "map fst (cursored t) = [1..int (length (run_events t))]"
    by (rule nth_equalityI) (simp_all add: cursored_def)
  obtain k where k: "follow polls c = Some (take k (drop (nat c) (cursored (fst (last polls)))))"
      "int (length (cursored (fst (last polls)))) - c \<le> snd (last polls)
       \<Longrightarrow> length (cursored (fst (last polls))) \<le> nat c + k"
    using follow_stream[OF assms(1,3,2)] by blast
  then show "\<exists>k. follow polls c = Some (take k (drop (nat c) (cursored (fst (last polls)))))" by blast
  assume "int (length (cursored (fst (last polls)))) - c \<le> snd (last polls)"
  with k show "follow polls c = Some (drop (nat c) (cursored (fst (last polls))))" by simp
qed

theorem event_stream_followed_witness:
  "follow [(demo_unsure, 3), (demo_unsure, 1000)] 0 = Some (cursored demo_unsure) \<and> length (cursored demo_unsure) = 7"
proof -
  have "length (run_events demo_unsure) = 7" by code_simp
  then have "length (cursored demo_unsure) = 7" by (simp add: cursored_def)
  with event_stream_followed[of demo_unsure "[(demo_unsure, 3), (demo_unsure, 1000)]" 0] show ?thesis by simp
qed

section \<open>Transports\<close>

text \<open>The binding of a scope in every later store.\<close>

definition bound :: "transport_binding \<Rightarrow> store \<Rightarrow> bool" where
  "bound b s \<longleftrightarrow> binding_of (tb_transport b) (tb_external_scope b) s = Some b \<and> find_row tb_id (tb_id b) (bindings s) = Some b"

lemma bound_append:
  "bound b s \<Longrightarrow> bound b (mail_update (transport_bindings_update (\<lambda>bs. bs @ [x])) s)"
  by (simp add: bound_def binding_of_def bindings_def find_row_def find_append)

interpretation bound: plane_frame "bound b" for b
  by unfold_locales ((erule bound_append) | simp add: bound_def binding_of_def bindings_def)+

text \<open>The stored answer to a command in every later store.\<close>

definition answered :: "command_receipt \<Rightarrow> store \<Rightarrow> bool" where
  "answered r s \<longleftrightarrow> find_row command_receipt_key (command_receipt_key r) (command_receipts s) = Some r"

interpretation answered: plane_frame "answered r" for r
  by unfold_locales (simp_all add: answered_def command_receipts_def find_row_def find_append)

interpretation bound_ids: plane_frame "\<lambda>s. distinct (map tb_id (bindings s))"
  by unfold_locales (auto simp: bindings_def)

lemma later_bound:
  assumes "reachable s" and "control_cmd\<^sup>*\<^sup>* s s'" and "binding_of (tb_transport b) (tb_external_scope b) s = Some b"
  shows "bound b s'"
proof (rule bound.control_cmds_keep[OF assms(2)])
  have "distinct (map tb_id (bindings s))"
    by (rule bound_ids.reachable_keeps[OF assms(1)]) (simp add: bindings_def empty_store_def empty_mail_def)
  moreover have "b \<in> set (bindings s)" using assms(3) by (auto simp: binding_of_def find_Some_iff)
  ultimately show "bound b s" using assms(3) by (simp add: bound_def find_row_unique)
qed

lemma bind_refused:
  assumes "bound b s" and "strip t = tb_transport b" and "d (strip sc) = tb_external_scope b" and "i \<noteq> tb_thread_id b"
  shows "refused (bind_transport d t sc i a k) s"
  using assms unfolding refused_def bind_transport_def Let_def
  by (auto simp: wp_rules get_thread_def get_transport_binding_def bound_def find_receipt_def validate_key_def
      split: option.split)

text \<open>C14. A scope of a transport, once bound to a thread, stays bound to it: in every later store the scope resolves to
  the very binding, and a request to bind it to another thread is refused, or answers with the receipt of an earlier
  use of its key.\<close>

theorem scope_stays_bound:
  assumes "reachable s" and "control_cmd\<^sup>*\<^sup>* s s'" and "binding_of (tb_transport b) (d sc) s = Some b"
    and "strip sc = sc" and "strip (tb_transport b) = tb_transport b"
  shows "resolve_transport d (tb_transport b) sc s' = Inr (Some b, s')
    \<and> (i \<noteq> tb_thread_id b \<longrightarrow> refused (bind_transport d (tb_transport b) sc i a k) s')"
proof -
  have scope: "tb_external_scope b = d sc" using assms(3) by (auto simp: binding_of_def find_Some_iff)
  have b: "bound b s'" using later_bound[OF assms(1,2)] assms(3) scope by simp
  then have "resolve_transport d (tb_transport b) sc s' = Inr (Some b, s')"
    by (simp add: resolve_transport_def scope bound_def get_transport_binding_def seq_def gets_def ret_def fetch_def)
  with bind_refused[OF b, of "tb_transport b" d sc i a k] scope assms(4,5) show ?thesis by simp
qed

definition demo_scope :: "command_result op" where
  "demo_scope = bind_transport (\<lambda>x. ''digest:'' @ x) ''telegram'' ''chat'' ''thread_00'' ''op'' demo_key"

definition demo_bound :: store where
  "demo_bound = state_after (script (demo_start @ [demo_scope])) demo_store"

lemma reachable_demo_bound: "reachable demo_bound"
  unfolding demo_bound_def
proof (rule reachable_script)
  show "succeeds (script (demo_start @ [demo_scope])) demo_store" by code_simp
qed (auto simp: demo_start_def demo_scope_def intro: run_cmd.intros)

theorem scope_stays_bound_witness:
  "refused (bind_transport (\<lambda>x. ''digest:'' @ x) ''telegram'' ''chat'' ''thread_01'' ''op2'' demo_key) demo_bound"
proof -
  have "map_option (\<lambda>b. (tb_transport b, tb_thread_id b)) (binding_of ''telegram'' ''digest:chat'' demo_bound)
      = Some (''telegram'', ''thread_00'')" by code_simp
  then obtain b where b: "binding_of ''telegram'' ''digest:chat'' demo_bound = Some b" "tb_transport b = ''telegram''"
      "tb_thread_id b = ''thread_00''" by auto
  have strips: "strip ''chat'' = ''chat''" "strip ''telegram'' = ''telegram''" by code_simp+
  show ?thesis
    using scope_stays_bound[OF reachable_demo_bound rtranclp.rtrancl_refl, of b "\<lambda>x. ''digest:'' @ x" "''chat''"] b strips by simp
qed

text \<open>What a document says does not depend on the store it is read in.\<close>

definition storeless :: "'a op \<Rightarrow> bool" where
  "storeless m \<longleftrightarrow> (\<exists>r. m = lift_result r)"

lemma storeless_basic: "storeless (ret v)" "storeless (raise e)" "storeless (guard b e)" "storeless (required_text t n k)"
  by (auto simp: storeless_def lift_result_def guard_def required_text_def intro: exI[of _ "Inr _"] exI[of _ "Inl _"])

lemma storeless_seq: "storeless m \<Longrightarrow> (\<And>v. storeless (f v)) \<Longrightarrow> storeless (seq m f)"
proof -
  assume "storeless m" and f: "\<And>v. storeless (f v)"
  then obtain r where m: "m = lift_result r" by (auto simp: storeless_def)
  show ?thesis
  proof (cases r)
    case (Inl e)
    then have "seq m f = raise e" using m by (auto simp: seq_def lift_result_def raise_def)
    then show ?thesis by (simp add: storeless_basic)
  next
    case (Inr v)
    then have "seq m f = f v" using m by (auto simp: seq_def lift_result_def ret_def)
    then show ?thesis by (simp add: f)
  qed
qed

lemma storeless_response: "storeless (construct_response j)"
proof -
  have texts: "storeless (required_text_json x n k)" for x n k
    unfolding required_text_json_def by (auto intro: storeless_basic split: option.split json.split)
  have count: "storeless (count_at_least n x m)" for n x m
    unfolding count_at_least_def by (cases x) (auto intro!: storeless_basic storeless_seq)
  have "storeless (transport_command_response kvs)" for kvs
    unfolding transport_command_response_def
    by (auto intro!: storeless_basic storeless_seq texts count split: option.split json.split)
  then show ?thesis unfolding construct_response_def by (auto intro!: storeless_basic split: json.split)
qed

lemma response_anywhere: "construct_response j s = Inr (x, t) \<Longrightarrow> construct_response j s' = Inr (x, s')"
proof -
  assume returns: "construct_response j s = Inr (x, t)"
  obtain r where r: "construct_response j = lift_result r" using storeless_response by (auto simp: storeless_def)
  then show "construct_response j s' = Inr (x, s')"
    using returns by (cases r) (simp_all add: lift_result_def raise_def ret_def)
qed

lemma row_reads:
  "transport_command_row tn k s = Inr (Some v, t) \<longleftrightarrow>
     t = s \<and> find_row command_receipt_key (tn, k) (command_receipts s) = Some (sc_row v)
     \<and> construct_response (cc_response (sc_row v)) s = Inr (sc_response v, s)"
proof -
  have same: "construct_response j s = Inr (x, t') \<Longrightarrow> t' = s" for j x t'
    using response_anywhere by (metis Inr_inject prod.inject)
  show ?thesis
    by (cases v) (auto simp: transport_command_row_def seq_def gets_def ret_def split: option.splits sum.splits dest: same)
qed

lemma later_row:
  assumes "transport_command_row tn k s = Inr (Some v, t)" and "control_cmd\<^sup>*\<^sup>* s s'"
  shows "transport_command_row tn k s' = Inr (Some v, s')"
proof -
  have row: "find_row command_receipt_key (tn, k) (command_receipts s) = Some (sc_row v)"
    and response: "construct_response (cc_response (sc_row v)) s = Inr (sc_response v, s)"
    using assms(1) by (auto simp: row_reads)
  have key: "command_receipt_key (sc_row v) = (tn, k)" using row by (auto dest: find_row_SomeD)
  then have "answered (sc_row v) s" using row by (simp add: answered_def)
  then have "answered (sc_row v) s'" by (rule answered.control_cmds_keep[OF assms(2)])
  with key response_anywhere[OF response] show ?thesis by (simp add: row_reads answered_def)
qed

lemma insert_command_wpI:
  assumes "\<And>s'. find_row command_receipt_key (command_receipt_key r) (command_receipts s') = Some r \<Longrightarrow> Q () s'"
  shows "wp (insert_command_receipt r) Q s"
  unfolding wp_insert_command_receipt
proof (intro impI, elim conjE, rule assms)
  assume "command_receipt_key r \<notin> command_receipt_key ` set (command_receipts s)"
  then have "find_row command_receipt_key (command_receipt_key r) (command_receipts s) = None"
    by (simp add: find_row_None_iff)
  then show "find_row command_receipt_key (command_receipt_key r)
      (command_receipts (mail_update (transport_command_receipts_update (\<lambda>rs. rs @ [r])) s)) = Some r"
    by (simp add: command_receipts_def find_row_def find_append)
qed

lemma command_row_wpI:
  assumes "Q None s" and "\<And>w. transport_command_row tn k s = Inr (Some w, s) \<Longrightarrow> Q (Some w) s"
  shows "wp (transport_command_row tn k) Q s"
proof (rule wpI)
  fix x s' assume row: "transport_command_row tn k s = Inr (x, s')"
  show "Q x s'"
  proof (cases x)
    case None
    then have "s' = s" using row
      by (auto simp: transport_command_row_def seq_def gets_def ret_def split: option.splits sum.splits)
    then show ?thesis using assms(1) None by simp
  next
    case (Some w)
    then show ?thesis using row assms(2) by (auto simp: row_reads)
  qed
qed

lemma record_command_reads:
  "wp (record_transport_command tn k h c)
     (\<lambda>v t. transport_command_row tn k t = Inr (Some v, t) \<and> cc_request_hash (sc_row v) = h
       \<and> is_transport_name tn \<and> valid_digest h \<and> valid_key k) s"
proof -
  have written: "wp (transport_command_row tn k)
      (\<lambda>x. wp (case x of None \<Rightarrow> raise e | Some w \<Rightarrow> ret w)
        (\<lambda>v t. find_row command_receipt_key (tn, k) (command_receipts t) = Some (sc_row v)
          \<and> construct_response (cc_response (sc_row v)) t = Inr (sc_response v, t)
          \<and> cc_request_hash (sc_row v) = cc_request_hash r)) t"
    if "find_row command_receipt_key (tn, k) (command_receipts t) = Some r" for e r t
    using that by (intro command_row_wpI) (auto simp: wp_rules row_reads)
  show ?thesis
    unfolding record_transport_command_def transport_name_def transport_digest_def validate_key_def wp_seq wp_guard
      row_reads
    by (intro impI, rule wpI, rule command_row_wpI)
      (auto simp: wp_rules command_receipt_key_def row_reads intro!: insert_command_wpI dest!: written)
qed

text \<open>C12. A command of a transport is answered once: after an answer was recorded for a key, every later store gives
  that answer for the key and the request, recording another answer under them gives the first one and changes
  nothing, and under another request the key is neither read nor recorded.\<close>

theorem transport_command_answered_once:
  assumes "record_transport_command tn k h c s = Inr (v, s1)" and "control_cmd\<^sup>*\<^sup>* s1 s2"
  shows "get_transport_command tn k h s2 = Inr (Some v, s2)
    \<and> wp (record_transport_command tn k h c') (\<lambda>w s3. w = v \<and> s3 = s2) s2
    \<and> (h' \<noteq> h \<longrightarrow> wp (record_transport_command tn k h' c') (\<lambda>_ _. False) s2
        \<and> wp (get_transport_command tn k h') (\<lambda>_ _. False) s2)"
proof -
  note recorded = wpD[OF record_command_reads assms(1)]
  then have row: "transport_command_row tn k s2 = Inr (Some v, s2)" using later_row[OF _ assms(2)] by blast
  have response: "preserves (\<lambda>t. t = s2) (transport_command_response kvs)" for kvs by (rule keeps)
  have looked: "wp (transport_command_row tn k) Q s2 = Q (Some v) s2" for Q by (simp add: wp_def row)
  have writes: "wp (record_transport_command tn k g c') (\<lambda>w s3. g = h \<and> w = v \<and> s3 = s2) s2" for g
    unfolding record_transport_command_def transport_name_def transport_digest_def validate_key_def wp_seq wp_guard
    using recorded by (auto intro!: wp_mono[OF preservesD[OF response refl]] simp: looked wp_rules)
  have reads: "wp (get_transport_command tn k g) (\<lambda>_ _. g = h) s2" for g
    using recorded by (auto simp: get_transport_command_def wp_rules transport_name_def transport_digest_def
        validate_key_def looked)
  have "get_transport_command tn k h s2 = Inr (Some v, s2)"
    using recorded row by (simp add: get_transport_command_def transport_name_def transport_digest_def
        validate_key_def seq_def guard_def ret_def)
  moreover have "wp (record_transport_command tn k h c') (\<lambda>w s3. w = v \<and> s3 = s2) s2"
    by (rule wp_mono[OF writes]) simp
  moreover have "wp (record_transport_command tn k h' c') (\<lambda>_ _. False) s2" if "h' \<noteq> h"
    by (rule wp_mono[OF writes]) (use that in simp)
  moreover have "wp (get_transport_command tn k h') (\<lambda>_ _. False) s2" if "h' \<noteq> h"
    by (rule wp_mono[OF reads]) (use that in simp)
  ultimately show ?thesis by simp
qed

definition demo_response :: command_response where
  "demo_response = \<lparr>cp_ok = True, cp_category = ''run'', cp_action = ''start'', cp_response_text = ''started'',
     cp_mutated = True, cp_replayed = False, cp_retryable = False, cp_retry_after_ms = None, cp_state = None,
     cp_revision = Some 1\<rparr>"

definition demo_hash :: string where
  "demo_hash = replicate 64 CHR ''a''"

theorem transport_command_answered_once_witness:
  "\<exists>v s1. record_transport_command ''telegram'' demo_key demo_hash demo_response demo_bound = Inr (v, s1)
    \<and> cp_response_text (sc_response v) = ''started''
    \<and> get_transport_command ''telegram'' demo_key demo_hash s1 = Inr (Some v, s1)
    \<and> wp (get_transport_command ''telegram'' demo_key (replicate 64 CHR ''b'')) (\<lambda>_ _. False) s1"
proof -
  have "wp (record_transport_command ''telegram'' demo_key demo_hash demo_response)
      (\<lambda>v _. cp_response_text (sc_response v) = ''started'') demo_bound
    \<and> succeeds (record_transport_command ''telegram'' demo_key demo_hash demo_response) demo_bound" by code_simp
  then obtain v s1 where r: "record_transport_command ''telegram'' demo_key demo_hash demo_response demo_bound = Inr (v, s1)"
      "cp_response_text (sc_response v) = ''started''"
    by (auto simp: wp_def succeeds_def split: sum.splits)
  have "replicate 64 CHR ''b'' \<noteq> demo_hash" by code_simp
  with transport_command_answered_once[OF r(1) rtranclp.rtrancl_refl, of demo_response "replicate 64 CHR ''b''"] r
  show ?thesis by blast
qed

end
