(* ===== verification/Workflow_Safety.thy ===== *)
theory Workflow_Safety
  imports Control_Tokens
begin

text \<open>
  What holds of the execution of workflows in every reachable store: the life of an effect, its fencing tokens,
  and that a mutation is not sent a second time before a reconciliation found that it did not happen.

  The examples install a plan of two stages on a run, activate the first, create the effect it requires and
  claim it; then the claim is lost, reconciled, and the effect is claimed again.
\<close>

section \<open>How effects evolve\<close>

lemma onward_step: "onward x y \<Longrightarrow> effect_step x y"
  by (simp add: onward_def)

interpretation effs_plane: plane_frame "effs.evolved old" for old
  by unfold_locales
    ((rule effs.evolved_update_rows; blast intro: onward_step) | (erule (1) effs.evolved_insert) | simp add: effs.evolved_def)+

lemma effects_distinct: "reachable s \<Longrightarrow> distinct (map wx_id (effects s))"
  by (rule effs.evolved_distinct[OF effs_plane.reachable_keeps])
    (simp_all add: effs.evolved_def empty_store_def rows_evolve_def effects_def empty_flow_def)

lemma effects_evolve: "reachable s \<Longrightarrow> control_cmd\<^sup>*\<^sup>* s s' \<Longrightarrow> effs.evolved (effects s) s'"
  by (rule effs_plane.control_cmds_keep[rotated, OF effs.evolved_refl[OF effects_distinct]])

text \<open>The \<open>CHECK\<close> clause, and one delivery epoch for each claim.\<close>

definition effect_sound :: "workflow_effect \<Rightarrow> bool" where
  "effect_sound x \<longleftrightarrow> effect_row_ok x \<and> 0 \<le> wx_claim_epoch x \<and> wx_delivery_epoch x = wx_claim_epoch x"

lemma sound_step: "effect_sound x \<Longrightarrow> effect_step x y \<Longrightarrow> effect_sound y"
  by (auto simp: effect_sound_def effect_step_def split: if_splits)

definition effects_sound :: "store \<Rightarrow> bool" where
  "effects_sound s \<longleftrightarrow> distinct (map wx_id (effects s)) \<and> list_all effect_sound (effects s)"

lemma sound_update:
  assumes "distinct (map wx_id (effects s)) \<Longrightarrow> \<forall>x \<in> set (effects s). P x \<longrightarrow> effect_step x (f x)" and "effects_sound s"
  shows "effects_sound (effects_update (update_where P f) s)"
proof -
  have step: "\<forall>x \<in> set (effects s). P x \<longrightarrow> effect_step x (f x)" using assms by (simp add: effects_sound_def)
  then have ids: "map wx_id (update_where P f (effects s)) = map wx_id (effects s)"
    by (auto simp: update_where_def effect_step_def effect_identity_def)
  moreover have "list_all effect_sound (update_where P f (effects s))"
    using assms(2) step by (auto simp: effects_sound_def update_where_def list_all_iff intro: sound_step)
  ultimately show ?thesis using assms(2) unfolding effects_sound_def effects_effects_update ids by simp
qed

interpretation sound: plane_frame effects_sound
  by unfold_locales
    ((rule sound_update; blast intro: onward_step)
      | (simp add: effects_sound_def fresh_effect_def effect_sound_def; fail) | simp add: effects_sound_def)+

lemma reachable_sound: "reachable s \<Longrightarrow> effects_sound s"
  by (erule sound.reachable_keeps) (simp add: effects_sound_def empty_store_def effects_def empty_flow_def)

lemma effect_steps_moves:
  "effect_step\<^sup>*\<^sup>* x y \<Longrightarrow> effect_identity y = effect_identity x \<and> (wx_state x, wx_state y) \<in> effect_moves\<^sup>*
     \<and> wx_claim_epoch x \<le> wx_claim_epoch y"
  by (induction rule: rtranclp_induct) (auto simp: effect_step_def intro: rtrancl_into_rtrancl split: if_splits)

section \<open>The examples\<close>

fun play :: "unit op list \<Rightarrow> unit op" where
  "play [] = ret ()"
| "play (m # ms) = seq m (\<lambda>_. play ms)"

definition act :: "'a op \<Rightarrow> unit op" where
  "act m = seq m (\<lambda>_. ret ())"

definition plays :: "unit op \<Rightarrow> bool" where
  "plays m \<longleftrightarrow> (\<forall>s s'. leads m s s' \<longrightarrow> control_cmd s s')"

lemma plays_act: "(\<And>s s'. leads m s s' \<Longrightarrow> control_cmd s s') \<Longrightarrow> plays (act m)"
  by (auto simp: plays_def act_def leads_def seq_Inr ret_def)

lemma play_runs:
  assumes "succeeds (play ms) s" and "list_all plays ms"
  shows "control_cmd\<^sup>*\<^sup>* s (state_after (play ms) s)"
proof -
  have "leads (play ms) s s' \<Longrightarrow> control_cmd\<^sup>*\<^sup>* s s'" for s'
    using assms(2)
  proof (induction ms arbitrary: s)
    case (Cons m ms)
    then obtain s1 where "leads m s s1" "leads (play ms) s1 s'" by (auto simp: leads_def seq_Inr)
    with Cons have "control_cmd s s1" "control_cmd\<^sup>*\<^sup>* s1 s'" by (auto simp: plays_def)
    then show ?case by (rule converse_rtranclp_into_rtranclp)
  qed (simp add: leads_def ret_def)
  from this[OF leads_after[OF assms(1)]] show ?thesis .
qed

definition flow_store :: store where
  "flow_store = empty_store (\<lambda>n. int n * 1500000) demo_ids (\<lambda>_. demo_sha) (\<lambda>_. True)"

definition flow_plan :: workflow_definition where
  "flow_plan = \<lparr>wn_definition_id = ''demo'', wn_version = 1, wn_stages =
     [\<lparr>sd_key = ''bind'', sd_effect = ''engine_mutation'', sd_dependencies = [],
        sd_required_receipts = [''source_binding''], sd_required_results = [], sd_checkpoint = False\<rparr>,
      \<lparr>sd_key = ''review'', sd_effect = ''decision'', sd_dependencies = [''bind''],
        sd_required_receipts = [], sd_required_results = [], sd_checkpoint = False\<rparr>]\<rparr>"

definition flow_request :: effect_request where
  "flow_request = \<lparr>eq_operation_id = ''operation:1'', eq_delivery_epoch = 1,
     eq_body = Source_Binding_Request ''run_0000'' ''source_1'' ''arxiv:2101.00001'' ''reused''\<rparr>"

definition flow_id :: string where
  "flow_id = ''workflow_0000000''"

definition flow_effect :: string where
  "flow_effect = ''workflow_effect_0000000000''"

definition flow_absent :: "int \<Rightarrow> reconciliation_result" where
  "flow_absent d = \<lparr>rz_domain = ''source_binding'', rz_operation_id = ''operation:1'', rz_request_hash = demo_sha,
     rz_delivery_epoch = d, rz_disposition = ''not_found'', rz_result = None\<rparr>"

definition flow_start :: "unit op list" where
  "flow_start = [act (create_workspace ''w'' ''op'' demo_key), act (create_thread ''ws_'' ''t'' 0 ''op'' demo_key),
     act (create_run ''thread_00'' 0 ''op'' demo_key (Some flow_plan)),
     act (activate_workflow_stage flow_id ''bind'' [] 0 0),
     act (create_workflow_effect flow_id ''bind'' ''k'' flow_request 1 1 demo_sha),
     act (claim_workflow_effect flow_effect ''wk'' 60)]"

definition flow_again :: "unit op list" where
  "flow_again = [act (mark_workflow_effect_outcome_unknown flow_effect ''wk'' 1 1),
     act (claim_workflow_effect_reconciliation flow_effect ''wk2'' 60),
     act (complete_workflow_effect_reconciliation flow_effect ''wk2'' 2 2 (flow_absent 2)),
     act (claim_workflow_effect flow_effect ''wk3'' 60)]"

definition flow_claimed :: store where
  "flow_claimed = state_after (play flow_start) flow_store"

definition flow_reclaimed :: store where
  "flow_reclaimed = state_after (play flow_again) flow_claimed"

type_synonym effect_row_view = "string \<times> string \<times> effect_state \<times> lease"

definition effect_rows :: "store \<Rightarrow> effect_row_view list" where
  "effect_rows s = map (\<lambda>x. (wx_id x, wx_effect_class x, wx_state x, effect_lease x)) (effects s)"

text \<open>Both scripts in one evaluation.\<close>

definition flow_scenes :: "(effect_row_view list \<times> effect_row_view list) option" where
  "flow_scenes = (case play flow_start flow_store of Inl _ \<Rightarrow> None | Inr (_, s) \<Rightarrow>
     (case play flow_again s of Inl _ \<Rightarrow> None | Inr (_, s') \<Rightarrow> Some (effect_rows s, effect_rows s')))"

lemma flow_scenes:
  "flow_scenes = Some ([(''workflow_effect_0000000000'', ''mutation'', E_claimed, Some ''wk'', 1)],
     [(''workflow_effect_0000000000'', ''mutation'', E_claimed, Some ''wk3'', 3)])"
  by code_simp

lemma flow_succeeds: "succeeds (play flow_start) flow_store" "succeeds (play flow_again) flow_claimed"
  using flow_scenes
  by (auto simp: flow_scenes_def flow_claimed_def succeeds_def state_after_def split: sum.splits prod.splits)

lemma flow_effects:
  "effect_rows flow_claimed = [(flow_effect, ''mutation'', E_claimed, Some ''wk'', 1)]"
  "effect_rows flow_reclaimed = [(flow_effect, ''mutation'', E_claimed, Some ''wk3'', 3)]"
  using flow_scenes
  by (auto simp: flow_scenes_def flow_claimed_def flow_reclaimed_def flow_effect_def succeeds_def state_after_def
      split: sum.splits prod.splits)

lemma plays_run: "(\<And>s s'. leads m s s' \<Longrightarrow> run_cmd s s') \<Longrightarrow> plays (act m)"
  by (rule plays_act) (rule on_runs)

lemma plays_flow: "(\<And>s s'. leads m s s' \<Longrightarrow> flow_cmd s s') \<Longrightarrow> plays (act m)"
  by (rule plays_run) (rule on_workflows)

lemma valid_flow_request: "valid_request flow_request"
  by code_simp

lemma valid_flow_absent: "valid_reconciliation_result (flow_absent 2)"
  by code_simp

lemma flow_plays: "list_all plays (flow_start @ flow_again)"
  unfolding flow_start_def flow_again_def append.simps list.pred_inject
  by (intro conjI list.pred_inject(1); ((rule plays_run, erule run_cmd.intros) | (rule plays_flow, erule flow_cmd.intros));
      (rule valid_flow_request valid_flow_absent)?)

lemma reachable_flow_claimed: "reachable flow_claimed"
proof -
  from play_runs[OF flow_succeeds(1)] flow_plays show ?thesis
    unfolding reachable_def flow_claimed_def flow_store_def by auto
qed

lemma flow_goes_on: "control_cmd\<^sup>*\<^sup>* flow_claimed flow_reclaimed"
proof -
  from play_runs[OF flow_succeeds(2)] flow_plays show ?thesis unfolding flow_reclaimed_def by simp
qed

section \<open>Tokens\<close>

lemma reads_effect:
  "wp (get_workflow_effect i) (\<lambda>v s'. s' = s \<and> fx_row v \<in> set (effects s) \<and> wx_id (fx_row v) = i) s"
proof -
  have "wp (get_workflow_effect i) (\<lambda>_ s'. s' = s) s" by (rule preservesD[OF keeps_get_workflow_effect]) simp
  then have "wp (get_workflow_effect i) (\<lambda>v s'. find_row wx_id i (effects s') = Some (fx_row v) \<and> s' = s) s"
    using get_workflow_effect_row[of i s] unfolding wp_def by (auto split: sum.splits)
  then show ?thesis by (rule wp_mono) (auto dest: find_row_SomeD)
qed

lemma stale_text: "(strip v \<noteq> [] \<Longrightarrow> wp (f (strip v)) Q s) \<Longrightarrow> wp (seq (required_text v n m) f) Q s"
  by (simp add: wp_rules)

lemma stale_guard: "(b \<Longrightarrow> wp (f ()) Q s) \<Longrightarrow> wp (seq (guard b e) f) Q s"
  by (simp add: wp_rules)

lemma stale_read:
  assumes "no_lease wx_id effect_lease i w e (effects s)"
    and "\<And>v. effect_lease (fx_row v) \<noteq> (Some w, e) \<Longrightarrow> wp (f v) (\<lambda>_ _. False) s"
  shows "wp (seq (get_workflow_effect i) f) (\<lambda>_ _. False) s"
  unfolding wp_seq by (rule wp_mono[OF reads_effect]) (use assms in \<open>auto simp: no_lease_def\<close>)

lemma stale_claim:
  "effect_lease x \<noteq> (Some w, e) \<Longrightarrow> wp (seq (expect_workflow_effect_claim x w e d st b) f) (\<lambda>_ _. False) s"
  by (auto simp: expect_workflow_effect_claim_def effect_lease_def wp_rules)

lemma fails_unless: "wp m (\<lambda>_ _. False) s \<Longrightarrow> \<not> succeeds m s"
  by (auto simp: succeeds_def wp_def split: sum.splits)

text \<open>C8. Once the lease of an effect is overtaken (another worker claimed it, it was given up, or it was settled), none
  of the four operations that settle an effect under a token succeeds with the old worker and epoch, in any later
  store and with any result.\<close>

theorem stale_effect_token:
  assumes "reachable s" and "control_cmd\<^sup>*\<^sup>* s s'" and "x \<in> set (effects s)"
    and "overtaken (strip w) e (effect_lease x)"
  shows "\<not> succeeds (complete_workflow_effect (wx_id x) w e d z) s'
    \<and> \<not> succeeds (mark_workflow_effect_outcome_unknown (wx_id x) w e d) s'
    \<and> \<not> succeeds (reject_workflow_effect (wx_id x) w e d c f) s'
    \<and> \<not> succeeds (complete_workflow_effect_reconciliation (wx_id x) w e d y) s'"
proof -
  have none: "no_lease wx_id effect_lease (wx_id x) (strip w) e (effects s')"
    unfolding no_lease_def
    using effs.overtaken_token[OF effects_evolve[OF assms(1,2)] assms(3) _ _ assms(4)] by blast
  note read = stale_read[OF none]
  show ?thesis
    unfolding complete_workflow_effect_def mark_workflow_effect_outcome_unknown_def reject_workflow_effect_def
      complete_workflow_effect_reconciliation_def Let_def
    by (intro conjI fails_unless stale_text stale_guard read stale_claim)
qed

theorem stale_effect_token_witness:
  "\<forall>z. \<not> succeeds (complete_workflow_effect flow_effect ''wk'' 1 1 z) flow_reclaimed"
proof
  fix z
  obtain x where x: "x \<in> set (effects flow_reclaimed)" "wx_id x = flow_effect" "effect_lease x = (Some ''wk3'', 3)"
    using flow_effects(2) by (auto simp: effect_rows_def map_eq_Cons_conv)
  have "strip ''wk'' = ''wk''" by code_simp
  with x show "\<not> succeeds (complete_workflow_effect flow_effect ''wk'' 1 1 z) flow_reclaimed"
    using stale_effect_token[OF reachable_steps[OF flow_goes_on reachable_flow_claimed] rtranclp.rtrancl_refl x(1), of "''wk''" 1]
    by (simp add: overtaken_def)
qed

section \<open>The life of an effect\<close>

text \<open>C9. An effect is never lost, keeps its identity (operation, stage, request), moves along the edges of its state
  machine only, has a claim owner and an expiry exactly while it is claimed or reconciled, a result exactly when
  completed, a failure category exactly when failed or left to a person, gets one delivery epoch with each claim, and is
  never changed again once it is settled.\<close>

theorem effect_lifecycle:
  assumes "reachable s" and "control_cmd\<^sup>*\<^sup>* s s'" and "x \<in> set (effects s)"
  shows "\<exists>y. find_row wx_id (wx_id x) (effects s') = Some y \<and> effect_identity y = effect_identity x
    \<and> (wx_state x, wx_state y) \<in> effect_moves\<^sup>* \<and> effect_sound y
    \<and> wx_claim_epoch x \<le> wx_claim_epoch y \<and> (effect_terminal (wx_state x) \<longrightarrow> y = x)"
proof -
  obtain y where y: "y \<in> set (effects s')" "effect_step\<^sup>*\<^sup>* x y"
    using rows_evolve_in[OF conjunct1[OF effects_evolve[OF assms(1,2), unfolded effs.evolved_def]] assms(3)] by blast
  have id: "wx_id y = wx_id x" by (rule effs.steps_key[OF y(2)])
  have "reachable s'" by (rule reachable_steps[OF assms(2,1)])
  then have "effect_sound y" "find_row wx_id (wx_id y) (effects s') = Some y"
    using reachable_sound y(1) by (auto simp: effects_sound_def list_all_iff intro: find_row_unique)
  with effect_steps_moves[OF y(2)] id settled_effect_final[OF y(2)] show ?thesis by auto
qed

theorem effect_lifecycle_witness:
  "\<exists>y. find_row wx_id flow_effect (effects flow_reclaimed) = Some y \<and> effect_sound y
     \<and> (E_claimed, wx_state y) \<in> effect_moves\<^sup>* \<and> 1 \<le> wx_claim_epoch y"
proof -
  obtain x where "x \<in> set (effects flow_claimed)" "wx_id x = flow_effect" "wx_state x = E_claimed" "wx_claim_epoch x = 1"
    using flow_effects(1) by (auto simp: effect_rows_def effect_lease_def map_eq_Cons_conv)
  with effect_lifecycle[OF reachable_flow_claimed flow_goes_on this(1)] show ?thesis by auto
qed

section \<open>Mutations are not sent twice\<close>

text \<open>The effect \<open>i\<close> was sent under the claim \<open>e\<close> and is not to be sent again.\<close>

definition sent :: "string \<Rightarrow> int \<Rightarrow> workflow_effect \<Rightarrow> bool" where
  "sent i e x \<longleftrightarrow> wx_id x = i \<and> wx_effect_class x = ''mutation'' \<and> wx_state x \<noteq> E_pending
     \<and> (wx_state x = E_claimed \<longrightarrow> wx_claim_epoch x = e)"

lemma sent_onward: "sent i e x \<Longrightarrow> onward x y \<Longrightarrow> sent i e y"
  by (auto simp: sent_def onward_def effect_step_def effect_identity_def effect_moves_def split: if_splits)

definition sent_once :: "string \<Rightarrow> int \<Rightarrow> store \<Rightarrow> bool" where
  "sent_once i e s \<longleftrightarrow> distinct (map wx_id (effects s)) \<and> (\<exists>x \<in> set (effects s). sent i e x)"

lemma sent_once_update:
  assumes "distinct (map wx_id (effects s)) \<Longrightarrow> \<forall>x \<in> set (effects s). P x \<longrightarrow> effect_step x (f x)"
    and "distinct (map wx_id (effects s)) \<Longrightarrow> \<forall>x \<in> set (effects s). wx_id x = i \<longrightarrow> P x \<longrightarrow> onward x (f x)"
    and "sent_once i e s"
  shows "sent_once i e (effects_update (update_where P f) s)"
proof -
  have d: "distinct (map wx_id (effects s))" using assms(3) by (simp add: sent_once_def)
  have ids: "map wx_id (update_where P f (effects s)) = map wx_id (effects s)"
    using assms(1)[OF d] by (auto simp: update_where_def effect_step_def effect_identity_def)
  obtain x where x: "x \<in> set (effects s)" "sent i e x" using assms(3) by (auto simp: sent_once_def)
  moreover have "wx_id x = i" using x(2) by (simp add: sent_def)
  ultimately have "sent i e (if P x then f x else x)" using assms(2)[OF d] sent_onward[OF x(2)] by simp
  moreover have "(if P x then f x else x) \<in> set (update_where P f (effects s))" using x(1) by (simp add: update_where_def)
  ultimately show ?thesis unfolding sent_once_def effects_effects_update ids using d by blast
qed

interpretation sent: loose_plane "sent_once i e" for i e
  by unfold_locales
    ((rule sent_once_update; blast intro: onward_step) | (auto simp: sent_once_def; fail) | simp add: sent_once_def)+

lemma sent_other:
  assumes "recalls j s s'" and "j \<noteq> i" and "sent_once i e s"
  shows "sent_once i e s'"
proof -
  have "preserves (sent_once i e) (complete_workflow_effect_reconciliation j w c d z)" for w c d z
    by (rule sent.keeps_complete_reconciliation) (rule sent_once_update; use assms(2) in blast)
  with assms(1,3) show ?thesis unfolding recalls_def by (blast intro: preserves_leads)
qed

lemma sent_until_recalled:
  assumes "control_cmd\<^sup>*\<^sup>* s s'" and "sent_once i e s"
  shows "sent_once i e s' \<or> (\<exists>t t'. control_cmd\<^sup>*\<^sup>* s t \<and> recalls i t t' \<and> control_cmd\<^sup>*\<^sup>* t' s')"
  using assms
proof (induction rule: rtranclp_induct)
  case (step s1 s2)
  then consider "sent_once i e s1" | t t' where "control_cmd\<^sup>*\<^sup>* s t" "recalls i t t'" "control_cmd\<^sup>*\<^sup>* t' s1" by blast
  then show ?case
  proof cases
    case 1
    with step.hyps(2) consider "sent_once i e s2" | "recalls i s1 s2"
      by (metis sent.control_cmd_keeps_but sent_other)
    then show ?thesis using step.hyps(1) by cases blast+
  next
    case 2
    with step.hyps(2) show ?thesis by (meson rtranclp.rtrancl_into_rtrancl)
  qed
qed simp

text \<open>C5. A mutation that was handed to a worker is handed out again only after a reconciliation of this very
  effect reported that the mutation did not happen: whenever the effect is found claimed under another epoch than
  before, such a reconciliation was executed in between. Nothing else, no expiry, no crash of the worker and no
  other command, makes the mutation available for dispatch again.\<close>

theorem mutation_redelivery:
  assumes "reachable s" and "control_cmd\<^sup>*\<^sup>* s s'"
    and "x \<in> set (effects s)" and "wx_effect_class x = ''mutation''" and "wx_state x = E_claimed"
    and "y \<in> set (effects s')" and "wx_id y = wx_id x" and "wx_state y = E_claimed" and "wx_claim_epoch y \<noteq> wx_claim_epoch x"
  shows "\<exists>t t'. control_cmd\<^sup>*\<^sup>* s t \<and> recalls (wx_id x) t t' \<and> control_cmd\<^sup>*\<^sup>* t' s'"
proof -
  have "sent_once (wx_id x) (wx_claim_epoch x) s"
    using assms(3-5) effects_distinct[OF assms(1)] by (auto simp: sent_once_def sent_def)
  from sent_until_recalled[OF assms(2) this] show ?thesis
  proof
    assume "sent_once (wx_id x) (wx_claim_epoch x) s'"
    then obtain z where z: "distinct (map wx_id (effects s'))" "z \<in> set (effects s')" "sent (wx_id x) (wx_claim_epoch x) z"
      by (auto simp: sent_once_def)
    then have "z = y" using assms(6,7) by (metis distinct_map inj_onD sent_def)
    with z(3) assms(8,9) show ?thesis by (simp add: sent_def)
  qed
qed

theorem mutation_redelivery_witness:
  "\<exists>t t'. control_cmd\<^sup>*\<^sup>* flow_claimed t \<and> recalls flow_effect t t' \<and> control_cmd\<^sup>*\<^sup>* t' flow_reclaimed"
proof -
  obtain x where x: "x \<in> set (effects flow_claimed)" "wx_id x = flow_effect" "wx_effect_class x = ''mutation''"
      "wx_state x = E_claimed" "wx_claim_epoch x = 1"
    using flow_effects(1) by (auto simp: effect_rows_def effect_lease_def map_eq_Cons_conv)
  obtain y where y: "y \<in> set (effects flow_reclaimed)" "wx_id y = flow_effect" "wx_state y = E_claimed" "wx_claim_epoch y = 3"
    using flow_effects(2) by (auto simp: effect_rows_def effect_lease_def map_eq_Cons_conv)
  show ?thesis
    using mutation_redelivery[OF reachable_flow_claimed flow_goes_on x(1,3,4) y(1)] x(2,5) y(2,3,4) by simp
qed

section \<open>The lineage of attempts\<close>

text \<open>What the loop of \<open>supersede_workflow_attempt_effect\<close> computes: the attempts that can be reached along the links to
  source attempts.\<close>

definition descent :: "attempt list \<Rightarrow> (string \<times> string) set" where
  "descent rows = {(i, j). \<exists>a. find_row at_id i rows = Some a \<and> at_source_attempt_id a = Some j}"

definition lineage :: "attempt list \<Rightarrow> string option \<Rightarrow> string set" where
  "lineage rows start = (case start of None \<Rightarrow> {} | Some i \<Rightarrow> {j. (i, j) \<in> (descent rows)\<^sup>*})"

lemma lineage_known: "find_row at_id i rows = Some a \<Longrightarrow> lineage rows (Some i) = insert i (lineage rows (at_source_attempt_id a))"
  by (auto simp: lineage_def descent_def split: option.split elim: converse_rtranclE intro: converse_rtrancl_into_rtrancl)

definition lineage_outcome :: "attempt list \<Rightarrow> string list \<Rightarrow> string option \<Rightarrow> control_error + string list \<Rightarrow> bool" where
  "lineage_outcome rows seen start r = (case r of
     Inr found \<Rightarrow> set found = set seen \<union> lineage rows start \<and> distinct found
       \<and> set found \<subseteq> at_id ` set rows
   | Inl e \<Rightarrow> (\<exists>j \<in> lineage rows start. find_row at_id j rows = None \<and> e = NotFound ''attempt'' j)
       \<or> (\<exists>j \<in> lineage rows start. (j, j) \<in> (descent rows)\<^sup>+ \<and> e = InvalidTransition ''attempt_lineage_cycle'' ''superseded''))"

lemma walk_ancestors_outcome:
  assumes "distinct seen" and "set seen \<subseteq> at_id ` set rows"
    and "\<And>i j. start = Some i \<Longrightarrow> j \<in> set seen \<Longrightarrow> (j, i) \<in> (descent rows)\<^sup>+"
  shows "lineage_outcome rows seen start (walk_ancestors rows seen start)"
  using assms
proof (induction rows seen start rule: walk_ancestors.induct)
  case (1 rows seen)
  then show ?case by (simp add: lineage_outcome_def lineage_def)
next
  case (2 rows seen i)
  have here: "i \<in> lineage rows (Some i)" by (simp add: lineage_def)
  show ?case
  proof (cases "i \<in> set seen")
    case True
    with 2 here show ?thesis by (auto simp: lineage_outcome_def)
  next
    case new: False
    show ?thesis
    proof (cases "find_row at_id i rows")
      case None
      with new here show ?thesis by (auto simp: lineage_outcome_def)
    next
      case (Some a)
      have "lineage_outcome rows (i # seen) (at_source_attempt_id a) (walk_ancestors rows (i # seen) (at_source_attempt_id a))"
      proof (rule 2(1)[OF new Some])
        fix k j assume k: "at_source_attempt_id a = Some k" and j: "j \<in> set (i # seen)"
        have "(i, k) \<in> descent rows" using Some k by (auto simp: descent_def)
        then show "(j, k) \<in> (descent rows)\<^sup>+"
          using j 2(4)[OF refl, of j] by (auto intro: trancl_into_trancl)
      qed (use 2 new Some in \<open>auto dest: find_row_SomeD\<close>)
      then show ?thesis using new Some lineage_known[OF Some]
        by (auto simp: lineage_outcome_def split: sum.splits)
    qed
  qed
qed

text \<open>C38. The walk along source attempts always ends: it answers with exactly the attempts an attempt descends from,
  each once and so no more than there are rows; or it refuses, because the lineage names an attempt that does not
  exist, or because an attempt of the lineage descends from itself.\<close>

theorem lineage_walk:
  "case walk_ancestors rows [] start of
     Inr found \<Rightarrow> set found = lineage rows start \<and> distinct found \<and> length found \<le> length rows
   | Inl e \<Rightarrow> (\<exists>j \<in> lineage rows start. find_row at_id j rows = None \<and> e = NotFound ''attempt'' j)
       \<or> (\<exists>j \<in> lineage rows start. (j, j) \<in> (descent rows)\<^sup>+
            \<and> e = InvalidTransition ''attempt_lineage_cycle'' ''superseded'')"
proof -
  have outcome: "lineage_outcome rows [] start (walk_ancestors rows [] start)" by (rule walk_ancestors_outcome) simp_all
  have "length found \<le> length rows" if "distinct found" "set found \<subseteq> at_id ` set rows" for found
  proof -
    have "length found = card (set found)" using that(1) by (simp add: distinct_card)
    also have "\<dots> \<le> card (at_id ` set rows)" using that(2) by (simp add: card_mono)
    also have "\<dots> \<le> length rows" by (meson card_image_le card_length le_trans List.finite_set)
    finally show ?thesis .
  qed
  with outcome show ?thesis by (auto simp: lineage_outcome_def split: sum.splits)
qed

section \<open>Messages\<close>

text \<open>C37. What the store and the adapters exchange reads back as it was written: a request, a result, a reconciliation
  request and a reconciliation result that their constructors accept are answered unchanged by \<open>from_dict\<close> of the
  class that their domain selects, in any store and for any digest function. And whatever document is read, what
  is answered is a request that the constructor accepts.\<close>

theorem effect_messages_read_back:
  assumes "valid_request q" and "valid_result z" and "valid_reconciliation_request r" and "valid_reconciliation_result y"
  shows "typed_request sha e (JStr (request_domain (eq_body q))) (request_to_dict sha q) (s :: store) = Inr (q, s)
    \<and> typed_result sha (result_domain (ez_body z)) (result_to_dict sha z) s = Inr (z, s)
    \<and> reconciliation_request_from_dict sha (reconciliation_request_to_dict sha r) s = Inr (r, s)
    \<and> reconciliation_result_from_dict sha (reconciliation_result_to_dict sha y) s = Inr (y, s)
    \<and> (typed_request sha e d raw s = Inr (q', s') \<longrightarrow> valid_request q')"
proof -
  have "valid_request q'" if "typed_request sha e d raw s = Inr (q', s')"
  proof -
    have "wp (typed_request sha e d raw) (\<lambda>x _. valid_request x) s"
      by (rule typed_request_valid[unfolded yields_def, THEN spec])
    with that show ?thesis by (simp add: wp_def)
  qed
  then show ?thesis
    by (simp add: assms request_roundtrip result_roundtrip reconciliation_request_roundtrip
        reconciliation_result_roundtrip ret_def)
qed

definition flow_result :: effect_result where
  "flow_result = \<lparr>ez_operation_id = ''operation:2'', ez_delivery_epoch = 1, ez_request_hash = demo_sha,
     ez_body = Artifact_Workflow_Result ''attempt_1'' ''write'' ''artifact_living'' [''version_1''] None False\<rparr>"

definition flow_committed :: reconciliation_result where
  "flow_committed = \<lparr>rz_domain = ''artifact_workflow'', rz_operation_id = ''operation:2'', rz_request_hash = demo_sha,
     rz_delivery_epoch = 2, rz_disposition = ''committed'', rz_result = Some flow_result\<rparr>"

theorem effect_messages_read_back_witness:
  "reconciliation_result_from_dict (\<lambda>_. demo_sha) (reconciliation_result_to_dict (\<lambda>_. demo_sha) flow_committed) flow_store
     = Inr (flow_committed, flow_store)"
proof -
  have "valid_result flow_result" "valid_reconciliation_result flow_committed"
    "valid_reconciliation_request \<lparr>er_effect_request = flow_request, er_delivery_epoch = 2\<rparr>" by code_simp+
  from conjunct1[OF conjunct2[OF conjunct2[OF conjunct2[OF effect_messages_read_back[OF valid_flow_request this(1,3,2)]]]]]
  show ?thesis .
qed

end
