(* ===== verification/Transport_Ledger.thy ===== *)
theory Transport_Ledger
  imports Transport_Models Control_Gates
begin

text \<open>
  The ledger of transport deliveries (\<open>TransportDeliveryStore\<close> in
  \<open>src/cortex_platform/product/control/transport_store.py\<close>): seven tables that the class owns, beside the
  Control store it is mixed into, of which it reads the clock, the id factory and the transport gate.

  A message is frozen once, as rows that never change but for the state of its chunks; a chunk is claimed
  under a lease, in order; \<open>begin_transport_delivery_chunk_send\<close> gives the permit to send it and leaves it
  \<open>sending_unknown\<close>, from where only a receipt, a proof that nothing was sent, a failure or an operator's
  resolution takes it. The state of the whole delivery summarizes the states of its chunks.

  The times of the chunk tables are written with six digits of fraction (\<open>_format_registry_time\<close>), so they
  compare as instants; those of the older table \<open>transport_deliveries\<close> are texts of \<open>_format_time\<close>, and
  compare as \<open>text_le\<close>. The \<open>CHECK\<close> clauses of the tables are not statements of the model: that they never
  refuse a row is proved (\<open>chunk_row_ok\<close>).
\<close>

section \<open>Tables\<close>

datatype delivery_state = L_pending | L_claimed | L_delivered
datatype projection_state = J_pending | J_delivered | J_failed | J_manual_required
datatype chunk_state = K_pending | K_claimed | K_sending_unknown | K_delivered | K_failed

fun chunk_state_name :: "chunk_state \<Rightarrow> string" where
  "chunk_state_name K_pending = ''pending''"
| "chunk_state_name K_claimed = ''claimed''"
| "chunk_state_name K_sending_unknown = ''sending_unknown''"
| "chunk_state_name K_delivered = ''delivered''"
| "chunk_state_name K_failed = ''failed''"

record delivery_row =
  dl_key :: delivery_key
  dl_state :: delivery_state
  dl_claim_owner :: "string option"
  dl_claim_epoch :: int
  dl_claim_expires_at :: "instant option"
  dl_created_at :: instant
  dl_delivered_at :: "instant option"

record projection_row =
  pj_key :: delivery_key
  pj_operation_id :: string
  pj_request_hash :: string
  pj_projection_hash :: string
  pj_destination_binding_digest :: string
  pj_routing :: string
  pj_capability_binding_digest :: string
  pj_rpc_timeout_seconds :: int
  pj_chunk_count :: int
  pj_state :: projection_state
  pj_revision :: int
  pj_created_at :: instant
  pj_completed_at :: "instant option"

record chunk_row =
  kr_key :: delivery_key
  kr_chunk_index :: int
  kr_operation_id :: string
  kr_text :: string
  kr_parse_mode :: string
  kr_chunk_hash :: string
  kr_state :: chunk_state
  kr_revision :: int
  kr_claim_owner :: "string option"
  kr_claim_epoch :: int
  kr_claim_expires_at :: "instant option"
  kr_retry_not_before :: "instant option"
  kr_provider_receipt_digest :: "string option"
  kr_failure_category :: "string option"
  kr_manual_resolution_id :: "string option"
  kr_completed_at :: "instant option"
  kr_transport_window_id :: "string option"

text \<open>The last columns of a button and of a capability are the fields of the value they store.\<close>

record button_row =
  bw_key :: delivery_key
  bw_chunk_index :: int
  bw_position :: int
  bw_button :: delivery_button

record capability_row =
  cw_key :: delivery_key
  cw_chunk_index :: int
  cw_position :: int
  cw_target_position :: int
  cw_capability :: delivery_capability

record resolution_row =
  rs_id :: string
  rs_key :: delivery_key
  rs_chunk_index :: int
  rs_actor_id :: string
  rs_idempotency_key :: string
  rs_request_hash :: string
  rs_expected_revision :: int
  rs_resolution :: string
  rs_prior_revision :: int
  rs_prior_claim_epoch :: int
  rs_result_state :: chunk_state
  rs_result_revision :: int
  rs_created_at :: instant

record target_row =
  tg_token_digest :: string
  tg_target :: opaque_target
  tg_consumed_by :: "string option"
  tg_created_at :: instant
  tg_consumed_at :: "instant option"

record ledger =
  lg_control :: store
  lg_crypto :: crypto
  transport_deliveries :: "delivery_row list"
  transport_delivery_projections :: "projection_row list"
  transport_delivery_chunks :: "chunk_row list"
  transport_delivery_chunk_buttons :: "button_row list"
  transport_delivery_chunk_capabilities :: "capability_row list"
  transport_delivery_chunk_resolutions :: "resolution_row list"
  transport_opaque_targets :: "target_row list"

type_synonym 'a lop = "(ledger, control_error, 'a) cmd"

definition empty_ledger :: "store \<Rightarrow> crypto \<Rightarrow> ledger" where
  "empty_ledger s x = \<lparr>lg_control = s, lg_crypto = x, transport_deliveries = [],
     transport_delivery_projections = [], transport_delivery_chunks = [],
     transport_delivery_chunk_buttons = [], transport_delivery_chunk_capabilities = [],
     transport_delivery_chunk_resolutions = [], transport_opaque_targets = []\<rparr>"

text \<open>An operation of the Control store, and \<open>except\<close> clauses.\<close>

definition on_control :: "'a op \<Rightarrow> 'a lop" where
  "on_control m l = (case m (lg_control l) of Inl e \<Rightarrow> Inl e
     | Inr (v, s) \<Rightarrow> Inr (v, l\<lparr>lg_control := s\<rparr>))"

definition except :: "'a lop \<Rightarrow> (control_error \<Rightarrow> bool) \<Rightarrow> control_error \<Rightarrow> 'a lop" where
  "except m caught e l = (case m l of Inl e' \<Rightarrow> Inl (if caught e' then e else e') | Inr r \<Rightarrow> Inr r)"

definition integrity :: "control_error \<Rightarrow> bool" where
  "integrity e = (e = IntegrityError)"

definition unreadable :: "control_error \<Rightarrow> bool" where
  "unreadable e = (case e of NotFound _ _ \<Rightarrow> True | RuntimeError _ \<Rightarrow> True | ValueError _ \<Rightarrow> True | _ \<Rightarrow> False)"

section \<open>Validation\<close>

definition transport_delivery_key :: "delivery_key \<Rightarrow> delivery_key lop" where
  "transport_delivery_key k =
     seq (guard (valid_transport (dk_transport k)) (ValueError ''transport is invalid'')) (\<lambda>_.
     seq (binding_digest_of (dk_destination_digest k) ''destination_digest'') (\<lambda>_.
     seq (on_control (required_text (dk_event_id k) ''event_id'' 500)) (\<lambda>event_id.
     seq (guard (1 \<le> dk_projection_version k)
            (ValueError ''projection_version must be a positive integer'')) (\<lambda>_.
     ret (k\<lparr>dk_event_id := event_id\<rparr>)))))"

definition transport_opaque_target :: "opaque_target \<Rightarrow> opaque_target lop" where
  "transport_opaque_target t =
     seq (guard (ot_namespace t \<in> set [''action'', ''deep_link'']) (ValueError ''namespace is invalid'')) (\<lambda>_.
     seq (on_control (required_text (ot_purpose t) ''purpose'' 100)) (\<lambda>purpose.
     seq (on_control (required_text (ot_resource_kind t) ''resource_kind'' 100)) (\<lambda>resource_kind.
     seq (on_control (required_text (ot_resource_id t) ''resource_id'' 500)) (\<lambda>resource_id.
     seq (guard (case ot_expected_revision t of None \<Rightarrow> True | Some n \<Rightarrow> 0 \<le> n)
            (ValueError ''expected_revision must be a non-negative integer'')) (\<lambda>_.
     seq (optional (\<lambda>v. on_control (required_text v ''choice'' 200)) (ot_choice t)) (\<lambda>choice.
     seq (optional (\<lambda>v. binding_digest_of v ''scope_digest'') (ot_scope_digest t)) (\<lambda>scope_digest.
     ret (t\<lparr>ot_purpose := purpose, ot_resource_kind := resource_kind, ot_resource_id := resource_id,
            ot_choice := choice, ot_scope_digest := scope_digest\<rparr>))))))))"

definition worker_char :: "char \<Rightarrow> bool" where
  "worker_char c = (alnum c \<or> c = CHR ''_'' \<or> c = CHR ''.'' \<or> c = CHR '':'' \<or> c = CHR ''-'')"

definition transport_worker_id :: "string \<Rightarrow> string lop" where
  "transport_worker_id v =
     seq (guard (full_class worker_char 1 200 v) (ValueError ''worker_id is invalid'')) (\<lambda>_. ret v)"

definition transport_chunk_index :: "int \<Rightarrow> int lop" where
  "transport_chunk_index v =
     seq (guard (0 \<le> v \<and> v < 100) (ValueError ''chunk_index must be between 0 and 99'')) (\<lambda>_. ret v)"

definition transport_claim_epoch :: "int \<Rightarrow> int lop" where
  "transport_claim_epoch v =
     seq (guard (1 \<le> v) (ValueError ''claim_epoch must be a positive integer'')) (\<lambda>_. ret v)"

definition transport_revision :: "int \<Rightarrow> int lop" where
  "transport_revision v =
     seq (guard (0 \<le> v) (ValueError ''expected_revision must be a non-negative integer'')) (\<lambda>_. ret v)"

definition lease_of_an_hour :: "int \<Rightarrow> unit lop" where
  "lease_of_an_hour n =
     guard (1 \<le> n \<and> n \<le> 3600) (ValueError ''lease_seconds must be between 1 and 3600'')"

definition validated_transport_chunk_mutation ::
    "delivery_key \<Rightarrow> int \<Rightarrow> string \<Rightarrow> int \<Rightarrow> int \<Rightarrow> delivery_key lop" where
  "validated_transport_chunk_mutation k chunk_index worker_id claim_epoch expected_revision =
     seq (transport_delivery_key k) (\<lambda>k.
     seq (transport_chunk_index chunk_index) (\<lambda>_.
     seq (transport_worker_id worker_id) (\<lambda>_.
     seq (transport_claim_epoch claim_epoch) (\<lambda>_.
     seq (transport_revision expected_revision) (\<lambda>_. ret k)))))"

section \<open>Reading a frozen delivery\<close>

definition chunk_key :: "chunk_row \<Rightarrow> delivery_key \<times> int" where
  "chunk_key r = (kr_key r, kr_chunk_index r)"

definition chunks_of :: "delivery_key \<Rightarrow> ledger \<Rightarrow> chunk_row list" where
  "chunks_of k l = select_by kr_chunk_index (\<lambda>r. kr_key r = k) (transport_delivery_chunks l)"

definition buttons_of :: "delivery_key \<Rightarrow> int \<Rightarrow> ledger \<Rightarrow> delivery_button list" where
  "buttons_of k i l = map bw_button (select_by bw_position (\<lambda>r. bw_key r = k \<and> bw_chunk_index r = i)
     (transport_delivery_chunk_buttons l))"

definition capabilities_of :: "delivery_key \<Rightarrow> int \<Rightarrow> ledger \<Rightarrow> delivery_capability list" where
  "capabilities_of k i l = map cw_capability (select_by cw_position (\<lambda>r. cw_key r = k \<and> cw_chunk_index r = i)
     (transport_delivery_chunk_capabilities l))"

definition chunk_of_row :: "ledger \<Rightarrow> chunk_row \<Rightarrow> chunk_projection" where
  "chunk_of_row l r = \<lparr>ck_chunk_index = kr_chunk_index r, ck_operation_id = kr_operation_id r,
     ck_text = kr_text r, ck_parse_mode = kr_parse_mode r,
     ck_buttons = buttons_of (kr_key r) (kr_chunk_index r) l,
     ck_capabilities = capabilities_of (kr_key r) (kr_chunk_index r) l, ck_chunk_hash = kr_chunk_hash r\<rparr>"

definition frozen_transport_delivery_projection :: "delivery_key \<Rightarrow> frozen_projection lop" where
  "frozen_transport_delivery_projection k =
     seq (fetch (NotFound ''transport_delivery_projection'' (dk_event_id k))
            transport_delivery_projections pj_key k) (\<lambda>row.
     seq (gets (\<lambda>l. map (chunk_of_row l) (chunks_of k l))) (\<lambda>chunks.
     seq (guard (int (length chunks) = pj_chunk_count row)
            (RuntimeError ''transport delivery projection is incomplete'')) (\<lambda>_.
     ret \<lparr>fp_delivery_key = k, fp_operation_id = pj_operation_id row,
          fp_destination_binding_digest = pj_destination_binding_digest row, fp_routing = pj_routing row,
          fp_capability_binding_digest = pj_capability_binding_digest row,
          fp_rpc_timeout_seconds = pj_rpc_timeout_seconds row, fp_projection_hash = pj_projection_hash row,
          fp_chunks = chunks\<rparr>)))"

definition registration_of :: "capability_row \<Rightarrow> target_registration lop" where
  "registration_of c =
     seq (fetch (RuntimeError ''transport delivery projection is incomplete'') transport_opaque_targets
            tg_token_digest (cp_token_digest (cw_capability c))) (\<lambda>target.
     ret \<lparr>tr_token_digest = cp_token_digest (cw_capability c), tr_expires_at = cp_expires_at (cw_capability c),
          tr_target = tg_target target\<rparr>)"

definition transport_delivery_opaque_target_registrations :: "delivery_key \<Rightarrow> target_registration list lop" where
  "transport_delivery_opaque_target_registrations k =
     seq (gets (\<lambda>l. select_by cw_target_position (\<lambda>r. cw_key r = k) (transport_delivery_chunk_capabilities l)))
       (for_each registration_of)"

definition verified_frozen_transport_delivery_projection :: "delivery_key \<Rightarrow> frozen_projection lop" where
  "verified_frozen_transport_delivery_projection k =
     except (seq (frozen_transport_delivery_projection k) (\<lambda>p.
             seq (transport_delivery_opaque_target_registrations k) (\<lambda>registrations.
             seq (gets lg_crypto) (\<lambda>x.
             validate_transport_delivery_projection x p registrations))))
       unreadable (InvalidTransition ''projection_integrity'' ''verified'')"

definition transport_delivery_chunk_row :: "delivery_key \<Rightarrow> int \<Rightarrow> chunk_row lop" where
  "transport_delivery_chunk_row k i =
     fetch (NotFound ''transport_delivery_chunk'' (decimal i)) transport_delivery_chunks chunk_key (k, i)"

datatype claim_status = Chunk_is chunk_state | Chunk_deferred

record chunk_claim =
  cc_projection :: frozen_projection
  cc_chunk :: chunk_projection
  cc_status :: claim_status
  cc_revision :: int
  cc_claim_owner :: "string option"
  cc_claim_epoch :: int
  cc_retry_not_before :: "instant option"

definition chunk_at :: "frozen_projection \<Rightarrow> int \<Rightarrow> chunk_projection lop" where
  "chunk_at p i = seq (guard (nat i < length (fp_chunks p)) (RuntimeError ''IndexError'')) (\<lambda>_.
     ret (fp_chunks p ! nat i))"

definition transport_delivery_chunk_claim :: "delivery_key \<Rightarrow> int \<Rightarrow> claim_status option \<Rightarrow> chunk_claim lop" where
  "transport_delivery_chunk_claim k i status =
     seq (transport_delivery_chunk_row k i) (\<lambda>row.
     seq (frozen_transport_delivery_projection k) (\<lambda>p.
     seq (chunk_at p i) (\<lambda>chunk.
     ret \<lparr>cc_projection = p, cc_chunk = chunk,
          cc_status = (case status of None \<Rightarrow> Chunk_is (kr_state row) | Some x \<Rightarrow> x),
          cc_revision = kr_revision row, cc_claim_owner = kr_claim_owner row,
          cc_claim_epoch = kr_claim_epoch row, cc_retry_not_before = kr_retry_not_before row\<rparr>)))"

definition transport_delivery_resolution_claim :: "delivery_key \<Rightarrow> resolution_row \<Rightarrow> chunk_claim lop" where
  "transport_delivery_resolution_claim k r =
     seq (frozen_transport_delivery_projection k) (\<lambda>p.
     seq (chunk_at p (rs_chunk_index r)) (\<lambda>chunk.
     ret \<lparr>cc_projection = p, cc_chunk = chunk, cc_status = Chunk_is (rs_result_state r),
          cc_revision = rs_result_revision r, cc_claim_owner = None,
          cc_claim_epoch = rs_prior_claim_epoch r, cc_retry_not_before = None\<rparr>))"

section \<open>Statements\<close>

definition update_chunk :: "delivery_key \<Rightarrow> int \<Rightarrow> (chunk_row \<Rightarrow> chunk_row) \<Rightarrow> unit lop" where
  "update_chunk k i f = seq (sql_update transport_delivery_chunks transport_delivery_chunks_update
     (\<lambda>r. chunk_key r = (k, i)) f) (\<lambda>_. ret ())"

definition summary :: "chunk_state list \<Rightarrow> projection_state" where
  "summary states =
     (if list_all (\<lambda>x. x = K_delivered) states then J_delivered
      else if K_sending_unknown \<in> set states then J_manual_required
      else if K_failed \<in> set states then J_failed
      else J_pending)"

definition refresh_row :: "projection_state \<Rightarrow> instant \<Rightarrow> projection_row \<Rightarrow> projection_row" where
  "refresh_row state now p = p\<lparr>pj_state := state, pj_revision := pj_revision p + 1,
     pj_completed_at := (if state \<in> set [J_delivered, J_failed] then Some now else None)\<rparr>"

definition refresh_transport_delivery_parent :: "delivery_key \<Rightarrow> instant \<Rightarrow> unit lop" where
  "refresh_transport_delivery_parent k now =
     seq (gets (\<lambda>l. map kr_state (chunks_of k l))) (\<lambda>states.
     seq (guard (states \<noteq> []) (RuntimeError ''transport delivery projection is incomplete'')) (\<lambda>_.
     seq (sql_update transport_delivery_projections transport_delivery_projections_update (\<lambda>p. pj_key p = k)
            (refresh_row (summary states) now)) (\<lambda>_. ret ())))"

text \<open>What each operation writes into the row of a chunk.\<close>

definition claim_row :: "string \<Rightarrow> instant \<Rightarrow> chunk_row \<Rightarrow> chunk_row" where
  "claim_row worker_id expires_at r = r\<lparr>kr_state := K_claimed, kr_revision := kr_revision r + 1,
     kr_claim_owner := Some worker_id, kr_claim_epoch := kr_claim_epoch r + 1,
     kr_claim_expires_at := Some expires_at, kr_retry_not_before := None\<rparr>"

definition send_row :: "chunk_row \<Rightarrow> chunk_row" where
  "send_row r = r\<lparr>kr_state := K_sending_unknown, kr_revision := kr_revision r + 1, kr_claim_expires_at := None\<rparr>"

definition deliver_row :: "string \<Rightarrow> instant \<Rightarrow> string option \<Rightarrow> chunk_row \<Rightarrow> chunk_row" where
  "deliver_row receipt_digest now window_id r = r\<lparr>kr_state := K_delivered, kr_revision := kr_revision r + 1,
     kr_claim_owner := None, kr_provider_receipt_digest := Some receipt_digest, kr_completed_at := Some now,
     kr_transport_window_id := (case window_id of None \<Rightarrow> kr_transport_window_id r | Some w \<Rightarrow> Some w)\<rparr>"

definition release_row :: "instant option \<Rightarrow> chunk_row \<Rightarrow> chunk_row" where
  "release_row retry_not_before r = r\<lparr>kr_state := K_pending, kr_revision := kr_revision r + 1,
     kr_claim_owner := None, kr_claim_expires_at := None, kr_retry_not_before := retry_not_before\<rparr>"

definition fail_row :: "string \<Rightarrow> instant \<Rightarrow> chunk_row \<Rightarrow> chunk_row" where
  "fail_row category now r = r\<lparr>kr_state := K_failed, kr_revision := kr_revision r + 1, kr_claim_owner := None,
     kr_claim_expires_at := None, kr_retry_not_before := None, kr_failure_category := Some category,
     kr_completed_at := Some now\<rparr>"

definition assume_row :: "string \<Rightarrow> instant \<Rightarrow> chunk_row \<Rightarrow> chunk_row" where
  "assume_row resolution_id now r = r\<lparr>kr_state := K_delivered, kr_revision := kr_revision r + 1,
     kr_claim_owner := None, kr_manual_resolution_id := Some resolution_id, kr_completed_at := Some now\<rparr>"

definition retry_row :: "chunk_row \<Rightarrow> chunk_row" where
  "retry_row r = r\<lparr>kr_state := K_pending, kr_revision := kr_revision r + 1, kr_claim_owner := None,
     kr_claim_expires_at := None\<rparr>"

definition fail_transport_delivery_chunk_row :: "delivery_key \<Rightarrow> int \<Rightarrow> string \<Rightarrow> instant \<Rightarrow> unit lop" where
  "fail_transport_delivery_chunk_row k i category now =
     seq (update_chunk k i (fail_row category now)) (\<lambda>_. refresh_transport_delivery_parent k now)"

text \<open>\<open>live\<close> is the present when the lease has to be live.\<close>

definition require_transport_chunk_fence ::
    "chunk_row \<Rightarrow> chunk_state \<Rightarrow> string \<Rightarrow> string \<Rightarrow> int \<Rightarrow> int \<Rightarrow> instant option \<Rightarrow> unit lop" where
  "require_transport_chunk_fence row source target worker_id claim_epoch expected_revision live =
     guard (kr_state row = source \<and> kr_claim_owner row = Some worker_id \<and> kr_claim_epoch row = claim_epoch
            \<and> kr_revision row = expected_revision
            \<and> (case live of None \<Rightarrow> True
               | Some now \<Rightarrow> (case kr_claim_expires_at row of None \<Rightarrow> False | Some t \<Rightarrow> now < t)))
       (InvalidTransition ''stale_claim'' target)"

section \<open>The ledger of whole deliveries\<close>

datatype delivery_status = Delivery_claimed | Delivery_in_flight | Delivery_delivered

record delivery_claim =
  dc_key :: delivery_key
  dc_status :: delivery_status
  dc_claim_owner :: "string option"
  dc_claim_epoch :: int
  dc_claim_expires_at :: "instant option"

definition transport_delivery_claim :: "delivery_key \<Rightarrow> delivery_status \<Rightarrow> delivery_claim lop" where
  "transport_delivery_claim k status =
     seq (fetch (RuntimeError ''transport delivery was not persisted'') transport_deliveries dl_key k) (\<lambda>row.
     ret \<lparr>dc_key = k, dc_status = status, dc_claim_owner = dl_claim_owner row,
          dc_claim_epoch = dl_claim_epoch row, dc_claim_expires_at = dl_claim_expires_at row\<rparr>)"

definition claim_transport_delivery :: "delivery_key \<Rightarrow> string \<Rightarrow> int \<Rightarrow> delivery_claim lop" where
  "claim_transport_delivery key worker_id lease_seconds =
     seq (transport_delivery_key key) (\<lambda>k.
     seq (transport_worker_id worker_id) (\<lambda>_.
     seq (lease_of_an_hour lease_seconds) (\<lambda>_.
     seq (on_control utc_now) (\<lambda>now.
     let expires_at = now + seconds lease_seconds in
     seq (gets (\<lambda>l. find_row pj_key k (transport_delivery_projections l))) (\<lambda>projection. case projection of
       Some p \<Rightarrow>
         ret \<lparr>dc_key = k, dc_status = (if pj_state p = J_delivered then Delivery_delivered else Delivery_in_flight),
              dc_claim_owner = None, dc_claim_epoch = 0, dc_claim_expires_at = None\<rparr>
     | None \<Rightarrow>
         seq (gets (\<lambda>l. find_row dl_key k (transport_deliveries l))) (\<lambda>row. case row of
           None \<Rightarrow>
             seq (sql_insert IntegrityError transport_deliveries transport_deliveries_update dl_key
                    \<lparr>dl_key = k, dl_state = L_claimed, dl_claim_owner = Some worker_id, dl_claim_epoch = 1,
                     dl_claim_expires_at = Some expires_at, dl_created_at = now, dl_delivered_at = None\<rparr>) (\<lambda>_.
             transport_delivery_claim k Delivery_claimed)
         | Some r \<Rightarrow>
             if dl_state r = L_delivered then transport_delivery_claim k Delivery_delivered
             else if dl_state r = L_claimed
                \<and> (case dl_claim_expires_at r of None \<Rightarrow> False | Some t \<Rightarrow> \<not> text_le t now)
             then transport_delivery_claim k Delivery_in_flight
             else
               seq (sql_update transport_deliveries transport_deliveries_update (\<lambda>d. dl_key d = k)
                      (\<lambda>d. d\<lparr>dl_state := L_claimed, dl_claim_owner := Some worker_id,
                             dl_claim_epoch := dl_claim_epoch d + 1,
                             dl_claim_expires_at := Some expires_at\<rparr>)) (\<lambda>_.
               transport_delivery_claim k Delivery_claimed)))))))"

definition complete_transport_delivery :: "delivery_key \<Rightarrow> string \<Rightarrow> int \<Rightarrow> delivery_claim lop" where
  "complete_transport_delivery key worker_id claim_epoch =
     seq (transport_delivery_key key) (\<lambda>k.
     seq (transport_worker_id worker_id) (\<lambda>_.
     seq (transport_claim_epoch claim_epoch) (\<lambda>_.
     seq (on_control utc_now) (\<lambda>now.
     seq (sql_update transport_deliveries transport_deliveries_update
            (\<lambda>d. dl_key d = k \<and> dl_state d = L_claimed \<and> dl_claim_owner d = Some worker_id
               \<and> dl_claim_epoch d = claim_epoch
               \<and> (case dl_claim_expires_at d of None \<Rightarrow> False | Some t \<Rightarrow> \<not> text_le t now))
            (\<lambda>d. d\<lparr>dl_state := L_delivered, dl_claim_owner := None, dl_claim_expires_at := None,
                   dl_delivered_at := Some now\<rparr>)) (\<lambda>rowcount.
     seq (guard (rowcount = 1) (InvalidTransition ''stale_claim'' ''delivered'')) (\<lambda>_.
     transport_delivery_claim k Delivery_delivered))))))"

definition release_transport_delivery :: "delivery_key \<Rightarrow> string \<Rightarrow> int \<Rightarrow> unit lop" where
  "release_transport_delivery key worker_id claim_epoch =
     seq (transport_delivery_key key) (\<lambda>k.
     seq (transport_worker_id worker_id) (\<lambda>_.
     seq (transport_claim_epoch claim_epoch) (\<lambda>_.
     seq (sql_update transport_deliveries transport_deliveries_update
            (\<lambda>d. dl_key d = k \<and> dl_state d = L_claimed \<and> dl_claim_owner d = Some worker_id
               \<and> dl_claim_epoch d = claim_epoch)
            (\<lambda>d. d\<lparr>dl_state := L_pending, dl_claim_owner := None, dl_claim_expires_at := None\<rparr>)) (\<lambda>rowcount.
     guard (rowcount = 1) (InvalidTransition ''stale_claim'' ''pending'')))))"

section \<open>Freezing\<close>

datatype disposition = Frozen | Replayed | Already_delivered | Legacy_delivery_uncertain

text \<open>The position of a token among the registrations; a digest that occurs twice has its last position
  (that it occurs, the validation has made sure).\<close>

definition target_position :: "target_registration list \<Rightarrow> string \<Rightarrow> int" where
  "target_position regs token = int (last (filter (\<lambda>i. tr_token_digest (regs ! i) = token) [0..<length regs]))"

definition insert_projection :: "delivery_key \<Rightarrow> string \<Rightarrow> instant \<Rightarrow> frozen_projection \<Rightarrow> unit lop" where
  "insert_projection k hash now p =
     seq (gets (\<lambda>l. fp_operation_id p \<in> set (map pj_operation_id (transport_delivery_projections l)))) (\<lambda>taken.
     seq (guard (\<not> taken) IntegrityError) (\<lambda>_.
     sql_insert IntegrityError transport_delivery_projections transport_delivery_projections_update pj_key
       \<lparr>pj_key = k, pj_operation_id = fp_operation_id p, pj_request_hash = hash,
        pj_projection_hash = fp_projection_hash p,
        pj_destination_binding_digest = fp_destination_binding_digest p, pj_routing = fp_routing p,
        pj_capability_binding_digest = fp_capability_binding_digest p,
        pj_rpc_timeout_seconds = fp_rpc_timeout_seconds p, pj_chunk_count = int (length (fp_chunks p)),
        pj_state = J_pending, pj_revision = 0, pj_created_at = now, pj_completed_at = None\<rparr>))"

definition insert_button :: "delivery_key \<Rightarrow> int \<Rightarrow> nat \<times> delivery_button \<Rightarrow> unit lop" where
  "insert_button k i = (\<lambda>(position, b).
     sql_insert IntegrityError transport_delivery_chunk_buttons transport_delivery_chunk_buttons_update
       (\<lambda>r. (bw_key r, bw_chunk_index r, bw_position r))
       \<lparr>bw_key = k, bw_chunk_index = i, bw_position = int position, bw_button = b\<rparr>)"

definition insert_capability ::
    "delivery_key \<Rightarrow> target_registration list \<Rightarrow> int \<Rightarrow> nat \<times> delivery_capability \<Rightarrow> unit lop" where
  "insert_capability k regs i = (\<lambda>(position, c).
     let row = \<lparr>cw_key = k, cw_chunk_index = i, cw_position = int position,
                cw_target_position = target_position regs (cp_token_digest c), cw_capability = c\<rparr> in
     seq (gets (\<lambda>l. list_ex (\<lambda>r. cw_key r = k \<and> (cp_token_digest (cw_capability r) = cp_token_digest c
                        \<or> cw_target_position r = cw_target_position row))
                (transport_delivery_chunk_capabilities l))) (\<lambda>taken.
     seq (guard (\<not> taken) IntegrityError) (\<lambda>_.
     sql_insert IntegrityError transport_delivery_chunk_capabilities transport_delivery_chunk_capabilities_update
       (\<lambda>r. (cw_key r, cw_chunk_index r, cw_position r)) row)))"

definition new_chunk_row :: "delivery_key \<Rightarrow> chunk_projection \<Rightarrow> chunk_row" where
  "new_chunk_row k c = \<lparr>kr_key = k, kr_chunk_index = ck_chunk_index c, kr_operation_id = ck_operation_id c,
     kr_text = ck_text c, kr_parse_mode = ck_parse_mode c, kr_chunk_hash = ck_chunk_hash c,
     kr_state = K_pending, kr_revision = 0, kr_claim_owner = None, kr_claim_epoch = 0,
     kr_claim_expires_at = None, kr_retry_not_before = None, kr_provider_receipt_digest = None,
     kr_failure_category = None, kr_manual_resolution_id = None, kr_completed_at = None,
     kr_transport_window_id = None\<rparr>"

definition insert_chunk :: "delivery_key \<Rightarrow> target_registration list \<Rightarrow> chunk_projection \<Rightarrow> unit lop" where
  "insert_chunk k regs c =
     seq (gets (\<lambda>l. ck_operation_id c \<in> set (map kr_operation_id (transport_delivery_chunks l)))) (\<lambda>taken.
     seq (guard (\<not> taken) IntegrityError) (\<lambda>_.
     seq (sql_insert IntegrityError transport_delivery_chunks transport_delivery_chunks_update chunk_key
            (new_chunk_row k c)) (\<lambda>_.
     seq (for_each (insert_button k (ck_chunk_index c)) (List.enumerate 0 (ck_buttons c))) (\<lambda>_.
     seq (for_each (insert_capability k regs (ck_chunk_index c)) (List.enumerate 0 (ck_capabilities c))) (\<lambda>_.
     ret ())))))"

definition insert_target :: "instant \<Rightarrow> target_registration \<Rightarrow> unit lop" where
  "insert_target now r =
     seq (gets (\<lambda>l. tr_token_digest r \<in> set (map tg_token_digest (transport_opaque_targets l)))) (\<lambda>taken.
     seq (guard (\<not> taken) (InvalidTransition ''token_collision'' ''frozen'')) (\<lambda>_.
     seq (transport_opaque_target (tr_target r)) (\<lambda>target.
     sql_insert IntegrityError transport_opaque_targets transport_opaque_targets_update tg_token_digest
       \<lparr>tg_token_digest = tr_token_digest r, tg_target = target, tg_consumed_by = None, tg_created_at = now,
        tg_consumed_at = None\<rparr>)))"

definition freeze_transport_delivery_projection ::
    "frozen_projection \<Rightarrow> target_registration list \<Rightarrow> string \<Rightarrow> (disposition \<times> frozen_projection option) lop" where
  "freeze_transport_delivery_projection projection opaque_targets hash =
     seq (gets lg_crypto) (\<lambda>x.
     seq (validate_transport_delivery_projection x projection opaque_targets) (\<lambda>_.
     seq (digest_of hash ''request_hash'') (\<lambda>hash.
     seq (transport_delivery_key (fp_delivery_key projection)) (\<lambda>k.
     seq (gets (\<lambda>l. find_row dl_key k (transport_deliveries l))) (\<lambda>legacy. case legacy of
       Some d \<Rightarrow> ret (if dl_state d = L_delivered then Already_delivered else Legacy_delivery_uncertain, None)
     | None \<Rightarrow>
         seq (gets (\<lambda>l. find_row pj_key k (transport_delivery_projections l))) (\<lambda>existing. case existing of
           Some e \<Rightarrow>
             seq (guard (pj_request_hash e = hash) IdempotencyConflict) (\<lambda>_.
             seq (verified_frozen_transport_delivery_projection k) (\<lambda>frozen.
             seq (guard (pj_projection_hash e = fp_projection_hash projection)
                    (InvalidTransition ''projection_drift'' ''replayed'')) (\<lambda>_.
             ret (Replayed, Some frozen))))
         | None \<Rightarrow>
             seq (on_control utc_now) (\<lambda>now.
             seq (except
                    (seq (insert_projection k hash now projection) (\<lambda>_.
                     seq (for_each (insert_chunk k opaque_targets) (fp_chunks projection)) (\<lambda>_.
                     seq (for_each (insert_target now) opaque_targets) (\<lambda>_. ret ()))))
                    integrity (InvalidTransition ''projection_conflict'' ''frozen'')) (\<lambda>_.
             seq (frozen_transport_delivery_projection k) (\<lambda>frozen.
             ret (Frozen, Some frozen))))))))))"

section \<open>Chunks\<close>

definition claim_transport_delivery_chunk :: "delivery_key \<Rightarrow> int \<Rightarrow> string \<Rightarrow> int \<Rightarrow> chunk_claim lop" where
  "claim_transport_delivery_chunk key chunk_index worker_id lease_seconds =
     seq (transport_delivery_key key) (\<lambda>k.
     seq (transport_chunk_index chunk_index) (\<lambda>_.
     seq (transport_worker_id worker_id) (\<lambda>_.
     seq (lease_of_an_hour lease_seconds) (\<lambda>_.
     seq (on_control utc_now) (\<lambda>now.
     seq (transport_delivery_chunk_row k chunk_index) (\<lambda>row.
     if kr_state row \<in> set [K_sending_unknown, K_delivered, K_failed] then
       transport_delivery_chunk_claim k chunk_index None
     else
       seq (gets (\<lambda>l. list_ex (\<lambda>r. kr_key r = k \<and> kr_chunk_index r < chunk_index \<and> kr_state r \<noteq> K_delivered)
              (transport_delivery_chunks l))) (\<lambda>earlier.
       seq (guard (\<not> earlier) (InvalidTransition ''chunk_order'' ''claimed'')) (\<lambda>_.
       if kr_state row = K_claimed \<and> (case kr_claim_expires_at row of None \<Rightarrow> False | Some t \<Rightarrow> now < t)
       then transport_delivery_chunk_claim k chunk_index None
       else if kr_state row = K_pending \<and> (case kr_retry_not_before row of None \<Rightarrow> False | Some t \<Rightarrow> now < t)
       then transport_delivery_chunk_claim k chunk_index (Some Chunk_deferred)
       else
         seq (update_chunk k chunk_index (claim_row worker_id (now + seconds lease_seconds))) (\<lambda>_.
         seq (refresh_transport_delivery_parent k now) (\<lambda>_.
         transport_delivery_chunk_claim k chunk_index None))))))))))"

record send_permit =
  sp_projection :: frozen_projection
  sp_chunk :: chunk_projection
  sp_revision :: int
  sp_claim_epoch :: int
  sp_transport_window_id :: "string option"

datatype send_decision = Send_permitted send_permit | Capability_expired | Capability_mismatch

definition begin_transport_delivery_chunk_send ::
    "delivery_key \<Rightarrow> int \<Rightarrow> string \<Rightarrow> int \<Rightarrow> int \<Rightarrow> string \<Rightarrow> send_decision lop" where
  "begin_transport_delivery_chunk_send key chunk_index worker_id claim_epoch expected_revision observed =
     seq (validated_transport_chunk_mutation key chunk_index worker_id claim_epoch expected_revision) (\<lambda>k.
     seq (digest_of observed ''observed_capability_binding_digest'') (\<lambda>_.
     seq (on_control utc_now) (\<lambda>now.
     seq (transport_delivery_chunk_row k chunk_index) (\<lambda>row.
     seq (require_transport_chunk_fence row K_claimed ''sending_unknown'' worker_id claim_epoch expected_revision
            (Some now)) (\<lambda>_.
     seq (verified_frozen_transport_delivery_projection k) (\<lambda>p.
     if fp_capability_binding_digest p \<noteq> observed then
       seq (fail_transport_delivery_chunk_row k chunk_index ''capability_mismatch'' now) (\<lambda>_.
       ret Capability_mismatch)
     else
       let deadline = now + seconds (fp_rpc_timeout_seconds p) in
       seq (gets (\<lambda>l. list_ex (\<lambda>c. cw_key c = k \<and> cw_chunk_index c = chunk_index
                          \<and> cp_expires_at (cw_capability c) \<le> deadline)
              (transport_delivery_chunk_capabilities l))) (\<lambda>expired.
       if expired then
         seq (fail_transport_delivery_chunk_row k chunk_index ''capability_expired'' now) (\<lambda>_.
         ret Capability_expired)
       else
         seq (update_chunk k chunk_index send_row) (\<lambda>_.
         seq (refresh_transport_delivery_parent k now) (\<lambda>_.
         seq (transport_delivery_chunk_claim k chunk_index None) (\<lambda>claim.
         seq (on_control (transport_activation_in_force (dk_transport k))) (\<lambda>authorizing.
         ret (Send_permitted \<lparr>sp_projection = cc_projection claim, sp_chunk = cc_chunk claim,
                sp_revision = cc_revision claim, sp_claim_epoch = cc_claim_epoch claim,
                sp_transport_window_id = (case authorizing of None \<Rightarrow> None
                  | Some a \<Rightarrow> if tv_scope a \<noteq> Some ''window'' then None else Some (tv_id a))\<rparr>))))))))))))"

text \<open>The column \<open>transport_window_id\<close> refers to a decision of the transport gate, and is written once.\<close>

definition window_ok :: "string option \<Rightarrow> chunk_row \<Rightarrow> bool lop" where
  "window_ok window_id row = gets (\<lambda>l. case window_id of None \<Rightarrow> True
     | Some w \<Rightarrow> w \<in> set (map tv_id (transport_activation_decisions (lg_control l)))
         \<and> (case kr_transport_window_id row of None \<Rightarrow> True | Some w' \<Rightarrow> w' = w))"

definition complete_transport_delivery_chunk ::
    "delivery_key \<Rightarrow> int \<Rightarrow> string \<Rightarrow> int \<Rightarrow> int \<Rightarrow> string \<Rightarrow> string option \<Rightarrow> chunk_claim lop" where
  "complete_transport_delivery_chunk key chunk_index worker_id claim_epoch expected_revision receipt_digest window_id =
     seq (validated_transport_chunk_mutation key chunk_index worker_id claim_epoch expected_revision) (\<lambda>k.
     seq (binding_digest_of receipt_digest ''provider_receipt_digest'') (\<lambda>_.
     seq (optional (\<lambda>w. on_control (required_text w ''transport_window_id'' 200)) window_id) (\<lambda>window_id.
     seq (on_control utc_now) (\<lambda>now.
     seq (transport_delivery_chunk_row k chunk_index) (\<lambda>row.
     seq (require_transport_chunk_fence row K_sending_unknown ''delivered'' worker_id claim_epoch expected_revision
            None) (\<lambda>_.
     seq (window_ok window_id row) (\<lambda>ok.
     seq (guard ok IntegrityError) (\<lambda>_.
     seq (update_chunk k chunk_index (deliver_row receipt_digest now window_id)) (\<lambda>_.
     seq (refresh_transport_delivery_parent k now) (\<lambda>_.
     transport_delivery_chunk_claim k chunk_index None))))))))))"

definition release_transport_delivery_chunk ::
    "delivery_key \<Rightarrow> int \<Rightarrow> string \<Rightarrow> int \<Rightarrow> int \<Rightarrow> string \<Rightarrow> int option \<Rightarrow> chunk_claim lop" where
  "release_transport_delivery_chunk key chunk_index worker_id claim_epoch expected_revision proof_name retry_after_ms =
     seq (validated_transport_chunk_mutation key chunk_index worker_id claim_epoch expected_revision) (\<lambda>k.
     seq (guard (proof_name \<in> set [''rpc_not_started'', ''provider_proved_before_send''])
            (ValueError ''proof is invalid'')) (\<lambda>_.
     seq (guard (case retry_after_ms of None \<Rightarrow> True | Some n \<Rightarrow> 1 \<le> n \<and> n \<le> 3600000)
            (ValueError ''retry_after_ms must be between 1 and 3600000'')) (\<lambda>_.
     seq (on_control utc_now) (\<lambda>now.
     let unsent = (proof_name = ''rpc_not_started'') in
     seq (transport_delivery_chunk_row k chunk_index) (\<lambda>row.
     seq (require_transport_chunk_fence row (if unsent then K_claimed else K_sending_unknown) ''pending'' worker_id
            claim_epoch expected_revision (if unsent then Some now else None)) (\<lambda>_.
     seq (update_chunk k chunk_index (release_row (map_option (\<lambda>n. now + n * 1000) retry_after_ms))) (\<lambda>_.
     seq (refresh_transport_delivery_parent k now) (\<lambda>_.
     transport_delivery_chunk_claim k chunk_index None))))))))"

definition valid_category :: "string \<Rightarrow> bool" where
  "valid_category v = full_ident is_lower_alpha
     (\<lambda>c. is_lower_alpha c \<or> is_digit c \<or> c = CHR ''_'' \<or> c = CHR ''.'' \<or> c = CHR ''-'') 99 v"

definition fail_transport_delivery_chunk ::
    "delivery_key \<Rightarrow> int \<Rightarrow> string \<Rightarrow> int \<Rightarrow> int \<Rightarrow> string \<Rightarrow> chunk_claim lop" where
  "fail_transport_delivery_chunk key chunk_index worker_id claim_epoch expected_revision category =
     seq (validated_transport_chunk_mutation key chunk_index worker_id claim_epoch expected_revision) (\<lambda>k.
     seq (on_control (required_text category ''category'' 100)) (\<lambda>category.
     seq (guard (valid_category category) (ValueError ''category is invalid'')) (\<lambda>_.
     seq (on_control utc_now) (\<lambda>now.
     seq (transport_delivery_chunk_row k chunk_index) (\<lambda>row.
     seq (require_transport_chunk_fence row K_sending_unknown ''failed'' worker_id claim_epoch expected_revision None) (\<lambda>_.
     seq (fail_transport_delivery_chunk_row k chunk_index category now) (\<lambda>_.
     transport_delivery_chunk_claim k chunk_index None)))))))"

definition delivery_key_json :: "delivery_key \<Rightarrow> json" where
  "delivery_key_json k = JObj [(''transport'', JStr (dk_transport k)),
     (''destination_digest'', JStr (dk_destination_digest k)), (''event_id'', JStr (dk_event_id k)),
     (''projection_version'', JInt (dk_projection_version k))]"

definition resolution_request :: "delivery_key \<Rightarrow> int \<Rightarrow> string \<Rightarrow> int \<Rightarrow> json" where
  "resolution_request k chunk_index resolution expected_revision =
     JObj [(''delivery_key'', delivery_key_json k), (''chunk_index'', JInt chunk_index),
           (''resolution'', JStr resolution), (''expected_revision'', JInt expected_revision)]"

definition insert_resolution :: "resolution_row \<Rightarrow> unit lop" where
  "insert_resolution r =
     except
       (seq (gets (\<lambda>l. rs_id r \<in> set (map rs_id (transport_delivery_chunk_resolutions l)))) (\<lambda>taken.
        seq (guard (\<not> taken) IntegrityError) (\<lambda>_.
        sql_insert IntegrityError transport_delivery_chunk_resolutions transport_delivery_chunk_resolutions_update
          (\<lambda>x. (rs_actor_id x, rs_idempotency_key x)) r)))
       integrity (InvalidTransition ''resolution_conflict'' ''recorded'')"

definition resolve_transport_delivery_chunk_sending_unknown ::
    "delivery_key \<Rightarrow> int \<Rightarrow> string \<Rightarrow> int \<Rightarrow> string \<Rightarrow> string \<Rightarrow> chunk_claim lop" where
  "resolve_transport_delivery_chunk_sending_unknown key chunk_index resolution expected_revision actor_id
       idempotency_key =
     seq (transport_delivery_key key) (\<lambda>k.
     seq (transport_chunk_index chunk_index) (\<lambda>_.
     seq (guard (resolution \<in> set [''assume_delivered'', ''retry'']) (ValueError ''resolution is invalid'')) (\<lambda>_.
     seq (transport_revision expected_revision) (\<lambda>_.
     seq (on_control (required_text actor_id ''actor_id'' 200)) (\<lambda>actor_id.
     seq (on_control (validate_key idempotency_key)) (\<lambda>_.
     seq (on_control (gets (request_hash (resolution_request k chunk_index resolution expected_revision)))) (\<lambda>hash.
     seq (gets (\<lambda>l. find_row (\<lambda>x. (rs_actor_id x, rs_idempotency_key x)) (actor_id, idempotency_key)
            (transport_delivery_chunk_resolutions l))) (\<lambda>replay. case replay of
       Some r \<Rightarrow>
         seq (guard (rs_request_hash r = hash) IdempotencyConflict) (\<lambda>_. transport_delivery_resolution_claim k r)
     | None \<Rightarrow>
         seq (transport_delivery_chunk_row k chunk_index) (\<lambda>row.
         seq (guard (kr_state row = K_sending_unknown)
                (InvalidTransition (chunk_state_name (kr_state row)) resolution)) (\<lambda>_.
         seq (guard (kr_revision row = expected_revision) (InvalidTransition ''stale_revision'' resolution)) (\<lambda>_.
         seq (on_control utc_now) (\<lambda>now.
         seq (on_control (new_id ''resolution'')) (\<lambda>resolution_id.
         let delivered = (resolution = ''assume_delivered'') in
         seq (insert_resolution \<lparr>rs_id = resolution_id, rs_key = k, rs_chunk_index = chunk_index,
                rs_actor_id = actor_id, rs_idempotency_key = idempotency_key, rs_request_hash = hash,
                rs_expected_revision = expected_revision, rs_resolution = resolution,
                rs_prior_revision = expected_revision, rs_prior_claim_epoch = kr_claim_epoch row,
                rs_result_state = (if delivered then K_delivered else K_pending),
                rs_result_revision = expected_revision + 1, rs_created_at = now\<rparr>) (\<lambda>_.
         seq (update_chunk k chunk_index (if delivered then assume_row resolution_id now else retry_row)) (\<lambda>_.
         seq (refresh_transport_delivery_parent k now) (\<lambda>_.
         transport_delivery_chunk_claim k chunk_index None))))))))))))))))"

section \<open>Opaque targets and listings\<close>

definition put_transport_opaque_target :: "string \<Rightarrow> opaque_target \<Rightarrow> unit lop" where
  "put_transport_opaque_target token_digest target =
     seq (digest_of token_digest ''token_digest'') (\<lambda>_.
     seq (transport_opaque_target target) (\<lambda>target.
     seq (on_control utc_now) (\<lambda>now.
     except
       (sql_insert IntegrityError transport_opaque_targets transport_opaque_targets_update tg_token_digest
          \<lparr>tg_token_digest = token_digest, tg_target = target, tg_consumed_by = None, tg_created_at = now,
           tg_consumed_at = None\<rparr>)
       integrity (InvalidTransition ''token_collision'' ''stored''))))"

definition claim_transport_opaque_target :: "string \<Rightarrow> string option \<Rightarrow> bool \<Rightarrow> opaque_target option lop" where
  "claim_transport_opaque_target token_digest consumer consume =
     seq (digest_of token_digest ''token_digest'') (\<lambda>_.
     seq (optional (\<lambda>c. on_control (validate_key c)) consumer) (\<lambda>_.
     seq (gets (\<lambda>l. find_row tg_token_digest token_digest (transport_opaque_targets l))) (\<lambda>row. case row of
       None \<Rightarrow> ret None
     | Some r \<Rightarrow>
         if \<not> consume then ret (Some (tg_target r))
         else
           let owner = (case consumer of None \<Rightarrow> ''single-use'' | Some c \<Rightarrow> c) in
           if consumer \<noteq> None \<and> tg_consumed_by r = Some owner then ret (Some (tg_target r))
           else if tg_consumed_by r \<noteq> None then ret None
           else
             seq (on_control utc_now) (\<lambda>now.
             seq (sql_update transport_opaque_targets transport_opaque_targets_update
                    (\<lambda>t. tg_token_digest t = token_digest \<and> tg_consumed_by t = None)
                    (\<lambda>t. t\<lparr>tg_consumed_by := Some owner, tg_consumed_at := Some now\<rparr>)) (\<lambda>rowcount.
             ret (if rowcount = 1 then Some (tg_target r) else None))))))"

definition listing_order :: "projection_row \<Rightarrow> int \<times> string" where
  "listing_order p = (pj_created_at p, pj_operation_id p)"

definition pending_transport_deliveries ::
    "string \<Rightarrow> int \<Rightarrow> (delivery_key \<times> projection_state \<times> instant) list lop" where
  "pending_transport_deliveries transport limit =
     seq (guard (valid_transport transport) (ValueError ''transport is invalid'')) (\<lambda>_.
     seq (guard (1 \<le> limit \<and> limit \<le> 1000) (ValueError ''limit must be between 1 and 1000'')) (\<lambda>_.
     gets (\<lambda>l. map (\<lambda>p. (pj_key p, pj_state p, pj_created_at p)) (take (nat limit)
       (select_by listing_order (\<lambda>p. dk_transport (pj_key p) = transport \<and> pj_state p = J_pending)
         (transport_delivery_projections l))))))"

definition transport_deliveries_for_event ::
    "string \<Rightarrow> string \<Rightarrow> (delivery_key \<times> projection_state \<times> instant) list lop" where
  "transport_deliveries_for_event transport event_id =
     seq (guard (valid_transport transport) (ValueError ''transport is invalid'')) (\<lambda>_.
     seq (on_control (required_text event_id ''event_id'' 500)) (\<lambda>event_id.
     gets (\<lambda>l. map (\<lambda>p. (pj_key p, pj_state p, pj_created_at p))
       (select_by listing_order (\<lambda>p. dk_transport (pj_key p) = transport \<and> dk_event_id (pj_key p) = event_id)
         (transport_delivery_projections l)))))"

end
