(* ===== verification/Transport_Delivery.thy ===== *)
theory Transport_Delivery
  imports Transport_Ledger Control_Plane
begin

text \<open>
  What the ledger of transport deliveries guarantees. Every operation of the ledger is one of the steps of
  \<open>ledger_step\<close>: nothing, the move of one chunk with the summary of its delivery, the freezing of a new
  delivery, or a change of the other two tables. The invariant and the life of a chunk are proved of those
  steps, and hold of every ledger that operations of the ledger and commands of the Control store lead to
  (\<open>ledger_cmd\<close>, \<open>reachable_ledger\<close>).
\<close>

section \<open>What operations do\<close>

lemma wp_on_control [wp_rules]:
  "wp (on_control m) Q l = wp m (\<lambda>v s. Q v (l\<lparr>lg_control := s\<rparr>)) (lg_control l)"
  by (simp add: wp_def on_control_def split: sum.splits prod.splits)

lemma wp_except [wp_rules]: "wp (except m c e) Q l = wp m Q l"
  by (simp add: wp_def except_def split: sum.splits prod.splits)

text \<open>Operations that change no table: they keep every predicate that does not look at the Control store.\<close>

definition silent :: "'a lop \<Rightarrow> bool" where
  "silent m \<longleftrightarrow> (\<forall>l. wp m (\<lambda>_ l'. \<exists>s. l' = l\<lparr>lg_control := s\<rparr>) l)"

named_theorems quiet

lemma silent_basic [quiet]:
  "silent (ret v)" "silent (raise e)" "silent (guard b e)" "silent (gets f)" "silent (on_control m)"
  "silent (fetch e sel key k)"
  by (auto simp: silent_def wp_rules wp_def[of "m"] split: sum.split intro: exI[of _ "lg_control _"])
    (metis ledger.surjective ledger.update_convs(1))+

lemma silent_seq [quiet]: "silent m \<Longrightarrow> (\<And>v. silent (f v)) \<Longrightarrow> silent (seq m f)"
  unfolding silent_def wp_seq by (fastforce elim!: wp_mono)

lemma silent_except [quiet]: "silent m \<Longrightarrow> silent (except m c e)"
  by (simp add: silent_def wp_except)

lemma silent_cases [quiet]:
  "silent m \<Longrightarrow> silent n \<Longrightarrow> silent (if b then m else n)"
  "silent m \<Longrightarrow> (\<And>x. silent (f x)) \<Longrightarrow> silent (case ov of None \<Rightarrow> m | Some x \<Rightarrow> f x)"
  "(\<And>x y. silent (g x y)) \<Longrightarrow> silent (case u of (x, y) \<Rightarrow> g x y)"
  by (auto split: option.split prod.split)

lemma silent_for_each [quiet]: "(\<And>x. silent (f x)) \<Longrightarrow> silent (for_each f xs)"
  by (induction xs) (auto intro!: quiet)

lemma silent_optional [quiet]: "(\<And>x. silent (f x)) \<Longrightarrow> silent (optional f v)"
  unfolding optional_def by (intro quiet)

lemma wp_silent: "silent m \<Longrightarrow> (\<And>v s. wp (f v) Q (l\<lparr>lg_control := s\<rparr>)) \<Longrightarrow> wp (seq m f) Q l"
  unfolding silent_def wp_seq by (fastforce elim!: wp_mono)

lemma wp_silent_end: "silent m \<Longrightarrow> (\<And>s. P (l\<lparr>lg_control := s\<rparr>)) \<Longrightarrow> wp m (\<lambda>_. P) l"
  unfolding silent_def by (fastforce elim!: wp_mono)

text \<open>Checks: their outcome does not depend on the ledger.\<close>

definition stateless :: "'a lop \<Rightarrow> bool" where
  "stateless m \<longleftrightarrow> (\<exists>r. m = lift_result r)"

definition passes :: "'a lop \<Rightarrow> 'a \<Rightarrow> bool" where
  "passes m v \<longleftrightarrow> m = ret v"

lemma stateless_passes: "stateless m \<Longrightarrow> m l = Inr (v, l') \<Longrightarrow> passes m v \<and> l' = l"
proof -
  assume "stateless m" and run: "m l = Inr (v, l')"
  then obtain r where "m = lift_result r" by (auto simp: stateless_def)
  with run show ?thesis by (cases r) (auto simp: passes_def lift_result_def ret_def raise_def)
qed

named_theorems unchanging

lemma stateless_basic [unchanging]:
  "stateless (ret v)" "stateless (raise e)" "stateless (guard b e)" "stateless (lift_result r)"
  by (auto simp: stateless_def lift_result_def guard_def intro: exI[of _ "Inr _"] exI[of _ "Inl _"])

lemma stateless_seq [unchanging]: "stateless m \<Longrightarrow> (\<And>v. stateless (f v)) \<Longrightarrow> stateless (seq m f)"
proof -
  assume "stateless m" and f: "\<And>v. stateless (f v)"
  then obtain r where m: "m = lift_result r" by (auto simp: stateless_def)
  show ?thesis
  proof (cases r)
    case (Inl e)
    then have "seq m f = raise e" using m by (auto simp: seq_def lift_result_def raise_def)
    then show ?thesis by (simp add: unchanging)
  next
    case (Inr v)
    then have "seq m f = f v" using m by (auto simp: seq_def lift_result_def ret_def)
    then show ?thesis using f by simp
  qed
qed

lemma stateless_cases [unchanging]:
  "stateless m \<Longrightarrow> stateless n \<Longrightarrow> stateless (if b then m else n)"
  "stateless m \<Longrightarrow> (\<And>x. stateless (f x)) \<Longrightarrow> stateless (case ov of None \<Rightarrow> m | Some x \<Rightarrow> f x)"
  "(\<And>x y. stateless (g x y)) \<Longrightarrow> stateless (case u of (x, y) \<Rightarrow> g x y)"
  by (auto split: option.split prod.split)

lemma stateless_for_each [unchanging]: "(\<And>x. stateless (f x)) \<Longrightarrow> stateless (for_each f xs)"
  by (induction xs) (auto intro!: unchanging)

lemma stateless_checks [unchanging]:
  "stateless (operation_id_of v)" "stateless (digest_of v n)" "stateless (binding_digest_of v n)"
  "stateless (bounded_text v n m)" "stateless (transport_worker_id w)" "stateless (transport_chunk_index i)"
  "stateless (transport_claim_epoch e)" "stateless (transport_revision e)" "stateless (lease_of_an_hour n')"
  unfolding operation_id_of_def digest_of_def binding_digest_of_def bounded_text_def transport_worker_id_def
    transport_chunk_index_def transport_claim_epoch_def transport_revision_def lease_of_an_hour_def
  by (intro unchanging)+

lemma stateless_optional [unchanging]: "(\<And>x. stateless (f x)) \<Longrightarrow> stateless (optional f v)"
  unfolding optional_def by (intro unchanging)

lemma stateless_text [unchanging]: "stateless (on_control (required_text v n m))"
proof -
  have "on_control (required_text v n m) = (if strip v = [] \<or> m < int (length v)
      then raise (ValueError (n @ '' is invalid'')) else ret (strip v))"
    by (auto simp: on_control_def required_text_def ret_def raise_def)
  then show ?thesis by (simp add: unchanging)
qed

lemma stateless_keys [unchanging]:
  "stateless (transport_delivery_key k)" "stateless (transport_opaque_target t)"
  "stateless (transport_delivery_chunk_operation_id v n)"
  unfolding transport_delivery_key_def transport_opaque_target_def transport_delivery_chunk_operation_id_def Let_def
  by (intro unchanging)+

lemma stateless_mutation [unchanging]: "stateless (validated_transport_chunk_mutation k i w e r)"
  unfolding validated_transport_chunk_mutation_def by (intro unchanging)

lemma stateless_validated_chunk [unchanging]: "stateless (validated_chunk x i c)"
  unfolding validated_chunk_def validated_button_def validated_capability_def check_span_def Let_def
  by (intro unchanging)

lemma stateless_add_capabilities [unchanging]: "stateless (add_capabilities known cps)"
  by (induction cps arbitrary: known) (auto intro!: unchanging)

lemma stateless_validated_chunks [unchanging]: "stateless (validated_chunks x b v i known cs)"
  by (induction cs arbitrary: i known) (auto intro!: unchanging)

lemma stateless_registrations [unchanging]: "stateless (validated_registrations caps d seen regs)"
  by (induction regs arbitrary: seen) (auto intro!: unchanging simp: validated_registration_def Let_def)

lemma stateless_validate [unchanging]: "stateless (validate_transport_delivery_projection x p regs)"
  unfolding validate_transport_delivery_projection_def transport_delivery_projection_hash_def validated_projection_def
    validated_target_registrations_def validated_delivery_key_def
  by (intro unchanging)

lemma silent_stateless: "stateless m \<Longrightarrow> silent m"
  by (auto simp: stateless_def silent_def wp_rules) (metis ledger.surjective ledger.update_convs(1))

lemmas silent_checks [quiet] = stateless_checks[THEN silent_stateless] stateless_keys[THEN silent_stateless]
  stateless_mutation[THEN silent_stateless] stateless_validate[THEN silent_stateless]

lemma silent_reads [quiet]:
  "silent (frozen_transport_delivery_projection k)" "silent (verified_frozen_transport_delivery_projection k)"
  "silent (transport_delivery_chunk_row k i)" "silent (transport_delivery_chunk_claim k i st)"
  "silent (transport_delivery_resolution_claim k r)" "silent (transport_delivery_claim k st')"
  "silent (require_transport_chunk_fence row src tg w e r' live)" "silent (window_ok w' row)"
  unfolding frozen_transport_delivery_projection_def verified_frozen_transport_delivery_projection_def
    transport_delivery_chunk_row_def transport_delivery_chunk_claim_def transport_delivery_resolution_claim_def
    transport_delivery_claim_def transport_delivery_opaque_target_registrations_def registration_of_def chunk_at_def
    require_transport_chunk_fence_def window_ok_def
  by (intro quiet | unfold frozen_transport_delivery_projection_def transport_delivery_chunk_row_def)+

section \<open>Steps\<close>

inductive chunk_move :: "chunk_row \<Rightarrow> chunk_row \<Rightarrow> bool" where
  claims: "kr_state r \<in> {K_pending, K_claimed} \<Longrightarrow> chunk_move r (claim_row w t r)"
| sends: "kr_state r = K_claimed \<Longrightarrow> chunk_move r (send_row r)"
| delivers: "kr_state r = K_sending_unknown \<Longrightarrow> (\<forall>x y. w = Some x \<and> kr_transport_window_id r = Some y \<longrightarrow> x = y)
    \<Longrightarrow> chunk_move r (deliver_row d now w r)"
| releases: "kr_state r \<in> {K_claimed, K_sending_unknown} \<Longrightarrow> chunk_move r (release_row t' r)"
| fails: "kr_state r \<in> {K_claimed, K_sending_unknown} \<Longrightarrow> chunk_move r (fail_row c now r)"
| resolves: "kr_state r = K_sending_unknown \<Longrightarrow> chunk_move r (assume_row i now r)"
| retries: "kr_state r = K_sending_unknown \<Longrightarrow> chunk_move r (retry_row r)"

text \<open>The move of a chunk, together with what \<open>refresh_transport_delivery_parent\<close> makes of it.\<close>

definition with_chunk :: "delivery_key \<Rightarrow> int \<Rightarrow> (chunk_row \<Rightarrow> chunk_row) \<Rightarrow> ledger \<Rightarrow> ledger" where
  "with_chunk k i f l = transport_delivery_chunks_update (update_where (\<lambda>r. chunk_key r = (k, i)) f) l"

definition moved :: "delivery_key \<Rightarrow> int \<Rightarrow> (chunk_row \<Rightarrow> chunk_row) \<Rightarrow> instant \<Rightarrow> ledger \<Rightarrow> ledger" where
  "moved k i f now l = transport_delivery_projections_update (update_where (\<lambda>p. pj_key p = k)
     (refresh_row (summary (map kr_state (chunks_of k (with_chunk k i f l)))) now)) (with_chunk k i f l)"

text \<open>The rows that freezing a delivery adds.\<close>

definition button_rows :: "delivery_key \<Rightarrow> chunk_projection \<Rightarrow> button_row list" where
  "button_rows k c = map (\<lambda>(p, b). \<lparr>bw_key = k, bw_chunk_index = ck_chunk_index c, bw_position = int p, bw_button = b\<rparr>)
     (List.enumerate 0 (ck_buttons c))"

definition capability_rows :: "delivery_key \<Rightarrow> target_registration list \<Rightarrow> chunk_projection \<Rightarrow> capability_row list" where
  "capability_rows k regs c = map (\<lambda>(p, a). \<lparr>cw_key = k, cw_chunk_index = ck_chunk_index c, cw_position = int p,
     cw_target_position = target_position regs (cp_token_digest a), cw_capability = a\<rparr>)
     (List.enumerate 0 (ck_capabilities c))"

definition add_chunks :: "delivery_key \<Rightarrow> target_registration list \<Rightarrow> chunk_projection list \<Rightarrow> ledger \<Rightarrow> ledger" where
  "add_chunks k regs cs =
     transport_delivery_chunks_update (\<lambda>x. x @ map (new_chunk_row k) cs)
     \<circ> transport_delivery_chunk_buttons_update (\<lambda>x. x @ concat (map (button_rows k) cs))
     \<circ> transport_delivery_chunk_capabilities_update (\<lambda>x. x @ concat (map (capability_rows k regs) cs))"

definition new_projection_row :: "delivery_key \<Rightarrow> string \<Rightarrow> instant \<Rightarrow> frozen_projection \<Rightarrow> projection_row" where
  "new_projection_row k hash now p =
     \<lparr>pj_key = k, pj_operation_id = fp_operation_id p, pj_request_hash = hash,
      pj_projection_hash = fp_projection_hash p,
      pj_destination_binding_digest = fp_destination_binding_digest p, pj_routing = fp_routing p,
      pj_capability_binding_digest = fp_capability_binding_digest p,
      pj_rpc_timeout_seconds = fp_rpc_timeout_seconds p, pj_chunk_count = int (length (fp_chunks p)),
      pj_state = J_pending, pj_revision = 0, pj_created_at = now, pj_completed_at = None\<rparr>"

definition trimmed_target :: "opaque_target \<Rightarrow> opaque_target" where
  "trimmed_target t = t\<lparr>ot_purpose := strip (ot_purpose t), ot_resource_kind := strip (ot_resource_kind t),
     ot_resource_id := strip (ot_resource_id t), ot_choice := map_option strip (ot_choice t)\<rparr>"

definition new_target_row :: "instant \<Rightarrow> target_registration \<Rightarrow> target_row" where
  "new_target_row now r = \<lparr>tg_token_digest = tr_token_digest r, tg_target = trimmed_target (tr_target r),
     tg_consumed_by = None, tg_created_at = now, tg_consumed_at = None\<rparr>"

definition frozen_ledger ::
    "delivery_key \<Rightarrow> string \<Rightarrow> instant \<Rightarrow> frozen_projection \<Rightarrow> target_registration list \<Rightarrow> ledger \<Rightarrow> ledger" where
  "frozen_ledger k hash now p regs =
     transport_opaque_targets_update (\<lambda>x. x @ map (new_target_row now) regs)
     \<circ> add_chunks k regs (fp_chunks p)
     \<circ> transport_delivery_projections_update (\<lambda>x. x @ [new_projection_row k hash now p])"

definition consume_row :: "string \<Rightarrow> instant \<Rightarrow> target_row \<Rightarrow> target_row" where
  "consume_row w now t = t\<lparr>tg_consumed_by := Some w, tg_consumed_at := Some now\<rparr>"

definition trimmed_key :: "delivery_key \<Rightarrow> delivery_key" where
  "trimmed_key k = k\<lparr>dk_event_id := strip (dk_event_id k)\<rparr>"

text \<open>A projection whose validation passed.\<close>

definition valid_frozen :: "crypto \<Rightarrow> frozen_projection \<Rightarrow> target_registration list \<Rightarrow> bool" where
  "valid_frozen x p regs \<longleftrightarrow> passes (validate_transport_delivery_projection x p regs) p"

inductive ledger_step :: "ledger \<Rightarrow> ledger \<Rightarrow> bool" where
  idle: "ledger_step l (l\<lparr>lg_control := s\<rparr>)"
| moves: "find_row chunk_key (k, i) (transport_delivery_chunks l) = Some r \<Longrightarrow> chunk_move r (f r)
    \<Longrightarrow> (kr_state (f r) = K_claimed \<Longrightarrow>
          \<forall>q \<in> set (transport_delivery_chunks l). kr_key q = k \<and> kr_chunk_index q < i \<longrightarrow> kr_state q = K_delivered)
    \<Longrightarrow> ledger_step l (moved k i f now
          (transport_delivery_chunk_resolutions_update (\<lambda>x. x @ rs) (l\<lparr>lg_control := s\<rparr>)))"
| freezes: "valid_frozen (lg_crypto l) p regs \<Longrightarrow> k \<notin> pj_key ` set (transport_delivery_projections l)
    \<Longrightarrow> k = trimmed_key (fp_delivery_key p) \<Longrightarrow> passes (transport_delivery_key k) k
    \<Longrightarrow> tr_token_digest ` set regs \<inter> tg_token_digest ` set (transport_opaque_targets l) = {}
    \<Longrightarrow> ledger_step l (frozen_ledger k hash now p regs (l\<lparr>lg_control := s\<rparr>))"
| delivers_whole: "ledger_step l (transport_deliveries_update g (l\<lparr>lg_control := s\<rparr>))"
| puts: "tg_token_digest t \<notin> tg_token_digest ` set (transport_opaque_targets l) \<Longrightarrow> tg_consumed_by t = None
    \<Longrightarrow> ledger_step l (transport_opaque_targets_update (\<lambda>x. x @ [t]) (l\<lparr>lg_control := s\<rparr>))"
| consumes: "ledger_step l (transport_opaque_targets_update
      (update_where (\<lambda>t. tg_token_digest t = d \<and> tg_consumed_by t = None) (consume_row w now)) (l\<lparr>lg_control := s\<rparr>))"

lemma wp_move [wp_rules]:
  "wp (seq (update_chunk k i f) (\<lambda>_. seq (refresh_transport_delivery_parent k now) g)) Q l
     = (chunks_of k (with_chunk k i f l) \<noteq> [] \<longrightarrow> wp (g ()) Q (moved k i f now l))"
  by (simp add: update_chunk_def refresh_transport_delivery_parent_def wp_rules moved_def with_chunk_def)

lemma moved_control [simp]:
  "(moved k i f now l)\<lparr>lg_control := s\<rparr> = moved k i f now (l\<lparr>lg_control := s\<rparr>)"
  by (simp add: moved_def with_chunk_def chunks_of_def)


text \<open>Rules to walk through an operation: what is read is remembered, what is silent is passed over.\<close>

lemma walk_row:
  "(\<And>r. find_row chunk_key (k, i) (transport_delivery_chunks l) = Some r \<Longrightarrow> wp (f r) Q l)
     \<Longrightarrow> wp (seq (transport_delivery_chunk_row k i) f) Q l"
  by (simp add: transport_delivery_chunk_row_def wp_rules)

lemma walk_fence:
  "(kr_state r = src \<Longrightarrow> kr_claim_owner r = Some w \<Longrightarrow> kr_claim_epoch r = e \<Longrightarrow> kr_revision r = v \<Longrightarrow> wp (f ()) Q l)
     \<Longrightarrow> wp (seq (require_transport_chunk_fence r src tg w e v live) f) Q l"
  by (simp add: require_transport_chunk_fence_def wp_rules)

lemma walk_guard: "(b \<Longrightarrow> wp (f ()) Q l) \<Longrightarrow> wp (seq (guard b e) f) Q l"
  by (simp add: wp_rules)

lemma walk_gets: "wp (f (g l)) Q l \<Longrightarrow> wp (seq (gets g) f) Q l"
  by (simp add: wp_rules)

lemma walk_if: "(b \<Longrightarrow> wp m Q l) \<Longrightarrow> (\<not> b \<Longrightarrow> wp n Q l) \<Longrightarrow> wp (if b then m else n) Q l"
  by simp

lemma walk_window:
  "((\<forall>x y. w = Some x \<and> kr_transport_window_id r = Some y \<longrightarrow> x = y) \<Longrightarrow> wp (f ()) Q l)
     \<Longrightarrow> wp (seq (window_ok w r) (\<lambda>ok. seq (guard ok e) f)) Q l"
  by (auto simp: window_ok_def wp_rules split: option.split)

lemma walk_move:
  "wp (g ()) Q (moved k i f now l) \<Longrightarrow> wp (seq (update_chunk k i f) (\<lambda>_. seq (refresh_transport_delivery_parent k now) g)) Q l"
  by (simp add: wp_move)

lemma walk_fail:
  "wp (g ()) Q (moved k i (fail_row c now) now l) \<Longrightarrow> wp (seq (fail_transport_delivery_chunk_row k i c now) g) Q l"
  by (simp add: fail_transport_delivery_chunk_row_def update_chunk_def refresh_transport_delivery_parent_def wp_rules
      moved_def with_chunk_def)

lemmas walks = walk_row walk_fence walk_guard walk_gets walk_if walk_window walk_move walk_fail

lemma move_step:
  assumes "find_row chunk_key (k, i) (transport_delivery_chunks l) = Some r" and "chunk_move r (f r)"
    and "kr_state (f r) = K_claimed \<Longrightarrow>
      \<not> list_ex (\<lambda>q. kr_key q = k \<and> kr_chunk_index q < i \<and> kr_state q \<noteq> K_delivered) (transport_delivery_chunks l)"
  shows "ledger_step l (moved k i f now (l\<lparr>lg_control := s\<rparr>))"
proof -
  have "transport_delivery_chunk_resolutions_update (\<lambda>x. x @ []) (l\<lparr>lg_control := s\<rparr>) = l\<lparr>lg_control := s\<rparr>" by simp
  moreover have "ledger_step l (moved k i f now
      (transport_delivery_chunk_resolutions_update (\<lambda>x. x @ []) (l\<lparr>lg_control := s\<rparr>)))"
    using assms by (intro moves) (auto simp: list_ex_iff)
  ultimately show ?thesis by (simp only:)
qed

lemma row_states [simp]:
  "kr_state (claim_row w t r) = K_claimed" "kr_state (send_row r) = K_sending_unknown"
  "kr_state (deliver_row d now w' r) = K_delivered" "kr_state (release_row t' r) = K_pending"
  "kr_state (fail_row c now r) = K_failed" "kr_state (assume_row i now r) = K_delivered" "kr_state (retry_row r) = K_pending"
  by (simp_all add: claim_row_def send_row_def deliver_row_def release_row_def fail_row_def assume_row_def retry_row_def)

lemma not_settled: "x \<noteq> K_sending_unknown \<Longrightarrow> x \<noteq> K_delivered \<Longrightarrow> x \<noteq> K_failed \<Longrightarrow> x = K_pending \<or> x = K_claimed"
  by (cases x) auto

lemma claim_chunk_step: "wp (claim_transport_delivery_chunk key i w n) (\<lambda>_. ledger_step l) l"
  unfolding claim_transport_delivery_chunk_def
  by (rule walks | rule wp_silent, (intro quiet; fail) | rule wp_silent_end, (intro quiet; fail)
      | (simp, rule idle) | (simp, erule move_step, rule chunk_move.intros, (simp add: not_settled split: if_splits; fail)+))+

lemma begin_send_step: "wp (begin_transport_delivery_chunk_send key i w e v ob) (\<lambda>_. ledger_step l) l"
  unfolding begin_transport_delivery_chunk_send_def Let_def
  by (rule walks | rule wp_silent, (intro quiet; fail) | rule wp_silent_end, (intro quiet; fail)
      | (simp, rule idle) | (simp, erule move_step, rule chunk_move.intros, (simp add: not_settled split: if_splits; fail)+))+

lemma complete_chunk_step: "wp (complete_transport_delivery_chunk key i w e v d win) (\<lambda>_. ledger_step l) l"
  unfolding complete_transport_delivery_chunk_def
  by (rule walks | rule wp_silent, (intro quiet; fail) | rule wp_silent_end, (intro quiet; fail)
      | (simp, rule idle) | (simp, erule move_step, rule chunk_move.intros, (simp add: not_settled split: if_splits; fail)+))+

lemma release_chunk_step: "wp (release_transport_delivery_chunk key i w e v pr ms) (\<lambda>_. ledger_step l) l"
  unfolding release_transport_delivery_chunk_def Let_def
  by (rule walks | rule wp_silent, (intro quiet; fail) | rule wp_silent_end, (intro quiet; fail)
      | (simp, rule idle) | (simp, erule move_step, rule chunk_move.intros, (simp add: not_settled split: if_splits; fail)+))+

lemma fail_chunk_step: "wp (fail_transport_delivery_chunk key i w e v c) (\<lambda>_. ledger_step l) l"
  unfolding fail_transport_delivery_chunk_def
  by (rule walks | rule wp_silent, (intro quiet; fail) | rule wp_silent_end, (intro quiet; fail)
      | (simp, rule idle) | (simp, erule move_step, rule chunk_move.intros, (simp add: not_settled split: if_splits; fail)+))+

lemma walk_resolution:
  "(\<And>rs. wp (g ()) Q (transport_delivery_chunk_resolutions_update (\<lambda>x. x @ rs) l)) \<Longrightarrow> wp (seq (insert_resolution r) g) Q l"
  by (simp add: insert_resolution_def wp_rules)

lemma walk_find:
  "(find_row key k (sel l) = None \<Longrightarrow> wp m Q l) \<Longrightarrow> (\<And>x. find_row key k (sel l) = Some x \<Longrightarrow> wp (h x) Q l)
     \<Longrightarrow> wp (seq (gets (\<lambda>l. find_row key k (sel l))) (\<lambda>row. case row of None \<Rightarrow> m | Some x \<Rightarrow> h x)) Q l"
  by (simp add: wp_rules split: option.split)

lemma resolution_control:
  "(transport_delivery_chunk_resolutions_update g l)\<lparr>lg_control := s\<rparr>
     = transport_delivery_chunk_resolutions_update g (l\<lparr>lg_control := s\<rparr>)"
  by (cases l) simp

lemmas moves_after = moves[folded resolution_control]

lemma resolve_move:
  "kr_state r = K_sending_unknown \<Longrightarrow> chunk_move r ((if b then assume_row i now else retry_row) r)"
  "kr_state ((if b then assume_row i now else retry_row) r) \<noteq> K_claimed"
  by (auto intro: chunk_move.intros)

lemma resolve_step: "wp (resolve_transport_delivery_chunk_sending_unknown key i res v a key') (\<lambda>_. ledger_step l) l"
  unfolding resolve_transport_delivery_chunk_sending_unknown_def Let_def
  by (rule walk_find walk_resolution walks | rule wp_silent, (intro quiet; fail) | rule wp_silent_end, (intro quiet; fail)
      | (simp, rule idle) | (simp split del: if_split, erule moves moves_after, (simp add: resolve_move; fail)+))+

lemma whole_delivery_steps:
  "wp (claim_transport_delivery key w n) (\<lambda>_. ledger_step l) l"
  "wp (complete_transport_delivery key w e) (\<lambda>_. ledger_step l) l"
  "wp (release_transport_delivery key w e) (\<lambda>_. ledger_step l) l"
  unfolding claim_transport_delivery_def complete_transport_delivery_def release_transport_delivery_def Let_def
  by (rule walk_find walk_if | rule wp_silent, (intro quiet; fail) | rule wp_silent_end, (intro quiet; fail) | (simp, rule idle)
      | (simp add: wp_rules transport_delivery_claim_def, intro impI allI delivers_whole))+

lemma put_target_step: "wp (put_transport_opaque_target d t) (\<lambda>_. ledger_step l) l"
  unfolding put_transport_opaque_target_def
  by (rule wp_silent, (intro quiet; fail))+ (auto simp: wp_rules intro!: puts)

lemma claim_target_step: "wp (claim_transport_opaque_target d c b) (\<lambda>_. ledger_step l) l"
  unfolding claim_transport_opaque_target_def Let_def
  by (rule walk_find walk_if | rule wp_silent, (intro quiet; fail) | rule wp_silent_end, (intro quiet; fail) | (simp, rule idle)
      | (simp add: wp_rules, rule consumes[unfolded consume_row_def]))+

subsection \<open>Freezing\<close>

lemma wp_then: "wp m P l \<Longrightarrow> (\<And>v l'. P v l' \<Longrightarrow> wp (f v) Q l') \<Longrightarrow> wp (seq m f) Q l"
  unfolding wp_seq by (erule wp_mono) blast

lemma wp_loop:
  assumes "\<And>x l. wp (f x) (\<lambda>_ l'. l' = g [x] l) l" and "\<And>l. g [] l = l" and "\<And>x xs l. g (x # xs) l = g xs (g [x] l)"
  shows "wp (for_each f xs) (\<lambda>_ l'. l' = g xs l) l"
proof (induction xs arbitrary: l)
  case (Cons x xs)
  have "wp (for_each f xs) (\<lambda>_ l'. l' = g (x # xs) l) (g [x] l)" using Cons[of "g [x] l"] by (simp add: assms(3)[of x xs l])
  then show ?case
    unfolding for_each.simps by (intro wp_then[OF assms(1)]) (simp, erule wp_then, simp add: wp_rules)
qed (simp add: wp_rules assms(2))

lemma wp_buttons:
  "wp (for_each (insert_button k i) ps) (\<lambda>_ l'. l' = transport_delivery_chunk_buttons_update (\<lambda>x. x @
     map (\<lambda>(p, b). \<lparr>bw_key = k, bw_chunk_index = i, bw_position = int p, bw_button = b\<rparr>) ps) l) l"
  by (rule wp_loop) (auto simp: insert_button_def wp_rules comp_def)

lemma wp_capabilities:
  "wp (for_each (insert_capability k regs i) ps) (\<lambda>_ l'. l' = transport_delivery_chunk_capabilities_update (\<lambda>x. x @
     map (\<lambda>(p, a). \<lparr>cw_key = k, cw_chunk_index = i, cw_position = int p,
       cw_target_position = target_position regs (cp_token_digest a), cw_capability = a\<rparr>) ps) l) l"
  by (rule wp_loop) (auto simp: insert_capability_def wp_rules comp_def)

lemma walk_insert:
  "(key row \<notin> key ` set (sel l) \<Longrightarrow> wp (f ()) Q (upd (\<lambda>rows. rows @ [row]) l)) \<Longrightarrow> wp (seq (sql_insert e sel upd key row) f) Q l"
  by (simp add: wp_rules)

lemma wp_insert_chunk: "wp (insert_chunk k regs c) (\<lambda>_ l'. l' = add_chunks k regs [c] l) l"
  unfolding insert_chunk_def
  by (rule walk_gets walk_guard walk_insert wp_then[OF wp_buttons] wp_then[OF wp_capabilities])+
    (cases l, simp add: add_chunks_def button_rows_def capability_rows_def wp_rules)

lemma wp_insert_chunks: "wp (for_each (insert_chunk k regs) cs) (\<lambda>_ l'. l' = add_chunks k regs cs l) l"
proof (rule wp_loop[of _ "add_chunks k regs"])
  fix c :: chunk_projection and l
  show "wp (insert_chunk k regs c) (\<lambda>_ l'. l' = add_chunks k regs [c] l) l" by (rule wp_insert_chunk)
qed (simp_all add: add_chunks_def comp_def)

lemma wp_transport_opaque_target: "wp (transport_opaque_target t) (\<lambda>v l'. v = trimmed_target t \<and> l' = l) l"
  by (auto simp: transport_opaque_target_def optional_def binding_digest_of_def trimmed_target_def wp_rules
      split: option.split)

lemma wp_insert_target:
  "wp (insert_target now r) (\<lambda>_ l'. l' = transport_opaque_targets_update (\<lambda>x. x @ [new_target_row now r]) l
     \<and> tr_token_digest r \<notin> tg_token_digest ` set (transport_opaque_targets l)) l"
  unfolding insert_target_def wp_rules
  by (intro impI wp_mono[OF wp_transport_opaque_target]) (simp add: wp_rules new_target_row_def)

lemma wp_insert_targets:
  "wp (for_each (insert_target now) rs) (\<lambda>_ l'. l' = transport_opaque_targets_update (\<lambda>x. x @ map (new_target_row now) rs) l
     \<and> tr_token_digest ` set rs \<inter> tg_token_digest ` set (transport_opaque_targets l) = {}) l"
proof (induction rs arbitrary: l)
  case (Cons r rs)
  then show ?case
    unfolding for_each.simps by (intro wp_then[OF wp_insert_target] wp_then[OF Cons]) (auto simp: wp_rules comp_def)
qed (simp add: wp_rules)

lemma length_strip_le: "length (strip v) \<le> length v"
  unfolding strip_def by (metis dual_order.trans length_dropWhile_le length_rev)

lemma wp_transport_delivery_key:
  "wp (transport_delivery_key k) (\<lambda>v l'. v = trimmed_key k \<and> l' = l \<and> passes (transport_delivery_key v) v) l"
  using length_strip_le[of "dk_event_id k"]
  by (auto simp: transport_delivery_key_def binding_digest_of_def trimmed_key_def passes_def on_control_def
      required_text_def cmd_defs wp_def fun_eq_iff split: if_splits)

lemma walk_key:
  "(passes (transport_delivery_key (trimmed_key k)) (trimmed_key k) \<Longrightarrow> wp (f (trimmed_key k)) Q l)
     \<Longrightarrow> wp (seq (transport_delivery_key k) f) Q l"
  unfolding wp_seq by (rule wp_mono[OF wp_transport_delivery_key]) simp

lemma walk_valid:
  fixes l :: ledger
  assumes "valid_frozen x p regs \<Longrightarrow> wp (f p) Q l"
  shows "wp (seq (validate_transport_delivery_projection x p regs) f) Q l"
proof -
  have "wp (validate_transport_delivery_projection x p regs) (\<lambda>v _. v = p) l"
    unfolding validate_transport_delivery_projection_def transport_delivery_projection_hash_def
      validated_projection_def validated_target_registrations_def validated_delivery_key_def
    by (rule wp_silent, (rule silent_stateless, intro unchanging; fail))+ (simp add: wp_rules)
  then have "wp (validate_transport_delivery_projection x p regs) (\<lambda>v l'. v = p \<and> l' = l \<and> valid_frozen x p regs) l"
    unfolding valid_frozen_def using stateless_passes[OF stateless_validate] by (fastforce intro: wpI dest: wpD)
  then show ?thesis by (rule wp_then) (use assms in simp)
qed

lemma walk_integrity: "wp (seq m f) Q l \<Longrightarrow> wp (seq (except m c e) f) Q l"
  by (simp add: wp_rules)

lemma walk_insert_projection:
  "(k \<notin> pj_key ` set (transport_delivery_projections l)
     \<Longrightarrow> wp (f ()) Q (transport_delivery_projections_update (\<lambda>x. x @ [new_projection_row k h now p]) l))
   \<Longrightarrow> wp (seq (insert_projection k h now p) f) Q l"
  by (simp add: insert_projection_def new_projection_row_def wp_rules)

lemma walk_assoc: "wp (seq m (\<lambda>v. seq (f v) g)) Q l \<Longrightarrow> wp (seq (seq m f) g) Q l"
  by (simp add: wp_def seq_def split: sum.splits prod.splits)

lemma walk_chunks:
  "wp (f xs) Q (add_chunks k regs cs l) \<Longrightarrow> (\<And>ys. f ys = f xs) \<Longrightarrow> wp (seq (for_each (insert_chunk k regs) cs) f) Q l"
  by (rule wp_then[OF wp_insert_chunks]) metis

lemma walk_targets:
  "(tr_token_digest ` set rs \<inter> tg_token_digest ` set (transport_opaque_targets l) = {}
     \<Longrightarrow> wp (f xs) Q (transport_opaque_targets_update (\<lambda>x. x @ map (new_target_row now) rs) l)) \<Longrightarrow> (\<And>ys. f ys = f xs)
     \<Longrightarrow> wp (seq (for_each (insert_target now) rs) f) Q l"
  by (rule wp_then[OF wp_insert_targets]) metis

lemma add_chunks_tables [simp]:
  "lg_control (add_chunks k regs cs l) = lg_control l" "lg_crypto (add_chunks k regs cs l) = lg_crypto l"
  "transport_opaque_targets (add_chunks k regs cs l) = transport_opaque_targets l"
  "transport_deliveries (add_chunks k regs cs l) = transport_deliveries l"
  "transport_delivery_projections (add_chunks k regs cs l) = transport_delivery_projections l"
  by (simp_all add: add_chunks_def)

lemma frozen_ledger_control:
  "(transport_opaque_targets_update (\<lambda>x. x @ map (new_target_row now) regs)
     (add_chunks k regs (fp_chunks p) (transport_delivery_projections_update
       (\<lambda>x. x @ [new_projection_row k h now p]) (l\<lparr>lg_control := s'\<rparr>))))\<lparr>lg_control := s\<rparr>
   = frozen_ledger k h now p regs (l\<lparr>lg_control := s\<rparr>)"
  by (cases l) (simp add: frozen_ledger_def add_chunks_def)

lemma freeze_leaf:
  assumes "valid_frozen (lg_crypto l) p regs" and "trimmed_key (fp_delivery_key p) \<notin> pj_key ` set (transport_delivery_projections l)"
    and "passes (transport_delivery_key (trimmed_key (fp_delivery_key p))) (trimmed_key (fp_delivery_key p))"
    and "tr_token_digest ` set regs \<inter> tg_token_digest ` set (transport_opaque_targets l) = {}"
  shows "ledger_step l ((transport_opaque_targets_update (\<lambda>x. x @ map (new_target_row now) regs)
     (add_chunks (trimmed_key (fp_delivery_key p)) regs (fp_chunks p) (transport_delivery_projections_update
       (\<lambda>x. x @ [new_projection_row (trimmed_key (fp_delivery_key p)) h now p]) (l\<lparr>lg_control := s'\<rparr>))))\<lparr>lg_control := s\<rparr>)"
  unfolding frozen_ledger_control using assms by (intro freezes) auto

lemma freeze_step: "wp (freeze_transport_delivery_projection p regs h) (\<lambda>_. ledger_step l) l"
  unfolding freeze_transport_delivery_projection_def
  by (rule walk_find walk_insert_projection walk_chunks walk_targets walk_integrity walk_assoc
     | rule walk_valid walk_key walk_gets walk_guard | rule wp_silent, (intro quiet; fail)
     | rule wp_silent_end, (intro quiet; fail) | (simp, rule idle) | rule refl | (simp, rule freeze_leaf; simp; fail))+

section \<open>Every ledger\<close>

inductive ledger_cmd :: "ledger \<Rightarrow> ledger \<Rightarrow> bool" where
  "leads (freeze_transport_delivery_projection p regs h) l l' \<Longrightarrow> ledger_cmd l l'"
| "leads (claim_transport_delivery_chunk k i w n) l l' \<Longrightarrow> ledger_cmd l l'"
| "leads (begin_transport_delivery_chunk_send k i w e v ob) l l' \<Longrightarrow> ledger_cmd l l'"
| "leads (complete_transport_delivery_chunk k i w e v d win) l l' \<Longrightarrow> ledger_cmd l l'"
| "leads (release_transport_delivery_chunk k i w e v pr ms) l l' \<Longrightarrow> ledger_cmd l l'"
| "leads (fail_transport_delivery_chunk k i w e v c) l l' \<Longrightarrow> ledger_cmd l l'"
| "leads (resolve_transport_delivery_chunk_sending_unknown k i res v a ik) l l' \<Longrightarrow> ledger_cmd l l'"
| "leads (claim_transport_delivery k w n) l l' \<Longrightarrow> ledger_cmd l l'"
| "leads (complete_transport_delivery k w e) l l' \<Longrightarrow> ledger_cmd l l'"
| "leads (release_transport_delivery k w e) l l' \<Longrightarrow> ledger_cmd l l'"
| "leads (put_transport_opaque_target td t) l l' \<Longrightarrow> ledger_cmd l l'"
| "leads (claim_transport_opaque_target td co b) l l' \<Longrightarrow> ledger_cmd l l'"
| "control_cmd (lg_control l) s \<Longrightarrow> ledger_cmd l (l\<lparr>lg_control := s\<rparr>)"

definition reachable_ledger :: "ledger \<Rightarrow> bool" where
  "reachable_ledger l \<longleftrightarrow> (\<exists>s x. reachable s \<and> ledger_cmd\<^sup>*\<^sup>* (empty_ledger s x) l)"

lemma wp_leads: "wp m (\<lambda>_. P) l \<Longrightarrow> leads m l l' \<Longrightarrow> P l'"
  by (auto simp: leads_def dest: wpD)

lemmas all_steps = freeze_step claim_chunk_step begin_send_step complete_chunk_step release_chunk_step fail_chunk_step
  resolve_step whole_delivery_steps put_target_step claim_target_step

text \<open>Every command is a step.\<close>

lemma ledger_cmd_step: "ledger_cmd l l' \<Longrightarrow> ledger_step l l'"
  by (erule ledger_cmd.cases) (auto intro: wp_leads[OF all_steps(1)] wp_leads[OF all_steps(2)] wp_leads[OF all_steps(3)]
      wp_leads[OF all_steps(4)] wp_leads[OF all_steps(5)] wp_leads[OF all_steps(6)] wp_leads[OF all_steps(7)]
      wp_leads[OF all_steps(8)] wp_leads[OF all_steps(9)] wp_leads[OF all_steps(10)] wp_leads[OF all_steps(11)]
      wp_leads[OF all_steps(12)] idle)

section \<open>The invariant\<close>

text \<open>No chunk is touched before all earlier ones are delivered.\<close>

definition in_order :: "chunk_state list \<Rightarrow> bool" where
  "in_order xs \<longleftrightarrow> (\<forall>j < length xs. xs ! j \<noteq> K_pending \<longrightarrow> (\<forall>i < j. xs ! i = K_delivered))"

text \<open>The \<open>CHECK\<close> clause of a row of \<open>transport_delivery_chunks\<close>, and the epoch a resolution requires.\<close>

definition chunk_row_ok :: "chunk_row \<Rightarrow> bool" where
  "chunk_row_ok r \<longleftrightarrow> 0 \<le> kr_revision r \<and> 0 \<le> kr_claim_epoch r \<and> (case kr_state r of
     K_pending \<Rightarrow> kr_claim_owner r = None \<and> kr_claim_expires_at r = None \<and> kr_provider_receipt_digest r = None
       \<and> kr_failure_category r = None \<and> kr_manual_resolution_id r = None \<and> kr_completed_at r = None
   | K_claimed \<Rightarrow> kr_claim_owner r \<noteq> None \<and> kr_claim_expires_at r \<noteq> None \<and> kr_retry_not_before r = None
       \<and> kr_provider_receipt_digest r = None \<and> kr_failure_category r = None \<and> kr_manual_resolution_id r = None
       \<and> kr_completed_at r = None \<and> 1 \<le> kr_claim_epoch r
   | K_sending_unknown \<Rightarrow> kr_claim_owner r \<noteq> None \<and> kr_claim_expires_at r = None \<and> kr_retry_not_before r = None
       \<and> kr_provider_receipt_digest r = None \<and> kr_failure_category r = None \<and> kr_manual_resolution_id r = None
       \<and> kr_completed_at r = None \<and> 1 \<le> kr_claim_epoch r
   | K_delivered \<Rightarrow> kr_claim_owner r = None \<and> kr_claim_expires_at r = None \<and> kr_retry_not_before r = None
       \<and> kr_failure_category r = None \<and> kr_completed_at r \<noteq> None
       \<and> (kr_provider_receipt_digest r \<noteq> None \<or> kr_manual_resolution_id r \<noteq> None)
   | K_failed \<Rightarrow> kr_claim_owner r = None \<and> kr_claim_expires_at r = None \<and> kr_retry_not_before r = None
       \<and> kr_provider_receipt_digest r = None \<and> kr_failure_category r \<noteq> None \<and> kr_completed_at r \<noteq> None)"

definition delivery_ok :: "ledger \<Rightarrow> projection_row \<Rightarrow> bool" where
  "delivery_ok l p \<longleftrightarrow> 0 < pj_chunk_count p \<and> pj_chunk_count p \<le> 100
     \<and> passes (transport_delivery_key (pj_key p)) (pj_key p)
     \<and> map kr_chunk_index (chunks_of (pj_key p) l) = [0..pj_chunk_count p - 1]
     \<and> pj_state p = summary (map kr_state (chunks_of (pj_key p) l))
     \<and> in_order (map kr_state (chunks_of (pj_key p) l))
     \<and> (pj_completed_at p \<noteq> None \<longleftrightarrow> pj_state p \<in> {J_delivered, J_failed})"

definition ledger_inv :: "ledger \<Rightarrow> bool" where
  "ledger_inv l \<longleftrightarrow> distinct (map pj_key (transport_delivery_projections l))
     \<and> distinct (map chunk_key (transport_delivery_chunks l))
     \<and> kr_key ` set (transport_delivery_chunks l) \<subseteq> pj_key ` set (transport_delivery_projections l)
     \<and> (\<forall>p \<in> set (transport_delivery_projections l). delivery_ok l p)
     \<and> (\<forall>r \<in> set (transport_delivery_chunks l). chunk_row_ok r)"

lemma in_order_update:
  assumes "in_order xs" and "i < length xs" and "xs ! i \<noteq> K_delivered" and "y = K_pending \<or> (\<forall>j < i. xs ! j = K_delivered)"
  shows "in_order (xs[i := y])"
proof -
  have later: "xs ! j = K_pending" if "i < j" "j < length xs" for j
    using that assms(1,3) unfolding in_order_def by blast
  show ?thesis
    unfolding in_order_def
  proof (intro allI impI)
    fix j n assume j: "j < length (xs[i := y])" "xs[i := y] ! j \<noteq> K_pending" and n: "n < j"
    consider "j = i" | "i < j" | "j < i" by linarith
    then show "xs[i := y] ! n = K_delivered"
    proof cases
      case 1
      with j n assms(2,4) show ?thesis by simp
    next
      case 2
      with j later[of j] show ?thesis by simp
    next
      case 3
      with j n assms(1) show ?thesis unfolding in_order_def by simp
    qed
  qed
qed

lemma chunk_move_ok: "chunk_move r r' \<Longrightarrow> chunk_row_ok r \<Longrightarrow> chunk_row_ok r'"
  by (induction rule: chunk_move.induct)
    (auto simp: chunk_row_ok_def claim_row_def send_row_def deliver_row_def release_row_def fail_row_def assume_row_def
      retry_row_def)

lemma chunk_move_facts:
  assumes "chunk_move r r'"
  shows "chunk_key r' = chunk_key r" "kr_state r \<notin> {K_delivered, K_failed}" "kr_revision r' = kr_revision r + 1"
    "kr_claim_epoch r \<le> kr_claim_epoch r'" "kr_state r = K_pending \<Longrightarrow> kr_state r' = K_claimed"
  using assms by (induction rule: chunk_move.induct)
    (auto simp: chunk_key_def claim_row_def send_row_def deliver_row_def release_row_def fail_row_def assume_row_def
      retry_row_def)

text \<open>The rows of a table after an update of the only row with some key.\<close>

lemma select_by_map:
  assumes "\<And>x. key (h x) = key x" and "\<And>x. P (h x) = P x"
  shows "select_by key P (map h xs) = map h (select_by key P xs)"
proof -
  have "sort_key key (map h ys) = map h (sort_key key ys)" for ys
  proof -
    have "insort_key key (h y) (map h zs) = map h (insort_key key y zs)" for y zs
      by (induction zs) (simp_all add: assms(1))
    then show ?thesis by (induction ys) simp_all
  qed
  then show ?thesis by (simp add: select_by_def filter_map comp_def assms(2))
qed

lemma update_unique:
  assumes "distinct (map key rows)" and "find_row key k rows = Some r"
  shows "update_where (\<lambda>x. key x = k) f rows = map (\<lambda>x. if x = r then f r else x) rows"
proof -
  have "key x = k \<longleftrightarrow> x = r" if "x \<in> set rows" for x
    using that assms find_row_SomeD[OF assms(2)] by (metis find_row_unique option.inject)
  then show ?thesis by (auto simp: update_where_def)
qed

subsection \<open>Moves\<close>

definition chunk_moves :: "ledger \<Rightarrow> delivery_key \<Rightarrow> int \<Rightarrow> chunk_row \<Rightarrow> (chunk_row \<Rightarrow> chunk_row) \<Rightarrow> bool" where
  "chunk_moves l k i r f \<longleftrightarrow> ledger_inv l \<and> find_row chunk_key (k, i) (transport_delivery_chunks l) = Some r
     \<and> chunk_move r (f r) \<and> (kr_state (f r) = K_claimed \<longrightarrow>
      (\<forall>q \<in> set (transport_delivery_chunks l). kr_key q = k \<and> kr_chunk_index q < i \<longrightarrow> kr_state q = K_delivered))"

definition swap_row :: "chunk_row \<Rightarrow> chunk_row \<Rightarrow> chunk_row \<Rightarrow> chunk_row" where
  "swap_row r r' x = (if x = r then r' else x)"

lemma chunk_movesD:
  assumes "chunk_moves l k i r f"
  shows "ledger_inv l" "find_row chunk_key (k, i) (transport_delivery_chunks l) = Some r" "chunk_move r (f r)"
    "r \<in> set (transport_delivery_chunks l)" "kr_key r = k" "kr_chunk_index r = i"
  using assms find_row_SomeD[of chunk_key] by (auto simp: chunk_moves_def chunk_key_def)

lemma swap_key:
  assumes "chunk_move r r'"
  shows "kr_key (swap_row r r' x) = kr_key x" "kr_chunk_index (swap_row r r' x) = kr_chunk_index x"
    "chunk_key (swap_row r r' x) = chunk_key x"
  using chunk_move_facts(1)[OF assms] by (auto simp: swap_row_def chunk_key_def)

lemma chunks_after:
  assumes "chunk_moves l k i r f"
  shows "transport_delivery_chunks (moved k i f now l) = map (swap_row r (f r)) (transport_delivery_chunks l)"
  using update_unique[OF _ chunk_movesD(2)[OF assms]] chunk_movesD(1)[OF assms]
  by (simp add: moved_def with_chunk_def ledger_inv_def swap_row_def[abs_def])

lemma chunks_of_after:
  assumes "chunk_moves l k i r f"
  shows "chunks_of k' (moved k i f now l) = map (swap_row r (f r)) (chunks_of k' l)"
  by (simp add: chunks_of_def chunks_after[OF assms] select_by_map swap_key[OF chunk_movesD(3)[OF assms]])

lemma chunks_of_same:
  assumes "chunk_moves l k i r f" and "k' \<noteq> k"
  shows "chunks_of k' (moved k i f now l) = chunks_of k' l"
  unfolding chunks_of_after[OF assms(1)] using chunk_movesD[OF assms(1)] assms(2)
  by (intro map_idI) (auto simp: chunks_of_def swap_row_def)

lemma nth_chunk:
  assumes "map kr_chunk_index (chunks_of k l) = [0..n - 1]" and "j < length (chunks_of k l)"
  shows "kr_chunk_index (chunks_of k l ! j) = int j"
proof -
  have "length (chunks_of k l) = length [0..n - 1]" using assms(1) by (metis length_map)
  with assms(2) have "int j \<le> n - 1" by simp
  have "kr_chunk_index (chunks_of k l ! j) = map kr_chunk_index (chunks_of k l) ! j" using assms(2) by simp
  also have "\<dots> = int j" unfolding assms(1) using \<open>int j \<le> n - 1\<close> by (simp add: nth_upto)
  finally show ?thesis .
qed

lemma states_after:
  assumes m: "chunk_moves l k i r f" and index: "map kr_chunk_index (chunks_of k l) = [0..n - 1]"
  shows "0 \<le> i" and "nat i < length (chunks_of k l)" and "chunks_of k l ! nat i = r"
    and "map kr_state (chunks_of k (moved k i f now l)) = (map kr_state (chunks_of k l))[nat i := kr_state (f r)]"
proof -
  note row = chunk_movesD[OF m]
  have "r \<in> set (chunks_of k l)" using row by (simp add: chunks_of_def)
  then obtain j where j: "j < length (chunks_of k l)" "chunks_of k l ! j = r" by (auto simp: in_set_conv_nth)
  then have i: "i = int j" using nth_chunk[OF index] row(6) by metis
  then show "0 \<le> i" "nat i < length (chunks_of k l)" "chunks_of k l ! nat i = r" using j by simp_all
  have "distinct (map kr_chunk_index (chunks_of k l))" unfolding index by simp
  then have "distinct (chunks_of k l)" by (simp add: distinct_map)
  then show "map kr_state (chunks_of k (moved k i f now l)) = (map kr_state (chunks_of k l))[nat i := kr_state (f r)]"
    unfolding chunks_of_after[OF m] using j i
    by (intro nth_equalityI) (auto simp: swap_row_def nth_list_update nth_eq_iff_index_eq)
qed

lemma order_after:
  assumes m: "chunk_moves l k i r f" and index: "map kr_chunk_index (chunks_of k l) = [0..n - 1]"
    and order: "in_order (map kr_state (chunks_of k l))"
  shows "in_order (map kr_state (chunks_of k (moved k i f now l)))"
  unfolding states_after(4)[OF m index]
proof (rule in_order_update[OF order])
  note at = states_after(1-3)[OF m index] and row = chunk_movesD[OF m]
  show "nat i < length (map kr_state (chunks_of k l))" using at by simp
  show "map kr_state (chunks_of k l) ! nat i \<noteq> K_delivered" using at chunk_move_facts(2)[OF row(3)] by simp
  show "kr_state (f r) = K_pending \<or> (\<forall>j<nat i. map kr_state (chunks_of k l) ! j = K_delivered)"
  proof (cases "kr_state r = K_pending")
    case True
    from m chunk_move_facts(5)[OF row(3) this]
    have "kr_state q = K_delivered" if "q \<in> set (chunks_of k l)" "kr_chunk_index q < i" for q
      using that by (auto simp: chunks_of_def chunk_moves_def)
    then show ?thesis using at nth_chunk[OF index] by auto
  next
    case False
    with at order have "\<forall>j<nat i. map kr_state (chunks_of k l) ! j = K_delivered"
      unfolding in_order_def by (metis length_map nth_map)
    then show ?thesis ..
  qed
qed

lemma refresh_row_fields:
  "pj_key (refresh_row x t p) = pj_key p" "pj_chunk_count (refresh_row x t p) = pj_chunk_count p"
  "pj_state (refresh_row x t p) = x" "pj_completed_at (refresh_row x t p) \<noteq> None \<longleftrightarrow> x \<in> {J_delivered, J_failed}"
  by (auto simp: refresh_row_def)

lemma projections_after:
  "transport_delivery_projections (moved k i f now l) = update_where (\<lambda>p. pj_key p = k)
     (refresh_row (summary (map kr_state (chunks_of k (moved k i f now l)))) now) (transport_delivery_projections l)"
  by (simp add: moved_def with_chunk_def chunks_of_def)

lemma moved_keys:
  "map pj_key (transport_delivery_projections (moved k i f now l)) = map pj_key (transport_delivery_projections l)"
  unfolding projections_after by (rule map_update_where) (simp add: refresh_row_fields)

lemma moved_delivery_ok:
  assumes m: "chunk_moves l k i r f" and p: "p \<in> set (transport_delivery_projections (moved k i f now l))"
  shows "delivery_ok (moved k i f now l) p"
proof -
  from p obtain q where q: "q \<in> set (transport_delivery_projections l)" and "p = (if pj_key q = k
      then refresh_row (summary (map kr_state (chunks_of k (moved k i f now l)))) now q else q)"
    unfolding projections_after in_update_where by blast
  moreover have "delivery_ok l q" using chunk_movesD(1)[OF m] q by (auto simp: ledger_inv_def)
  moreover have "map kr_chunk_index (chunks_of k (moved k i f now l)) = map kr_chunk_index (chunks_of k l)"
    unfolding chunks_of_after[OF m] by (simp add: swap_key[OF chunk_movesD(3)[OF m]])
  ultimately show ?thesis
    using order_after[OF m, of "pj_chunk_count q"] chunks_of_same[OF m, of "pj_key q"]
    by (cases "pj_key q = k") (simp_all add: delivery_ok_def refresh_row_fields del: not_None_eq)
qed

lemma inv_moved:
  assumes m: "chunk_moves l k i r f"
  shows "ledger_inv (moved k i f now l)"
proof -
  note row = chunk_movesD[OF m]
  have "chunk_row_ok (swap_row r (f r) x)" if "x \<in> set (transport_delivery_chunks l)" for x
    using that row(1,4) chunk_move_ok[OF row(3)] by (auto simp: ledger_inv_def swap_row_def)
  moreover have "kr_key ` set (transport_delivery_chunks (moved k i f now l)) = kr_key ` set (transport_delivery_chunks l)"
    unfolding chunks_after[OF m] by (auto simp: image_image swap_key[OF row(3)])
  moreover have "map chunk_key (map (swap_row r (f r)) (transport_delivery_chunks l)) = map chunk_key (transport_delivery_chunks l)"
    by (simp add: swap_key[OF row(3)])
  ultimately show ?thesis
    using row(1) moved_keys moved_delivery_ok[OF m] unfolding ledger_inv_def chunks_after[OF m]
    by (metis (no_types, lifting) imageE list.set_map)
qed

subsection \<open>What validation establishes\<close>

definition all_capabilities :: "frozen_projection \<Rightarrow> delivery_capability list" where
  "all_capabilities p = concat (map ck_capabilities (fp_chunks p))"

lemma wp_validated_chunk: "wp (validated_chunk x i c) (\<lambda>_ _. ck_chunk_index c = i) (l :: ledger)"
  unfolding validated_chunk_def Let_def
  by (rule walk_guard, rule wp_silent_end, rule silent_stateless)
    (auto intro!: unchanging simp: validated_button_def validated_capability_def check_span_def Let_def)

lemma wp_add_capabilities:
  "distinct (map fst known) \<Longrightarrow> wp (add_capabilities known cs)
     (\<lambda>v _. v = known @ map (\<lambda>c. (cp_token_digest c, c)) cs \<and> distinct (map fst v)) (l :: ledger)"
proof (induction cs arbitrary: known)
  case (Cons c cs)
  show ?case
    unfolding add_capabilities.simps
    by (rule walk_guard, rule wp_mono[OF Cons.IH]) (use Cons.prems in auto)
qed (simp add: wp_rules)

lemma wp_validated_chunks:
  fixes l :: ledger
  assumes "distinct (map fst known)"
  shows "wp (validated_chunks cx b v i known cs)
     (\<lambda>y _. map ck_chunk_index cs = [i..i + int (length cs) - 1] \<and> distinct (map fst (snd y))
        \<and> snd y = known @ map (\<lambda>c. (cp_token_digest c, c)) (concat (map ck_capabilities cs))) l"
  using assms
proof (induction cs arbitrary: i known l)
  case (Cons c cs)
  show ?case
    unfolding validated_chunks.simps
    apply (rule wp_silent, (rule silent_stateless, intro unchanging; fail))
    apply (rule walk_guard, rule wp_then[OF wp_validated_chunk], rule walk_guard)
    apply (rule wp_silent, (rule silent_stateless, intro unchanging; fail))
    apply (rule wp_then[OF wp_add_capabilities[OF Cons.prems]])
    apply (rule wp_then[OF Cons.IH])
     apply (auto simp add: wp_rules upto_rec1[of i] split: prod.split)
    done
qed (simp add: wp_rules)

lemma wp_validated_registration:
  "wp (validated_registration c d r) (\<lambda>_ _. tr_expires_at r = cp_expires_at c) (l :: ledger)"
  unfolding validated_registration_def Let_def
  by (rule walk_guard wp_silent_end silent_stateless)+ (auto intro!: unchanging)

lemma wp_validated_registrations:
  fixes l :: ledger
  shows "wp (validated_registrations caps d seen regs) (\<lambda>y _. set (snd y) = tr_token_digest ` set regs \<union> set seen
     \<and> distinct (map tr_token_digest regs) \<and> tr_token_digest ` set regs \<inter> set seen = {}
     \<and> (\<forall>r \<in> set regs. \<exists>c. map_of caps (tr_token_digest r) = Some c \<and> tr_expires_at r = cp_expires_at c)) l"
proof (induction regs arbitrary: seen l)
  case (Cons r regs)
  show ?case
    unfolding validated_registrations.simps digest_of_def
    apply (rule walk_assoc, rule walk_guard)
    apply (simp only: wp_seq wp_ret)
    apply (rule wp_optionI)
     apply (rule wp_raise)
    apply (rule wp_then[OF wp_validated_registration], rule wp_then[OF Cons.IH])
    apply (auto simp: wp_rules split: prod.split if_splits)
    done
qed (simp add: wp_rules)

text \<open>What the validation of a frozen projection makes sure of.\<close>

definition token_map :: "frozen_projection \<Rightarrow> (string \<times> delivery_capability) list" where
  "token_map p = map (\<lambda>c. (cp_token_digest c, c)) (all_capabilities p)"

definition well_frozen :: "frozen_projection \<Rightarrow> target_registration list \<Rightarrow> bool" where
  "well_frozen p regs \<longleftrightarrow> fp_chunks p \<noteq> [] \<and> length (fp_chunks p) \<le> 100
     \<and> map ck_chunk_index (fp_chunks p) = [0..int (length (fp_chunks p)) - 1] \<and> distinct (map fst (token_map p))
     \<and> distinct (map tr_token_digest regs) \<and> tr_token_digest ` set regs = fst ` set (token_map p)
     \<and> (\<forall>r \<in> set regs. \<exists>c. map_of (token_map p) (tr_token_digest r) = Some c \<and> tr_expires_at r = cp_expires_at c)"

lemma wp_validated_targets:
  "wp (validated_target_registrations caps d regs) (\<lambda>_ _. tr_token_digest ` set regs = fst ` set caps
     \<and> distinct (map tr_token_digest regs)
     \<and> (\<forall>r \<in> set regs. \<exists>c. map_of caps (tr_token_digest r) = Some c \<and> tr_expires_at r = cp_expires_at c)) (l :: ledger)"
  unfolding validated_target_registrations_def
  apply (rule walk_guard, rule wp_then[OF wp_validated_registrations])
  apply (simp add: wp_rules split: prod.split)
  apply (metis snd_conv)
  done

lemma wp_validated_projection: "wp (validated_projection cx p regs b) (\<lambda>_ _. well_frozen p regs) (l :: ledger)"
  unfolding validated_projection_def validated_delivery_key_def
  apply (rule walk_assoc walk_guard | (rule wp_then[OF wp_validated_chunks], simp)
      | rule wp_silent, (rule silent_stateless, (intro unchanging; fail)))+
  apply (simp only: split_beta)
  apply (rule wp_then[OF wp_validated_targets])
  apply (auto simp: wp_rules well_frozen_def token_map_def all_capabilities_def)
  done

lemma valid_frozen_well: "valid_frozen cx p regs \<Longrightarrow> well_frozen p regs"
proof -
  assume valid: "valid_frozen cx p regs"
  fix l :: ledger
  have "wp (validate_transport_delivery_projection cx p regs) (\<lambda>_ _. well_frozen p regs) l"
    unfolding validate_transport_delivery_projection_def transport_delivery_projection_hash_def
    apply (rule wp_silent, (rule silent_stateless, (intro unchanging; fail)))
    apply (rule walk_assoc)
    apply (rule wp_then[OF wp_validated_projection])
    apply (auto simp: wp_rules split: prod.split)
    done
  then show ?thesis using valid by (simp add: valid_frozen_def passes_def wp_rules)
qed

subsection \<open>Freezing keeps the invariant\<close>

lemma frozen_ledger_tables [simp]:
  "transport_delivery_chunks (frozen_ledger k h now p regs l)
     = transport_delivery_chunks l @ map (new_chunk_row k) (fp_chunks p)"
  "transport_delivery_projections (frozen_ledger k h now p regs l)
     = transport_delivery_projections l @ [new_projection_row k h now p]"
  by (simp_all add: frozen_ledger_def add_chunks_def)

lemma new_chunk_row_fields [simp]:
  "kr_key (new_chunk_row k c) = k" "kr_chunk_index (new_chunk_row k c) = ck_chunk_index c"
  "kr_state (new_chunk_row k c) = K_pending" "chunk_key (new_chunk_row k c) = (k, ck_chunk_index c)"
  "chunk_row_ok (new_chunk_row k c)"
  by (simp_all add: new_chunk_row_def chunk_key_def chunk_row_ok_def)

lemma chunks_of_frozen:
  assumes "k \<notin> kr_key ` set (transport_delivery_chunks l)" and "well_frozen p regs"
  shows "chunks_of k (frozen_ledger k h now p regs l) = map (new_chunk_row k) (fp_chunks p)"
proof -
  have "filter (\<lambda>r. kr_key r = k) (transport_delivery_chunks l) = []" using assms(1) by (auto simp: filter_empty_conv)
  moreover have "sorted (map kr_chunk_index (map (new_chunk_row k) (fp_chunks p)))"
    using assms(2) by (simp add: well_frozen_def comp_def)
  ultimately show ?thesis
    by (simp add: chunks_of_def select_by_def filter_map comp_def sorted_sort_id[symmetric] sort_key_id_if_sorted)
qed

lemma chunks_of_others: "k' \<noteq> k \<Longrightarrow> chunks_of k' (frozen_ledger k h now p regs l) = chunks_of k' l"
  by (simp add: chunks_of_def select_by_def filter_map comp_def)

lemma inv_frozen:
  assumes inv: "ledger_inv l" and fresh: "k \<notin> pj_key ` set (transport_delivery_projections l)" and well: "well_frozen p regs"
    and key: "passes (transport_delivery_key k) k"
  shows "ledger_inv (frozen_ledger k h now p regs l)"
proof -
  let ?l = "frozen_ledger k h now p regs l"
  have none: "k \<notin> kr_key ` set (transport_delivery_chunks l)" using inv fresh by (auto simp: ledger_inv_def)
  note here = chunks_of_frozen[OF none well, of h now]
  have "delivery_ok ?l (new_projection_row k h now p)"
    using well key by (auto simp: delivery_ok_def here new_projection_row_def comp_def well_frozen_def in_order_def
      summary_def list_all_iff)
  moreover have "delivery_ok ?l q" if "q \<in> set (transport_delivery_projections l)" for q
  proof -
    have "pj_key q \<noteq> k" and "delivery_ok l q" using that fresh inv by (auto simp: ledger_inv_def)
    then show ?thesis using chunks_of_others[of "pj_key q" k h now p regs l] by (simp add: delivery_ok_def)
  qed
  moreover have "distinct (map chunk_key (transport_delivery_chunks ?l))"
  proof -
    have "distinct (map (\<lambda>c. (k, ck_chunk_index c)) (fp_chunks p))"
      using well by (simp add: well_frozen_def distinct_map inj_on_def) (metis distinct_map distinct_upto inj_onD)
    then show ?thesis using inv none by (auto simp: ledger_inv_def comp_def chunk_key_def)
  qed
  ultimately show ?thesis using inv fresh by (auto simp: ledger_inv_def new_projection_row_def)
qed

lemma inv_tables:
  "transport_delivery_projections l' = transport_delivery_projections l
     \<Longrightarrow> transport_delivery_chunks l' = transport_delivery_chunks l \<Longrightarrow> ledger_inv l' = ledger_inv l"
  by (simp add: ledger_inv_def delivery_ok_def chunks_of_def)

lemma ledger_step_inv: "ledger_step l l' \<Longrightarrow> ledger_inv l \<Longrightarrow> ledger_inv l'"
proof (induction rule: ledger_step.induct)
  case (moves k i l r f now rs s)
  then have "chunk_moves (transport_delivery_chunk_resolutions_update (\<lambda>x. x @ rs) (l\<lparr>lg_control := s\<rparr>)) k i r f"
    by (simp add: chunk_moves_def inv_tables[of "transport_delivery_chunk_resolutions_update _ _" l])
  then show ?case by (rule inv_moved)
next
  case (freezes l p regs k h now s)
  then show ?case
    by (intro inv_frozen valid_frozen_well) (simp_all add: inv_tables[of "l\<lparr>lg_control := s\<rparr>" l])
qed (erule inv_tables[THEN iffD2, rotated 2], simp, simp)+

lemma ledger_inv_cmds: "ledger_cmd\<^sup>*\<^sup>* l l' \<Longrightarrow> ledger_inv l \<Longrightarrow> ledger_inv l'"
  by (induction rule: rtranclp_induct) (auto intro: ledger_step_inv ledger_cmd_step)

lemma reachable_ledger_inv: "reachable_ledger l \<Longrightarrow> ledger_inv l"
proof -
  have "ledger_inv (empty_ledger s x)" for s x by (simp add: empty_ledger_def ledger_inv_def)
  moreover assume "reachable_ledger l"
  ultimately show ?thesis using ledger_inv_cmds unfolding reachable_ledger_def by blast
qed

end
