(* ===== verification/Transport_Safety.thy ===== *)
theory Transport_Safety
  imports Transport_Delivery "HOL-Library.Multiset"
begin

text \<open>
  The guarantees of the ledger of transport deliveries: the life of a chunk and of its delivery, one permit to
  send per claim, what was frozen is read back whatever happens to the ledger, and targets that are used once.
  They are proved of the steps of \<open>ledger_step\<close> and stated of every ledger that commands lead to.
\<close>

section \<open>What a step keeps\<close>

text \<open>The keys of the rows that hang on a delivery, and the primary key of the targets.\<close>

definition ledger_links :: "ledger \<Rightarrow> bool" where
  "ledger_links l \<longleftrightarrow> bw_key ` set (transport_delivery_chunk_buttons l) \<subseteq> pj_key ` set (transport_delivery_projections l)
     \<and> cw_key ` set (transport_delivery_chunk_capabilities l) \<subseteq> pj_key ` set (transport_delivery_projections l)
     \<and> distinct (map tg_token_digest (transport_opaque_targets l))"

lemma moved_tables [simp]:
  "transport_delivery_chunk_buttons (moved k i f now l) = transport_delivery_chunk_buttons l"
  "transport_delivery_chunk_capabilities (moved k i f now l) = transport_delivery_chunk_capabilities l"
  "transport_opaque_targets (moved k i f now l) = transport_opaque_targets l"
  "transport_delivery_chunk_resolutions (moved k i f now l) = transport_delivery_chunk_resolutions l"
  "lg_crypto (moved k i f now l) = lg_crypto l" "lg_control (moved k i f now l) = lg_control l"
  by (simp_all add: moved_def with_chunk_def)

lemma moved_key_set:
  "pj_key ` set (transport_delivery_projections (moved k i f now l)) = pj_key ` set (transport_delivery_projections l)"
  using arg_cong[OF moved_keys[of k i f now l], of set] by simp

lemma frozen_ledger_rows [simp]:
  "transport_delivery_chunk_buttons (frozen_ledger k h now p regs l)
     = transport_delivery_chunk_buttons l @ concat (map (button_rows k) (fp_chunks p))"
  "transport_delivery_chunk_capabilities (frozen_ledger k h now p regs l)
     = transport_delivery_chunk_capabilities l @ concat (map (capability_rows k regs) (fp_chunks p))"
  "transport_opaque_targets (frozen_ledger k h now p regs l) = transport_opaque_targets l @ map (new_target_row now) regs"
  "transport_delivery_chunk_resolutions (frozen_ledger k h now p regs l) = transport_delivery_chunk_resolutions l"
  "lg_crypto (frozen_ledger k h now p regs l) = lg_crypto l"
  by (simp_all add: frozen_ledger_def add_chunks_def)

lemma rows_of_delivery:
  "r \<in> set (button_rows k c) \<Longrightarrow> bw_key r = k" "c' \<in> set (capability_rows k regs c) \<Longrightarrow> cw_key c' = k"
  by (auto simp: button_rows_def capability_rows_def)

lemma frozen_row_keys [simp]:
  "pj_key (new_projection_row k h now p) = k" "tg_token_digest (new_target_row now t) = tr_token_digest t"
  "tg_token_digest (consume_row w now g) = tg_token_digest g"
  by (simp_all add: new_projection_row_def new_target_row_def consume_row_def)

lemma ledger_step_links: "ledger_step l l' \<Longrightarrow> ledger_links l \<Longrightarrow> ledger_links l'"
proof (induction rule: ledger_step.induct)
  case (freezes l p regs k h now s)
  then have "distinct (map tr_token_digest regs)" by (auto dest!: valid_frozen_well simp: well_frozen_def)
  with freezes show ?case by (auto simp: ledger_links_def comp_def dest: rows_of_delivery)
next
  case (consumes l d w now s)
  then show ?case
    by (simp add: ledger_links_def map_update_where[of _ tg_token_digest])
qed (auto simp: ledger_links_def moved_key_set)

text \<open>What a delivery was frozen with.\<close>

definition frozen_part :: "projection_row \<Rightarrow> projection_row" where
  "frozen_part p = p\<lparr>pj_state := J_pending, pj_revision := 0, pj_completed_at := None\<rparr>"

definition frozen_chunk :: "chunk_row \<Rightarrow> chunk_row" where
  "frozen_chunk r = new_chunk_row (kr_key r) \<lparr>ck_chunk_index = kr_chunk_index r, ck_operation_id = kr_operation_id r,
     ck_text = kr_text r, ck_parse_mode = kr_parse_mode r, ck_buttons = [], ck_capabilities = [],
     ck_chunk_hash = kr_chunk_hash r\<rparr>"

lemma chunk_move_frozen: "chunk_move r r' \<Longrightarrow> frozen_chunk r' = frozen_chunk r"
  by (induction rule: chunk_move.induct)
    (simp_all add: frozen_chunk_def claim_row_def send_row_def deliver_row_def release_row_def fail_row_def
      assume_row_def retry_row_def)

lemma chunk_move_window:
  "chunk_move r r' \<Longrightarrow> kr_transport_window_id r = Some w \<Longrightarrow> kr_transport_window_id r' = Some w"
  by (induction rule: chunk_move.induct)
    (auto simp: claim_row_def send_row_def deliver_row_def release_row_def fail_row_def assume_row_def retry_row_def
      split: option.split)

lemma step_chunks:
  "ledger_step l l' \<Longrightarrow> ledger_inv l \<Longrightarrow> rows_evolve chunk_move\<^sup>*\<^sup>* (transport_delivery_chunks l) (transport_delivery_chunks l')"
proof (induction rule: ledger_step.induct)
  case (moves k i l r f now rs s)
  let ?l = "transport_delivery_chunk_resolutions_update (\<lambda>x. x @ rs) (l\<lparr>lg_control := s\<rparr>)"
  from moves have "chunk_moves ?l k i r f"
    by (simp add: chunk_moves_def inv_tables[of "transport_delivery_chunk_resolutions_update _ _" l])
  from chunks_after[OF this] show ?case
    using moves(2) by (auto intro!: rows_evolve_map simp: swap_row_def)
qed (auto intro: rows_evolve_refl rows_evolve_append)

lemma cmds_inv: "ledger_cmd\<^sup>*\<^sup>* l l' \<Longrightarrow> ledger_inv l \<Longrightarrow> ledger_links l \<Longrightarrow> ledger_inv l' \<and> ledger_links l'"
  by (induction rule: rtranclp_induct) (auto intro: ledger_step_inv ledger_step_links ledger_cmd_step)

lemma reachable_ledger_links: "reachable_ledger l \<Longrightarrow> ledger_links l"
proof -
  have "ledger_inv (empty_ledger s x) \<and> ledger_links (empty_ledger s x)" for s x
    by (simp add: empty_ledger_def ledger_inv_def ledger_links_def)
  moreover assume "reachable_ledger l"
  ultimately show ?thesis using cmds_inv unfolding reachable_ledger_def by blast
qed

lemma reachable_ledger_cmds: "reachable_ledger l \<Longrightarrow> ledger_cmd\<^sup>*\<^sup>* l l' \<Longrightarrow> reachable_ledger l'"
  unfolding reachable_ledger_def by (meson rtranclp_trans)

lemma rows_evolve_steps: "rows_evolve R\<^sup>*\<^sup>* xs ys \<Longrightarrow> rows_evolve R\<^sup>*\<^sup>* ys zs \<Longrightarrow> rows_evolve R\<^sup>*\<^sup>* xs zs"
  by (drule (1) rows_evolve_trans, erule rows_evolve_mono) auto

lemma cmds_chunks:
  assumes "ledger_cmd\<^sup>*\<^sup>* l l'" and "ledger_inv l"
  shows "rows_evolve chunk_move\<^sup>*\<^sup>* (transport_delivery_chunks l) (transport_delivery_chunks l')"
  using assms(1)
proof (induction rule: rtranclp_induct)
  case (step l1 l2)
  have "rows_evolve chunk_move\<^sup>*\<^sup>* (transport_delivery_chunks l1) (transport_delivery_chunks l2)"
    using step(1,2) assms(2) by (auto intro: step_chunks ledger_cmd_step ledger_inv_cmds)
  with step(3) show ?case by (rule rows_evolve_steps)
qed (auto intro: rows_evolve_refl)

lemma chunk_moves_closed:
  assumes "chunk_move\<^sup>*\<^sup>* r r'"
  shows "frozen_chunk r' = frozen_chunk r" "chunk_key r' = chunk_key r" "kr_revision r \<le> kr_revision r'"
    "kr_claim_epoch r \<le> kr_claim_epoch r'" "kr_revision r' = kr_revision r \<longrightarrow> r' = r"
    "kr_state r \<in> {K_delivered, K_failed} \<longrightarrow> r' = r"
    "\<forall>w. kr_transport_window_id r = Some w \<longrightarrow> kr_transport_window_id r' = Some w"
  using assms
  by (induction rule: rtranclp_induct) (auto dest: chunk_move_facts chunk_move_frozen chunk_move_window)

section \<open>Reading what was frozen\<close>

definition frozen_value :: "ledger \<Rightarrow> projection_row \<Rightarrow> frozen_projection" where
  "frozen_value l row = \<lparr>fp_delivery_key = pj_key row, fp_operation_id = pj_operation_id row,
     fp_destination_binding_digest = pj_destination_binding_digest row, fp_routing = pj_routing row,
     fp_capability_binding_digest = pj_capability_binding_digest row,
     fp_rpc_timeout_seconds = pj_rpc_timeout_seconds row, fp_projection_hash = pj_projection_hash row,
     fp_chunks = map (chunk_of_row l) (chunks_of (pj_key row) l)\<rparr>"

definition claim_value :: "ledger \<Rightarrow> projection_row \<Rightarrow> claim_status option \<Rightarrow> chunk_row \<Rightarrow> chunk_claim" where
  "claim_value l row status r = \<lparr>cc_projection = frozen_value l row, cc_chunk = chunk_of_row l r,
     cc_status = (case status of None \<Rightarrow> Chunk_is (kr_state r) | Some x \<Rightarrow> x),
     cc_revision = kr_revision r, cc_claim_owner = kr_claim_owner r, cc_claim_epoch = kr_claim_epoch r,
     cc_retry_not_before = kr_retry_not_before r\<rparr>"

lemma chunk_at_index:
  assumes "ledger_inv l" and "row \<in> set (transport_delivery_projections l)" and "r \<in> set (transport_delivery_chunks l)"
    and "kr_key r = pj_key row"
  shows "0 \<le> kr_chunk_index r" "nat (kr_chunk_index r) < length (chunks_of (pj_key row) l)"
    "chunks_of (pj_key row) l ! nat (kr_chunk_index r) = r"
proof -
  have index: "map kr_chunk_index (chunks_of (pj_key row) l) = [0..pj_chunk_count row - 1]"
    using assms(1,2) by (simp add: ledger_inv_def delivery_ok_def)
  have "r \<in> set (chunks_of (pj_key row) l)" using assms(3,4) by (simp add: chunks_of_def)
  then obtain j where "j < length (chunks_of (pj_key row) l)" "chunks_of (pj_key row) l ! j = r"
    by (auto simp: in_set_conv_nth)
  with nth_chunk[OF index, of j] show "0 \<le> kr_chunk_index r"
    "nat (kr_chunk_index r) < length (chunks_of (pj_key row) l)"
    "chunks_of (pj_key row) l ! nat (kr_chunk_index r) = r" by simp_all
qed

lemma chunks_counted:
  assumes "ledger_inv l" and "row \<in> set (transport_delivery_projections l)"
  shows "int (length (chunks_of (pj_key row) l)) = pj_chunk_count row" and "chunks_of (pj_key row) l \<noteq> []"
proof -
  have "map kr_chunk_index (chunks_of (pj_key row) l) = [0..pj_chunk_count row - 1]" "0 < pj_chunk_count row"
    using assms by (simp_all add: ledger_inv_def delivery_ok_def)
  moreover from this(1) have "length (chunks_of (pj_key row) l) = length [0..pj_chunk_count row - 1]" by (metis length_map)
  ultimately show "int (length (chunks_of (pj_key row) l)) = pj_chunk_count row" "chunks_of (pj_key row) l \<noteq> []" by auto
qed

lemma find_projection:
  "ledger_inv l \<Longrightarrow> row \<in> set (transport_delivery_projections l)
     \<Longrightarrow> find_row pj_key (pj_key row) (transport_delivery_projections l) = Some row"
  by (simp add: ledger_inv_def find_row_unique)

lemma find_chunk:
  "ledger_inv l \<Longrightarrow> r \<in> set (transport_delivery_chunks l)
     \<Longrightarrow> find_row chunk_key (kr_key r, kr_chunk_index r) (transport_delivery_chunks l) = Some r"
  using find_row_unique[of chunk_key "transport_delivery_chunks l" r] by (simp add: ledger_inv_def chunk_key_def)

lemma read_frozen:
  assumes "ledger_inv l" and "row \<in> set (transport_delivery_projections l)"
  shows "frozen_transport_delivery_projection (pj_key row) l = Inr (frozen_value l row, l)"
  using find_projection[OF assms] chunks_counted[OF assms]
  by (simp add: frozen_transport_delivery_projection_def cmd_defs sql_defs frozen_value_def)

lemma read_claim:
  assumes "ledger_inv l" and "row \<in> set (transport_delivery_projections l)" and "r \<in> set (transport_delivery_chunks l)"
    and "kr_key r = pj_key row"
  shows "transport_delivery_chunk_claim (pj_key row) (kr_chunk_index r) status l = Inr (claim_value l row status r, l)"
  using find_chunk[OF assms(1,3)] read_frozen[OF assms(1,2)] chunk_at_index[OF assms] assms(4)
  by (simp add: transport_delivery_chunk_claim_def transport_delivery_chunk_row_def chunk_at_def cmd_defs sql_defs
      claim_value_def frozen_value_def)

text \<open>Nothing that a delivery was frozen with changes.\<close>

definition same_delivery :: "delivery_key \<Rightarrow> ledger \<Rightarrow> ledger \<Rightarrow> bool" where
  "same_delivery k l l' \<longleftrightarrow> map frozen_part (filter (\<lambda>p. pj_key p = k) (transport_delivery_projections l'))
       = map frozen_part (filter (\<lambda>p. pj_key p = k) (transport_delivery_projections l))
     \<and> map frozen_chunk (chunks_of k l') = map frozen_chunk (chunks_of k l)
     \<and> filter (\<lambda>b. bw_key b = k) (transport_delivery_chunk_buttons l')
       = filter (\<lambda>b. bw_key b = k) (transport_delivery_chunk_buttons l)
     \<and> filter (\<lambda>c. cw_key c = k) (transport_delivery_chunk_capabilities l')
       = filter (\<lambda>c. cw_key c = k) (transport_delivery_chunk_capabilities l)"

lemma frozen_part_refresh [simp]: "frozen_part (refresh_row x t p) = frozen_part p"
  by (simp add: frozen_part_def refresh_row_def)

lemma moved_frozen_parts:
  "map frozen_part (filter (\<lambda>p. pj_key p = k') (transport_delivery_projections (moved k i f now l)))
     = map frozen_part (filter (\<lambda>p. pj_key p = k') (transport_delivery_projections l))"
proof -
  have "map frozen_part (filter (\<lambda>p. pj_key p = k') (update_where (\<lambda>p. pj_key p = k) (refresh_row x now) ps))
     = map frozen_part (filter (\<lambda>p. pj_key p = k') ps)" for x ps
    by (induction ps) (auto simp: refresh_row_fields)
  then show ?thesis unfolding projections_after .
qed

lemma step_same:
  assumes "ledger_step l l'" and "ledger_inv l" and "k \<in> pj_key ` set (transport_delivery_projections l)"
  shows "same_delivery k l l'"
  using assms
proof (induction rule: ledger_step.induct)
  case (moves k' i l r f now rs s)
  let ?l = "transport_delivery_chunk_resolutions_update (\<lambda>x. x @ rs) (l\<lparr>lg_control := s\<rparr>)"
  from moves have m: "chunk_moves ?l k' i r f"
    by (simp add: chunk_moves_def inv_tables[of "transport_delivery_chunk_resolutions_update _ _" l])
  have "chunks_of k ?l = chunks_of k l" by (simp add: chunks_of_def)
  with chunks_of_after[OF m, of k now] chunk_move_frozen[OF chunk_movesD(3)[OF m]]
  show ?case unfolding same_delivery_def moved_frozen_parts by (simp add: swap_row_def)
next
  case (freezes l p regs k' h now s)
  then have "k \<noteq> k'" by metis
  then show ?case
    using chunks_of_others[of k k' h now p regs "l\<lparr>lg_control := s\<rparr>"]
    by (auto simp: same_delivery_def chunks_of_def filter_empty_conv dest: rows_of_delivery)
qed (simp_all add: same_delivery_def chunks_of_def)

lemma frozen_value_same:
  assumes "same_delivery k l l'" and "pj_key row = k" and "pj_key row' = k" and "frozen_part row' = frozen_part row"
  shows "frozen_value l' row' = frozen_value l row"
proof -
  have content: "chunk_of_row m r = chunk_of_row m (frozen_chunk r)" for m r
    by (simp add: chunk_of_row_def frozen_chunk_def new_chunk_row_def)
  have "chunk_of_row l' (frozen_chunk r) = chunk_of_row l (frozen_chunk r)" if "kr_key r = k" for r
  proof -
    have "buttons_of k i l' = buttons_of k i l" "capabilities_of k i l' = capabilities_of k i l" for i
      using assms(1) unfolding buttons_of_def capabilities_of_def select_by_filter select_by_def same_delivery_def
      by simp_all
    then show ?thesis using that by (simp add: chunk_of_row_def frozen_chunk_def)
  qed
  then have "map (chunk_of_row l' \<circ> frozen_chunk) (chunks_of k l) = map (chunk_of_row l \<circ> frozen_chunk) (chunks_of k l)"
    by (simp add: chunks_of_def)
  then have "map (chunk_of_row l') (map frozen_chunk (chunks_of k l')) = map (chunk_of_row l) (map frozen_chunk (chunks_of k l))"
    using assms(1) by (simp add: same_delivery_def)
  then have "map (chunk_of_row l') (chunks_of k l') = map (chunk_of_row l) (chunks_of k l)"
    by (simp add: comp_def content[symmetric])
  moreover have "pj_operation_id row' = pj_operation_id row" "pj_routing row' = pj_routing row"
    "pj_destination_binding_digest row' = pj_destination_binding_digest row"
    "pj_capability_binding_digest row' = pj_capability_binding_digest row"
    "pj_rpc_timeout_seconds row' = pj_rpc_timeout_seconds row" "pj_projection_hash row' = pj_projection_hash row"
    using assms(4) by (cases row, cases row', simp add: frozen_part_def)+
  ultimately show ?thesis using assms(2,3) by (simp add: frozen_value_def)
qed

lemma same_delivery_trans: "same_delivery k l l' \<Longrightarrow> same_delivery k l' l'' \<Longrightarrow> same_delivery k l l''"
  by (simp add: same_delivery_def)

lemma same_delivery_keys:
  "same_delivery k l l' \<Longrightarrow> k \<in> pj_key ` set (transport_delivery_projections l)
     \<Longrightarrow> k \<in> pj_key ` set (transport_delivery_projections l')"
  by (clarsimp simp: same_delivery_def image_iff) (metis (mono_tags, lifting) filter_empty_conv map_is_Nil_conv)

lemma cmds_same:
  assumes "ledger_cmd\<^sup>*\<^sup>* l l'" and "ledger_inv l" and "k \<in> pj_key ` set (transport_delivery_projections l)"
  shows "same_delivery k l l'"
  using assms(1)
proof (induction rule: rtranclp_induct)
  case base
  then show ?case by (simp add: same_delivery_def)
next
  case (step l1 l2)
  have "ledger_inv l1" by (rule ledger_inv_cmds[OF step(1) assms(2)])
  with step(2) same_delivery_keys[OF step(3) assms(3)] have "same_delivery k l1 l2" by (intro step_same ledger_cmd_step)
  with step(3) show ?case by (rule same_delivery_trans)
qed

lemma same_delivery_row:
  assumes "same_delivery k l l'" and "row \<in> set (transport_delivery_projections l)" and "pj_key row = k"
  shows "\<exists>row' \<in> set (transport_delivery_projections l'). pj_key row' = k \<and> frozen_part row' = frozen_part row"
proof -
  have "frozen_part row \<in> set (map frozen_part (filter (\<lambda>p. pj_key p = k) (transport_delivery_projections l)))"
    using assms(2,3) by auto
  then have "frozen_part row \<in> set (map frozen_part (filter (\<lambda>p. pj_key p = k) (transport_delivery_projections l')))"
    using assms(1) by (simp only: same_delivery_def)
  then show ?thesis by auto
qed

text \<open>What a delivery reads as is the same in every later ledger.\<close>

lemma read_later:
  assumes "ledger_cmd\<^sup>*\<^sup>* l l'" and "ledger_inv l" and "row \<in> set (transport_delivery_projections l)"
  shows "frozen_transport_delivery_projection (pj_key row) l' = Inr (frozen_value l row, l')"
proof -
  have same: "same_delivery (pj_key row) l l'" using assms by (intro cmds_same) auto
  then obtain row' where row': "row' \<in> set (transport_delivery_projections l')" "pj_key row' = pj_key row"
      "frozen_part row' = frozen_part row" using same_delivery_row[OF _ assms(3)] by blast
  then show ?thesis
    using read_frozen[OF ledger_inv_cmds[OF assms(1,2)] row'(1)] frozen_value_same[OF same refl row'(2,3)] by simp
qed

subsection \<open>Targets\<close>

definition target_later :: "target_row \<Rightarrow> target_row \<Rightarrow> bool" where
  "target_later t t' \<longleftrightarrow> tg_token_digest t' = tg_token_digest t \<and> tg_target t' = tg_target t
     \<and> (tg_consumed_by t \<noteq> None \<longrightarrow> t' = t)"

lemma step_targets:
  "ledger_step l l' \<Longrightarrow> rows_evolve target_later (transport_opaque_targets l) (transport_opaque_targets l')"
proof (induction rule: ledger_step.induct)
  case (consumes l d w now s)
  then show ?case by (simp, intro rows_evolve_update_where) (auto simp: target_later_def consume_row_def)
qed (auto simp: target_later_def intro!: rows_evolve_refl rows_evolve_append)

lemma target_later_trans: "rows_evolve target_later xs ys \<Longrightarrow> rows_evolve target_later ys zs \<Longrightarrow> rows_evolve target_later xs zs"
  by (drule (1) rows_evolve_trans, erule rows_evolve_mono) (auto simp: target_later_def)

lemma cmds_targets:
  "ledger_cmd\<^sup>*\<^sup>* l l' \<Longrightarrow> rows_evolve target_later (transport_opaque_targets l) (transport_opaque_targets l')"
proof (induction rule: rtranclp_induct)
  case (step l1 l2)
  then show ?case using target_later_trans step_targets ledger_cmd_step by blast
qed (simp add: rows_evolve_refl target_later_def)

lemma cmds_crypto: "ledger_cmd\<^sup>*\<^sup>* l l' \<Longrightarrow> lg_crypto l' = lg_crypto l"
proof (induction rule: rtranclp_induct)
  case (step l1 l2)
  then show ?case by (auto dest!: ledger_cmd_step elim!: ledger_step.cases)
qed simp

lemma find_target_later:
  assumes "ledger_cmd\<^sup>*\<^sup>* l l'" and "ledger_links l'" and "t \<in> set (transport_opaque_targets l)"
  shows "\<exists>t'. find_row tg_token_digest (tg_token_digest t) (transport_opaque_targets l') = Some t' \<and> target_later t t'"
proof -
  obtain t' where "t' \<in> set (transport_opaque_targets l')" "target_later t t'"
    using rows_evolve_in[OF cmds_targets[OF assms(1)] assms(3)] by blast
  moreover from this(2) have "tg_token_digest t' = tg_token_digest t" by (simp add: target_later_def)
  ultimately show ?thesis using assms(2) find_row_unique[of tg_token_digest] by (metis ledger_links_def)
qed

text \<open>The registrations come back in the order they were given in.\<close>

lemma target_position_nth:
  assumes "distinct (map tr_token_digest regs)" and "i < length regs"
  shows "target_position regs (tr_token_digest (regs ! i)) = int i"
proof -
  have "filter (\<lambda>j. tr_token_digest (regs ! j) = tr_token_digest (regs ! i)) [0..<length regs]
      = filter (\<lambda>j. j = i) [0..<length regs]"
    using assms by (intro filter_cong) (auto simp: distinct_conv_nth)
  also have "\<dots> = [i]" using assms(2) by (induction regs rule: rev_induct) (auto simp: less_Suc_eq)
  finally show ?thesis by (simp add: target_position_def)
qed

lemma sort_by_position:
  fixes pos :: "'a \<Rightarrow> int"
  assumes "mset (map pos xs) = mset [0..int n - 1]" and "i < n"
  shows "length (sort_key pos xs) = n" and "pos (sort_key pos xs ! i) = int i"
proof -
  have "map pos (sort_key pos xs) = sort (map pos xs)" by (metis mset_map mset_sort properties_for_sort sorted_sort_key)
  also have "\<dots> = [0..int n - 1]" using assms(1) by (metis properties_for_sort sorted_upto)
  finally have eq: "map pos (sort_key pos xs) = [0..int n - 1]" .
  then have "length (map pos (sort_key pos xs)) = length [0..int n - 1]" by (simp only:)
  then show len: "length (sort_key pos xs) = n" by simp
  have "pos (sort_key pos xs ! i) = map pos (sort_key pos xs) ! i" using len assms(2) by simp
  then show "pos (sort_key pos xs ! i) = int i" unfolding eq using assms(2) by (simp add: nth_upto)
qed

lemma capability_rows_values:
  "map cw_capability (capability_rows k regs c) = ck_capabilities c"
  "r \<in> set (capability_rows k regs c) \<Longrightarrow> cw_target_position r = target_position regs (cp_token_digest (cw_capability r))"
  by (auto simp: capability_rows_def comp_def split_beta)

lemma all_capability_rows:
  "map cw_capability (concat (map (capability_rows k regs) cs)) = concat (map ck_capabilities cs)"
  "r \<in> set (concat (map (capability_rows k regs) cs))
     \<Longrightarrow> cw_target_position r = target_position regs (cp_token_digest (cw_capability r))"
  by (auto simp: map_concat comp_def capability_rows_values)

lemma positions_complete:
  assumes "well_frozen p regs"
  shows "mset (map cw_target_position (concat (map (capability_rows k regs) (fp_chunks p)))) = mset [0..int (length regs) - 1]"
proof -
  let ?rows = "concat (map (capability_rows k regs) (fp_chunks p))"
  have "map cw_target_position ?rows = map (\<lambda>r. target_position regs (cp_token_digest (cw_capability r))) ?rows"
    using all_capability_rows(2) by (intro map_cong) auto
  also have "\<dots> = map (\<lambda>c. target_position regs (cp_token_digest c)) (map cw_capability ?rows)" by simp
  also have "\<dots> = map (target_position regs) (map fst (token_map p))"
    unfolding all_capability_rows(1) by (simp add: token_map_def all_capabilities_def comp_def)
  finally have "mset (map cw_target_position ?rows) = image_mset (target_position regs) (mset (map fst (token_map p)))"
    by (metis mset_map)
  also have "mset (map fst (token_map p)) = mset (map tr_token_digest regs)"
    using assms by (intro set_eq_iff_mset_eq_distinct[THEN iffD1]) (auto simp: well_frozen_def)
  also have "image_mset (target_position regs) \<dots> = mset (map (target_position regs) (map tr_token_digest regs))"
    by (simp only: mset_map)
  also have "map (target_position regs) (map tr_token_digest regs) = [0..int (length regs) - 1]"
    using assms by (intro nth_equalityI) (auto simp: well_frozen_def target_position_nth nth_upto)
  finally show ?thesis .
qed

lemma for_each_reads: "(\<And>x. x \<in> set xs \<Longrightarrow> f x l = Inr (g x, l)) \<Longrightarrow> for_each f xs l = Inr (map g xs, l)"
  by (induction xs) (simp_all add: cmd_defs)

lemma registrations_read:
  assumes well: "well_frozen p regs"
    and caps: "filter (\<lambda>c. cw_key c = k) (transport_delivery_chunk_capabilities l)
      = concat (map (capability_rows k regs) (fp_chunks p))"
    and found: "\<And>r. r \<in> set regs \<Longrightarrow> \<exists>t. find_row tg_token_digest (tr_token_digest r) (transport_opaque_targets l) = Some t
      \<and> tg_target t = tr_target r"
  shows "transport_delivery_opaque_target_registrations k l = Inr (regs, l)"
proof -
  let ?caps = "concat (map (capability_rows k regs) (fp_chunks p))"
  let ?rows = "sort_key cw_target_position ?caps"
  let ?n = "length regs"
  let ?read = "\<lambda>c. \<lparr>tr_token_digest = cp_token_digest (cw_capability c), tr_expires_at = cp_expires_at (cw_capability c),
      tr_target = tg_target (the (find_row tg_token_digest (cp_token_digest (cw_capability c)) (transport_opaque_targets l)))\<rparr>"
  note sorted = sort_by_position[OF positions_complete[OF well, of k]]
  have len: "length ?rows = ?n"
    using arg_cong[OF positions_complete[OF well, of k], of size] by (simp add: length_concat del: length_concat)
  have at: "?read (?rows ! i) = regs ! i \<and> registration_of (?rows ! i) l = Inr (regs ! i, l)" if i: "i < ?n" for i
  proof -
    let ?c = "?rows ! i"
    let ?d = "cp_token_digest (cw_capability ?c)"
    have c: "?c \<in> set ?caps" using i len by (metis nth_mem set_sort)
    then have "cw_capability ?c \<in> set (all_capabilities p)"
      using all_capability_rows(1)[of k regs "fp_chunks p"] unfolding all_capabilities_def by (metis image_eqI list.set_map)
    then have known: "(?d, cw_capability ?c) \<in> set (token_map p)" by (auto simp: token_map_def)
    then have "?d \<in> tr_token_digest ` set regs" using well unfolding well_frozen_def by (metis fst_conv image_eqI)
    then obtain j where j: "j < ?n" "?d = tr_token_digest (regs ! j)" by (auto simp: in_set_conv_nth)
    then have "int j = int i"
      using sorted(2)[OF i] all_capability_rows(2)[OF c] target_position_nth[of regs j] well by (simp add: well_frozen_def)
    with j have d: "?d = tr_token_digest (regs ! i)" by simp
    have "map_of (token_map p) ?d = Some (cw_capability ?c)" using known well by (simp add: well_frozen_def)
    with d i well have "tr_expires_at (regs ! i) = cp_expires_at (cw_capability ?c)"
      unfolding well_frozen_def by (metis nth_mem option.inject)
    moreover obtain t where "find_row tg_token_digest ?d (transport_opaque_targets l) = Some t" "tg_target t = tr_target (regs ! i)"
      using found[of "regs ! i"] i d by auto
    ultimately show ?thesis using d by (simp add: registration_of_def cmd_defs sql_defs)
  qed
  have "map ?read ?rows = regs" using len at by (intro nth_equalityI) auto
  moreover have "for_each registration_of ?rows l = Inr (map ?read ?rows, l)"
    using at len by (intro for_each_reads) (metis in_set_conv_nth)
  ultimately show ?thesis
    by (simp add: transport_delivery_opaque_target_registrations_def cmd_defs select_by_def caps)
qed

subsection \<open>The rows of a frozen delivery\<close>

lemma filter_concat_one:
  assumes "distinct (map g cs)" and "c \<in> set cs" and "\<And>c' x. c' \<in> set cs \<Longrightarrow> x \<in> set (h c') \<Longrightarrow> idx x = g c'"
  shows "filter (\<lambda>x. idx x = g c) (concat (map h cs)) = h c"
  using assms
proof (induction cs)
  case (Cons a cs)
  have "idx x = g a" if "x \<in> set (h a)" for x using Cons.prems(3)[of a x] that by simp
  then have "filter (\<lambda>x. idx x = g c) (h a) = (if g a = g c then h a else [])"
    by (auto simp: filter_id_conv filter_empty_conv)
  moreover have "filter (\<lambda>x. idx x = g c) (concat (map h cs)) = []" if "c = a"
    using Cons.prems(1) Cons.prems(3) that by (simp add: filter_empty_conv) (metis image_eqI)
  ultimately show ?case using Cons by auto
qed simp

lemma chunk_written:
  assumes "well_frozen p regs" and "c \<in> set (fp_chunks p)"
    and "filter (\<lambda>b. bw_key b = k) (transport_delivery_chunk_buttons l) = concat (map (button_rows k) (fp_chunks p))"
    and "filter (\<lambda>b. cw_key b = k) (transport_delivery_chunk_capabilities l) = concat (map (capability_rows k regs) (fp_chunks p))"
  shows "chunk_of_row l (new_chunk_row k c) = c"
proof -
  have distinct: "distinct (map ck_chunk_index (fp_chunks p))" using assms(1) by (simp add: well_frozen_def)
  have "buttons_of k (ck_chunk_index c) l = map bw_button (sort_key bw_position (button_rows k c))"
    unfolding buttons_of_def select_by_filter unfolding select_by_def assms(3) filter_sort
    by (subst filter_concat_one[OF distinct assms(2)]) (auto simp: button_rows_def)
  moreover have "capabilities_of k (ck_chunk_index c) l = map cw_capability (sort_key cw_position (capability_rows k regs c))"
    unfolding capabilities_of_def select_by_filter unfolding select_by_def assms(4) filter_sort
    by (subst filter_concat_one[OF distinct assms(2)]) (auto simp: capability_rows_def)
  moreover have "sort_key bw_position (button_rows k c) = button_rows k c"
    "sort_key cw_position (capability_rows k regs c) = capability_rows k regs c"
    by (rule sort_key_id_if_sorted, simp add: button_rows_def capability_rows_def comp_def split_beta enumerate_eq_zip
        sorted_wrt_iff_nth_less sorted_iff_nth_mono)+
  ultimately show ?thesis
    by (simp add: chunk_of_row_def new_chunk_row_def capability_rows_values(1))
      (simp add: button_rows_def comp_def split_beta)
qed

lemma rows_of_frozen:
  assumes "ledger_links l" and "k \<notin> pj_key ` set (transport_delivery_projections l)"
  shows "filter (\<lambda>b. bw_key b = k) (transport_delivery_chunk_buttons (frozen_ledger k h now p regs l))
      = concat (map (button_rows k) (fp_chunks p))"
    and "filter (\<lambda>b. cw_key b = k) (transport_delivery_chunk_capabilities (frozen_ledger k h now p regs l))
      = concat (map (capability_rows k regs) (fp_chunks p))"
proof -
  have "filter (\<lambda>b. bw_key b = k) (transport_delivery_chunk_buttons l) = []"
    and "filter (\<lambda>b. cw_key b = k) (transport_delivery_chunk_capabilities l) = []"
    using assms by (auto simp: ledger_links_def filter_empty_conv)
  then show "filter (\<lambda>b. bw_key b = k) (transport_delivery_chunk_buttons (frozen_ledger k h now p regs l))
      = concat (map (button_rows k) (fp_chunks p))"
    and "filter (\<lambda>b. cw_key b = k) (transport_delivery_chunk_capabilities (frozen_ledger k h now p regs l))
      = concat (map (capability_rows k regs) (fp_chunks p))"
    by (auto simp: filter_id_conv dest: rows_of_delivery)
qed

lemma frozen_value_new:
  assumes "ledger_inv l" and "ledger_links l" and fresh: "k \<notin> pj_key ` set (transport_delivery_projections l)"
    and well: "well_frozen p regs"
  shows "frozen_value (frozen_ledger k h now p regs l) (new_projection_row k h now p) = p\<lparr>fp_delivery_key := k\<rparr>"
proof -
  have "k \<notin> kr_key ` set (transport_delivery_chunks l)" using assms(1) fresh by (auto simp: ledger_inv_def)
  then have "chunks_of k (frozen_ledger k h now p regs l) = map (new_chunk_row k) (fp_chunks p)"
    using well by (rule chunks_of_frozen)
  moreover have "map (chunk_of_row (frozen_ledger k h now p regs l) \<circ> new_chunk_row k) (fp_chunks p) = fp_chunks p"
    using chunk_written[OF well _ rows_of_frozen[OF assms(2) fresh]] by (intro map_idI) simp
  ultimately show ?thesis by (simp add: frozen_value_def new_projection_row_def)
qed

text \<open>A projection whose texts the store keeps as they are: \<open>_required_text\<close> trims them.\<close>

definition kept_as_given :: "frozen_projection \<Rightarrow> target_registration list \<Rightarrow> bool" where
  "kept_as_given p regs \<longleftrightarrow> trimmed_key (fp_delivery_key p) = fp_delivery_key p
     \<and> list_all (\<lambda>r. trimmed_target (tr_target r) = tr_target r) regs"

lemma verified_later:
  assumes inv: "ledger_inv l" "ledger_links l" and valid: "valid_frozen (lg_crypto l) p regs"
    and fresh: "fp_delivery_key p \<notin> pj_key ` set (transport_delivery_projections l)"
    and step: "ledger_step l (frozen_ledger (fp_delivery_key p) h now p regs l)"
    and kept: "kept_as_given p regs" and later: "ledger_cmd\<^sup>*\<^sup>* (frozen_ledger (fp_delivery_key p) h now p regs l) l'"
  shows "verified_frozen_transport_delivery_projection (fp_delivery_key p) l' = Inr (p, l')"
proof -
  let ?k = "fp_delivery_key p" and ?l = "frozen_ledger (fp_delivery_key p) h now p regs l"
  let ?row = "new_projection_row ?k h now p"
  have well: "well_frozen p regs" by (rule valid_frozen_well[OF valid])
  have inv': "ledger_inv ?l" "ledger_links ?l" using inv step by (auto intro: ledger_step_inv ledger_step_links)
  have row: "?row \<in> set (transport_delivery_projections ?l)" by simp
  have "frozen_transport_delivery_projection ?k l' = Inr (p, l')"
    using read_later[OF later inv'(1) row] frozen_value_new[OF inv fresh well, of h now] by simp
  moreover have "transport_delivery_opaque_target_registrations ?k l' = Inr (regs, l')"
  proof (rule registrations_read[OF well])
    have "same_delivery ?k ?l l'" using row by (intro cmds_same[OF later inv'(1)]) force
    then show "filter (\<lambda>c. cw_key c = ?k) (transport_delivery_chunk_capabilities l')
        = concat (map (capability_rows ?k regs) (fp_chunks p))"
      using rows_of_frozen(2)[OF inv(2) fresh] by (simp add: same_delivery_def)
    fix r assume r: "r \<in> set regs"
    then have "new_target_row now r \<in> set (transport_opaque_targets ?l)" by simp
    from find_target_later[OF later _ this] cmds_inv[OF later inv'] kept r
    show "\<exists>t. find_row tg_token_digest (tr_token_digest r) (transport_opaque_targets l') = Some t \<and> tg_target t = tr_target r"
      by (auto simp: target_later_def new_target_row_def kept_as_given_def list_all_iff)
  qed
  moreover have "lg_crypto l' = lg_crypto l" using cmds_crypto[OF later] by simp
  then have "validate_transport_delivery_projection (lg_crypto l') p regs = (ret p :: frozen_projection lop)"
    using valid by (simp add: valid_frozen_def passes_def)
  ultimately show ?thesis
    by (simp add: verified_frozen_transport_delivery_projection_def except_def cmd_defs)
qed

section \<open>Freezing and claiming\<close>

lemma walk_run: "(\<And>v l'. m l = Inr (v, l') \<Longrightarrow> wp (f v) Q l') \<Longrightarrow> wp (seq m f) Q l"
  by (fastforce simp: wp_def seq_def split: sum.splits prod.splits)

text \<open>A freeze that answers \<open>frozen\<close> has written the delivery, and answers with what it reads back.\<close>

definition freezes_as ::
    "frozen_projection \<Rightarrow> target_registration list \<Rightarrow> string \<Rightarrow> ledger \<Rightarrow> frozen_projection option \<Rightarrow> ledger \<Rightarrow> bool" where
  "freezes_as p regs h l x l' \<longleftrightarrow> (\<exists>now s m. valid_frozen (lg_crypto l) p regs
     \<and> trimmed_key (fp_delivery_key p) \<notin> pj_key ` set (transport_delivery_projections l)
     \<and> passes (transport_delivery_key (trimmed_key (fp_delivery_key p))) (trimmed_key (fp_delivery_key p))
     \<and> tr_token_digest ` set regs \<inter> tg_token_digest ` set (transport_opaque_targets l) = {}
     \<and> m = frozen_ledger (trimmed_key (fp_delivery_key p)) h now p regs (l\<lparr>lg_control := s\<rparr>)
     \<and> (\<exists>v. x = Some v \<and> frozen_transport_delivery_projection (trimmed_key (fp_delivery_key p)) m = Inr (v, l')))"

lemma digest_answer: "wp (digest_of v n) (\<lambda>x l'. x = v \<and> l' = l) (l :: ledger)"
  by (simp add: digest_of_def wp_rules)

lemma freeze_written:
  assumes "valid_frozen (lg_crypto l) p regs" and "trimmed_key (fp_delivery_key p) \<notin> pj_key ` set (transport_delivery_projections l)"
    and "passes (transport_delivery_key (trimmed_key (fp_delivery_key p))) (trimmed_key (fp_delivery_key p))"
    and "tr_token_digest ` set regs \<inter> tg_token_digest ` set (transport_opaque_targets l) = {}"
  shows "wp (seq (ret ()) (\<lambda>_. seq (frozen_transport_delivery_projection (trimmed_key (fp_delivery_key p)))
      (\<lambda>frozen. ret (Frozen, Some frozen)))) (\<lambda>(d, x) l'. d = Frozen \<longrightarrow> freezes_as p regs h l x l')
     (transport_opaque_targets_update (\<lambda>x. x @ map (new_target_row now) regs)
       (add_chunks (trimmed_key (fp_delivery_key p)) regs (fp_chunks p) (transport_delivery_projections_update
         (\<lambda>x. x @ [new_projection_row (trimmed_key (fp_delivery_key p)) h now p]) (l\<lparr>lg_control := s\<rparr>))))"
  using assms unfolding wp_seq wp_ret
  by (intro wpI) (simp, unfold freezes_as_def frozen_ledger_def comp_def, blast)

lemma freeze_frozen:
  "wp (freeze_transport_delivery_projection p regs h) (\<lambda>(d, x) l'. d = Frozen \<longrightarrow> freezes_as p regs h l x l') l"
  unfolding freeze_transport_delivery_projection_def
  by ((rule freeze_written; simp; fail) | rule walk_find walk_valid walk_key
    | rule wp_then[OF digest_answer], (elim conjE, hypsubst) | rule walk_insert_projection walk_chunks walk_targets walk_integrity walk_assoc walk_guard walk_gets
    | rule wp_silent, (intro quiet; fail) | rule refl | (simp add: wp_rules; fail))+

lemma frozen_result:
  assumes inv: "ledger_inv l" "ledger_links l"
    and run: "freeze_transport_delivery_projection p regs h l = Inr ((Frozen, x), l')" and kept: "kept_as_given p regs"
  shows "x = Some p" "ledger_cmd\<^sup>*\<^sup>* l' l'' \<Longrightarrow> verified_frozen_transport_delivery_projection (fp_delivery_key p) l'' = Inr (p, l'')"
proof -
  have key: "trimmed_key (fp_delivery_key p) = fp_delivery_key p" using kept by (simp add: kept_as_given_def)
  obtain now s v where valid: "valid_frozen (lg_crypto l) p regs"
    and fresh: "fp_delivery_key p \<notin> pj_key ` set (transport_delivery_projections l)"
    and passing: "passes (transport_delivery_key (fp_delivery_key p)) (fp_delivery_key p)"
    and free: "tr_token_digest ` set regs \<inter> tg_token_digest ` set (transport_opaque_targets l) = {}" and v: "x = Some v"
    and read: "frozen_transport_delivery_projection (fp_delivery_key p)
        (frozen_ledger (fp_delivery_key p) h now p regs (l\<lparr>lg_control := s\<rparr>)) = Inr (v, l')"
    using wpD[OF freeze_frozen run] by (auto simp: freezes_as_def key)
  let ?l = "l\<lparr>lg_control := s\<rparr>" and ?row = "new_projection_row (fp_delivery_key p) h now p"
  have inv': "ledger_inv ?l" "ledger_links ?l"
    using inv by (simp_all add: inv_tables[of ?l l] ledger_links_def)
  have step: "ledger_step ?l (frozen_ledger (fp_delivery_key p) h now p regs ?l)"
    using freezes[of ?l p regs "fp_delivery_key p" h now s] valid fresh free key passing by simp
  have "?row \<in> set (transport_delivery_projections (frozen_ledger (fp_delivery_key p) h now p regs ?l))" by simp
  from read_frozen[OF ledger_step_inv[OF step inv'(1)] this] frozen_value_new[OF inv' _ valid_frozen_well[OF valid], of _ h now] fresh
  have again: "frozen_transport_delivery_projection (fp_delivery_key p) (frozen_ledger (fp_delivery_key p) h now p regs ?l)
      = Inr (p, frozen_ledger (fp_delivery_key p) h now p regs ?l)" by simp
  with read v show "x = Some p" by simp
  have "l' = frozen_ledger (fp_delivery_key p) h now p regs ?l" using read again by auto
  then show "verified_frozen_transport_delivery_projection (fp_delivery_key p) l'' = Inr (p, l'')" if "ledger_cmd\<^sup>*\<^sup>* l' l''"
    using verified_later[OF inv' _ _ step kept] that valid fresh by simp
qed

section \<open>A demonstration ledger\<close>

text \<open>A delivery of two chunks, the second with a button, frozen in an empty ledger.\<close>

definition demo_crypto :: crypto where
  "demo_crypto = \<lparr>cx_sha256 = (\<lambda>_. demo_sha), cx_canonical_digest = (\<lambda>_. demo_sha), cx_nfc = (\<lambda>x. x)\<rparr>"

definition demo_binding :: string where
  "demo_binding = ''hmac-sha256:'' @ demo_sha"

definition demo_delivery :: delivery_key where
  "demo_delivery = \<lparr>dk_transport = ''telegram'', dk_destination_digest = demo_binding, dk_event_id = ''event_1'',
     dk_projection_version = 1\<rparr>"

definition demo_chunks :: "chunk_projection list" where
  "demo_chunks =
     [\<lparr>ck_chunk_index = 0, ck_operation_id = ''op:chunk:0'', ck_text = ''first'', ck_parse_mode = ''MarkdownV2'',
       ck_buttons = [], ck_capabilities = [], ck_chunk_hash = demo_sha\<rparr>,
      \<lparr>ck_chunk_index = 1, ck_operation_id = ''op:chunk:1'', ck_text = ''second'', ck_parse_mode = ''MarkdownV2'',
       ck_buttons = [\<lparr>bt_label = ''Go'', bt_callback_data = ''go'', bt_token_digest = demo_sha\<rparr>],
       ck_capabilities = [\<lparr>cp_namespace = ''action'', cp_token_digest = demo_sha, cp_expires_at = 900000000,
         cp_start_offset = None, cp_end_offset = None\<rparr>], ck_chunk_hash = demo_sha\<rparr>]"

definition demo_projection :: frozen_projection where
  "demo_projection = \<lparr>fp_delivery_key = demo_delivery, fp_operation_id = ''op'',
     fp_destination_binding_digest = demo_binding, fp_routing = ''root'', fp_capability_binding_digest = demo_sha,
     fp_rpc_timeout_seconds = 10, fp_projection_hash = demo_sha, fp_chunks = demo_chunks\<rparr>"

definition demo_registrations :: "target_registration list" where
  "demo_registrations = [\<lparr>tr_token_digest = demo_sha, tr_expires_at = 900000000,
     tr_target = \<lparr>ot_namespace = ''action'', ot_purpose = ''decide'', ot_resource_kind = ''decision'',
       ot_resource_id = ''d1'', ot_expected_revision = Some 0, ot_choice = Some ''yes'',
       ot_scope_digest = Some demo_binding, ot_expires_at = 900000000\<rparr>\<rparr>]"

definition demo_freeze :: "(disposition \<times> frozen_projection option) lop" where
  "demo_freeze = freeze_transport_delivery_projection demo_projection demo_registrations demo_sha"

definition demo_frozen :: ledger where
  "demo_frozen = frozen_ledger demo_delivery demo_sha 0 demo_projection demo_registrations
     (empty_ledger (demo_store\<lparr>st_ticks := 1\<rparr>) demo_crypto)"

lemma demo_texts:
  "strip ''event_1'' = ''event_1''" "strip ''decide'' = ''decide''" "strip ''decision'' = ''decision''"
  "strip ''d1'' = ''d1''" "strip ''yes'' = ''yes''" "valid_transport ''telegram''" "valid_digest demo_sha"
  "full_class worker_char 1 200 ''worker''" "valid_binding_digest demo_binding"
  by code_simp+

lemma demo_validated:
  "validate_transport_delivery_projection demo_crypto demo_projection demo_registrations = (ret demo_projection :: frozen_projection lop)"
proof -
  have "answer (validate_transport_delivery_projection demo_crypto demo_projection demo_registrations)
      (empty_ledger demo_store demo_crypto) = Some demo_projection" by code_simp
  from stateless_passes[OF stateless_validate answer_after[OF this]] show ?thesis by (simp add: passes_def)
qed

lemma demo_delivery_key: "transport_delivery_key demo_delivery = ret demo_delivery"
  by (simp add: transport_delivery_key_def demo_delivery_def binding_digest_of_def required_text_def on_control_def
      cmd_defs fun_eq_iff demo_texts)

lemma demo_kept: "kept_as_given demo_projection demo_registrations"
  by (simp add: kept_as_given_def trimmed_key_def trimmed_target_def demo_projection_def demo_registrations_def
      demo_delivery_def demo_texts)

lemma demo_freezes:
  "demo_freeze (empty_ledger demo_store demo_crypto) = Inr ((Frozen, Some demo_projection), demo_frozen)"
  unfolding demo_freeze_def freeze_transport_delivery_projection_def demo_frozen_def
  apply (simp add: cmd_defs empty_ledger_def demo_validated digest_of_def demo_texts)
  apply (simp add: demo_projection_def demo_delivery_key[unfolded ret_def])
  apply (simp add: on_control_def utc_now_def demo_store_def empty_store_def except_def insert_projection_def
      insert_chunk_def insert_target_def sql_defs cmd_defs insert_button_def insert_capability_def demo_chunks_def
      demo_registrations_def new_chunk_row_def chunk_key_def)
  apply (simp add: transport_opaque_target_def cmd_defs on_control_def required_text_def demo_texts optional_def
      binding_digest_of_def)
  apply (simp add: frozen_transport_delivery_projection_def sql_defs cmd_defs chunks_of_def select_by_def
      chunk_of_row_def buttons_of_def capabilities_of_def)
  apply (simp add: frozen_ledger_def add_chunks_def new_projection_row_def new_target_row_def trimmed_target_def
      demo_texts button_rows_def capability_rows_def new_chunk_row_def)
  done

lemma demo_frozen_cmd: "ledger_cmd (empty_ledger demo_store demo_crypto) demo_frozen"
  by (rule ledger_cmd.intros(1), rule leadsI, rule demo_freezes[unfolded demo_freeze_def])

lemma demo_reachable: "reachable_ledger (empty_ledger demo_store demo_crypto)" "reachable_ledger demo_frozen"
proof -
  have "reachable demo_store" unfolding reachable_def demo_store_def by blast
  then show start: "reachable_ledger (empty_ledger demo_store demo_crypto)" unfolding reachable_ledger_def by blast
  show "reachable_ledger demo_frozen" using demo_frozen_cmd by (blast intro: reachable_ledger_cmds[OF start])
qed

text \<open>C15. What was frozen is what is sent: a projection whose texts need no trimming is answered as it was given,
  and after any later commands it still reads back as given, registrations included, and verifies against its
  hash; the send of a chunk begins with this reading.\<close>

theorem frozen_reads_back:
  assumes "reachable_ledger l" and "freeze_transport_delivery_projection p regs h l = Inr ((Frozen, x), l')"
    and "kept_as_given p regs" and "ledger_cmd\<^sup>*\<^sup>* l' l''"
  shows "x = Some p \<and> verified_frozen_transport_delivery_projection (fp_delivery_key p) l'' = Inr (p, l'')"
  using frozen_result[OF reachable_ledger_inv[OF assms(1)] reachable_ledger_links[OF assms(1)] assms(2,3)] assms(4) by blast

theorem frozen_reads_back_witness:
  "verified_frozen_transport_delivery_projection demo_delivery demo_frozen = Inr (demo_projection, demo_frozen)"
proof -
  have "fp_delivery_key demo_projection = demo_delivery" by (simp add: demo_projection_def)
  with frozen_reads_back[OF demo_reachable(1) demo_freezes[unfolded demo_freeze_def] demo_kept rtranclp.rtrancl_refl]
  show ?thesis by simp
qed

section \<open>The life of a chunk\<close>

text \<open>C16. In every ledger the commands can produce, a delivery has the chunks \<open>0\<close> to \<open>n - 1\<close> that it counts, a
  chunk that is not pending comes after delivered ones only, the state of the delivery is the summary of the
  states of its chunks, and it carries a time of completion exactly when it is delivered or failed.\<close>

theorem deliveries_in_order:
  assumes "reachable_ledger l" and "p \<in> set (transport_delivery_projections l)"
  shows "map kr_chunk_index (chunks_of (pj_key p) l) = [0..pj_chunk_count p - 1]
     \<and> pj_state p = summary (map kr_state (chunks_of (pj_key p) l))
     \<and> (\<forall>i j. i < j \<and> j < length (chunks_of (pj_key p) l) \<and> kr_state (chunks_of (pj_key p) l ! j) \<noteq> K_pending
          \<longrightarrow> kr_state (chunks_of (pj_key p) l ! i) = K_delivered)
     \<and> (pj_completed_at p \<noteq> None \<longleftrightarrow> pj_state p \<in> {J_delivered, J_failed})"
proof -
  have "delivery_ok l p" using reachable_ledger_inv[OF assms(1)] assms(2) by (simp add: ledger_inv_def)
  then show ?thesis by (fastforce simp: delivery_ok_def in_order_def)
qed

theorem deliveries_in_order_witness:
  "pj_state (new_projection_row demo_delivery demo_sha 0 demo_projection) = summary (map kr_state (chunks_of demo_delivery demo_frozen))"
proof -
  have "new_projection_row demo_delivery demo_sha 0 demo_projection \<in> set (transport_delivery_projections demo_frozen)"
    by (simp add: demo_frozen_def)
  from deliveries_in_order[OF demo_reachable(2) this] show ?thesis by (simp add: new_projection_row_def)
qed

text \<open>C32. Every row of \<open>transport_delivery_chunks\<close> satisfies the \<open>CHECK\<close> clause of the table in every ledger the
  commands can produce, although no operation tests it: which columns are set follows the state, and a chunk
  that is claimed or being sent has an owner and a positive epoch.\<close>

theorem chunk_rows_wellformed:
  assumes "reachable_ledger l" and "r \<in> set (transport_delivery_chunks l)"
  shows "chunk_row_ok r \<and> (kr_claim_owner r \<noteq> None \<longleftrightarrow> kr_state r \<in> {K_claimed, K_sending_unknown})
     \<and> (kr_claim_expires_at r \<noteq> None \<longleftrightarrow> kr_state r = K_claimed)
     \<and> (kr_completed_at r \<noteq> None \<longleftrightarrow> kr_state r \<in> {K_delivered, K_failed})
     \<and> (kr_failure_category r \<noteq> None \<longleftrightarrow> kr_state r = K_failed)"
proof -
  have "chunk_row_ok r" using reachable_ledger_inv[OF assms(1)] assms(2) by (simp add: ledger_inv_def)
  then show ?thesis by (cases "kr_state r") (auto simp: chunk_row_ok_def)
qed

theorem chunk_rows_wellformed_witness: "chunk_row_ok (new_chunk_row demo_delivery (demo_chunks ! 0))"
proof -
  have "new_chunk_row demo_delivery (demo_chunks ! 0) \<in> set (transport_delivery_chunks demo_frozen)"
    by (simp add: demo_frozen_def demo_projection_def demo_chunks_def)
  with chunk_rows_wellformed[OF demo_reachable(2)] show ?thesis by blast
qed

end
