(* ===== verification/Transport_Claims.thy ===== *)
theory Transport_Claims
  imports Transport_Safety
begin

text \<open>
  Claims, permits and tokens of the delivery ledger: a pending delivery is never stuck, a claim permits one send,
  a chunk is found again as it was frozen, a target is used once, and the names chunks have on the wire keep
  them apart.
\<close>

section \<open>Claiming\<close>

text \<open>The present of a ledger, and what a claim leaves behind.\<close>

definition present :: "ledger \<Rightarrow> instant" where
  "present l = st_clock (lg_control l) (st_ticks (lg_control l))"

definition tick :: "ledger \<Rightarrow> ledger" where
  "tick l = l\<lparr>lg_control := (lg_control l)\<lparr>st_ticks := Suc (st_ticks (lg_control l))\<rparr>\<rparr>"

definition claimed_ledger :: "chunk_row \<Rightarrow> string \<Rightarrow> int \<Rightarrow> ledger \<Rightarrow> ledger" where
  "claimed_ledger r w n l = moved (kr_key r) (kr_chunk_index r) (claim_row w (present l + seconds n)) (present l) (tick l)"

definition lease_over :: "chunk_row \<Rightarrow> instant \<Rightarrow> bool" where
  "lease_over r now \<longleftrightarrow> (case kr_claim_expires_at r of None \<Rightarrow> True | Some t \<Rightarrow> t \<le> now)
     \<and> (case kr_retry_not_before r of None \<Rightarrow> True | Some t \<Rightarrow> t \<le> now)"

lemma tick_tables [simp]:
  "transport_delivery_chunks (tick l) = transport_delivery_chunks l"
  "transport_delivery_projections (tick l) = transport_delivery_projections l"
  "chunks_of k (tick l) = chunks_of k l" "ledger_inv (tick l) = ledger_inv l"
  by (simp_all add: tick_def chunks_of_def inv_tables[of "l\<lparr>lg_control := s\<rparr>" l for s])

lemma tick_now: "on_control utc_now l = Inr (present l, tick l)"
  by (simp add: on_control_def utc_now_def present_def tick_def)

lemma claim_takes:
  assumes inv: "ledger_inv l" and p: "p \<in> set (transport_delivery_projections l)"
    and r: "r \<in> set (transport_delivery_chunks l)" "kr_key r = pj_key p"
    and unsettled: "kr_state r \<in> {K_pending, K_claimed}" "lease_over r (present l)"
    and first: "\<And>q. q \<in> set (transport_delivery_chunks l) \<Longrightarrow> kr_key q = kr_key r \<Longrightarrow> kr_chunk_index q < kr_chunk_index r
      \<Longrightarrow> kr_state q = K_delivered"
    and args: "full_class worker_char 1 200 w" "1 \<le> n" "n \<le> 3600"
  shows "\<exists>c. claim_transport_delivery_chunk (kr_key r) (kr_chunk_index r) w n l = Inr (c, claimed_ledger r w n l)
     \<and> cc_status c = Chunk_is K_claimed \<and> cc_claim_owner c = Some w \<and> cc_claim_epoch c = kr_claim_epoch r + 1"
proof -
  let ?l = "claimed_ledger r w n l" and ?r = "claim_row w (present l + seconds n) r"
  have key: "transport_delivery_key (kr_key r) = ret (kr_key r)" and count: "pj_chunk_count p \<le> 100"
    using inv p r by (auto simp: ledger_inv_def delivery_ok_def passes_def)
  have index: "0 \<le> kr_chunk_index r" "kr_chunk_index r < 100"
    using chunk_at_index(1,2)[OF inv p r] chunks_counted(1)[OF inv p] count by auto
  have m: "chunk_moves (tick l) (kr_key r) (kr_chunk_index r) r (claim_row w (present l + seconds n))"
    using inv find_chunk[OF inv r(1)] unsettled first by (auto simp: chunk_moves_def intro: chunk_move.claims)
  have inv': "ledger_inv ?l" unfolding claimed_ledger_def by (rule inv_moved[OF m])
  obtain p' where p': "p' \<in> set (transport_delivery_projections ?l)" "pj_key p' = pj_key p"
  proof -
    have "pj_key p \<in> pj_key ` set (transport_delivery_projections ?l)"
      using p by (simp add: claimed_ledger_def moved_key_set)
    then show ?thesis using that by (metis imageE)
  qed
  have r': "?r \<in> set (transport_delivery_chunks ?l)"
    unfolding claimed_ledger_def chunks_after[OF m] using r(1) by (auto simp: swap_row_def intro!: image_eqI[of _ _ r])
  have keys: "kr_key ?r = kr_key r" "kr_chunk_index ?r = kr_chunk_index r" by (simp_all add: claim_row_def)
  note read = read_claim[OF inv' p'(1) r', of None, unfolded keys p'(2) r(2)[symmetric], OF refl]
  have "chunks_of (kr_key r) (with_chunk (kr_key r) (kr_chunk_index r) (claim_row w (present l + seconds n)) (tick l)) \<noteq> []"
    using r' keys by (auto simp: chunks_of_def claimed_ledger_def moved_def select_by_Nil_iff)
  then have "claim_transport_delivery_chunk (kr_key r) (kr_chunk_index r) w n l
      = transport_delivery_chunk_claim (kr_key r) (kr_chunk_index r) None ?l"
    using key index args unsettled find_chunk[OF inv r(1)] first
    by (auto simp: claim_transport_delivery_chunk_def cmd_defs tick_now transport_chunk_index_def transport_worker_id_def
        lease_of_an_hour_def transport_delivery_chunk_row_def sql_defs list_ex_iff lease_over_def update_chunk_def
        refresh_transport_delivery_parent_def claimed_ledger_def moved_def with_chunk_def split: option.splits)
  then show ?thesis using read by (simp add: claim_value_def claim_row_def)
qed

lemma first_unsettled:
  assumes "\<not> list_all P xs"
  obtains i where "i < length xs" "\<not> P (xs ! i)" "\<forall>j < i. P (xs ! j)"
proof -
  have some: "\<exists>i. i < length xs \<and> \<not> P (xs ! i)" using assms by (auto simp: list_all_length)
  let ?i = "LEAST i. i < length xs \<and> \<not> P (xs ! i)"
  have i: "?i < length xs \<and> \<not> P (xs ! ?i)" by (rule LeastI_ex[OF some])
  moreover have "P (xs ! j)" if "j < ?i" for j using not_less_Least[OF that] i that by simp
  ultimately show ?thesis using that by blast
qed

lemma summary_pending:
  assumes "summary xs = J_pending"
  shows "\<not> list_all (\<lambda>x. x = K_delivered) xs" and "x \<in> set xs \<Longrightarrow> x \<in> {K_pending, K_claimed, K_delivered}"
  using assms by (auto simp: summary_def split: if_splits) (cases x, auto)

text \<open>C30. A pending delivery is never stuck: its first chunk that is not delivered is pending or claimed, and as
  soon as the lease and the delay on that chunk are over, any worker that claims it for 1 to 3600 seconds gets
  it, under the next epoch.\<close>

theorem pending_delivery_claimable:
  assumes "reachable_ledger l" and "p \<in> set (transport_delivery_projections l)" and "pj_state p = J_pending"
    and "full_class worker_char 1 200 w" and "1 \<le> n" and "n \<le> 3600"
  shows "\<exists>r \<in> set (chunks_of (pj_key p) l). kr_state r \<in> {K_pending, K_claimed}
     \<and> (lease_over r (present l) \<longrightarrow> (\<exists>c l'. claim_transport_delivery_chunk (pj_key p) (kr_chunk_index r) w n l = Inr (c, l')
          \<and> cc_status c = Chunk_is K_claimed \<and> cc_claim_owner c = Some w \<and> cc_claim_epoch c = kr_claim_epoch r + 1))"
proof -
  have inv: "ledger_inv l" by (rule reachable_ledger_inv[OF assms(1)])
  let ?cs = "chunks_of (pj_key p) l"
  have ok: "summary (map kr_state ?cs) = J_pending" "map kr_chunk_index ?cs = [0..pj_chunk_count p - 1]"
    using inv assms(2,3) by (auto simp: ledger_inv_def delivery_ok_def)
  obtain i where i: "i < length ?cs" "kr_state (?cs ! i) \<noteq> K_delivered" "\<forall>j < i. kr_state (?cs ! j) = K_delivered"
    using first_unsettled[OF summary_pending(1)[OF ok(1)]] by auto
  let ?r = "?cs ! i"
  have r: "?r \<in> set ?cs" using i(1) by simp
  then have row: "?r \<in> set (transport_delivery_chunks l)" "kr_key ?r = pj_key p" by (auto simp: chunks_of_def)
  have state: "kr_state ?r \<in> {K_pending, K_claimed}" using summary_pending(2)[OF ok(1), of "kr_state ?r"] i(2) r by auto
  have first: "kr_state q = K_delivered"
    if "q \<in> set (transport_delivery_chunks l)" "kr_key q = kr_key ?r" "kr_chunk_index q < kr_chunk_index ?r" for q
  proof -
    have "q \<in> set ?cs" using that row(2) by (simp add: chunks_of_def)
    then obtain j where "j < length ?cs" "q = ?cs ! j" by (metis in_set_conv_nth)
    then show ?thesis using that(3) i(1,3) nth_chunk[OF ok(2)] by simp
  qed
  have "\<exists>c l'. claim_transport_delivery_chunk (pj_key p) (kr_chunk_index ?r) w n l = Inr (c, l')
      \<and> cc_status c = Chunk_is K_claimed \<and> cc_claim_owner c = Some w \<and> cc_claim_epoch c = kr_claim_epoch ?r + 1"
    if "lease_over ?r (present l)"
    using claim_takes[OF inv assms(2) row state that first assms(4-6)] unfolding row(2) by blast
  with r state show ?thesis by blast
qed

lemma demo_rows:
  "transport_delivery_projections demo_frozen = [new_projection_row demo_delivery demo_sha 0 demo_projection]"
  "transport_delivery_chunks demo_frozen = map (new_chunk_row demo_delivery) demo_chunks"
  "transport_opaque_targets demo_frozen = map (new_target_row 0) demo_registrations"
  by (simp_all add: demo_frozen_def empty_ledger_def demo_projection_def)

theorem pending_delivery_claimable_witness:
  "\<exists>r \<in> set (chunks_of demo_delivery demo_frozen). \<exists>c l'.
     claim_transport_delivery_chunk demo_delivery (kr_chunk_index r) ''worker'' 60 demo_frozen = Inr (c, l')
     \<and> cc_claim_owner c = Some ''worker''"
proof -
  let ?p = "new_projection_row demo_delivery demo_sha 0 demo_projection"
  have "?p \<in> set (transport_delivery_projections demo_frozen)" "pj_state ?p = J_pending"
    by (simp_all add: demo_rows new_projection_row_def)
  note claimable = pending_delivery_claimable[OF demo_reachable(2) this demo_texts(8), of 60]
  have "lease_over r now" if "r \<in> set (chunks_of demo_delivery demo_frozen)" for r now
    using that by (auto simp: chunks_of_def demo_rows lease_over_def new_chunk_row_def)
  with claimable show ?thesis by auto
qed

text \<open>The first chunk of the demonstration ledger, claimed.\<close>

definition demo_row :: chunk_row where
  "demo_row = new_chunk_row demo_delivery (demo_chunks ! 0)"

definition demo_taken :: ledger where
  "demo_taken = claimed_ledger demo_row ''worker'' 60 demo_frozen"

lemma demo_claim:
  "\<exists>c. claim_transport_delivery_chunk demo_delivery 0 ''worker'' 60 demo_frozen = Inr (c, demo_taken)"
proof -
  have "demo_row \<in> set (transport_delivery_chunks demo_frozen)" "kr_key demo_row = demo_delivery" "kr_chunk_index demo_row = 0"
    "kr_state demo_row \<in> {K_pending, K_claimed}" "lease_over demo_row (present demo_frozen)"
    by (simp_all add: demo_rows demo_row_def demo_chunks_def lease_over_def new_chunk_row_def)
  moreover have "new_projection_row demo_delivery demo_sha 0 demo_projection \<in> set (transport_delivery_projections demo_frozen)"
    by (simp add: demo_rows)
  moreover have "\<not> kr_chunk_index q < 0" if "q \<in> set (transport_delivery_chunks demo_frozen)" for q
    using that by (auto simp: demo_rows demo_chunks_def new_chunk_row_def)
  ultimately show ?thesis
    using claim_takes[OF reachable_ledger_inv[OF demo_reachable(2)], of _ demo_row "''worker''" 60] demo_texts(8)
    unfolding demo_taken_def by fastforce
qed

lemma demo_taken_cmd: "ledger_cmd demo_frozen demo_taken"
  using demo_claim by (blast intro: ledger_cmd.intros leadsI)

lemma demo_taken_reachable: "reachable_ledger demo_taken"
  using demo_taken_cmd by (blast intro: reachable_ledger_cmds[OF demo_reachable(2)])

text \<open>C31. Whatever commands follow, a chunk is found again with everything it was frozen with; its revision and
  epoch never go down, and while the revision stays nothing changes; a delivered or failed chunk is never
  touched again; and the window its delivery was attributed to is never replaced.\<close>

theorem chunk_lifecycle:
  assumes "reachable_ledger l" and "ledger_cmd\<^sup>*\<^sup>* l l'" and "r \<in> set (transport_delivery_chunks l)"
  shows "\<exists>r' \<in> set (transport_delivery_chunks l'). chunk_key r' = chunk_key r \<and> frozen_chunk r' = frozen_chunk r
     \<and> kr_revision r \<le> kr_revision r' \<and> kr_claim_epoch r \<le> kr_claim_epoch r'
     \<and> (kr_revision r' = kr_revision r \<longrightarrow> r' = r) \<and> (kr_state r \<in> {K_delivered, K_failed} \<longrightarrow> r' = r)
     \<and> (\<forall>w. kr_transport_window_id r = Some w \<longrightarrow> kr_transport_window_id r' = Some w)"
proof -
  obtain r' where r': "r' \<in> set (transport_delivery_chunks l')" "chunk_move\<^sup>*\<^sup>* r r'"
    using rows_evolve_in[OF cmds_chunks[OF assms(2) reachable_ledger_inv[OF assms(1)]] assms(3)] by blast
  show ?thesis by (rule bexI[OF _ r'(1)]) (intro conjI chunk_moves_closed[OF r'(2)])
qed

theorem chunk_lifecycle_witness:
  "\<exists>r' \<in> set (transport_delivery_chunks demo_taken). frozen_chunk r' = frozen_chunk demo_row"
proof -
  have "demo_row \<in> set (transport_delivery_chunks demo_frozen)" by (simp add: demo_rows demo_row_def demo_chunks_def)
  with chunk_lifecycle[OF demo_reachable(2) r_into_rtranclp[of ledger_cmd, OF demo_taken_cmd]] show ?thesis by blast
qed

section \<open>One send per claim\<close>

text \<open>A row whose claim under an epoch is over or has been used.\<close>

definition spent :: "int \<Rightarrow> chunk_row \<Rightarrow> bool" where
  "spent e r \<longleftrightarrow> e < kr_claim_epoch r \<or> e = kr_claim_epoch r \<and> kr_state r \<noteq> K_claimed"

lemma chunk_move_spent: "chunk_move r r' \<Longrightarrow> spent e r \<Longrightarrow> spent e r'"
  by (induction rule: chunk_move.induct)
    (auto simp: spent_def claim_row_def send_row_def deliver_row_def release_row_def fail_row_def assume_row_def retry_row_def)

lemma spent_closed: "chunk_move\<^sup>*\<^sup>* r r' \<Longrightarrow> spent e r \<Longrightarrow> spent e r'"
  by (induction rule: rtranclp_induct) (auto dest: chunk_move_spent)

definition spends :: "delivery_key \<Rightarrow> int \<Rightarrow> int \<Rightarrow> ledger \<Rightarrow> ledger \<Rightarrow> bool" where
  "spends k i e l l' \<longleftrightarrow> (\<exists>r. find_row chunk_key (k, i) (transport_delivery_chunks l) = Some r \<and> kr_state r = K_claimed
     \<and> kr_claim_epoch r = e) \<and> (\<exists>r' \<in> set (transport_delivery_chunks l'). chunk_key r' = (k, i) \<and> spent e r')"

lemma moved_row:
  "find_row chunk_key (k, i) (transport_delivery_chunks l) = Some r \<Longrightarrow> chunk_key (f r) = chunk_key r
     \<Longrightarrow> f r \<in> set (transport_delivery_chunks (moved k i f now l)) \<and> chunk_key (f r) = (k, i)"
  using find_row_SomeD[of chunk_key "(k, i)"] by (force simp: moved_def with_chunk_def set_update_where)

lemma spends_moved:
  assumes "find_row chunk_key (k, i) (transport_delivery_chunks l) = Some r" and "kr_state r = K_claimed"
    and "kr_claim_epoch r = e" and "chunk_key (f r) = chunk_key r" and "spent e (f r)"
  shows "spends k i e l (moved k i f now (l\<lparr>lg_control := s\<rparr>))"
proof -
  have "find_row chunk_key (k, i) (transport_delivery_chunks (l\<lparr>lg_control := s\<rparr>)) = Some r" using assms(1) by simp
  with moved_row[of k i "l\<lparr>lg_control := s\<rparr>" r f now] assms show ?thesis unfolding spends_def by metis
qed

lemma used_rows:
  "chunk_key (send_row r) = chunk_key r" "chunk_key (fail_row c now r) = chunk_key r"
  "kr_claim_epoch r = e \<Longrightarrow> spent e (send_row r)" "kr_claim_epoch r = e \<Longrightarrow> spent e (fail_row c now r)"
  by (simp_all add: chunk_key_def send_row_def fail_row_def spent_def)

lemma walk_ret: "wp (f v) Q l \<Longrightarrow> wp (seq (ret v) f) Q l"
  by (simp add: wp_rules)

lemma begin_spends: "wp (begin_transport_delivery_chunk_send key i w e v ob) (\<lambda>_. spends (trimmed_key key) i e l) l"
  unfolding begin_transport_delivery_chunk_send_def validated_transport_chunk_mutation_def Let_def
  by (rule walk_ret walk_assoc walk_key walks | rule wp_silent, (intro quiet; fail)
    | rule wp_silent_end, (intro quiet; fail) | (simp, erule spends_moved, (simp add: used_rows; fail)+))+

lemma activation_answers: "\<exists>a s'. transport_activation_in_force t s = Inr (a, s')"
  by (auto simp: transport_activation_in_force_def unless_run_out_def cmd_defs utc_now_def split: option.split)

text \<open>The reading after a move.\<close>

lemma read_moved:
  assumes m: "chunk_moves l k i r f" and p: "p \<in> set (transport_delivery_projections l)" "pj_key p = k"
  shows "\<exists>c. transport_delivery_chunk_claim k i None (moved k i f now l) = Inr (c, moved k i f now l)
     \<and> cc_projection c = frozen_value l p \<and> cc_chunk c = chunk_of_row l r \<and> cc_status c = Chunk_is (kr_state (f r))
     \<and> cc_revision c = kr_revision (f r) \<and> cc_claim_owner c = kr_claim_owner (f r)
     \<and> cc_claim_epoch c = kr_claim_epoch (f r) \<and> cc_retry_not_before c = kr_retry_not_before (f r)"
proof -
  note row = chunk_movesD[OF m]
  let ?l = "moved k i f now l"
  have inv': "ledger_inv ?l" by (rule inv_moved[OF m])
  have "ledger_step l ?l"
    using move_step[of k i l r f now "lg_control l"] m row by (auto simp: chunk_moves_def list_ex_iff)
  then have same: "same_delivery k l ?l" using step_same row(1) p by blast
  obtain p' where p': "p' \<in> set (transport_delivery_projections ?l)" "pj_key p' = k" "frozen_part p' = frozen_part p"
    using same_delivery_row[OF same p] by blast
  have r': "f r \<in> set (transport_delivery_chunks ?l)"
    unfolding chunks_after[OF m] using row(4) by (auto simp: swap_row_def intro!: image_eqI[of _ _ r])
  have keys: "kr_key (f r) = k" "kr_chunk_index (f r) = i"
    using chunk_move_facts(1)[OF row(3)] row(5,6) by (simp_all add: chunk_key_def)
  have "frozen_value ?l p' = frozen_value l p" using frozen_value_same[OF same p(2) p'(2,3)] .
  moreover have "chunk_of_row ?l (f r) = chunk_of_row l r"
    using chunk_move_frozen[OF row(3)] same keys row(5,6)
    by (simp add: chunk_of_row_def buttons_of_def capabilities_of_def frozen_chunk_def new_chunk_row_def)
  ultimately show ?thesis
    using read_claim[OF inv' p'(1) r', of None] keys p'(2) by (simp add: claim_value_def)
qed

lemma begin_takes:
  assumes inv: "ledger_inv l" and p: "p \<in> set (transport_delivery_projections l)"
    and r: "r \<in> set (transport_delivery_chunks l)" "kr_key r = pj_key p"
    and claim: "kr_state r = K_claimed" "kr_claim_owner r = Some w" "kr_claim_expires_at r = Some t" "present l < t"
    and verified: "verified_frozen_transport_delivery_projection (pj_key p) (tick l) = Inr (frozen_value l p, tick l)"
    and ob: "pj_capability_binding_digest p = ob" "valid_digest ob" and w: "full_class worker_char 1 200 w"
    and alive: "list_all (\<lambda>c. cw_key c = pj_key p \<and> cw_chunk_index c = kr_chunk_index r
      \<longrightarrow> present l + seconds (pj_rpc_timeout_seconds p) < cp_expires_at (cw_capability c)) (transport_delivery_chunk_capabilities l)"
  shows "\<exists>q l'. begin_transport_delivery_chunk_send (pj_key p) (kr_chunk_index r) w (kr_claim_epoch r) (kr_revision r) ob l
       = Inr (Send_permitted q, l') \<and> sp_projection q = frozen_value l p \<and> sp_chunk q = chunk_of_row l r
     \<and> sp_revision q = kr_revision r + 1 \<and> sp_claim_epoch q = kr_claim_epoch r \<and> send_row r \<in> set (transport_delivery_chunks l')"
proof -
  let ?k = "pj_key p" and ?i = "kr_chunk_index r"
  let ?l = "moved ?k ?i send_row (present l) (tick l)"
  have key: "transport_delivery_key ?k = ret ?k" and count: "pj_chunk_count p \<le> 100"
    using inv p by (auto simp: ledger_inv_def delivery_ok_def passes_def)
  have index: "0 \<le> ?i" "?i < 100"
    using chunk_at_index(1,2)[OF inv p r] chunks_counted(1)[OF inv p] count by auto
  have row: "1 \<le> kr_claim_epoch r" "0 \<le> kr_revision r"
    using inv r(1) claim(1) by (auto simp: ledger_inv_def chunk_row_ok_def)
  have m: "chunk_moves (tick l) ?k ?i r send_row"
    using inv find_chunk[OF inv r(1)] r(2) claim(1) by (auto simp: chunk_moves_def intro: chunk_move.sends)
  have values_tick: "frozen_value (tick l) p = frozen_value l p" "chunk_of_row (tick l) r = chunk_of_row l r"
    by (simp_all add: frozen_value_def chunk_of_row_def[abs_def] buttons_of_def capabilities_of_def tick_def chunks_of_def)
  obtain c where c: "transport_delivery_chunk_claim ?k ?i None ?l = Inr (c, ?l)" "cc_projection c = frozen_value l p"
    "cc_chunk c = chunk_of_row l r" "cc_revision c = kr_revision r + 1" "cc_claim_epoch c = kr_claim_epoch r"
    using read_moved[OF m, of p "present l"] p values_tick by (auto simp: send_row_def)
  obtain a s' where a: "on_control (transport_activation_in_force (dk_transport ?k)) ?l = Inr (a, ?l\<lparr>lg_control := s'\<rparr>)"
    using activation_answers[of "dk_transport ?k" "lg_control ?l"] by (auto simp: on_control_def)
  have sent: "send_row r \<in> set (transport_delivery_chunks ?l)"
    unfolding chunks_after[OF m] using r(1) by (auto simp: swap_row_def intro!: image_eqI[of _ _ r])
  have "chunks_of ?k (with_chunk ?k ?i send_row (tick l)) \<noteq> []"
  proof -
    have "kr_key (send_row r) = ?k" using r(2) by (simp add: send_row_def)
    then show ?thesis using sent by (auto simp: chunks_of_def moved_def select_by_Nil_iff)
  qed
  moreover have "fp_capability_binding_digest (frozen_value l p) = ob" "fp_rpc_timeout_seconds (frozen_value l p) = pj_rpc_timeout_seconds p"
    using ob(1) by (simp_all add: frozen_value_def)
  moreover have "\<not> list_ex (\<lambda>c. cw_key c = ?k \<and> cw_chunk_index c = ?i
      \<and> cp_expires_at (cw_capability c) \<le> present l + seconds (pj_rpc_timeout_seconds p)) (transport_delivery_chunk_capabilities (tick l))"
    using alive by (auto simp: list_all_iff list_ex_iff tick_def)
  ultimately have "\<exists>q. begin_transport_delivery_chunk_send ?k ?i w (kr_claim_epoch r) (kr_revision r) ob l
       = Inr (Send_permitted q, ?l\<lparr>lg_control := s'\<rparr>) \<and> sp_projection q = cc_projection c \<and> sp_chunk q = cc_chunk c
     \<and> sp_revision q = cc_revision c \<and> sp_claim_epoch q = cc_claim_epoch c"
    using key index row claim find_chunk[OF inv r(1)] r(2) w ob(2) verified c(1) a
    by (simp add: begin_transport_delivery_chunk_send_def validated_transport_chunk_mutation_def cmd_defs tick_now
        transport_chunk_index_def transport_worker_id_def transport_claim_epoch_def transport_revision_def digest_of_def
        transport_delivery_chunk_row_def sql_defs require_transport_chunk_fence_def update_chunk_def
        refresh_transport_delivery_parent_def moved_def with_chunk_def Let_def)
  moreover have "transport_delivery_chunks (?l\<lparr>lg_control := s'\<rparr>) = transport_delivery_chunks ?l"
    by (simp del: moved_control)
  ultimately show ?thesis using c(2-5) sent by metis
qed

text \<open>C33. A worker that holds the live claim of a chunk of a delivery that verifies, that observes the capabilities
  it was frozen with, and whose buttons and links outlive the call, gets the permit to send: the permit carries
  the frozen delivery and the chunk, and the chunk is left \<open>sending_unknown\<close> under the same epoch.\<close>

theorem send_permitted:
  assumes "reachable_ledger l" and p: "p \<in> set (transport_delivery_projections l)"
    and r: "r \<in> set (transport_delivery_chunks l)" "kr_key r = pj_key p"
    and claim: "kr_state r = K_claimed" "kr_claim_owner r = Some w" "kr_claim_expires_at r = Some t" "present l < t"
    and verified: "verified_frozen_transport_delivery_projection (pj_key p) (tick l) = Inr (frozen_value l p, tick l)"
    and ob: "pj_capability_binding_digest p = ob" "valid_digest ob" and w: "full_class worker_char 1 200 w"
    and alive: "list_all (\<lambda>c. cw_key c = pj_key p \<and> cw_chunk_index c = kr_chunk_index r
      \<longrightarrow> present l + seconds (pj_rpc_timeout_seconds p) < cp_expires_at (cw_capability c)) (transport_delivery_chunk_capabilities l)"
  shows "\<exists>q l'. begin_transport_delivery_chunk_send (pj_key p) (kr_chunk_index r) w (kr_claim_epoch r) (kr_revision r) ob l
       = Inr (Send_permitted q, l') \<and> sp_projection q = frozen_value l p \<and> sp_chunk q = chunk_of_row l r
     \<and> sp_revision q = kr_revision r + 1 \<and> sp_claim_epoch q = kr_claim_epoch r \<and> send_row r \<in> set (transport_delivery_chunks l')"
  by (rule begin_takes[OF reachable_ledger_inv[OF assms(1)] assms(2-)])

text \<open>C11. A claim permits one send: once \<open>begin_transport_delivery_chunk_send\<close> has answered for a chunk under an
  epoch, with a permit or with a refusal that fails the chunk, it never answers again for this chunk under
  this epoch, whatever commands follow and whoever asks.\<close>

theorem one_send_per_claim:
  assumes "reachable_ledger l" and "begin_transport_delivery_chunk_send key i w e v ob l = Inr (d, l')"
    and "ledger_cmd\<^sup>*\<^sup>* l' l''"
  shows "\<not> succeeds (begin_transport_delivery_chunk_send key i w' e v' ob') l''"
proof
  let ?k = "(trimmed_key key, i)"
  assume "succeeds (begin_transport_delivery_chunk_send key i w' e v' ob') l''"
  then obtain x m where "begin_transport_delivery_chunk_send key i w' e v' ob' l'' = Inr (x, m)"
    by (auto simp: succeeds_def split: sum.splits)
  from wpD[OF begin_spends this] obtain q where
    q: "find_row chunk_key ?k (transport_delivery_chunks l'') = Some q" "kr_state q = K_claimed" "kr_claim_epoch q = e"
    by (auto simp: spends_def)
  from wpD[OF begin_spends assms(2)] obtain r where
    r: "r \<in> set (transport_delivery_chunks l')" "chunk_key r = ?k" "spent e r" by (auto simp: spends_def)
  have "ledger_cmd l l'" by (rule ledger_cmd.intros(3), rule leadsI, rule assms(2))
  with assms(1) have inv: "ledger_inv l'" by (blast intro: reachable_ledger_inv reachable_ledger_cmds)
  obtain r' where r': "r' \<in> set (transport_delivery_chunks l'')" "chunk_move\<^sup>*\<^sup>* r r'"
    using rows_evolve_in[OF cmds_chunks[OF assms(3) inv] r(1)] by blast
  then have "chunk_key r' = ?k" using chunk_moves_closed(2) r(2) by metis
  then have "r' = q" using q(1) r'(1) find_row_unique[of chunk_key] ledger_inv_cmds[OF assms(3) inv]
    by (metis ledger_inv_def option.inject)
  with spent_closed[OF r'(2) r(3)] q show False by (simp add: spent_def)
qed


definition demo_taken_row :: chunk_row where
  "demo_taken_row = claim_row ''worker'' 61500000 demo_row"

lemma demo_taken_rows:
  "demo_taken_row \<in> set (transport_delivery_chunks demo_taken)" "present demo_taken = 3000000"
  "pj_key ` set (transport_delivery_projections demo_taken) = {demo_delivery}"
  "transport_delivery_chunk_capabilities demo_taken = transport_delivery_chunk_capabilities demo_frozen"
  "same_delivery demo_delivery demo_frozen demo_taken"
proof -
  have now: "present demo_frozen = 1500000"
    by (simp add: present_def demo_frozen_def frozen_ledger_def add_chunks_def empty_ledger_def demo_store_def empty_store_def)
  have row: "find_row chunk_key (demo_delivery, 0) (transport_delivery_chunks (tick demo_frozen)) = Some demo_row"
    by (simp add: demo_rows demo_row_def demo_chunks_def)
  have key: "kr_key demo_row = demo_delivery" "kr_chunk_index demo_row = 0" by (simp_all add: demo_row_def demo_chunks_def)
  show "demo_taken_row \<in> set (transport_delivery_chunks demo_taken)"
    using moved_row[OF row, of "claim_row ''worker'' 61500000" 1500000]
    by (simp add: demo_taken_def claimed_ledger_def key now seconds_def demo_taken_row_def) (simp add: chunk_key_def claim_row_def)
  show "present demo_taken = 3000000"
    by (simp add: demo_taken_def claimed_ledger_def present_def tick_def demo_frozen_def frozen_ledger_def add_chunks_def
        empty_ledger_def demo_store_def empty_store_def)
  show "pj_key ` set (transport_delivery_projections demo_taken) = {demo_delivery}"
    by (simp add: demo_taken_def claimed_ledger_def moved_key_set demo_rows)
  show "transport_delivery_chunk_capabilities demo_taken = transport_delivery_chunk_capabilities demo_frozen"
    by (simp add: demo_taken_def claimed_ledger_def tick_def)
  show "same_delivery demo_delivery demo_frozen demo_taken"
    using cmds_same[OF r_into_rtranclp[of ledger_cmd, OF demo_taken_cmd] reachable_ledger_inv[OF demo_reachable(2)]]
    by (simp add: demo_rows)
qed

lemma demo_taken_reads:
  "\<exists>p \<in> set (transport_delivery_projections demo_taken). pj_key p = demo_delivery
     \<and> frozen_value demo_taken p = demo_projection"
  "verified_frozen_transport_delivery_projection demo_delivery (tick demo_taken) = Inr (demo_projection, tick demo_taken)"
proof -
  have "control_cmd (lg_control demo_taken) (lg_control (tick demo_taken))"
    using reading[of "lg_control demo_taken" 1] by (simp add: tick_def)
  then have "ledger_cmd demo_taken (demo_taken\<lparr>lg_control := lg_control (tick demo_taken)\<rparr>)" by (rule ledger_cmd.intros)
  then have "ledger_cmd\<^sup>*\<^sup>* demo_frozen (tick demo_taken)" using demo_taken_cmd by (simp add: tick_def)
  moreover have key: "fp_delivery_key demo_projection = demo_delivery" by (simp add: demo_projection_def)
  ultimately show "verified_frozen_transport_delivery_projection demo_delivery (tick demo_taken) = Inr (demo_projection, tick demo_taken)"
    using frozen_result(2)[OF reachable_ledger_inv[OF demo_reachable(1)] reachable_ledger_links[OF demo_reachable(1)]
        demo_freezes[unfolded demo_freeze_def] demo_kept] by simp
  obtain p where p: "p \<in> set (transport_delivery_projections demo_taken)" "pj_key p = demo_delivery"
    using demo_taken_rows(3) by blast
  let ?q = "new_projection_row demo_delivery demo_sha 0 demo_projection"
  have q: "?q \<in> set (transport_delivery_projections demo_frozen)" by (simp add: demo_rows)
  have start: "ledger_inv (empty_ledger s x)" "ledger_links (empty_ledger s x)"
    "k \<notin> pj_key ` set (transport_delivery_projections (empty_ledger s x))" for s x k
    by (simp_all add: empty_ledger_def ledger_inv_def ledger_links_def)
  have "valid_frozen demo_crypto demo_projection demo_registrations"
    by (simp add: valid_frozen_def passes_def demo_validated)
  from frozen_value_new[OF start valid_frozen_well[OF this], of demo_delivery demo_sha 0] key
  have "frozen_value demo_frozen ?q = demo_projection" by (simp add: demo_frozen_def)
  then show "\<exists>p \<in> set (transport_delivery_projections demo_taken). pj_key p = demo_delivery
     \<and> frozen_value demo_taken p = demo_projection"
    using read_later[OF r_into_rtranclp[of ledger_cmd, OF demo_taken_cmd] reachable_ledger_inv[OF demo_reachable(2)] q]
      read_frozen[OF reachable_ledger_inv[OF demo_taken_reachable] p(1)] p by auto
qed

lemma demo_ready:
  obtains p where "p \<in> set (transport_delivery_projections demo_taken)" and "kr_key demo_taken_row = pj_key p"
    and "kr_state demo_taken_row = K_claimed" and "kr_claim_owner demo_taken_row = Some ''worker''"
    and "kr_claim_expires_at demo_taken_row = Some 61500000" and "present demo_taken < 61500000"
    and "verified_frozen_transport_delivery_projection (pj_key p) (tick demo_taken) = Inr (frozen_value demo_taken p, tick demo_taken)"
    and "pj_capability_binding_digest p = demo_sha"
    and "list_all (\<lambda>c. cw_key c = pj_key p \<and> cw_chunk_index c = kr_chunk_index demo_taken_row
      \<longrightarrow> present demo_taken + seconds (pj_rpc_timeout_seconds p) < cp_expires_at (cw_capability c))
      (transport_delivery_chunk_capabilities demo_taken)"
    and "pj_key p = demo_delivery" and "frozen_value demo_taken p = demo_projection"
proof -
  obtain p where p: "p \<in> set (transport_delivery_projections demo_taken)" "pj_key p = demo_delivery"
    "frozen_value demo_taken p = demo_projection" using demo_taken_reads(1) by blast
  have read: "pj_rpc_timeout_seconds p = 10" "pj_capability_binding_digest p = demo_sha"
    using p(3) by (auto simp: frozen_value_def demo_projection_def)
  have row: "kr_key demo_taken_row = pj_key p" "kr_state demo_taken_row = K_claimed" "kr_claim_owner demo_taken_row = Some ''worker''"
    "kr_claim_expires_at demo_taken_row = Some 61500000" "kr_chunk_index demo_taken_row = 0"
    by (simp_all add: demo_taken_row_def claim_row_def demo_row_def new_chunk_row_def demo_chunks_def p(2))
  have alive: "list_all (\<lambda>c. cw_key c = pj_key p \<and> cw_chunk_index c = kr_chunk_index demo_taken_row
      \<longrightarrow> present demo_taken + seconds (pj_rpc_timeout_seconds p) < cp_expires_at (cw_capability c))
      (transport_delivery_chunk_capabilities demo_taken)"
    unfolding demo_taken_rows(2,4) read row
    by (simp add: demo_frozen_def empty_ledger_def demo_projection_def demo_chunks_def capability_rows_def seconds_def)
  have "verified_frozen_transport_delivery_projection (pj_key p) (tick demo_taken)
      = Inr (frozen_value demo_taken p, tick demo_taken)" using demo_taken_reads(2) p(2,3) by simp
  with that[OF p(1) row(1-4) _ this read(2) alive p(2,3)] show ?thesis by (simp add: demo_taken_rows(2))
qed

lemma demo_taken_numbers:
  "kr_chunk_index demo_taken_row = 0" "kr_claim_epoch demo_taken_row = 1" "kr_revision demo_taken_row = 1"
  by (simp_all add: demo_taken_row_def claim_row_def demo_row_def new_chunk_row_def demo_chunks_def)

theorem send_permitted_witness:
  "\<exists>q l'. begin_transport_delivery_chunk_send demo_delivery 0 ''worker'' 1 1 demo_sha demo_taken = Inr (Send_permitted q, l')
     \<and> sp_projection q = demo_projection"
proof -
  obtain p where p: "pj_key p = demo_delivery" "frozen_value demo_taken p = demo_projection"
    and "p \<in> set (transport_delivery_projections demo_taken)" "kr_key demo_taken_row = pj_key p"
    "kr_state demo_taken_row = K_claimed" "kr_claim_owner demo_taken_row = Some ''worker''"
    "kr_claim_expires_at demo_taken_row = Some 61500000" "present demo_taken < 61500000"
    "verified_frozen_transport_delivery_projection (pj_key p) (tick demo_taken) = Inr (frozen_value demo_taken p, tick demo_taken)"
    "pj_capability_binding_digest p = demo_sha"
    "list_all (\<lambda>c. cw_key c = pj_key p \<and> cw_chunk_index c = kr_chunk_index demo_taken_row
      \<longrightarrow> present demo_taken + seconds (pj_rpc_timeout_seconds p) < cp_expires_at (cw_capability c))
      (transport_delivery_chunk_capabilities demo_taken)"
    by (rule demo_ready)
  from send_permitted[OF demo_taken_reachable this(3) demo_taken_rows(1) this(4-10) demo_texts(7,8) this(11)]
  show ?thesis unfolding demo_taken_numbers p by metis
qed

theorem one_send_per_claim_witness:
  "\<exists>d l'. begin_transport_delivery_chunk_send demo_delivery 0 ''worker'' 1 1 demo_sha demo_taken = Inr (d, l')
     \<and> \<not> succeeds (begin_transport_delivery_chunk_send demo_delivery 0 ''worker'' 1 2 demo_sha) l'"
proof -
  obtain p where p: "pj_key p = demo_delivery" and "p \<in> set (transport_delivery_projections demo_taken)" "kr_key demo_taken_row = pj_key p"
    "kr_state demo_taken_row = K_claimed" "kr_claim_owner demo_taken_row = Some ''worker''"
    "kr_claim_expires_at demo_taken_row = Some 61500000" "present demo_taken < 61500000"
    "verified_frozen_transport_delivery_projection (pj_key p) (tick demo_taken) = Inr (frozen_value demo_taken p, tick demo_taken)"
    "pj_capability_binding_digest p = demo_sha"
    "list_all (\<lambda>c. cw_key c = pj_key p \<and> cw_chunk_index c = kr_chunk_index demo_taken_row
      \<longrightarrow> present demo_taken + seconds (pj_rpc_timeout_seconds p) < cp_expires_at (cw_capability c))
      (transport_delivery_chunk_capabilities demo_taken)"
    by (rule demo_ready)
  from begin_takes[OF reachable_ledger_inv[OF demo_taken_reachable] this(2) demo_taken_rows(1) this(3-9) demo_texts(7,8) this(10)]
  obtain d l' where run: "begin_transport_delivery_chunk_send demo_delivery 0 ''worker'' 1 1 demo_sha demo_taken = Inr (d, l')"
    unfolding demo_taken_numbers p by metis
  from one_send_per_claim[OF demo_taken_reachable this rtranclp.rtrancl_refl] run show ?thesis by blast
qed

section \<open>Targets are used once\<close>

definition target_owner :: "string option \<Rightarrow> string" where
  "target_owner consumer = (case consumer of None \<Rightarrow> ''single-use'' | Some c \<Rightarrow> c)"

lemma claim_target_result:
  "wp (claim_transport_opaque_target d consumer True) (\<lambda>v l'. \<forall>t. v = Some t \<longrightarrow> valid_digest d
     \<and> (\<exists>q. find_row tg_token_digest d (transport_opaque_targets l') = Some q \<and> tg_target q = t
          \<and> tg_consumed_by q = Some (target_owner consumer))) l"
  unfolding claim_transport_opaque_target_def digest_of_def Let_def target_owner_def[symmetric]
  by (auto simp: wp_rules optional_def on_control_def utc_now_def find_row_update_where validate_key_def
      wp_def[of "on_control m" for m] cmd_defs target_owner_def sql_update_def wp_def[of "sql_update a b c d" for a b c d]
      split: option.split dest: find_row_SomeD)

text \<open>C34. A target that a consumer used answers no one else: whatever commands follow, another consumer that wants
  to use it gets nothing, the consumer itself gets the same target again if it has a key, nothing changes, and
  the target can still be looked at.\<close>

theorem target_used_once:
  assumes "reachable_ledger l" and "claim_transport_opaque_target d consumer True l = Inr (Some t, l')"
    and "ledger_cmd\<^sup>*\<^sup>* l' l''" and "\<And>c. consumer' = Some c \<Longrightarrow> valid_key c"
  shows "claim_transport_opaque_target d consumer' True l''
       = Inr (if consumer \<noteq> None \<and> consumer' = consumer then Some t else None, l'')
     \<and> claim_transport_opaque_target d consumer' False l'' = Inr (Some t, l'')"
proof -
  obtain q where q: "valid_digest d" "find_row tg_token_digest d (transport_opaque_targets l') = Some q" "tg_target q = t"
    "tg_consumed_by q = Some (target_owner consumer)"
    using wpD[OF claim_target_result assms(2)] by auto
  have "ledger_cmd l l'" by (rule ledger_cmd.intros(12), rule leadsI, rule assms(2))
  then have "reachable_ledger l''" using assms(1,3) by (blast intro: reachable_ledger_cmds)
  then obtain q' where q': "find_row tg_token_digest d (transport_opaque_targets l'') = Some q'" "target_later q q'"
    using find_target_later[OF assms(3) reachable_ledger_links, of q] find_row_SomeD[OF q(2)] by auto
  then have "q' = q" using q(4) by (simp add: target_later_def)
  moreover have "\<not> valid_key ''single-use''" by code_simp
  ultimately show ?thesis
    using q q'(1) assms(4)
    by (auto simp: claim_transport_opaque_target_def digest_of_def cmd_defs optional_def on_control_def validate_key_def
        target_owner_def split: option.split)
qed

theorem target_used_once_witness:
  "\<exists>t l'. claim_transport_opaque_target demo_sha (Some demo_key) True demo_frozen = Inr (Some t, l')
     \<and> claim_transport_opaque_target demo_sha None True l' = Inr (None, l')
     \<and> claim_transport_opaque_target demo_sha (Some demo_key) True l' = Inr (Some t, l')"
proof -
  have key: "valid_key demo_key" by code_simp
  obtain t l' where run: "claim_transport_opaque_target demo_sha (Some demo_key) True demo_frozen = Inr (Some t, l')"
    by (simp add: claim_transport_opaque_target_def digest_of_def demo_texts cmd_defs optional_def on_control_def
        validate_key_def key demo_rows demo_registrations_def new_target_row_def utc_now_def sql_update_def)
  from target_used_once[OF demo_reachable(2) this rtranclp.rtrancl_refl, of None]
    target_used_once[OF demo_reachable(2) this rtranclp.rtrancl_refl, of "Some demo_key"] key run
  show ?thesis by auto
qed

section \<open>Names on the wire\<close>

lemma chunk_name_parts:
  assumes "chunk_operation_base v = Some base"
  obtains n where "v = base @ '':chunk:'' @ n" "list_all wire_char base" "list_all is_digit n"
proof -
  obtain sep rest where parts: "partition_at (CHR '':'') v = (base, sep, rest)" and base: "list_all wire_char base"
    and rest: "take 6 rest = ''chunk:''" "full_class is_digit 1 2 (drop 6 rest)"
    using assms by (auto simp: chunk_operation_base_def split: prod.splits if_splits)
  have "rest = ''chunk:'' @ drop 6 rest" using rest(1) by (metis append_take_drop_id)
  moreover have "sep = '':''" using parts rest(1) by (auto simp: partition_at_def Let_def split: if_splits)
  ultimately have "v = base @ '':chunk:'' @ drop 6 rest" using partition_at_concat[OF parts] by (metis append_Cons append_Nil)
  moreover have "list_all is_digit (drop 6 rest)" using rest(2) by (simp add: full_class_def)
  ultimately show ?thesis using that base by blast
qed

lemma wire_name:
  assumes "chunk_operation_base v = Some base" and "v = base @ '':chunk:'' @ n" and "list_all wire_char base"
    and "list_all is_digit n"
  shows "dots_for_colons v = base @ ''.chunk.'' @ n"
proof -
  have "map (\<lambda>c. if c = CHR '':'' then CHR ''.'' else c) xs = xs" if "CHR '':'' \<notin> set xs" for xs :: string
    using that by (intro map_idI) auto
  moreover have "CHR '':'' \<notin> set base" "CHR '':'' \<notin> set n"
    using assms(3,4) by (auto simp: list_all_iff wire_char_def alnum_def is_digit_def is_upper_alpha_def is_lower_alpha_def code_def)
  ultimately show ?thesis by (simp add: assms(2) dots_for_colons_def)
qed

lemma split_last_dot:
  assumes "a @ ''.'' @ n = b @ ''.'' @ m" and "CHR ''.'' \<notin> set n" and "CHR ''.'' \<notin> set m"
  shows "a = b \<and> n = m"
proof -
  have last: "takeWhile (\<lambda>c. c \<noteq> CHR ''.'') (rev (x @ ''.'' @ y)) = rev y" if "CHR ''.'' \<notin> set y" for x y :: string
  proof -
    have "takeWhile (\<lambda>c. c \<noteq> CHR ''.'') (rev y @ CHR ''.'' # rev x) = rev y @ takeWhile (\<lambda>c. c \<noteq> CHR ''.'') (CHR ''.'' # rev x)"
      using that by (intro takeWhile_append2) auto
    then show ?thesis by simp
  qed
  have "rev n = rev m" using last[OF assms(2), of a] last[OF assms(3), of b] unfolding assms(1) by simp
  with assms(1) show ?thesis by simp
qed

text \<open>C35. The names that chunks have on the wire keep them apart: whenever two chunk operation ids are accepted and
  rendered as the same name, they are the same id, although full stops stand both for colons and for
  themselves.\<close>

theorem wire_names_injective:
  assumes "transport_delivery_chunk_wire_operation_id a s = Inr (w, s')"
    and "transport_delivery_chunk_wire_operation_id b t = Inr (w, t')"
  shows "a = b"
proof -
  have parts: "\<exists>base n. v = base @ '':chunk:'' @ n \<and> w = base @ ''.chunk.'' @ n \<and> CHR ''.'' \<notin> set n"
    if run: "transport_delivery_chunk_wire_operation_id v u = Inr (w, u')" for v and u u' :: 'd
  proof -
    obtain base where base: "chunk_operation_base v = Some base" "w = dots_for_colons v"
      using run by (auto simp: transport_delivery_chunk_wire_operation_id_def operation_id_of_def cmd_defs Let_def
          split: if_splits option.splits)
    obtain n where n: "v = base @ '':chunk:'' @ n" "list_all wire_char base" "list_all is_digit n"
      by (rule chunk_name_parts[OF base(1)])
    have "CHR ''.'' \<notin> set n" using n(3) by (auto simp: list_all_iff is_digit_def code_def)
    then show ?thesis using wire_name[OF base(1) n] base(2) n(1) by blast
  qed
  obtain c n where a: "a = c @ '':chunk:'' @ n" "w = (c @ ''.chunk'') @ ''.'' @ n" "CHR ''.'' \<notin> set n" using parts[OF assms(1)] by auto
  obtain d m where b: "b = d @ '':chunk:'' @ m" "w = (d @ ''.chunk'') @ ''.'' @ m" "CHR ''.'' \<notin> set m" using parts[OF assms(2)] by auto
  have "c @ ''.chunk'' = d @ ''.chunk'' \<and> n = m" using a(2,3) b(2,3) by (intro split_last_dot) auto
  then show ?thesis using a(1) b(1) by simp
qed

theorem wire_names_injective_witness:
  "\<exists>w. transport_delivery_chunk_wire_operation_id ''op.1:chunk:12'' () = Inr (w, ())
     \<and> (\<forall>b. transport_delivery_chunk_wire_operation_id b () = Inr (w, ()) \<longrightarrow> ''op.1:chunk:12'' = b)"
proof -
  have "transport_delivery_chunk_wire_operation_id ''op.1:chunk:12'' () = Inr (''op.1.chunk.12'', ())" by code_simp
  note name = this
  show ?thesis
  proof (rule exI, rule conjI[OF name], intro allI impI)
    fix b assume "transport_delivery_chunk_wire_operation_id b () = Inr (''op.1.chunk.12'', ())"
    with name show "''op.1:chunk:12'' = b" by (rule wire_names_injective)
  qed
qed

end
