(* ===== verification/Spec2Isabelle.thy ===== *)
theory Spec2Isabelle
  imports Control_Readers Workflow_Safety Transport_Claims
begin

text \<open>
  The durable core of the Cortex product: the Control store and the ledger of transport deliveries.

  \<^bold>\<open>The program.\<close> \<open>src/cortex_platform/product\<close> is a local service that drives language-model runtimes. All
  durable state is in one SQLite database behind \<open>ControlStore\<close> (\<open>control/store.py\<close>, tables in
  \<open>control/schema.py\<close>): workspaces, threads and their messages, runs with attempts and runtime bindings, an
  event log, decisions that a human takes, actions for runtimes, pins of runtime releases, recoveries, captures,
  gates for dispatch and transport. \<open>TransportDeliveryStore\<close> (\<open>control/transport_store.py\<close>) is mixed into the
  same class and keeps the messages that go out over a transport. Everything else of the product (HTTP API,
  orchestration, transports, engine) acts through the public methods of these two classes; each of them is one
  transaction that is serialized against all others, and most carry an actor, an idempotency key and an expected
  revision.

  \<^bold>\<open>How it is modelled.\<close> A store (\<open>Control_Schema.store\<close>) is a record with one list of rows for each table; a
  row is a record with the columns the code reads or writes. A method is a function of type \<open>'a op\<close>, from a store
  to an error or to a value and the store after the transaction, written with \<open>seq\<close>, \<open>guard\<close>, \<open>gets\<close> and the
  SQL statements \<open>sql_insert\<close>, \<open>sql_update\<close> and \<open>fetch\<close> of \<open>Prelude\<close> in the order of the source. An error rolls back:
  the store before the call is the store after it. Unique indexes and triggers that can refuse a statement are
  guards of the statement. The clock, the id factory, the digest of a request and the check of a host name are
  functions in the store; \<open>str\<close> of a JSON number, Unicode normalization and the digests of \<open>transport.py\<close> are
  parameters. Times are integers (microseconds); comparisons that the code makes on their texts are modelled on
  the texts (\<open>text_le\<close>).

  \<^bold>\<open>The theories.\<close>
  \<^item> \<open>Prelude\<close>: commands, weakest preconditions (\<open>wp\<close>), tables, strings, times. \<open>Control_Schema\<close>: JSON, states,
    rows, the store. \<open>Control_Core\<close>: idempotent commands, receipts, audit trail, events.
  \<^item> \<open>Control_Threads\<close>, \<open>Control_Runs\<close>, \<open>Control_Observations\<close>, \<open>Control_Fences\<close>, \<open>Control_Decisions\<close>,
    \<open>Control_Actions\<close>, \<open>Control_Recovery\<close>: the commands of the run plane. \<open>Control_Workflow\<close>: definitions of
    workflows (\<open>workflows/models.py\<close>) and their installation. \<open>Control_Captures\<close>, \<open>Control_Gates\<close>: the inbox of captures
    with its lookup of web addresses (\<open>Web_Address\<close>) and the gates. \<open>Resource_URI\<close>: \<open>resources.py\<close>.
  \<^item> \<open>Workflow_Models\<close> (\<open>workflows/models.py\<close>, effects), \<open>Workflow_Effects\<close> and \<open>Workflow_Stages\<close> model the execution of
    a workflow: typed requests and results of effects, the ledger of effects with their fencing tokens, the
    recovery of effects whose outcome is unknown, stages and their reviews. \<open>Control_Bindings\<close>: the threads that
    scopes of a transport are bound to and the answers to commands of a transport. \<open>Control_Readers\<close>: the methods
    that list and read.
  \<^item> \<open>Control_Leases\<close> states what tables of leased work have in common as locales; \<open>Control_Plane\<close> puts all commands
    together as the step relation \<open>control_cmd\<close> and interprets the locales on it; \<open>reachable\<close> are the stores that
    commands produce from an empty one. \<open>Control_Safety\<close>, \<open>Control_Tokens\<close> and \<open>Control_History\<close> prove what holds
    of all of them: one live run per thread, gapless event logs, fencing tokens that are refused once overtaken,
    settled work that stays settled, append-only records, replays. \<open>Workflow_Safety\<close> proves the same for effects: the
    holder of an overtaken token can do nothing, an effect only moves along its life cycle, a mutation that may have
    happened is not claimed again for execution. \<open>Control_Readers\<close> adds what a reader can rely on: pages of events
    put together are the log, a bound scope stays bound, a command is answered once.
  \<^item> \<open>Transport_Models\<close> (\<open>transport.py\<close>) and \<open>Transport_Ledger\<close> (\<open>transport_store.py\<close>) model the deliveries;
    \<open>Transport_Delivery\<close> shows that every operation is a step of \<open>ledger_step\<close> and proves the invariant,
    \<open>Transport_Safety\<close> and \<open>Transport_Claims\<close> the guarantees: deliveries go out in order, what was frozen is what
    is sent, one send per claim, no stuck delivery, targets that are used once.

  \<^bold>\<open>Bounds and termination.\<close> Loops of the code run over lists of rows and are recursion on lists; the search
  for deep links terminates by a measure on the rest of the text; the walk along paused sources is bounded by the
  number of actions as in the code; the walk from a stage to its ancestors ends because it visits no stage twice
  (\<open>lineage_walk\<close>). No fuel is chosen by the model.

  \<^bold>\<open>Not modelled.\<close> SQLite itself (files, migrations, pragmas) and its isolation: transactions are taken to be
  serial. The columns no modelled method uses. The values a caller can only pass by breaking the types of the
  interface. Sources, imports and artifacts beyond what closing a run does to them; the registry; the stores of one
  content provider and of research notes; the HTTP API, orchestration, transports, engine, runtime updates,
  distribution and deployment, which are I/O around the stores.
\<close>

end
